(* ===== verification/Prelude.thy ===== *)
theory Prelude
  imports Main "HOL-Library.Word"
begin

text \<open>
  Shared vocabulary of the development: bytes and machine integers, the outcome of a Rust call
  (a value, an error value or a panic), the Rust combinators the sources use on \<open>Result\<close>
  (the question mark, \<open>map_err\<close>, \<open>expect\<close>, \<open>collect\<close>), and the generic list lemmas the
  component theories rest on. The collection \<open>rust_simps\<close> gathers the equations that push an
  outcome through those combinators.
\<close>

named_theorems rust_simps "equations that evaluate the combinators on outcomes"

section \<open>Bytes and machine integers\<close>

type_synonym byte = "8 word"
type_synonym bytes = "byte list"
type_synonym u8 = "8 word"
type_synonym u16 = "16 word"
type_synonym u32 = "32 word"
type_synonym u64 = "64 word"

text \<open>\<open>usize\<close> on the 64-bit targets the NIF libraries are built for.\<close>

type_synonym usize = "64 word"

section \<open>Outcomes of Rust code\<close>

text \<open>
  A call returns \<open>Ok v\<close>, returns \<open>Err e\<close>, or unwinds with a panic message. A panic is not a
  value of the Rust type; it is kept apart from \<open>Err\<close> so that a theorem can say which of the
  two happens.
\<close>

datatype ('e, 'a) rust = Ok 'a | Err 'e | Panic string

primrec and_then :: "('e, 'a) rust \<Rightarrow> ('a \<Rightarrow> ('e, 'b) rust) \<Rightarrow> ('e, 'b) rust" where
  "and_then (Ok a) f = f a"
| "and_then (Err e) f = Err e"
| "and_then (Panic m) f = Panic m"

primrec map_err :: "('e \<Rightarrow> 'f) \<Rightarrow> ('e, 'a) rust \<Rightarrow> ('f, 'a) rust" where
  "map_err f (Ok a) = Ok a"
| "map_err f (Err e) = Err (f e)"
| "map_err f (Panic m) = Panic m"

primrec map_ok :: "('a \<Rightarrow> 'b) \<Rightarrow> ('e, 'a) rust \<Rightarrow> ('e, 'b) rust" where
  "map_ok f (Ok a) = Ok (f a)"
| "map_ok f (Err e) = Err e"
| "map_ok f (Panic m) = Panic m"

text \<open>\<open>Result::expect\<close> and \<open>Result::unwrap\<close>: an error becomes a panic.\<close>

primrec expect :: "string \<Rightarrow> ('e, 'a) rust \<Rightarrow> ('f, 'a) rust" where
  "expect msg (Ok a) = Ok a"
| "expect msg (Err e) = Panic msg"
| "expect msg (Panic m) = Panic m"

text \<open>\<open>Option::ok_or\<close>.\<close>

primrec ok_or :: "'a option \<Rightarrow> 'e \<Rightarrow> ('e, 'a) rust" where
  "ok_or None e = Err e"
| "ok_or (Some a) e = Ok a"

text \<open>
  \<open>Iterator::collect\<close> into a \<open>Result\<close>: the items are consumed in order and the first one
  that is not \<open>Ok\<close> ends the collection.
\<close>

fun collect :: "('e, 'a) rust list \<Rightarrow> ('e, 'a list) rust" where
  "collect [] = Ok []"
| "collect (r # rs) = and_then r (\<lambda>x. map_ok ((#) x) (collect rs))"

lemmas [rust_simps] = and_then.simps map_err.simps map_ok.simps expect.simps ok_or.simps

definition panics :: "('e, 'a) rust \<Rightarrow> bool" where
  "panics r \<longleftrightarrow> (\<exists>m. r = Panic m)"

lemma and_then_assoc: "and_then (and_then x f) g = and_then x (\<lambda>a. and_then (f a) g)"
  by (cases x) simp_all

lemma panics_code [code]: "panics r = (case r of Panic m \<Rightarrow> True | _ \<Rightarrow> False)"
  by (cases r) (simp_all add: panics_def)

lemma panics_simps [simp]:
  "\<not> panics (Ok a)" "\<not> panics (Err e)" "panics (Panic m)"
  by (simp_all add: panics_def)

lemma and_then_eq_Ok [simp]:
  "and_then r f = Ok b \<longleftrightarrow> (\<exists>a. r = Ok a \<and> f a = Ok b)"
  by (cases r) auto

lemma and_then_eq_Err:
  "and_then r f = Err e \<longleftrightarrow> r = Err e \<or> (\<exists>a. r = Ok a \<and> f a = Err e)"
  by (cases r) auto

lemma map_ok_eq_Ok [simp]: "map_ok f r = Ok b \<longleftrightarrow> (\<exists>a. r = Ok a \<and> b = f a)"
  by (cases r) auto

lemma map_err_eq_Ok [simp]: "map_err f r = Ok b \<longleftrightarrow> r = Ok b"
  by (cases r) auto

lemma map_err_eq_Err [simp]: "map_err f r = Err b \<longleftrightarrow> (\<exists>e. r = Err e \<and> b = f e)"
  by (cases r) auto

lemma map_ok_eq_Err [simp]: "map_ok f r = Err b \<longleftrightarrow> r = Err b"
  by (cases r) auto

lemma expect_eq_Ok [simp]: "expect m r = Ok b \<longleftrightarrow> r = Ok b"
  by (cases r) auto

lemma expect_not_Err [simp]: "expect m r \<noteq> Err e"
  by (cases r) auto

lemma panics_and_then [simp]:
  "panics (and_then r f) \<longleftrightarrow> panics r \<or> (\<exists>a. r = Ok a \<and> panics (f a))"
  by (cases r) auto

lemma panics_map_ok [simp]: "panics (map_ok f r) \<longleftrightarrow> panics r"
  by (cases r) auto

lemma panics_map_err [simp]: "panics (map_err f r) \<longleftrightarrow> panics r"
  by (cases r) auto

lemma panics_ok_or [simp]: "\<not> panics (ok_or r e)"
  by (cases r) auto

lemma not_panics_cases:
  assumes "\<not> panics r"
  obtains (Ok) a where "r = Ok a" | (Err) e where "r = Err e"
  using assms by (cases r) auto

subsection \<open>Collecting results\<close>

lemma collect_eq_Ok: "collect rs = Ok xs \<longleftrightarrow> rs = map Ok xs"
  by (induction rs arbitrary: xs) (auto simp: Cons_eq_map_conv)

lemma collect_map_eq_Ok:
  "collect (map f xs) = Ok ys \<longleftrightarrow> list_all2 (\<lambda>x y. f x = Ok y) xs ys"
  by (induction xs arbitrary: ys) (auto simp: list_all2_Cons1)

lemma collect_map_Ok [simp]: "collect (map (\<lambda>x. Ok (f x)) xs) = Ok (map f xs)"
  by (induction xs) auto

lemma collect_length: "collect rs = Ok xs \<Longrightarrow> length xs = length rs"
  by (simp add: collect_eq_Ok)

text \<open>A failed collection returns the first error; everything before it had succeeded.\<close>

lemma collect_eq_Err:
  "collect rs = Err e \<longleftrightarrow> (\<exists>xs ys. rs = map Ok xs @ Err e # ys)"
proof (induction rs)
  case (Cons r rs)
  show ?case
  proof (cases r)
    case (Ok a)
    have "(\<exists>xs ys. Ok a # rs = map Ok xs @ Err e # ys)
        \<longleftrightarrow> (\<exists>xs ys. rs = map Ok xs @ Err e # ys)" (is "?L \<longleftrightarrow> ?R")
    proof
      assume ?L
      then obtain xs ys where *: "Ok a # rs = map Ok xs @ Err e # ys" by blast
      then show ?R by (cases xs) auto
    next
      assume ?R
      then obtain xs ys where "rs = map Ok xs @ Err e # ys" by blast
      then have "Ok a # rs = map Ok (a # xs) @ Err e # ys" by simp
      then show ?L by blast
    qed
    with Ok Cons.IH show ?thesis by simp
  next
    case (Err f)
    have "(\<exists>xs ys. Err f # rs = map Ok xs @ Err e # ys) \<longleftrightarrow> f = e"
    proof
      assume "\<exists>xs ys. Err f # rs = map Ok xs @ Err e # ys"
      then obtain xs ys where *: "Err f # rs = map Ok xs @ Err e # ys" by blast
      then show "f = e" by (cases xs) auto
    next
      assume "f = e"
      then have "Err f # rs = map Ok [] @ Err e # rs" by simp
      then show "\<exists>xs ys. Err f # rs = map Ok xs @ Err e # ys" by blast
    qed
    with Err show ?thesis by simp
  next
    case (Panic m)
    then show ?thesis by (auto simp: append_eq_Cons_conv Cons_eq_append_conv)
  qed
qed simp

lemma collect_not_panics:
  "(\<And>r. r \<in> set rs \<Longrightarrow> \<not> panics r) \<Longrightarrow> \<not> panics (collect rs)"
  by (induction rs) auto

lemma collect_map_not_panics:
  "(\<And>x. x \<in> set xs \<Longrightarrow> \<not> panics (f x)) \<Longrightarrow> \<not> panics (collect (map f xs))"
  by (rule collect_not_panics) auto

lemma collect_cong_map:
  "(\<And>x. x \<in> set xs \<Longrightarrow> f x = g x) \<Longrightarrow> collect (map f xs) = collect (map g xs)"
  by (metis map_cong)

section \<open>Lists\<close>

lemma list_all2_map_id:
  "(\<And>x. x \<in> set xs \<Longrightarrow> P x (f x)) \<Longrightarrow> list_all2 P xs (map f xs)"
  by (induction xs) auto

lemma list_all2_eq_map:
  "list_all2 (\<lambda>x y. y = f x) xs ys \<longleftrightarrow> ys = map f xs"
  by (induction xs arbitrary: ys) (auto simp: list_all2_Cons1)

lemma map_of_mapped_values:
  "map_of (map (\<lambda>(k, v). (k, f v)) xs) k = map_option f (map_of xs k)"
  by (induction xs) auto

lemma list_all2_fst_eq:
  "list_all2 (\<lambda>(k, x) (k', y). k' = k \<and> P k x y) xs ys \<Longrightarrow> map fst ys = map fst xs"
  by (induction rule: list_all2_induct) auto

end
