(* ===== verification/Bitstrings.thy ===== *)
theory Bitstrings
  imports Prelude
begin

text \<open>
  Elixir's bitstrings: a bitstring is the list of its bits, first bit first; a binary is a list of
  bytes. The segments the sources use: \<open><<x::size(n)>>\<close> is \<open>int_bits n x\<close>, the \<open>n\<close> low bits of \<open>x\<close>
  with the most significant bit first; \<open><<x::integer-little-size(n)>>\<close> is \<open>little_bits n x\<close>, the
  same bits byte by byte with the least significant byte first. Matching such a segment reads the
  number back with \<open>bits_int\<close> and \<open>little_int\<close>.
\<close>

type_synonym bitstring = "bool list"

section \<open>Integer segments\<close>

primrec int_bits :: "nat \<Rightarrow> nat \<Rightarrow> bitstring" where
  "int_bits 0 x = []"
| "int_bits (Suc n) x = int_bits n (x div 2) @ [odd x]"

definition bits_int :: "bitstring \<Rightarrow> nat" where
  "bits_int bs = foldl (\<lambda>a b. 2 * a + of_bool b) 0 bs"

fun little_bits :: "nat \<Rightarrow> nat \<Rightarrow> bitstring" where
  "little_bits n x =
     (if n < 8 then int_bits n x else int_bits 8 x @ little_bits (n - 8) (x div 256))"

fun little_int :: "bitstring \<Rightarrow> nat" where
  "little_int bs =
     (if length bs < 8 then bits_int bs else bits_int (take 8 bs) + 256 * little_int (drop 8 bs))"

declare little_bits.simps [simp del] little_int.simps [simp del]

lemma length_int_bits [simp]: "length (int_bits n x) = n"
  by (induction n arbitrary: x) simp_all

lemma bits_int_Nil [simp]: "bits_int [] = 0"
  by (simp add: bits_int_def)

lemma bits_int_snoc [simp]: "bits_int (bs @ [b]) = 2 * bits_int bs + of_bool b"
  by (simp add: bits_int_def)

lemma bits_int_append: "bits_int (as @ bs) = bits_int as * 2 ^ length bs + bits_int bs"
  by (induction bs rule: rev_induct) (simp_all flip: append_assoc add: algebra_simps)

lemma bits_int_less: "bits_int bs < 2 ^ length bs"
  by (induction bs rule: rev_induct) (auto simp: of_bool_def)

lemma int_bits_bits_int [simp]: "int_bits (length bs) (bits_int bs) = bs"
  by (induction bs rule: rev_induct) simp_all

lemma int_bits_of_bits_int: "length bs = n \<Longrightarrow> int_bits n (bits_int bs) = bs"
  using int_bits_bits_int by blast

lemma bits_int_int_bits [simp]: "bits_int (int_bits n x) = x mod 2 ^ n"
proof (induction n arbitrary: x)
  case (Suc n)
  have "2 * (x div 2 mod 2 ^ n) + of_bool (odd x) = x mod 2 ^ Suc n"
    by (simp add: mod_mult2_eq of_bool_odd_eq_mod_2)
  with Suc show ?case by simp
qed simp

lemma int_bits_mod: "int_bits n (x mod 2 ^ n) = int_bits n x"
  using int_bits_of_bits_int [of "int_bits n x" n] by simp

lemma int_bits_zero [simp]: "int_bits n 0 = replicate n False"
  by (induction n) (simp_all add: replicate_append_same)

lemma bits_int_replicate_False [simp]: "bits_int (replicate n False) = 0"
  by (metis int_bits_zero bits_int_int_bits mod_0)

lemma bits_int_eq_0: "bits_int bs = 0 \<longleftrightarrow> (\<forall>b \<in> set bs. \<not> b)"
  by (induction bs rule: rev_induct) auto

lemma length_little_bits [simp]: "length (little_bits n x) = n"
  by (induction n x rule: little_bits.induct) (subst little_bits.simps, simp)

lemma little_int_append:
  "length b = 8 \<Longrightarrow> little_int (b @ bs) = bits_int b + 256 * little_int bs"
  by (simp add: little_int.simps [of "b @ bs"])

lemma little_bits_step: "little_bits (n + 8) x = int_bits 8 x @ little_bits n (x div 256)"
  by (simp add: little_bits.simps [of "n + 8"] del: int_bits.simps)

lemma little_int_little_bits: "little_int (little_bits (8 * k) x) = x mod 256 ^ k"
proof (induction k arbitrary: x)
  case (Suc k)
  have "little_bits (8 * Suc k) x = int_bits 8 x @ little_bits (8 * k) (x div 256)"
    using little_bits_step [of "8 * k" x] by (simp only: mult_Suc_right add.commute)
  with Suc show ?case
    by (simp add: little_int_append mod_mult2_eq del: int_bits.simps)
qed (simp add: little_bits.simps little_int.simps)

lemma little_bits_little_int: "length bs = 8 * k \<Longrightarrow> little_bits (8 * k) (little_int bs) = bs"
proof (induction k arbitrary: bs)
  case (Suc k)
  define b where "b = take 8 bs"
  from Suc.prems have b: "length b = 8" and bs: "bs = b @ drop 8 bs"
    by (simp_all add: b_def)
  have "little_int bs = bits_int b + 256 * little_int (drop 8 bs)"
    using little_int_append [OF b] bs by metis
  moreover have "bits_int b < 256" using bits_int_less [of b] b by simp
  ultimately have parts: "little_int bs mod 256 = bits_int b" "little_int bs div 256 = little_int (drop 8 bs)"
    by simp_all
  then have "int_bits 8 (little_int bs) = b"
    using int_bits_of_bits_int [OF b] int_bits_mod [of 8 "little_int bs"] by (simp del: int_bits.simps)
  moreover have "little_bits (8 * Suc k) x = int_bits 8 x @ little_bits (8 * k) (x div 256)" for x
    using little_bits_step [of "8 * k" x] by (simp only: mult_Suc_right add.commute)
  ultimately show ?case
    using Suc bs parts(2) by simp
qed (simp add: little_bits.simps)

section \<open>Binaries as bitstrings\<close>

definition byte_bits :: "byte \<Rightarrow> bitstring" where
  "byte_bits b = int_bits 8 (unat b)"

definition bits_byte :: "bitstring \<Rightarrow> byte" where
  "bits_byte bs = word_of_nat (bits_int bs)"

definition bits_of_bytes :: "bytes \<Rightarrow> bitstring" where
  "bits_of_bytes bs = concat (map byte_bits bs)"

fun bytes_of_bits :: "bitstring \<Rightarrow> bytes" where
  "bytes_of_bits bs = (if bs = [] then [] else bits_byte (take 8 bs) # bytes_of_bits (drop 8 bs))"

declare bytes_of_bits.simps [simp del]

lemma length_byte_bits [simp]: "length (byte_bits b) = 8"
  by (simp add: byte_bits_def)

lemma byte_bits_bits_byte [simp]: "length bs = 8 \<Longrightarrow> byte_bits (bits_byte bs) = bs"
  using bits_int_less [of bs]
  by (simp add: byte_bits_def bits_byte_def unat_of_nat int_bits_of_bits_int del: int_bits.simps)

lemma unat_byte_less: "unat (b :: byte) < 256"
  using unsigned_less [of b, where 'a = nat] by simp

lemma bits_byte_byte_bits [simp]: "bits_byte (byte_bits b) = b"
  using unat_byte_less [of b] by (simp add: byte_bits_def bits_byte_def del: int_bits.simps)

lemma bits_of_bytes_Nil [simp]: "bits_of_bytes [] = []"
  and bits_of_bytes_Cons [simp]: "bits_of_bytes (b # bs) = byte_bits b @ bits_of_bytes bs"
  and bits_of_bytes_append [simp]: "bits_of_bytes (bs @ cs) = bits_of_bytes bs @ bits_of_bytes cs"
  by (simp_all add: bits_of_bytes_def)

lemma length_bits_of_bytes [simp]: "length (bits_of_bytes bs) = 8 * length bs"
  by (induction bs) simp_all

lemma bytes_of_bits_Nil [simp]: "bytes_of_bits [] = []"
  by (simp add: bytes_of_bits.simps)

lemma bytes_of_bits_append_byte:
  "length b = 8 \<Longrightarrow> bytes_of_bits (b @ bs) = bits_byte b # bytes_of_bits bs"
  by (subst bytes_of_bits.simps) auto

lemma bytes_of_bits_of_bytes [simp]: "bytes_of_bits (bits_of_bytes bs) = bs"
  by (induction bs) (simp_all add: bytes_of_bits_append_byte)

lemma bits_of_bytes_of_bits: "length bs = 8 * k \<Longrightarrow> bits_of_bytes (bytes_of_bits bs) = bs"
proof (induction k arbitrary: bs)
  case (Suc k)
  then have "length (take 8 bs) = 8" "bits_of_bytes (bytes_of_bits (drop 8 bs)) = drop 8 bs" by simp_all
  then show ?case
    using bytes_of_bits_append_byte [of "take 8 bs" "drop 8 bs"] by simp
qed simp

lemma length_bytes_of_bits: "length bs = 8 * k \<Longrightarrow> length (bytes_of_bits bs) = k"
  using bits_of_bytes_of_bits [of bs k] length_bits_of_bytes [of "bytes_of_bits bs"] by simp

lemma little_int_append_bytes:
  "length as = 8 * m \<Longrightarrow> little_int (as @ bs) = little_int as + 256 ^ m * little_int bs"
proof (induction m arbitrary: as)
  case (Suc m)
  then have as: "as = take 8 as @ drop 8 as" "length (take 8 as) = 8" by simp_all
  then have "little_int (as @ bs) = bits_int (take 8 as) + 256 * little_int (drop 8 as @ bs)"
    using little_int_append by (metis append.assoc)
  moreover have "little_int as = bits_int (take 8 as) + 256 * little_int (drop 8 as)"
    using little_int_append as by metis
  moreover have "little_int (drop 8 as @ bs) = little_int (drop 8 as) + 256 ^ m * little_int bs"
    using Suc by simp
  ultimately show ?case by (simp add: algebra_simps)
qed (simp add: little_int.simps)

lemma little_int_less: "length bs = 8 * m \<Longrightarrow> little_int bs < 256 ^ m"
  using little_int_little_bits [of m "little_int bs"] little_bits_little_int [of bs m]
  by (metis mod_less_divisor zero_less_numeral zero_less_power)

lemma little_bits_small: "n \<le> 8 \<Longrightarrow> little_bits n x = int_bits n x"
proof -
  assume "n \<le> 8"
  then consider "n < 8" | "n = 8" by linarith
  then show ?thesis by cases (simp_all add: little_bits.simps del: int_bits.simps, simp)
qed

lemma little_int_byte: "length bs = 8 \<Longrightarrow> little_int bs = bits_int bs"
  using little_int_append [of bs "[]"] by (simp add: little_int.simps)

section \<open>Little-endian numbers\<close>

text \<open>The number that a binary is the little-endian form of, and the low bytes of a number.\<close>

definition le_nat :: "bytes \<Rightarrow> nat" where
  "le_nat bs = foldr (\<lambda>b a. unat b + 256 * a) bs 0"

fun le_bytes :: "nat \<Rightarrow> int \<Rightarrow> bytes" where
  "le_bytes 0 x = []"
| "le_bytes (Suc k) x = word_of_int x # le_bytes k (x div 256)"

lemma le_nat_simps [simp]: "le_nat [] = 0" "le_nat (b # bs) = unat b + 256 * le_nat bs"
  by (simp_all add: le_nat_def)

lemma length_le_bytes [simp]: "length (le_bytes k x) = k"
  by (induction k arbitrary: x) simp_all

lemma le_nat_le_bytes: "int (le_nat (le_bytes k x)) = x mod 256 ^ k"
proof (induction k arbitrary: x)
  case (Suc k)
  have "x mod 256 ^ Suc k = 256 * (x div 256 mod 256 ^ k) + x mod 256"
    by (simp add: mod_mult2_eq' zmod_zmult2_eq)
  moreover have "int (unat (word_of_int x :: byte)) = x mod 256"
    by (simp add: unsigned_of_int take_bit_eq_mod)
  ultimately show ?case using Suc by simp
qed simp

lemma le_nat_small: "n < 256 ^ k \<Longrightarrow> le_nat (le_bytes k (int n)) = n"
proof -
  assume "n < 256 ^ k"
  then have "int n < 256 ^ k" by (metis of_nat_less_iff of_nat_numeral of_nat_power)
  then show ?thesis using le_nat_le_bytes [of k "int n"] by simp
qed

lemma le_nat_less: "le_nat bs < 256 ^ length bs"
proof (induction bs)
  case (Cons b bs)
  with unat_byte_less [of b] show ?case by simp
qed simp

lemma le_bytes_le_nat: "le_bytes (length bs) (int (le_nat bs)) = bs"
proof (induction bs)
  case (Cons b bs)
  have "int (unat b) < 256" using unat_byte_less [of b] by linarith
  then have "(int (unat b) + 256 * int (le_nat bs)) div 256 = int (le_nat bs)" by simp
  moreover have "word_of_int (int (unat b) + 256 * int (le_nat bs)) = b"
  proof -
    have "(256 :: byte) = 0" by code_simp
    then have "256 * w = 0" for w :: byte by (metis mult_zero_left)
    then show ?thesis by simp
  qed
  ultimately show ?case using Cons by simp
qed simp

lemma little_int_bits_of_bytes: "little_int (bits_of_bytes bs) = le_nat bs"
proof (induction bs)
  case (Cons b bs)
  have "bits_int (byte_bits b) = unat b"
    using unat_byte_less [of b] by (simp add: byte_bits_def del: int_bits.simps)
  with Cons show ?case by (simp add: little_int_append)
qed (simp add: little_int.simps)

lemma le_nat_append: "le_nat (xs @ ys) = le_nat xs + 256 ^ length xs * le_nat ys"
  by (induction xs) (simp_all add: algebra_simps)

lemma take_int_bits: "p \<le> n \<Longrightarrow> take p (int_bits n x) = int_bits p (x div 2 ^ (n - p))"
proof (induction n arbitrary: x)
  case (Suc n)
  show ?case
  proof (cases "p = Suc n")
    case False
    with Suc.prems have "p \<le> n" by simp
    with Suc.IH [OF this, of "x div 2"] show ?thesis
      by (simp add: Suc_diff_le div_mult2_eq)
  qed (simp del: int_bits.simps)
qed simp

text \<open>The high bits of the last byte of a number that has few bits.\<close>

lemma high_bits_clear:
  assumes "p < 8"
  shows "take p (byte_bits l) = replicate p False \<longleftrightarrow>
    le_nat (front @ [l]) < 2 ^ (8 * length front + (8 - p))"
proof -
  let ?m = "length front"
  have l: "unat l < 2 ^ p * 2 ^ (8 - p)"
    using unat_byte_less [of l] assms by (simp flip: power_add)
  have "take p (byte_bits l) = int_bits p (unat l div 2 ^ (8 - p))"
    using assms by (simp add: byte_bits_def take_int_bits del: int_bits.simps)
  moreover have "int_bits p y = replicate p False \<longleftrightarrow> y mod 2 ^ p = 0" for y
    by (metis bits_int_int_bits bits_int_replicate_False int_bits_mod int_bits_zero)
  moreover have "unat l div 2 ^ (8 - p) < 2 ^ p"
    using l by (simp add: less_mult_imp_div_less)
  ultimately have "take p (byte_bits l) = replicate p False \<longleftrightarrow> unat l div 2 ^ (8 - p) = 0" by simp
  also have "\<dots> \<longleftrightarrow> unat l < 2 ^ (8 - p)" by (simp add: div_eq_0_iff)
  also have "\<dots> \<longleftrightarrow> le_nat (front @ [l]) < 256 ^ ?m * 2 ^ (8 - p)"
  proof
    assume "unat l < 2 ^ (8 - p)"
    then have "256 ^ ?m * (unat l + 1) \<le> 256 ^ ?m * 2 ^ (8 - p)" by (intro mult_le_mono2) simp
    with le_nat_less [of front] show "le_nat (front @ [l]) < 256 ^ ?m * 2 ^ (8 - p)"
      by (simp add: le_nat_append)
  next
    assume "le_nat (front @ [l]) < 256 ^ ?m * 2 ^ (8 - p)"
    then have "256 ^ ?m * unat l < 256 ^ ?m * 2 ^ (8 - p)"
      unfolding le_nat_append by (metis add_lessD1 add.commute le_nat_simps mult_0_right add_0_right)
    then show "unat l < 2 ^ (8 - p)" by simp
  qed
  also have "256 ^ ?m * 2 ^ (8 - p) = (2 :: nat) ^ (8 * ?m + (8 - p))"
    by (simp add: power_add power_mult)
  finally show ?thesis .
qed

end
