(* ===== verification/Bit_Fields.thy ===== *)
theory Bit_Fields
  imports Bitstrings
begin

text \<open>
  \<open>lib/utils/bit_field.ex\<close>, \<open>bit_list.ex\<close> and \<open>bit_vector.ex\<close>. A bit field is a bitstring whose last
  bit is the one with index 0. A failed match raises and is \<open>Panic\<close>. The lemmas describe every
  operation by the bits it leaves at each index, and show that the byte forms of bit lists and bit
  vectors can be read back.
\<close>

type_synonym 'a elixir = "(unit, 'a) rust"

section \<open>Bit fields\<close>

text \<open>\<open>set?\<close>, \<open>all?\<close>, \<open>set\<close>, \<open>clear\<close>: a segment of negative size does not match.\<close>

definition is_set :: "bitstring \<Rightarrow> nat \<Rightarrow> bool" where
  "is_set bit_field index =
     (index < length bit_field \<and> bit_field ! (length bit_field - index - 1))"

definition all_set :: "bitstring \<Rightarrow> nat \<Rightarrow> nat \<Rightarrow> bool" where
  "all_set bit_field first' last' =
     (last' \<le> length bit_field \<and> first' \<le> last' \<and>
      bits_int (take (last' - first') (drop (length bit_field - last') bit_field)) =
        2 ^ (last' - first') - 1)"

definition set_bit_field :: "bitstring \<Rightarrow> nat \<Rightarrow> bitstring elixir" where
  "set_bit_field bit_field index =
     (if index < length bit_field then
        let skip = length bit_field - index - 1
        in Ok (take skip bit_field @ [True] @ drop (skip + 1) bit_field)
      else Panic ''MatchError'')"

definition clear_bit_field :: "bitstring \<Rightarrow> nat \<Rightarrow> bitstring elixir" where
  "clear_bit_field bit_field index =
     (if index < length bit_field then
        let skip = length bit_field - index - 1
        in Ok (take skip bit_field @ [False] @ drop (skip + 1) bit_field)
      else Panic ''MatchError'')"

definition shift_higher :: "bitstring \<Rightarrow> nat \<Rightarrow> bitstring elixir" where
  "shift_higher bit_field steps =
     (if steps \<le> length bit_field then Ok (drop steps bit_field @ int_bits steps 0)
      else Panic ''MatchError'')"

definition shift_lower :: "bitstring \<Rightarrow> nat \<Rightarrow> bitstring elixir" where
  "shift_lower bit_field steps =
     (if steps \<le> length bit_field
      then Ok (int_bits steps 0 @ take (length bit_field - steps) bit_field)
      else Panic ''MatchError'')"

definition count :: "bitstring \<Rightarrow> nat" where
  "count bit_field = sum_list (map of_bool bit_field)"

definition bitwise_or :: "bitstring \<Rightarrow> bitstring \<Rightarrow> bitstring elixir" where
  "bitwise_or left right =
     (if length left = length right then
        Ok (int_bits (length left) (or (bits_int left) (bits_int right)))
      else Panic ''FunctionClauseError'')"

section \<open>Bit lists\<close>

definition BitList_zero :: "nat \<Rightarrow> bitstring" where
  "BitList_zero n = int_bits n 0"

definition BitList_default :: bitstring where
  "BitList_default = []"

text \<open>The clauses of \<open>remove_trailing_bit\<close>, by the position of the first bit that is set.\<close>

fun remove_trailing_bit :: "bitstring \<Rightarrow> bitstring" where
  "remove_trailing_bit (True # rest) = rest"
| "remove_trailing_bit (False # rest) = remove_trailing_bit rest"
| "remove_trailing_bit [] = []"

definition BitList_new :: "bytes \<Rightarrow> bitstring elixir" where
  "BitList_new b =
     (let bitstring = bits_of_bytes b; num_bits = length bitstring
      in if num_bits < 8 then Panic ''MatchError''
         else let pre = little_int (take (num_bits - 8) bitstring);
                  last_byte = little_int (drop (num_bits - 8) bitstring)
              in Ok (remove_trailing_bit (int_bits 8 last_byte) @ int_bits (num_bits - 8) pre))"

definition BitList_to_bytes :: "bitstring \<Rightarrow> bytes" where
  "BitList_to_bytes bit_list =
     (let len = length bit_list; r = len mod 8;
          pre = bits_int (take r bit_list); post = bits_int (drop r bit_list)
      in bytes_of_bits (little_bits (len - r) post @ little_bits (8 - r) 1 @ little_bits r pre))"

definition BitList_to_packed_bytes :: "bitstring \<Rightarrow> bytes" where
  "BitList_to_packed_bytes bit_list =
     (let len = length bit_list; r = len mod 8;
          pre = bits_int (take r bit_list); post = bits_int (drop r bit_list)
      in bytes_of_bits (little_bits (len - r) post @ little_bits (8 - r) 0 @ little_bits r pre))"

definition BitList_set :: "bitstring \<Rightarrow> nat list \<Rightarrow> bitstring elixir" where
  "BitList_set bit_list indices =
     foldl (\<lambda>acc index. and_then acc (\<lambda>bl. set_bit_field bl index)) (Ok bit_list) indices"

definition BitList_length :: "bitstring \<Rightarrow> nat" where
  "BitList_length bit_list = length bit_list"

section \<open>Bit vectors\<close>

definition BitVector_zero :: "nat \<Rightarrow> bitstring" where
  "BitVector_zero n = int_bits n 0"

definition BitVector_from_integer :: "nat \<Rightarrow> nat \<Rightarrow> bitstring" where
  "BitVector_from_integer number n = int_bits n number"

definition BitVector_new :: "bytes \<Rightarrow> nat \<Rightarrow> bitstring" where
  "BitVector_new b n = int_bits n (little_int (bits_of_bytes b))"

text \<open>\<open>byte_size\<close> of a bitstring rounds up to whole bytes.\<close>

definition byte_size :: "bitstring \<Rightarrow> nat" where
  "byte_size bs = (length bs + 7) div 8"

definition BitVector_to_bytes :: "bitstring \<Rightarrow> bytes" where
  "BitVector_to_bytes bit_vector =
     bytes_of_bits (little_bits (byte_size bit_vector * 8) (bits_int bit_vector))"

definition BitVector_to_integer :: "bitstring \<Rightarrow> nat" where
  "BitVector_to_integer bit_vector = bits_int bit_vector"

lemma byte_count: "(n + 7) div 8 = (if (n :: nat) mod 8 = 0 then n div 8 else n div 8 + 1)"
proof -
  have "(n + 7) div 8 = n div 8 + (n mod 8 + 7) div 8" by (simp add: div_add1_eq [of n 7 8])
  moreover have "(n mod 8 + 7) div 8 = 1" if "n mod 8 \<noteq> 0"
    using that by (intro div_nat_eqI) simp_all
  ultimately show ?thesis by simp
qed

section \<open>The bits of a bit field\<close>

lemma is_set_rev: "is_set bf i \<longleftrightarrow> i < length bf \<and> rev bf ! i"
  by (auto simp: is_set_def rev_nth)

lemma is_set_Nil [simp]: "\<not> is_set [] i"
  by (simp add: is_set_def)

lemma is_set_append:
  "is_set (as @ bs) i \<longleftrightarrow> (if i < length bs then is_set bs i else is_set as (i - length bs))"
  by (auto simp: is_set_rev nth_append)

lemma is_set_snoc: "is_set (bs @ [b]) i \<longleftrightarrow> (case i of 0 \<Rightarrow> b | Suc j \<Rightarrow> is_set bs j)"
  by (auto simp: is_set_rev nth_Cons split: nat.splits)

lemma is_set_int_bits: "is_set (int_bits n x) i \<longleftrightarrow> i < n \<and> bit x i"
  by (induction n arbitrary: x i) (auto simp: is_set_snoc bit_Suc bit_0 split: nat.splits)

lemma is_set_bits_int: "is_set bf i \<longleftrightarrow> bit (bits_int bf) i"
proof (cases "i < length bf")
  case True
  then show ?thesis using is_set_int_bits [of "length bf" "bits_int bf" i] by simp
next
  case False
  then have "2 ^ length bf \<le> (2 :: nat) ^ i" by simp
  with bits_int_less [of bf] have "bits_int bf < 2 ^ i" by linarith
  with False show ?thesis by (auto simp: is_set_def bit_iff_odd)
qed

lemma bit_field_eqI: "length a = length b \<Longrightarrow> (\<And>i. is_set a i \<longleftrightarrow> is_set b i) \<Longrightarrow> a = b"
proof -
  assume len: "length a = length b" and same: "\<And>i. is_set a i \<longleftrightarrow> is_set b i"
  have "rev a = rev b"
  proof (rule nth_equalityI)
    show "rev a ! i = rev b ! i" if "i < length (rev a)" for i
      using same [of i] that len by (simp add: is_set_rev)
  qed (simp add: len)
  then show "a = b" by simp
qed

lemma set_bit_field_Ok:
  assumes "set_bit_field bf i = Ok bf'"
  shows "length bf' = length bf" and "is_set bf' j \<longleftrightarrow> j = i \<or> is_set bf j"
proof -
  from assms have i: "i < length bf" and bf': "bf' = bf[length bf - i - 1 := True]"
    by (auto simp: set_bit_field_def Let_def upd_conv_take_nth_drop split: if_splits)
  then show "length bf' = length bf" by simp
  show "is_set bf' j \<longleftrightarrow> j = i \<or> is_set bf j"
    using i by (auto simp: bf' is_set_def nth_list_update)
qed

lemma clear_bit_field_Ok:
  assumes "clear_bit_field bf i = Ok bf'"
  shows "length bf' = length bf" and "is_set bf' j \<longleftrightarrow> j \<noteq> i \<and> is_set bf j"
proof -
  from assms have i: "i < length bf" and bf': "bf' = bf[length bf - i - 1 := False]"
    by (auto simp: clear_bit_field_def Let_def upd_conv_take_nth_drop split: if_splits)
  then show "length bf' = length bf" by simp
  show "is_set bf' j \<longleftrightarrow> j \<noteq> i \<and> is_set bf j"
    using i by (auto simp: bf' is_set_def nth_list_update)
qed

lemma shift_higher_Ok:
  assumes "shift_higher bf n = Ok bf'"
  shows "length bf' = length bf" and "is_set bf' j \<longleftrightarrow> n \<le> j \<and> is_set bf (j - n) \<and> j < length bf"
proof -
  from assms have n: "n \<le> length bf" and bf': "bf' = drop n bf @ int_bits n 0"
    by (auto simp: shift_higher_def split: if_splits)
  then show "length bf' = length bf" by simp
  have drop: "is_set (drop n bf) i \<longleftrightarrow> is_set bf i \<and> i < length bf - n" for i
    using n by (auto simp: is_set_def)
  show "is_set bf' j \<longleftrightarrow> n \<le> j \<and> is_set bf (j - n) \<and> j < length bf"
  proof (cases "j < n")
    case True
    then show ?thesis by (simp add: bf' is_set_append is_set_int_bits del: int_bits_zero)
  next
    case False
    then have "j - n < length bf - n \<longleftrightarrow> j < length bf" using n by linarith
    with False show ?thesis by (simp add: bf' is_set_append drop)
  qed
qed

lemma shift_lower_Ok:
  assumes "shift_lower bf n = Ok bf'"
  shows "length bf' = length bf" and "is_set bf' j \<longleftrightarrow> is_set bf (j + n)"
proof -
  from assms have n: "n \<le> length bf" and bf': "bf' = int_bits n 0 @ take (length bf - n) bf"
    by (auto simp: shift_lower_def split: if_splits)
  then show "length bf' = length bf" by simp
  have "is_set (take (length bf - n) bf) i \<longleftrightarrow> is_set bf (i + n)" if "i < length bf - n" for i
  proof -
    have "i + n < length bf" using that by linarith
    with that show ?thesis by (simp add: is_set_def add.commute)
  qed
  moreover have "\<not> is_set bf (j + n)" if "\<not> j < length bf - n"
  proof -
    have "\<not> j + n < length bf" using that by linarith
    then show ?thesis by (simp add: is_set_def)
  qed
  ultimately show "is_set bf' j \<longleftrightarrow> is_set bf (j + n)"
    using n by (auto simp: bf' is_set_append is_set_int_bits simp del: int_bits_zero)
qed

lemma bitwise_or_Ok:
  assumes "bitwise_or a b = Ok c"
  shows "length c = length a" and "is_set c j \<longleftrightarrow> is_set a j \<or> is_set b j"
proof -
  from assms have len: "length b = length a" and c: "c = int_bits (length a) (or (bits_int a) (bits_int b))"
    by (auto simp: bitwise_or_def split: if_splits)
  show "length c = length a" by (simp add: c)
  have "is_set c j \<longleftrightarrow> j < length a \<and> (is_set a j \<or> is_set b j)"
    unfolding c is_set_int_bits by (simp add: bit_or_iff flip: is_set_bits_int)
  with len show "is_set c j \<longleftrightarrow> is_set a j \<or> is_set b j" by (auto simp: is_set_def)
qed

lemma bits_int_all_ones: "bits_int bs = 2 ^ length bs - 1 \<longleftrightarrow> (\<forall>b \<in> set bs. b)"
proof (induction bs rule: rev_induct)
  case (snoc b bs)
  have "2 * bits_int bs + of_bool b = 2 * 2 ^ length bs - 1 \<longleftrightarrow> b \<and> bits_int bs = 2 ^ length bs - 1"
  proof -
    have "2 * x + of_bool b = 2 * p - 1 \<longleftrightarrow> b \<and> x = p - 1" if "x < p" for x p :: nat
      using that by (cases b; simp; arith)
    with bits_int_less [of bs] show ?thesis by blast
  qed
  with snoc show ?case by auto
qed simp

lemma all_set_iff:
  assumes "first' \<le> last'" and "last' \<le> length bf"
  shows "all_set bf first' last' \<longleftrightarrow> (\<forall>j \<in> {first'..<last'}. is_set bf j)"
proof -
  let ?seg = "take (last' - first') (drop (length bf - last') bf)"
  have len: "length ?seg = last' - first'" using assms by simp
  have "(\<forall>b \<in> set ?seg. b) \<longleftrightarrow> (\<forall>i < last' - first'. bf ! (length bf - last' + i))"
    using assms by (simp add: all_set_conv_all_nth)
  also have "\<dots> \<longleftrightarrow> (\<forall>j \<in> {first'..<last'}. is_set bf j)"
  proof (intro iffI ballI allI impI)
    fix j assume *: "\<forall>i < last' - first'. bf ! (length bf - last' + i)" "j \<in> {first'..<last'}"
    then have "last' - 1 - j < last' - first'" by auto
    with * have "bf ! (length bf - last' + (last' - 1 - j))" by blast
    with * assms show "is_set bf j" by (simp add: is_set_def)
  next
    fix i assume *: "\<forall>j \<in> {first'..<last'}. is_set bf j" "i < last' - first'"
    then have "is_set bf (last' - 1 - i)" by auto
    with * assms show "bf ! (length bf - last' + i)" by (simp add: is_set_def)
  qed
  finally show ?thesis
    using assms bits_int_all_ones [of ?seg] unfolding all_set_def len by blast
qed

lemma count_card: "count bf = card {j. is_set bf j}"
proof (induction bf rule: rev_induct)
  case (snoc b bs)
  have fin: "finite {j. is_set bs j}"
    by (rule finite_subset [of _ "{..<length bs}"]) (auto simp: is_set_def)
  have "{j. is_set (bs @ [b]) j} = (if b then {0} else {}) \<union> Suc ` {j. is_set bs j}"
  proof (rule set_eqI)
    show "x \<in> {j. is_set (bs @ [b]) j} \<longleftrightarrow> x \<in> (if b then {0} else {}) \<union> Suc ` {j. is_set bs j}" for x
      by (cases x) (auto simp: is_set_snoc)
  qed
  moreover have "card (Suc ` {j. is_set bs j}) = count bs" using snoc by (simp add: card_image)
  ultimately show ?case using fin by (cases b) (simp_all add: count_def)
qed (simp add: count_def)

section \<open>The byte form of a bit list\<close>

lemma int_bits_one: "int_bits (Suc k) 1 = replicate k False @ [True]"
  by simp

lemma bits_int_Cons: "bits_int (b # bs) = of_bool b * 2 ^ length bs + bits_int bs"
  using bits_int_append [of "[b]" bs] bits_int_snoc [of "[]" b] by simp

lemma length_split: "length bl = 8 * (length bl div 8) + length bl mod 8"
  by simp

text \<open>The bytes hold the list's number with the sentinel bit above it.\<close>

lemma BitList_to_bytes_bits:
  "bits_of_bytes (BitList_to_bytes bl) =
     little_bits (8 * (length bl div 8)) (bits_int (drop (length bl mod 8) bl)) @
     replicate (7 - length bl mod 8) False @ [True] @ take (length bl mod 8) bl"
proof -
  let ?r = "length bl mod 8" and ?q = "length bl div 8"
  have r: "?r < 8" and r': "8 - ?r = Suc (7 - ?r)" by (simp_all add: Suc_diff_le flip: Suc_diff_Suc)
  have "little_bits (8 - ?r) 1 = int_bits (8 - ?r) 1" by (simp add: little_bits_small)
  then have "little_bits (8 - ?r) 1 = replicate (7 - ?r) False @ [True]"
    unfolding r' int_bits_one .
  moreover have "little_bits ?r (bits_int (take ?r bl)) = take ?r bl"
    using r by (simp add: little_bits_small int_bits_of_bits_int)
  moreover have "length bl - ?r = 8 * ?q" by (metis length_split add_diff_cancel_right')
  ultimately have "BitList_to_bytes bl = bytes_of_bits (little_bits (8 * ?q) (bits_int (drop ?r bl)) @
      replicate (7 - ?r) False @ [True] @ take ?r bl)" (is "_ = bytes_of_bits ?bits")
    by (simp add: BitList_to_bytes_def Let_def)
  moreover have "length ?bits = 8 * (?q + 1)" using r by simp
  ultimately show ?thesis using bits_of_bytes_of_bits by metis
qed

lemma length_BitList_to_bytes: "length (BitList_to_bytes bl) = length bl div 8 + 1"
proof -
  have "8 * length (BitList_to_bytes bl) = 8 * (length bl div 8 + 1)"
    using length_bits_of_bytes [of "BitList_to_bytes bl"]
    by (simp add: BitList_to_bytes_bits del: length_bits_of_bytes)
  then show ?thesis by simp
qed

lemma drop_mod_bits:
  "bits_int (drop (length bl mod 8) bl) < 256 ^ (length bl div 8)"
  "int_bits (8 * (length bl div 8)) (bits_int (drop (length bl mod 8) bl)) = drop (length bl mod 8) bl"
proof -
  have len: "length (drop (length bl mod 8) bl) = 8 * (length bl div 8)"
    by (metis length_drop length_split add_diff_cancel_right')
  then show "bits_int (drop (length bl mod 8) bl) < 256 ^ (length bl div 8)"
    using bits_int_less [of "drop (length bl mod 8) bl"] by (simp add: power_mult)
  show "int_bits (8 * (length bl div 8)) (bits_int (drop (length bl mod 8) bl)) =
      drop (length bl mod 8) bl"
    by (rule int_bits_of_bits_int [OF len])
qed

lemma bits_int_split_bytes:
  "bits_int bl = bits_int (take (length bl mod 8) bl) * 256 ^ (length bl div 8) +
     bits_int (drop (length bl mod 8) bl)"
proof -
  let ?r = "length bl mod 8" and ?q = "length bl div 8"
  have "length (drop ?r bl) = 8 * ?q" by (metis length_drop length_split add_diff_cancel_right')
  then have "(2 :: nat) ^ length (drop ?r bl) = 256 ^ ?q" by (simp add: power_mult)
  then show ?thesis using bits_int_append [of "take ?r bl" "drop ?r bl"] by simp
qed

lemma BitList_number: "le_nat (BitList_to_bytes bl) = bits_int bl + 2 ^ length bl"
proof -
  let ?r = "length bl mod 8" and ?q = "length bl div 8"
  let ?last = "replicate (7 - ?r) False @ [True] @ take ?r bl"
  have "bits_int ?last = 2 ^ ?r + bits_int (take ?r bl)"
    by (simp add: bits_int_append bits_int_Cons)
  moreover have "le_nat (BitList_to_bytes bl) =
      bits_int (drop ?r bl) + 256 ^ ?q * bits_int ?last"
    unfolding little_int_bits_of_bytes [symmetric] BitList_to_bytes_bits
    using drop_mod_bits(1) [of bl]
    by (subst little_int_append_bytes [where m = ?q])
       (simp_all add: little_int_little_bits little_int_byte)
  moreover have "bits_int bl = bits_int (take ?r bl) * 256 ^ ?q + bits_int (drop ?r bl)"
    by (rule bits_int_split_bytes)
  moreover have "(2 :: nat) ^ length bl = 256 ^ ?q * 2 ^ ?r"
  proof -
    have "(2 :: nat) ^ (8 * q + r) = 256 ^ q * 2 ^ r" for q r by (simp add: power_add power_mult)
    then show ?thesis using length_split [of bl] by metis
  qed
  ultimately show ?thesis by (simp add: algebra_simps)
qed

text \<open>The packed form has no sentinel: the bytes of the bits as a vector, up to a zero byte.\<close>

lemma BitList_to_packed_bytes_bits:
  "bits_of_bytes (BitList_to_packed_bytes bl) =
     little_bits (8 * (length bl div 8)) (bits_int (drop (length bl mod 8) bl)) @
       (replicate (8 - length bl mod 8) False @ take (length bl mod 8) bl)"
proof -
  let ?r = "length bl mod 8" and ?q = "length bl div 8"
  have r: "?r < 8" "length (take ?r bl) = ?r" by (simp_all add: min_def)
  then have "little_bits ?r (bits_int (take ?r bl)) = take ?r bl"
    by (simp add: little_bits_small int_bits_of_bits_int)
  moreover have "little_bits (8 - ?r) 0 = replicate (8 - ?r) False"
    by (simp add: little_bits_small)
  moreover have "length bl - ?r = 8 * ?q" by (metis length_split add_diff_cancel_right')
  ultimately have "BitList_to_packed_bytes bl = bytes_of_bits
      (little_bits (8 * ?q) (bits_int (drop ?r bl)) @ replicate (8 - ?r) False @ take ?r bl)"
      (is "_ = bytes_of_bits ?bits")
    by (simp add: BitList_to_packed_bytes_def Let_def)
  moreover have "length ?bits = 8 * (?q + 1)" using r by simp
  ultimately show ?thesis using bits_of_bytes_of_bits by metis
qed

lemma length_BitList_to_packed_bytes: "length (BitList_to_packed_bytes bl) = length bl div 8 + 1"
proof -
  have "8 * length (BitList_to_packed_bytes bl) = 8 * (length bl div 8 + 1)"
    using length_bits_of_bytes [of "BitList_to_packed_bytes bl"] mod_less_eq_dividend [of "length bl" 8]
      mod_less_divisor [of 8 "length bl"]
    by (simp add: BitList_to_packed_bytes_bits min_absorb2 del: length_bits_of_bytes mod_less_eq_dividend)
  then show ?thesis by simp
qed

lemma BitList_packed_number: "le_nat (BitList_to_packed_bytes bl) = bits_int bl"
proof -
  let ?r = "length bl mod 8" and ?q = "length bl div 8"
  let ?last = "replicate (8 - ?r) False @ take ?r bl"
  have "length ?last = 8" by (simp add: min_def)
  moreover have "bits_int ?last = bits_int (take ?r bl)" by (simp add: bits_int_append)
  ultimately have "le_nat (BitList_to_packed_bytes bl) =
      bits_int (drop ?r bl) + 256 ^ ?q * bits_int (take ?r bl)"
    unfolding little_int_bits_of_bytes [symmetric] BitList_to_packed_bytes_bits
    using drop_mod_bits(1) [of bl]
    by (subst little_int_append_bytes [where m = ?q])
       (simp_all add: little_int_little_bits little_int_byte)
  then show ?thesis using bits_int_split_bytes [of bl] by simp
qed

lemma remove_trailing_bit_sentinel [simp]:
  "remove_trailing_bit (replicate k False @ True # bs) = bs"
  by (induction k) simp_all

lemma BitList_new_to_bytes: "BitList_new (BitList_to_bytes bl) = Ok bl"
proof -
  let ?r = "length bl mod 8" and ?q = "length bl div 8"
  let ?last = "replicate (7 - ?r) False @ [True] @ take ?r bl"
  have "int_bits 8 (bits_int ?last) = ?last"
    by (rule int_bits_of_bits_int) simp
  then show ?thesis
    using drop_mod_bits [of bl]
    by (simp add: BitList_new_def Let_def BitList_to_bytes_bits length_BitList_to_bytes
        little_int_little_bits little_int_byte del: int_bits.simps)
qed

lemma last_BitList_to_bytes: "last (BitList_to_bytes bl) \<noteq> 0"
proof
  let ?b = "BitList_to_bytes bl" and ?r = "length bl mod 8" and ?q = "length bl div 8"
  assume "last ?b = 0"
  moreover have "?b \<noteq> []" using length_BitList_to_bytes [of bl] by auto
  ultimately obtain front where b: "?b = front @ [0]" by (metis append_butlast_last_id)
  then have "length (bits_of_bytes front) = 8 * ?q" using length_BitList_to_bytes [of bl] by simp
  moreover have "bits_of_bytes front @ byte_bits 0 = bits_of_bytes ?b" by (simp add: b)
  ultimately have "byte_bits 0 = replicate (7 - ?r) False @ [True] @ take ?r bl"
    unfolding BitList_to_bytes_bits by (simp add: append_eq_append_conv)
  then have "True \<in> set (byte_bits 0)" by simp
  then show False by (simp add: byte_bits_def del: int_bits.simps)
qed

text \<open>Conversely, a binary whose last byte is not zero is the byte form of the list read from it.\<close>

lemma leading_zeros:
  assumes "bits_int bs \<noteq> 0"
  obtains k rest where "bs = replicate k False @ True # rest"
proof -
  have "\<exists>k rest. bs = replicate k False @ True # rest" using assms
  proof (induction bs)
    case (Cons b bs)
    show ?case
    proof (cases b)
      case True
      then have "b # bs = replicate 0 False @ True # bs" by simp
      then show ?thesis by blast
    next
      case False
      with Cons.prems have "bits_int bs \<noteq> 0" by (auto simp: bits_int_eq_0)
      with Cons.IH obtain k rest where "bs = replicate k False @ True # rest" by blast
      with False have "b # bs = replicate (Suc k) False @ True # rest" by simp
      then show ?thesis by blast
    qed
  qed simp
  with that show ?thesis by blast
qed

lemma BitList_to_bytes_new:
  assumes "BitList_new b = Ok bl" and "last b \<noteq> 0"
  shows "BitList_to_bytes bl = b"
proof -
  from assms(1) have "b \<noteq> []" by (auto simp: BitList_new_def Let_def split: if_splits)
  then obtain front l where b: "b = front @ [l]" by (metis append_butlast_last_id)
  let ?m = "length front" and ?F = "bits_of_bytes front"
  have "byte_bits l \<noteq> byte_bits 0" using assms(2) b by (metis bits_byte_byte_bits last_snoc)
  then have "bits_int (byte_bits l) \<noteq> 0"
    by (metis int_bits_of_bits_int length_byte_bits byte_bits_def unsigned_0)
  then obtain k rest where l: "byte_bits l = replicate k False @ True # rest" by (rule leading_zeros)
  then have k: "k = 7 - length rest" and rest: "length rest < 8"
    using length_byte_bits [of l] by (simp_all only:) simp_all
  have "little_int (byte_bits l) = bits_int (byte_bits l)" by (simp add: little_int_byte)
  moreover have "int_bits 8 (bits_int (byte_bits l)) = byte_bits l"
    by (rule int_bits_of_bits_int) simp
  ultimately have "bl = remove_trailing_bit (byte_bits l) @ int_bits (8 * ?m) (little_int ?F)"
    using assms(1) by (simp add: BitList_new_def b del: int_bits.simps)
  then have bl: "bl = rest @ int_bits (8 * ?m) (little_int ?F)" by (simp add: l)
  have "bits_int (int_bits (8 * ?m) (little_int ?F)) = little_int ?F"
    using little_int_less [of ?F ?m] by (simp add: power_mult)
  then have "bits_of_bytes (BitList_to_bytes bl) = ?F @ byte_bits l"
    using rest by (simp add: BitList_to_bytes_bits bl l k little_bits_little_int)
  then have "bits_of_bytes (BitList_to_bytes bl) = bits_of_bytes b" by (simp add: b)
  then show ?thesis by (metis bytes_of_bits_of_bytes)
qed

section \<open>The byte form of a bit vector\<close>

lemma bits_int_less_bytes: "bits_int bv < 256 ^ byte_size bv"
proof -
  have "length bv \<le> 8 * byte_size bv" by (simp add: byte_size_def)
  then have "(2 :: nat) ^ length bv \<le> 2 ^ (8 * byte_size bv)" by (rule power_increasing) simp
  with bits_int_less [of bv] show ?thesis by (simp add: power_mult)
qed

lemma BitVector_to_bytes_bits:
  "bits_of_bytes (BitVector_to_bytes bv) = little_bits (8 * byte_size bv) (bits_int bv)"
  unfolding BitVector_to_bytes_def
  by (subst bits_of_bytes_of_bits [where k = "byte_size bv"]) (simp_all add: mult.commute)

lemma length_BitVector_to_bytes [simp]: "length (BitVector_to_bytes bv) = byte_size bv"
  using length_bits_of_bytes [of "BitVector_to_bytes bv"]
  by (simp add: BitVector_to_bytes_bits del: length_bits_of_bytes)

lemma BitVector_number: "le_nat (BitVector_to_bytes bv) = bits_int bv"
  using bits_int_less_bytes [of bv]
  by (simp add: BitVector_to_bytes_bits little_int_little_bits flip: little_int_bits_of_bytes)

lemma le_nat_inject: "length a = length b \<Longrightarrow> le_nat a = le_nat b \<Longrightarrow> a = b"
  by (metis le_bytes_le_nat)

lemma BitList_packed_vector:
  "BitList_to_packed_bytes bl = BitVector_to_bytes bl @ (if length bl mod 8 = 0 then [0] else [])"
proof (rule le_nat_inject)
  show "length (BitList_to_packed_bytes bl) =
      length (BitVector_to_bytes bl @ (if length bl mod 8 = 0 then [0] else []))"
    using byte_count [of "length bl"] by (simp add: length_BitList_to_packed_bytes byte_size_def)
  show "le_nat (BitList_to_packed_bytes bl) =
      le_nat (BitVector_to_bytes bl @ (if length bl mod 8 = 0 then [0] else []))"
    by (simp add: BitList_packed_number BitVector_number le_nat_append)
qed

lemma BitVector_new_to_bytes: "BitVector_new (BitVector_to_bytes bv) (length bv) = bv"
  by (simp add: BitVector_new_def little_int_bits_of_bytes BitVector_number)

lemma BitVector_to_bytes_new:
  assumes "length b = (n + 7) div 8" and "le_nat b < 2 ^ n"
  shows "BitVector_to_bytes (BitVector_new b n) = b"
proof -
  let ?bits = "bits_of_bytes b"
  have "bits_int (BitVector_new b n) = little_int ?bits"
    using assms(2) by (simp add: BitVector_new_def little_int_bits_of_bytes)
  moreover have "byte_size (BitVector_new b n) = length b"
    by (simp add: byte_size_def BitVector_new_def assms(1))
  ultimately have "bits_of_bytes (BitVector_to_bytes (BitVector_new b n)) = ?bits"
    by (simp add: BitVector_to_bytes_bits little_bits_little_int)
  then show ?thesis by (metis bytes_of_bits_of_bytes)
qed

section \<open>Properties\<close>

text \<open>
  the byte form of a bit list. Reading the bytes of a bit list gives the list back; the bytes
  are the little-endian form of the number whose low bits are the list and whose highest bit, at
  the index after the list, is the sentinel.
\<close>

theorem bit_list_bytes:
  "BitList_new (BitList_to_bytes bl) = Ok bl \<and>
   length (BitList_to_bytes bl) = length bl div 8 + 1 \<and>
   le_nat (BitList_to_bytes bl) = bits_int bl + 2 ^ length bl"
  by (simp add: BitList_new_to_bytes length_BitList_to_bytes BitList_number)

text \<open>
  The byte form of a bit vector. Reading the bytes of a bit vector at its size gives the vector
  back; the bytes are the little-endian form of the vector's number, padded to whole bytes.
\<close>

theorem bit_vector_bytes:
  "BitVector_new (BitVector_to_bytes bv) (length bv) = bv \<and>
   length (BitVector_to_bytes bv) = (length bv + 7) div 8 \<and>
   le_nat (BitVector_to_bytes bv) = BitVector_to_integer bv"
  by (simp add: BitVector_new_to_bytes BitVector_number BitVector_to_integer_def flip: byte_size_def)

text \<open>
  setting and clearing a bit. For an index in range both succeed, keep the length, and change
  what \<open>set?\<close> says of that index and of no other.
\<close>

theorem bit_field_updates:
  assumes "i < length bf"
  shows "\<exists>on off. set_bit_field bf i = Ok on \<and> clear_bit_field bf i = Ok off \<and>
    length on = length bf \<and> length off = length bf \<and>
    (\<forall>j. is_set on j = (j = i \<or> is_set bf j)) \<and> (\<forall>j. is_set off j = (j \<noteq> i \<and> is_set bf j))"
proof -
  from assms obtain on off where on: "set_bit_field bf i = Ok on"
    and off: "clear_bit_field bf i = Ok off"
    by (simp add: set_bit_field_def clear_bit_field_def Let_def)
  with set_bit_field_Ok [OF on] clear_bit_field_Ok [OF off] show ?thesis by simp
qed

theorem bit_field_updates_witness:
  "\<exists>on off. set_bit_field [True, False, False] 1 = Ok on \<and>
    clear_bit_field [True, False, False] 1 = Ok off \<and>
    length on = length [True, False, False] \<and> length off = length [True, False, False] \<and>
    (\<forall>j. is_set on j = (j = 1 \<or> is_set [True, False, False] j)) \<and>
    (\<forall>j. is_set off j = (j \<noteq> 1 \<and> is_set [True, False, False] j))"
  by (rule bit_field_updates) simp

text \<open>
  Shifting. Shifting a bit field by at most its length succeeds and keeps the length; towards
  higher indices the bit at \<open>j\<close> comes from \<open>j - n\<close>, towards lower indices from \<open>j + n\<close>, and the bits
  that come from outside are clear.
\<close>

theorem bit_field_shifts:
  assumes "n \<le> length bf"
  shows "\<exists>hi lo. shift_higher bf n = Ok hi \<and> shift_lower bf n = Ok lo \<and>
    length hi = length bf \<and> length lo = length bf \<and>
    (\<forall>j. is_set hi j = (n \<le> j \<and> j < length bf \<and> is_set bf (j - n))) \<and>
    (\<forall>j. is_set lo j = is_set bf (j + n))"
proof -
  from assms obtain hi lo where hi: "shift_higher bf n = Ok hi" and lo: "shift_lower bf n = Ok lo"
    by (simp add: shift_higher_def shift_lower_def)
  with shift_higher_Ok [OF hi] shift_lower_Ok [OF lo] show ?thesis by auto
qed

theorem bit_field_shifts_witness:
  "\<exists>hi lo. shift_higher [True, False, True] 1 = Ok hi \<and> shift_lower [True, False, True] 1 = Ok lo \<and>
    length hi = length [True, False, True] \<and> length lo = length [True, False, True] \<and>
    (\<forall>j. is_set hi j = (1 \<le> j \<and> j < length [True, False, True] \<and> is_set [True, False, True] (j - 1))) \<and>
    (\<forall>j. is_set lo j = is_set [True, False, True] (j + 1))"
  by (rule bit_field_shifts) simp

text \<open>
  Reading many bits. \<open>count\<close> is the number of indices that are set; \<open>all?\<close> over a range that lies
  in the field says that every index from the first to before the last is set; \<open>bitwise_or\<close> of two
  fields of one length has the bits set in either.
\<close>

theorem bit_field_queries:
  assumes "first' \<le> last'" and "last' \<le> length bf" and "length bf' = length bf"
  shows "count bf = card {j. is_set bf j} \<and>
    all_set bf first' last' = ({first'..<last'} \<subseteq> {j. is_set bf j}) \<and>
    (\<exists>u. bitwise_or bf bf' = Ok u \<and> length u = length bf \<and>
      {j. is_set u j} = {j. is_set bf j} \<union> {j. is_set bf' j})"
proof -
  from assms(3) obtain u where u: "bitwise_or bf bf' = Ok u" by (simp add: bitwise_or_def)
  with bitwise_or_Ok [OF u] all_set_iff [OF assms(1,2)] show ?thesis
    by (auto simp: count_card)
qed

theorem bit_field_queries_witness:
  "count [True, True, False] = card {j. is_set [True, True, False] j} \<and>
    all_set [True, True, False] 1 3 = ({1..<3} \<subseteq> {j. is_set [True, True, False] j}) \<and>
    (\<exists>u. bitwise_or [True, True, False] [False, False, True] = Ok u \<and>
      length u = length [True, True, False] \<and>
      {j. is_set u j} = {j. is_set [True, True, False] j} \<union> {j. is_set [False, False, True] j})"
  by (rule bit_field_queries) simp_all

end
