(* ===== verification/Ssz_Ex_Schema.thy ===== *)
theory Ssz_Ex_Schema
  imports Bit_Fields
begin

text \<open>
  The schemas, values and errors of the Elixir SSZ library, \<open>lib/ssz_ex/ssz_ex.ex\<close> and \<open>error.ex\<close>,
  and its \<open>lib/ssz_ex/utils.ex\<close>. A container module is its name and its schema. An Elixir value is
  \<open>XBits\<close> where the library expects a bit list or bit vector, \<open>XBin\<close> where it expects a binary; a
  struct is the list of its fields. The messages of errors are a datatype with one constructor per
  text of the sources, which holds what the text interpolates. A raised exception is \<open>Panic\<close>.
\<close>

section \<open>Schemas and values\<close>

datatype schema =
    SBool
  | SInt nat
  | SByteList nat
  | SByteVector nat
  | SList schema nat
  | SVector schema nat
  | SBitlist nat
  | SBitvector nat
  | SModule string "(string \<times> schema) list"

datatype ex_val =
    XBool bool
  | XInt int
  | XBin bytes
  | XBits bitstring
  | XList "ex_val list"
  | XStruct string "(string \<times> ex_val) list"
  | XAtom string
  | XNil

section \<open>Errors\<close>

datatype ex_message =
    EncodeListLength schema nat nat
  | EncodeBitlistLength nat nat
  | EncodeBitvectorLength nat nat
  | EncodeSizeOutOfRange nat
  | DecodeUintLength nat nat
  | DecodeBoolLength nat
  | DecodeBoolValue bytes
  | DecodeBitlistEmpty
  | DecodeBitlistSentinel
  | DecodeBitlistLength nat nat
  | DecodeBitvectorLength nat
  | DecodeListLength schema nat nat
  | DecodeVectorLength schema nat nat
  | DecodeVectorSize nat nat
  | DecodeFirstOffsetMax schema nat nat
  | DecodeFirstOffset schema nat
  | DecodeContainerLength string nat nat
  | FirstOffset nat nat
  | OffsetOutside nat nat
  | OffsetBackwards nat nat
  | OffsetIntoFixed nat nat
  | OffsetNotFirst nat nat
  | CollectionLength nat nat
  | MerkleByteVectorLength nat nat
  | MerkleListLength schema nat nat
  | MerkleVectorLength schema nat nat

text \<open>
  \<open>Error\<close> is \<open>{:error, %Error{}}\<close>. Decoding a container returns two more shapes: \<open>Keyed\<close> is
  \<open>{:error, {key, error}}\<close>, and \<open>Section\<close> is the tuple with four elements that a failure in the
  fixed-size part of a container gives, without its last two elements, which nothing reads.
\<close>

datatype ex_error =
    Error ex_message "string list"
  | Keyed string ex_error
  | Section string ex_error

type_synonym 'a ex = "(ex_error, 'a) rust"

definition error_of :: "ex_message \<Rightarrow> ex_error" where
  "error_of m = Error m []"

fun add_trace_error :: "ex_error \<Rightarrow> string \<Rightarrow> ex_error" where
  "add_trace_error (Error message stacktrace) new_trace = Error message (new_trace # stacktrace)"
| "add_trace_error e new_trace = e"

definition add_trace :: "'a ex \<Rightarrow> string \<Rightarrow> 'a ex" where
  "add_trace r new_trace = map_err (\<lambda>e. add_trace_error e new_trace) r"

lemma add_trace_eq_Ok [simp]: "add_trace r k = Ok a \<longleftrightarrow> r = Ok a"
  by (simp add: add_trace_def)

lemma add_trace_Ok [simp]: "add_trace (Ok a) k = Ok a"
  by simp

text \<open>A call that no clause of the function takes.\<close>

definition no_clause :: "'a ex" where
  "no_clause = Panic ''FunctionClauseError''"

section \<open>Utils\<close>

lemma size_field [termination_simp]:
  "(k, s) \<in> set fs \<Longrightarrow> size (s :: schema) < Suc (size_list (size_prod (\<lambda>x. 0) size) fs)"
  by (induction fs) auto

text \<open>
  The structs of the container modules: the names of the fields of a module, and those of them that a
  struct must be given because the module lists them in its \<open>@enforce_keys\<close>.
\<close>

record structs =
  struct_fields :: "string \<Rightarrow> string list"
  enforce_keys :: "string \<Rightarrow> string list"

fun validate_schema :: "structs \<Rightarrow> schema \<Rightarrow> unit ex" where
  "validate_schema m SBool = Ok ()"
| "validate_schema m (SInt n) = (if n \<in> {8, 16, 32, 64, 128, 256} then Ok () else no_clause)"
| "validate_schema m (SByteList n) = (if n > 0 then Ok () else no_clause)"
| "validate_schema m (SByteVector n) = (if n > 0 then Ok () else no_clause)"
| "validate_schema m (SList sub n) = (if n > 0 then validate_schema m sub else no_clause)"
| "validate_schema m (SVector sub n) = (if n > 0 then validate_schema m sub else no_clause)"
| "validate_schema m (SBitlist n) = (if n > 0 then Ok () else no_clause)"
| "validate_schema m (SBitvector n) = (if n > 0 then Ok () else no_clause)"
| "validate_schema m (SModule nm fs) =
     and_then (collect (map (\<lambda>(k, s). validate_schema m s) fs)) (\<lambda>_.
     if set (map fst fs) = set (struct_fields m nm) then Ok () else Panic ''RuntimeError'')"

text \<open>
  \<open>struct!\<close>: a key that is no field of the struct is a \<open>KeyError\<close>, an enforced key that is not given
  an \<open>ArgumentError\<close>. The other fields that are not given keep the default of the \<open>defstruct\<close>, which
  is \<open>nil\<close> for every field that is not enforced but one: the \<open>step\<close> of a
  \<open>BeaconBlocksByRangeRequest\<close>, which its schema has.
\<close>

definition struct_bang :: "structs \<Rightarrow> string \<Rightarrow> (string \<times> ex_val) list \<Rightarrow> ex_val ex" where
  "struct_bang m nm kvs =
     (if \<not> set (map fst kvs) \<subseteq> set (struct_fields m nm) then Panic ''KeyError''
      else if \<not> set (enforce_keys m nm) \<subseteq> set (map fst kvs) then Panic ''ArgumentError''
      else Ok (XStruct nm (kvs @ map (\<lambda>k. (k, XNil))
             (filter (\<lambda>k. k \<notin> set (map fst kvs)) (struct_fields m nm)))))"

fun default_value :: "structs \<Rightarrow> schema \<Rightarrow> ex_val ex" where
  "default_value m (SInt n) = Ok (XInt 0)"
| "default_value m SBool = Ok (XBool False)"
| "default_value m (SByteList n) = Ok (XBin [])"
| "default_value m (SByteVector n) = Ok (XBin (replicate n 0))"
| "default_value m (SList s n) = Ok (XList [])"
| "default_value m (SVector s n) = map_ok (\<lambda>v. XList (replicate n v)) (default_value m s)"
| "default_value m (SBitlist n) = Ok (XBits BitList_default)"
| "default_value m (SBitvector n) = Ok (XBits (BitVector_zero n))"
| "default_value m (SModule nm fs) =
     and_then (collect (map (\<lambda>(k, s). map_ok (\<lambda>v. (k, v)) (default_value m s)) fs)) (struct_bang m nm)"

text \<open>
  \<open>flatten_results\<close>: an exception while the results are computed is raised; a result that is not a
  pair is a failed match; otherwise the first error or the list of the values.
\<close>

fun is_section :: "'a ex \<Rightarrow> bool" where
  "is_section (Err (Section k e)) = True"
| "is_section _ = False"

definition flatten_results :: "'a ex list \<Rightarrow> 'a list ex" where
  "flatten_results rs =
     (case filter panics rs of
        Panic m # ps \<Rightarrow> Panic m
      | _ \<Rightarrow> if list_ex is_section rs then Panic ''FunctionClauseError'' else collect rs)"

lemma flatten_results_eq_Ok: "flatten_results rs = Ok xs \<longleftrightarrow> rs = map Ok xs"
proof
  assume "flatten_results rs = Ok xs"
  then have "collect rs = Ok xs"
    by (auto simp: flatten_results_def split: list.splits rust.splits if_splits)
  then show "rs = map Ok xs" by (simp add: collect_eq_Ok)
next
  assume rs: "rs = map Ok xs"
  then have "filter panics rs = []" "\<not> list_ex is_section rs"
    by (auto simp: filter_empty_conv list_ex_iff)
  with rs show "flatten_results rs = Ok xs" by (simp add: flatten_results_def collect_eq_Ok)
qed

lemma flatten_results_map_Ok [simp]: "flatten_results (map Ok xs) = Ok xs"
  by (simp add: flatten_results_eq_Ok)

text \<open>\<open>get_fixed_size\<close> and \<open>size_of\<close> have no clause for the schemas that are left out here.\<close>

fun get_fixed_size :: "schema \<Rightarrow> nat" where
  "get_fixed_size SBool = 1"
| "get_fixed_size (SInt n) = n div 8"
| "get_fixed_size (SByteVector n) = n"
| "get_fixed_size (SVector inner_type n) = n * get_fixed_size inner_type"
| "get_fixed_size (SBitvector n) = (n + 7) div 8"
| "get_fixed_size (SModule nm fs) = sum_list (map (\<lambda>(k, s). get_fixed_size s) fs)"

fun variable_size :: "schema \<Rightarrow> bool" where
  "variable_size (SList s n) = True"
| "variable_size SBool = False"
| "variable_size (SByteList n) = True"
| "variable_size (SByteVector n) = False"
| "variable_size (SInt n) = False"
| "variable_size (SBitlist n) = True"
| "variable_size (SBitvector n) = False"
| "variable_size (SVector inner_type n) = variable_size inner_type"
| "variable_size (SModule nm fs) = list_ex id (map (\<lambda>(k, s). variable_size s) fs)"

fun basic_type :: "schema \<Rightarrow> bool" where
  "basic_type (SInt n) = True"
| "basic_type SBool = True"
| "basic_type _ = False"

fun size_of :: "schema \<Rightarrow> nat" where
  "size_of SBool = 4"
| "size_of (SInt n) = n div 8"

section \<open>Well-formed schemas and their values\<close>

text \<open>
  What \<open>validate_schema!\<close> accepts, with the fields of every container distinct and not empty, and
  the values a schema describes.
\<close>

fun schema_wf :: "schema \<Rightarrow> bool" where
  "schema_wf (SInt n) = (n \<in> {8, 16, 32, 64, 128, 256})"
| "schema_wf (SByteList n) = (n > 0)"
| "schema_wf (SByteVector n) = (n > 0)"
| "schema_wf (SList s n) = (n > 0 \<and> schema_wf s)"
| "schema_wf (SVector s n) = (n > 0 \<and> schema_wf s)"
| "schema_wf (SBitlist n) = (n > 0)"
| "schema_wf (SBitvector n) = (n > 0)"
| "schema_wf (SModule nm fs) =
     (fs \<noteq> [] \<and> distinct (map fst fs) \<and> list_all (\<lambda>(k, s). schema_wf s) fs)"
| "schema_wf SBool = True"

fun conforms :: "schema \<Rightarrow> ex_val \<Rightarrow> bool" where
  "conforms SBool v = (case v of XBool b \<Rightarrow> True | _ \<Rightarrow> False)"
| "conforms (SInt n) v = (case v of XInt i \<Rightarrow> 0 \<le> i \<and> i < 2 ^ n | _ \<Rightarrow> False)"
| "conforms (SByteList n) v = (case v of XBin b \<Rightarrow> length b \<le> n | _ \<Rightarrow> False)"
| "conforms (SByteVector n) v = (case v of XBin b \<Rightarrow> length b = n | _ \<Rightarrow> False)"
| "conforms (SList s n) v =
     (case v of XList vs \<Rightarrow> length vs \<le> n \<and> list_all (conforms s) vs | _ \<Rightarrow> False)"
| "conforms (SVector s n) v =
     (case v of XList vs \<Rightarrow> length vs = n \<and> list_all (conforms s) vs | _ \<Rightarrow> False)"
| "conforms (SBitlist n) v = (case v of XBits bs \<Rightarrow> length bs \<le> n | _ \<Rightarrow> False)"
| "conforms (SBitvector n) v = (case v of XBits bs \<Rightarrow> length bs = n | _ \<Rightarrow> False)"
| "conforms (SModule nm fs) v =
     (case v of
        XStruct nm' vs \<Rightarrow> nm' = nm \<and> map fst vs = map fst fs \<and>
          list_all (\<lambda>(k, s). case map_of vs k of Some w \<Rightarrow> conforms s w | None \<Rightarrow> False) fs
      | _ \<Rightarrow> False)"

lemma case_option_ex: "(case x of None \<Rightarrow> False | Some w \<Rightarrow> P w) \<longleftrightarrow> (\<exists>w. x = Some w \<and> P w)"
  by (cases x) simp_all

lemma conforms_iff:
  "conforms SBool v \<longleftrightarrow> (\<exists>b. v = XBool b)"
  "conforms (SInt n) v \<longleftrightarrow> (\<exists>i. v = XInt i \<and> 0 \<le> i \<and> i < 2 ^ n)"
  "conforms (SByteList n) v \<longleftrightarrow> (\<exists>b. v = XBin b \<and> length b \<le> n)"
  "conforms (SByteVector n) v \<longleftrightarrow> (\<exists>b. v = XBin b \<and> length b = n)"
  "conforms (SList s n) v \<longleftrightarrow> (\<exists>vs. v = XList vs \<and> length vs \<le> n \<and> list_all (conforms s) vs)"
  "conforms (SVector s n) v \<longleftrightarrow> (\<exists>vs. v = XList vs \<and> length vs = n \<and> list_all (conforms s) vs)"
  "conforms (SBitlist n) v \<longleftrightarrow> (\<exists>bs. v = XBits bs \<and> length bs \<le> n)"
  "conforms (SBitvector n) v \<longleftrightarrow> (\<exists>bs. v = XBits bs \<and> length bs = n)"
  "conforms (SModule nm fs) v \<longleftrightarrow> (\<exists>vs. v = XStruct nm vs \<and> map fst vs = map fst fs \<and>
     list_all (\<lambda>(k, s). \<exists>w. map_of vs k = Some w \<and> conforms s w) fs)"
  by (cases v; simp add: case_option_ex)+

text \<open>
  A schema that is accepted has a default, which conforms to it, and is well-formed when the keys of its
  containers are distinct.
\<close>

fun keys_distinct :: "schema \<Rightarrow> bool" where
  "keys_distinct (SList s n) = keys_distinct s"
| "keys_distinct (SVector s n) = keys_distinct s"
| "keys_distinct (SModule nm fs) = (fs \<noteq> [] \<and> distinct (map fst fs) \<and> list_all (\<lambda>(k, s). keys_distinct s) fs)"
| "keys_distinct _ = True"

lemma validate_fields:
  assumes "validate_schema m (SModule nm fs) = Ok ()"
  shows "set (map fst fs) = set (struct_fields m nm)"
    and "(k, s) \<in> set fs \<Longrightarrow> validate_schema m s = Ok ()"
proof -
  from assms obtain us where us: "collect (map (\<lambda>(k, s). validate_schema m s) fs) = Ok us"
    and keys: "set (map fst fs) = set (struct_fields m nm)" by (auto split: if_splits)
  show "set (map fst fs) = set (struct_fields m nm)" by (rule keys)
  show "validate_schema m s = Ok ()" if "(k, s) \<in> set fs"
    using us that by (fastforce simp: collect_map_eq_Ok list_all2_conv_all_nth in_set_conv_nth)
qed

lemma validate_schema_wf: "validate_schema m s = Ok () \<Longrightarrow> keys_distinct s \<Longrightarrow> schema_wf s"
proof (induction s)
  case (SModule nm fs)
  have "schema_wf s" if "(k, s) \<in> set fs" for k s
    using SModule.IH [of "(k, s)" s] validate_fields(2) [OF SModule.prems(1) that] SModule.prems(2) that
    by (auto simp: list_all_iff)
  with SModule.prems(2) show ?case by (auto simp: list_all_iff)
qed (auto split: if_splits simp: no_clause_def)

text \<open>The compiler rejects a module whose enforced keys are not fields.\<close>

definition structs_ok :: "structs \<Rightarrow> bool" where
  "structs_ok m \<longleftrightarrow> (\<forall>nm. set (enforce_keys m nm) \<subseteq> set (struct_fields m nm))"

lemma struct_bang_fields:
  assumes "structs_ok m" and "set (map fst kvs) = set (struct_fields m nm)"
  shows "struct_bang m nm kvs = Ok (XStruct nm kvs)"
  using assms by (simp add: struct_bang_def structs_ok_def)

lemma struct_conforms:
  assumes "list_all2 (\<lambda>(k, s) (k', v). k' = k \<and> conforms s v) fs vs" and "distinct (map fst fs)"
  shows "map fst vs = map fst fs" and "conforms (SModule nm fs) (XStruct nm vs)"
proof -
  show keys: "map fst vs = map fst fs" using assms(1) by (induction rule: list_all2_induct) auto
  have "\<exists>w. map_of vs k = Some w \<and> conforms s w" if "(k, s) \<in> set fs" for k s
  proof -
    from that obtain i where i: "i < length fs" "fs ! i = (k, s)" by (auto simp: in_set_conv_nth)
    then have "i < length vs" "fst (vs ! i) = k \<and> conforms s (snd (vs ! i))"
      using assms(1) by (auto simp: list_all2_conv_all_nth case_prod_beta)
    moreover from this have "map_of vs k = Some (snd (vs ! i))"
      using assms(2) keys by (auto intro!: map_of_is_SomeI simp: in_set_conv_nth prod_eq_iff)
    ultimately show ?thesis by blast
  qed
  with keys show "conforms (SModule nm fs) (XStruct nm vs)"
    by (auto simp: conforms_iff list_all_iff simp del: conforms.simps)
qed

lemma default_conforms:
  assumes "structs_ok m"
  shows "validate_schema m s = Ok () \<Longrightarrow> keys_distinct s \<Longrightarrow> \<exists>v. default_value m s = Ok v \<and> conforms s v"
proof (induction s)
  case (SModule nm fs)
  let ?default = "\<lambda>(k, s). map_ok (\<lambda>v. (k, v)) (default_value m s)"
  have "\<exists>v. default_value m s = Ok v \<and> conforms s v" if "(k, s) \<in> set fs" for k s
    using SModule.IH [of "(k, s)" s] validate_fields(2) [OF SModule.prems(1) that] SModule.prems(2) that
    by (auto simp: list_all_iff)
  then have "\<forall>p \<in> set fs. \<exists>v. ?default p = Ok (fst p, v) \<and> conforms (snd p) v" by fastforce
  then obtain f where f: "\<forall>p \<in> set fs. ?default p = Ok (fst p, f p) \<and> conforms (snd p) (f p)" by metis
  let ?vs = "map (\<lambda>p. (fst p, f p)) fs"
  have "map ?default fs = map Ok ?vs" using f by simp
  then have collected: "collect (map ?default fs) = Ok ?vs" by (simp only: collect_eq_Ok)
  have "list_all2 (\<lambda>(k, s) (k', v). k' = k \<and> conforms s v) fs ?vs"
    using f by (simp add: list_all2_map2 list.rel_refl_strong case_prod_beta)
  note conf = struct_conforms(2) [OF this, where nm = nm]
  have "struct_bang m nm ?vs = Ok (XStruct nm ?vs)"
    using validate_fields(1) [OF SModule.prems(1)] by (intro struct_bang_fields [OF assms]) (simp add: image_comp)
  with collected conf SModule.prems(2) show ?case by (simp del: conforms.simps)
next
  case (SVector s n)
  then show ?case by (auto split: if_splits simp: no_clause_def list_all_length)
qed (auto split: if_splits simp: no_clause_def BitList_default_def BitVector_zero_def)

lemma map_of_schemas:
  "distinct (map fst fs) \<Longrightarrow> (k, s) \<in> set fs \<Longrightarrow>
     map_of (map (\<lambda>(k, s). (k, f s)) fs) k = Some (f s)"
  by (induction fs) (auto simp: rev_image_eqI split: if_splits)

lemma fixed_size_pos: "schema_wf s \<Longrightarrow> \<not> variable_size s \<Longrightarrow> 0 < get_fixed_size s"
proof (induction s)
  case (SModule nm fs)
  then obtain k s where ks: "(k, s) \<in> set fs" by (cases fs) auto
  with SModule.prems have "schema_wf s" "\<not> variable_size s"
    by (auto simp: list_all_iff list_ex_iff)
  then have "0 < get_fixed_size s" using ks by (intro SModule.IH [of "(k, s)" s]) simp_all
  moreover have "get_fixed_size s \<le> get_fixed_size (SModule nm fs)"
    using ks by (force intro!: member_le_sum_list)
  ultimately show ?case by linarith
qed auto

end
