(* ===== verification/Chain_Spec.thy ===== *)
theory Chain_Spec
  imports Ssz_Ex_Schema
begin

text \<open>
  \<open>lib/chain_spec\<close>: the constants of a network. A preset is read from one YAML file for each fork, and
  the network's own file is laid over it. The files are the association lists of their integer
  entries; the entries with a text or a hexadecimal value are not numbers and are left out.
\<close>

section \<open>Presets\<close>

type_synonym yaml = "(string \<times> int) list"

text \<open>The later forks override the earlier ones.\<close>

definition load_preset_from_dir :: "yaml list \<Rightarrow> (string \<rightharpoonup> int)" where
  "load_preset_from_dir files =
     (case map map_of files of [] \<Rightarrow> Map.empty | m # ms \<Rightarrow> fold (\<lambda>yaml preset. preset ++ yaml) ms m)"

definition mainnet_phase0 :: yaml where
  "mainnet_phase0 = [
     (''MAX_COMMITTEES_PER_SLOT'', 64),
     (''TARGET_COMMITTEE_SIZE'', 128),
     (''MAX_VALIDATORS_PER_COMMITTEE'', 2048),
     (''SHUFFLE_ROUND_COUNT'', 90),
     (''HYSTERESIS_QUOTIENT'', 4),
     (''HYSTERESIS_DOWNWARD_MULTIPLIER'', 1),
     (''HYSTERESIS_UPWARD_MULTIPLIER'', 5),
     (''MIN_DEPOSIT_AMOUNT'', 1000000000),
     (''MAX_EFFECTIVE_BALANCE'', 32000000000),
     (''EFFECTIVE_BALANCE_INCREMENT'', 1000000000),
     (''MIN_ATTESTATION_INCLUSION_DELAY'', 1),
     (''SLOTS_PER_EPOCH'', 32),
     (''MIN_SEED_LOOKAHEAD'', 1),
     (''MAX_SEED_LOOKAHEAD'', 4),
     (''EPOCHS_PER_ETH1_VOTING_PERIOD'', 64),
     (''SLOTS_PER_HISTORICAL_ROOT'', 8192),
     (''MIN_EPOCHS_TO_INACTIVITY_PENALTY'', 4),
     (''EPOCHS_PER_HISTORICAL_VECTOR'', 65536),
     (''EPOCHS_PER_SLASHINGS_VECTOR'', 8192),
     (''HISTORICAL_ROOTS_LIMIT'', 16777216),
     (''VALIDATOR_REGISTRY_LIMIT'', 1099511627776),
     (''BASE_REWARD_FACTOR'', 64),
     (''WHISTLEBLOWER_REWARD_QUOTIENT'', 512),
     (''PROPOSER_REWARD_QUOTIENT'', 8),
     (''INACTIVITY_PENALTY_QUOTIENT'', 67108864),
     (''MIN_SLASHING_PENALTY_QUOTIENT'', 128),
     (''PROPORTIONAL_SLASHING_MULTIPLIER'', 1),
     (''MAX_PROPOSER_SLASHINGS'', 16),
     (''MAX_ATTESTER_SLASHINGS'', 2),
     (''MAX_ATTESTATIONS'', 128),
     (''MAX_DEPOSITS'', 16),
     (''MAX_VOLUNTARY_EXITS'', 16)]"

definition mainnet_altair :: yaml where
  "mainnet_altair = [
     (''INACTIVITY_PENALTY_QUOTIENT_ALTAIR'', 50331648),
     (''MIN_SLASHING_PENALTY_QUOTIENT_ALTAIR'', 64),
     (''PROPORTIONAL_SLASHING_MULTIPLIER_ALTAIR'', 2),
     (''SYNC_COMMITTEE_SIZE'', 512),
     (''EPOCHS_PER_SYNC_COMMITTEE_PERIOD'', 256),
     (''MIN_SYNC_COMMITTEE_PARTICIPANTS'', 1),
     (''UPDATE_TIMEOUT'', 8192)]"

definition mainnet_bellatrix :: yaml where
  "mainnet_bellatrix = [
     (''INACTIVITY_PENALTY_QUOTIENT_BELLATRIX'', 16777216),
     (''MIN_SLASHING_PENALTY_QUOTIENT_BELLATRIX'', 32),
     (''PROPORTIONAL_SLASHING_MULTIPLIER_BELLATRIX'', 3),
     (''MAX_BYTES_PER_TRANSACTION'', 1073741824),
     (''MAX_TRANSACTIONS_PER_PAYLOAD'', 1048576),
     (''BYTES_PER_LOGS_BLOOM'', 256),
     (''MAX_EXTRA_DATA_BYTES'', 32)]"

definition mainnet_capella :: yaml where
  "mainnet_capella = [
     (''MAX_BLS_TO_EXECUTION_CHANGES'', 16),
     (''MAX_WITHDRAWALS_PER_PAYLOAD'', 16),
     (''MAX_VALIDATORS_PER_WITHDRAWALS_SWEEP'', 16384)]"

definition mainnet_deneb :: yaml where
  "mainnet_deneb = [
     (''FIELD_ELEMENTS_PER_BLOB'', 4096),
     (''MAX_BLOB_COMMITMENTS_PER_BLOCK'', 4096),
     (''MAX_BLOBS_PER_BLOCK'', 6),
     (''KZG_COMMITMENT_INCLUSION_PROOF_DEPTH'', 17)]"

definition mainnet_electra :: yaml where
  "mainnet_electra = [
     (''MIN_ACTIVATION_BALANCE'', 32000000000),
     (''MAX_EFFECTIVE_BALANCE_ELECTRA'', 2048000000000),
     (''PENDING_DEPOSITS_LIMIT'', 134217728),
     (''PENDING_PARTIAL_WITHDRAWALS_LIMIT'', 134217728),
     (''PENDING_CONSOLIDATIONS_LIMIT'', 262144),
     (''MIN_SLASHING_PENALTY_QUOTIENT_ELECTRA'', 4096),
     (''WHISTLEBLOWER_REWARD_QUOTIENT_ELECTRA'', 4096),
     (''MAX_ATTESTER_SLASHINGS_ELECTRA'', 1),
     (''MAX_ATTESTATIONS_ELECTRA'', 8),
     (''MAX_CONSOLIDATION_REQUESTS_PER_PAYLOAD'', 2),
     (''MAX_DEPOSIT_REQUESTS_PER_PAYLOAD'', 8192),
     (''MAX_WITHDRAWAL_REQUESTS_PER_PAYLOAD'', 16),
     (''MAX_PENDING_PARTIALS_PER_WITHDRAWALS_SWEEP'', 8),
     (''MAX_PENDING_DEPOSITS_PER_EPOCH'', 16)]"

definition minimal_phase0 :: yaml where
  "minimal_phase0 = [
     (''MAX_COMMITTEES_PER_SLOT'', 4),
     (''TARGET_COMMITTEE_SIZE'', 4),
     (''MAX_VALIDATORS_PER_COMMITTEE'', 2048),
     (''SHUFFLE_ROUND_COUNT'', 10),
     (''HYSTERESIS_QUOTIENT'', 4),
     (''HYSTERESIS_DOWNWARD_MULTIPLIER'', 1),
     (''HYSTERESIS_UPWARD_MULTIPLIER'', 5),
     (''MIN_DEPOSIT_AMOUNT'', 1000000000),
     (''MAX_EFFECTIVE_BALANCE'', 32000000000),
     (''EFFECTIVE_BALANCE_INCREMENT'', 1000000000),
     (''MIN_ATTESTATION_INCLUSION_DELAY'', 1),
     (''SLOTS_PER_EPOCH'', 8),
     (''MIN_SEED_LOOKAHEAD'', 1),
     (''MAX_SEED_LOOKAHEAD'', 4),
     (''EPOCHS_PER_ETH1_VOTING_PERIOD'', 4),
     (''SLOTS_PER_HISTORICAL_ROOT'', 64),
     (''MIN_EPOCHS_TO_INACTIVITY_PENALTY'', 4),
     (''EPOCHS_PER_HISTORICAL_VECTOR'', 64),
     (''EPOCHS_PER_SLASHINGS_VECTOR'', 64),
     (''HISTORICAL_ROOTS_LIMIT'', 16777216),
     (''VALIDATOR_REGISTRY_LIMIT'', 1099511627776),
     (''BASE_REWARD_FACTOR'', 64),
     (''WHISTLEBLOWER_REWARD_QUOTIENT'', 512),
     (''PROPOSER_REWARD_QUOTIENT'', 8),
     (''INACTIVITY_PENALTY_QUOTIENT'', 33554432),
     (''MIN_SLASHING_PENALTY_QUOTIENT'', 64),
     (''PROPORTIONAL_SLASHING_MULTIPLIER'', 2),
     (''MAX_PROPOSER_SLASHINGS'', 16),
     (''MAX_ATTESTER_SLASHINGS'', 2),
     (''MAX_ATTESTATIONS'', 128),
     (''MAX_DEPOSITS'', 16),
     (''MAX_VOLUNTARY_EXITS'', 16)]"

definition minimal_altair :: yaml where
  "minimal_altair = [
     (''INACTIVITY_PENALTY_QUOTIENT_ALTAIR'', 50331648),
     (''MIN_SLASHING_PENALTY_QUOTIENT_ALTAIR'', 64),
     (''PROPORTIONAL_SLASHING_MULTIPLIER_ALTAIR'', 2),
     (''SYNC_COMMITTEE_SIZE'', 32),
     (''EPOCHS_PER_SYNC_COMMITTEE_PERIOD'', 8),
     (''MIN_SYNC_COMMITTEE_PARTICIPANTS'', 1),
     (''UPDATE_TIMEOUT'', 64)]"

definition minimal_bellatrix :: yaml where
  "minimal_bellatrix = [
     (''INACTIVITY_PENALTY_QUOTIENT_BELLATRIX'', 16777216),
     (''MIN_SLASHING_PENALTY_QUOTIENT_BELLATRIX'', 32),
     (''PROPORTIONAL_SLASHING_MULTIPLIER_BELLATRIX'', 3),
     (''MAX_BYTES_PER_TRANSACTION'', 1073741824),
     (''MAX_TRANSACTIONS_PER_PAYLOAD'', 1048576),
     (''BYTES_PER_LOGS_BLOOM'', 256),
     (''MAX_EXTRA_DATA_BYTES'', 32)]"

definition minimal_capella :: yaml where
  "minimal_capella = [
     (''MAX_BLS_TO_EXECUTION_CHANGES'', 16),
     (''MAX_WITHDRAWALS_PER_PAYLOAD'', 4),
     (''MAX_VALIDATORS_PER_WITHDRAWALS_SWEEP'', 16)]"

definition minimal_deneb :: yaml where
  "minimal_deneb = [
     (''FIELD_ELEMENTS_PER_BLOB'', 4096),
     (''MAX_BLOB_COMMITMENTS_PER_BLOCK'', 32),
     (''KZG_COMMITMENT_INCLUSION_PROOF_DEPTH'', 10)]"

definition minimal_electra :: yaml where
  "minimal_electra = [
     (''MIN_ACTIVATION_BALANCE'', 32000000000),
     (''MAX_EFFECTIVE_BALANCE_ELECTRA'', 2048000000000),
     (''PENDING_DEPOSITS_LIMIT'', 134217728),
     (''PENDING_PARTIAL_WITHDRAWALS_LIMIT'', 64),
     (''PENDING_CONSOLIDATIONS_LIMIT'', 64),
     (''MIN_SLASHING_PENALTY_QUOTIENT_ELECTRA'', 4096),
     (''WHISTLEBLOWER_REWARD_QUOTIENT_ELECTRA'', 4096),
     (''MAX_ATTESTER_SLASHINGS_ELECTRA'', 1),
     (''MAX_ATTESTATIONS_ELECTRA'', 8),
     (''MAX_CONSOLIDATION_REQUESTS_PER_PAYLOAD'', 2),
     (''MAX_DEPOSIT_REQUESTS_PER_PAYLOAD'', 4),
     (''MAX_WITHDRAWAL_REQUESTS_PER_PAYLOAD'', 2),
     (''MAX_PENDING_PARTIALS_PER_WITHDRAWALS_SWEEP'', 2),
     (''MAX_PENDING_DEPOSITS_PER_EPOCH'', 16)]"

definition gnosis_phase0 :: yaml where
  "gnosis_phase0 = [
     (''MAX_COMMITTEES_PER_SLOT'', 64),
     (''TARGET_COMMITTEE_SIZE'', 128),
     (''MAX_VALIDATORS_PER_COMMITTEE'', 2048),
     (''SHUFFLE_ROUND_COUNT'', 90),
     (''HYSTERESIS_QUOTIENT'', 4),
     (''HYSTERESIS_DOWNWARD_MULTIPLIER'', 1),
     (''HYSTERESIS_UPWARD_MULTIPLIER'', 5),
     (''SAFE_SLOTS_TO_UPDATE_JUSTIFIED'', 8),
     (''MIN_DEPOSIT_AMOUNT'', 1000000000),
     (''MAX_EFFECTIVE_BALANCE'', 32000000000),
     (''EFFECTIVE_BALANCE_INCREMENT'', 1000000000),
     (''MIN_ATTESTATION_INCLUSION_DELAY'', 1),
     (''SLOTS_PER_EPOCH'', 16),
     (''MIN_SEED_LOOKAHEAD'', 1),
     (''MAX_SEED_LOOKAHEAD'', 4),
     (''EPOCHS_PER_ETH1_VOTING_PERIOD'', 64),
     (''SLOTS_PER_HISTORICAL_ROOT'', 8192),
     (''MIN_EPOCHS_TO_INACTIVITY_PENALTY'', 4),
     (''EPOCHS_PER_HISTORICAL_VECTOR'', 65536),
     (''EPOCHS_PER_SLASHINGS_VECTOR'', 8192),
     (''HISTORICAL_ROOTS_LIMIT'', 16777216),
     (''VALIDATOR_REGISTRY_LIMIT'', 1099511627776),
     (''BASE_REWARD_FACTOR'', 25),
     (''WHISTLEBLOWER_REWARD_QUOTIENT'', 512),
     (''PROPOSER_REWARD_QUOTIENT'', 8),
     (''INACTIVITY_PENALTY_QUOTIENT'', 67108864),
     (''MIN_SLASHING_PENALTY_QUOTIENT'', 128),
     (''PROPORTIONAL_SLASHING_MULTIPLIER'', 1),
     (''MAX_PROPOSER_SLASHINGS'', 16),
     (''MAX_ATTESTER_SLASHINGS'', 2),
     (''MAX_ATTESTATIONS'', 128),
     (''MAX_DEPOSITS'', 16),
     (''MAX_VOLUNTARY_EXITS'', 16)]"

definition gnosis_altair :: yaml where
  "gnosis_altair = [
     (''INACTIVITY_PENALTY_QUOTIENT_ALTAIR'', 50331648),
     (''MIN_SLASHING_PENALTY_QUOTIENT_ALTAIR'', 64),
     (''PROPORTIONAL_SLASHING_MULTIPLIER_ALTAIR'', 2),
     (''SYNC_COMMITTEE_SIZE'', 512),
     (''EPOCHS_PER_SYNC_COMMITTEE_PERIOD'', 512),
     (''MIN_SYNC_COMMITTEE_PARTICIPANTS'', 1)]"

definition gnosis_bellatrix :: yaml where
  "gnosis_bellatrix = [
     (''INACTIVITY_PENALTY_QUOTIENT_BELLATRIX'', 16777216),
     (''MIN_SLASHING_PENALTY_QUOTIENT_BELLATRIX'', 32),
     (''PROPORTIONAL_SLASHING_MULTIPLIER_BELLATRIX'', 3),
     (''MAX_BYTES_PER_TRANSACTION'', 1073741824),
     (''MAX_TRANSACTIONS_PER_PAYLOAD'', 1048576),
     (''BYTES_PER_LOGS_BLOOM'', 256),
     (''MAX_EXTRA_DATA_BYTES'', 32)]"

definition gnosis_capella :: yaml where
  "gnosis_capella = [
     (''MAX_BLS_TO_EXECUTION_CHANGES'', 16),
     (''MAX_WITHDRAWALS_PER_PAYLOAD'', 8),
     (''MAX_VALIDATORS_PER_WITHDRAWALS_SWEEP'', 8192)]"

definition gnosis_deneb :: yaml where
  "gnosis_deneb = [
     (''FIELD_ELEMENTS_PER_BLOB'', 4096),
     (''MAX_BLOB_COMMITMENTS_PER_BLOCK'', 4096),
     (''MAX_BLOBS_PER_BLOCK'', 6),
     (''KZG_COMMITMENT_INCLUSION_PROOF_DEPTH'', 17)]"

definition gnosis_electra :: yaml where
  "gnosis_electra = [
     (''MIN_ACTIVATION_BALANCE'', 32000000000),
     (''MAX_EFFECTIVE_BALANCE_ELECTRA'', 2048000000000),
     (''PENDING_DEPOSITS_LIMIT'', 134217728),
     (''PENDING_PARTIAL_WITHDRAWALS_LIMIT'', 134217728),
     (''PENDING_CONSOLIDATIONS_LIMIT'', 262144),
     (''MIN_SLASHING_PENALTY_QUOTIENT_ELECTRA'', 4096),
     (''WHISTLEBLOWER_REWARD_QUOTIENT_ELECTRA'', 4096),
     (''MAX_ATTESTER_SLASHINGS_ELECTRA'', 1),
     (''MAX_ATTESTATIONS_ELECTRA'', 8),
     (''MAX_CONSOLIDATION_REQUESTS_PER_PAYLOAD'', 2),
     (''MAX_DEPOSIT_REQUESTS_PER_PAYLOAD'', 8192),
     (''MAX_WITHDRAWAL_REQUESTS_PER_PAYLOAD'', 16),
     (''MAX_PENDING_PARTIALS_PER_WITHDRAWALS_SWEEP'', 8),
     (''MAX_PENDING_DEPOSITS_PER_EPOCH'', 16)]"

section \<open>Networks\<close>

definition mainnet_config :: yaml where
  "mainnet_config = [
     (''TERMINAL_TOTAL_DIFFICULTY'', 58750000000000000000000),
     (''TERMINAL_BLOCK_HASH_ACTIVATION_EPOCH'', 18446744073709551615),
     (''MIN_GENESIS_ACTIVE_VALIDATOR_COUNT'', 16384),
     (''MIN_GENESIS_TIME'', 1606824000),
     (''GENESIS_DELAY'', 604800),
     (''ALTAIR_FORK_EPOCH'', 74240),
     (''BELLATRIX_FORK_EPOCH'', 144896),
     (''CAPELLA_FORK_EPOCH'', 194048),
     (''DENEB_FORK_EPOCH'', 269568),
     (''ELECTRA_FORK_EPOCH'', 364032),
     (''SECONDS_PER_SLOT'', 12),
     (''SECONDS_PER_ETH1_BLOCK'', 14),
     (''MIN_VALIDATOR_WITHDRAWABILITY_DELAY'', 256),
     (''SHARD_COMMITTEE_PERIOD'', 256),
     (''ETH1_FOLLOW_DISTANCE'', 2048),
     (''INACTIVITY_SCORE_BIAS'', 4),
     (''INACTIVITY_SCORE_RECOVERY_RATE'', 16),
     (''EJECTION_BALANCE'', 16000000000),
     (''MIN_PER_EPOCH_CHURN_LIMIT'', 4),
     (''CHURN_LIMIT_QUOTIENT'', 65536),
     (''MAX_PER_EPOCH_ACTIVATION_CHURN_LIMIT'', 8),
     (''PROPOSER_SCORE_BOOST'', 40),
     (''REORG_HEAD_WEIGHT_THRESHOLD'', 20),
     (''REORG_PARENT_WEIGHT_THRESHOLD'', 160),
     (''REORG_MAX_EPOCHS_SINCE_FINALIZATION'', 2),
     (''DEPOSIT_CHAIN_ID'', 1),
     (''DEPOSIT_NETWORK_ID'', 1),
     (''MAX_PAYLOAD_SIZE'', 10485760),
     (''MAX_REQUEST_BLOCKS'', 1024),
     (''EPOCHS_PER_SUBNET_SUBSCRIPTION'', 256),
     (''MIN_EPOCHS_FOR_BLOCK_REQUESTS'', 33024),
     (''TTFB_TIMEOUT'', 5),
     (''RESP_TIMEOUT'', 10),
     (''ATTESTATION_PROPAGATION_SLOT_RANGE'', 32),
     (''MAXIMUM_GOSSIP_CLOCK_DISPARITY'', 500),
     (''SUBNETS_PER_NODE'', 2),
     (''ATTESTATION_SUBNET_COUNT'', 64),
     (''ATTESTATION_SUBNET_EXTRA_BITS'', 0),
     (''ATTESTATION_SUBNET_PREFIX_BITS'', 6),
     (''MAX_REQUEST_BLOCKS_DENEB'', 128),
     (''MAX_REQUEST_BLOB_SIDECARS'', 768),
     (''MIN_EPOCHS_FOR_BLOB_SIDECARS_REQUESTS'', 4096),
     (''BLOB_SIDECAR_SUBNET_COUNT'', 6),
     (''MIN_PER_EPOCH_CHURN_LIMIT_ELECTRA'', 128000000000),
     (''MAX_PER_EPOCH_ACTIVATION_EXIT_CHURN_LIMIT'', 256000000000),
     (''BLOB_SIDECAR_SUBNET_COUNT_ELECTRA'', 9),
     (''MAX_BLOBS_PER_BLOCK_ELECTRA'', 9),
     (''MAX_REQUEST_BLOB_SIDECARS_ELECTRA'', 1152)]"

definition sepolia_config :: yaml where
  "sepolia_config = [
     (''MIN_GENESIS_ACTIVE_VALIDATOR_COUNT'', 1300),
     (''MIN_GENESIS_TIME'', 1655647200),
     (''GENESIS_DELAY'', 86400),
     (''ALTAIR_FORK_EPOCH'', 50),
     (''BELLATRIX_FORK_EPOCH'', 100),
     (''TERMINAL_TOTAL_DIFFICULTY'', 17000000000000000),
     (''TERMINAL_BLOCK_HASH_ACTIVATION_EPOCH'', 18446744073709551615),
     (''CAPELLA_FORK_EPOCH'', 56832),
     (''DENEB_FORK_EPOCH'', 132608),
     (''ELECTRA_FORK_EPOCH'', 222464),
     (''SECONDS_PER_SLOT'', 12),
     (''SECONDS_PER_ETH1_BLOCK'', 14),
     (''MIN_VALIDATOR_WITHDRAWABILITY_DELAY'', 256),
     (''SHARD_COMMITTEE_PERIOD'', 256),
     (''ETH1_FOLLOW_DISTANCE'', 2048),
     (''INACTIVITY_SCORE_BIAS'', 4),
     (''INACTIVITY_SCORE_RECOVERY_RATE'', 16),
     (''EJECTION_BALANCE'', 16000000000),
     (''MIN_PER_EPOCH_CHURN_LIMIT'', 4),
     (''CHURN_LIMIT_QUOTIENT'', 65536),
     (''MAX_PER_EPOCH_ACTIVATION_CHURN_LIMIT'', 8),
     (''PROPOSER_SCORE_BOOST'', 40),
     (''REORG_HEAD_WEIGHT_THRESHOLD'', 20),
     (''REORG_PARENT_WEIGHT_THRESHOLD'', 160),
     (''REORG_MAX_EPOCHS_SINCE_FINALIZATION'', 2),
     (''DEPOSIT_CHAIN_ID'', 11155111),
     (''DEPOSIT_NETWORK_ID'', 11155111),
     (''MAX_PAYLOAD_SIZE'', 10485760),
     (''MAX_REQUEST_BLOCKS'', 1024),
     (''EPOCHS_PER_SUBNET_SUBSCRIPTION'', 256),
     (''MIN_EPOCHS_FOR_BLOCK_REQUESTS'', 33024),
     (''TTFB_TIMEOUT'', 5),
     (''RESP_TIMEOUT'', 10),
     (''ATTESTATION_PROPAGATION_SLOT_RANGE'', 32),
     (''MAXIMUM_GOSSIP_CLOCK_DISPARITY'', 500),
     (''SUBNETS_PER_NODE'', 2),
     (''ATTESTATION_SUBNET_COUNT'', 64),
     (''ATTESTATION_SUBNET_EXTRA_BITS'', 0),
     (''ATTESTATION_SUBNET_PREFIX_BITS'', 6),
     (''MAX_REQUEST_BLOCKS_DENEB'', 128),
     (''MAX_REQUEST_BLOB_SIDECARS'', 768),
     (''MIN_EPOCHS_FOR_BLOB_SIDECARS_REQUESTS'', 4096),
     (''BLOB_SIDECAR_SUBNET_COUNT'', 6),
     (''MAX_BLOBS_PER_BLOCK'', 6),
     (''MIN_PER_EPOCH_CHURN_LIMIT_ELECTRA'', 128000000000),
     (''MAX_PER_EPOCH_ACTIVATION_EXIT_CHURN_LIMIT'', 256000000000),
     (''BLOB_SIDECAR_SUBNET_COUNT_ELECTRA'', 9),
     (''MAX_BLOBS_PER_BLOCK_ELECTRA'', 9),
     (''MAX_REQUEST_BLOB_SIDECARS_ELECTRA'', 1152)]"

definition holesky_config :: yaml where
  "holesky_config = [
     (''MIN_GENESIS_ACTIVE_VALIDATOR_COUNT'', 16384),
     (''MIN_GENESIS_TIME'', 1695902100),
     (''GENESIS_DELAY'', 300),
     (''ALTAIR_FORK_EPOCH'', 0),
     (''BELLATRIX_FORK_EPOCH'', 0),
     (''TERMINAL_TOTAL_DIFFICULTY'', 0),
     (''TERMINAL_BLOCK_HASH_ACTIVATION_EPOCH'', 18446744073709551615),
     (''CAPELLA_FORK_EPOCH'', 256),
     (''DENEB_FORK_EPOCH'', 29696),
     (''ELECTRA_FORK_EPOCH'', 115968),
     (''SECONDS_PER_SLOT'', 12),
     (''SECONDS_PER_ETH1_BLOCK'', 14),
     (''MIN_VALIDATOR_WITHDRAWABILITY_DELAY'', 256),
     (''SHARD_COMMITTEE_PERIOD'', 256),
     (''ETH1_FOLLOW_DISTANCE'', 2048),
     (''INACTIVITY_SCORE_BIAS'', 4),
     (''INACTIVITY_SCORE_RECOVERY_RATE'', 16),
     (''EJECTION_BALANCE'', 28000000000),
     (''MIN_PER_EPOCH_CHURN_LIMIT'', 4),
     (''CHURN_LIMIT_QUOTIENT'', 65536),
     (''MAX_PER_EPOCH_ACTIVATION_CHURN_LIMIT'', 8),
     (''PROPOSER_SCORE_BOOST'', 40),
     (''REORG_HEAD_WEIGHT_THRESHOLD'', 20),
     (''REORG_PARENT_WEIGHT_THRESHOLD'', 160),
     (''REORG_MAX_EPOCHS_SINCE_FINALIZATION'', 2),
     (''DEPOSIT_CHAIN_ID'', 17000),
     (''DEPOSIT_NETWORK_ID'', 17000),
     (''MAX_PAYLOAD_SIZE'', 10485760),
     (''MAX_REQUEST_BLOCKS'', 1024),
     (''EPOCHS_PER_SUBNET_SUBSCRIPTION'', 256),
     (''MIN_EPOCHS_FOR_BLOCK_REQUESTS'', 33024),
     (''TTFB_TIMEOUT'', 5),
     (''RESP_TIMEOUT'', 10),
     (''ATTESTATION_PROPAGATION_SLOT_RANGE'', 32),
     (''MAXIMUM_GOSSIP_CLOCK_DISPARITY'', 500),
     (''SUBNETS_PER_NODE'', 2),
     (''ATTESTATION_SUBNET_COUNT'', 64),
     (''ATTESTATION_SUBNET_EXTRA_BITS'', 0),
     (''ATTESTATION_SUBNET_PREFIX_BITS'', 6),
     (''MAX_REQUEST_BLOCKS_DENEB'', 128),
     (''MAX_REQUEST_BLOB_SIDECARS'', 768),
     (''MIN_EPOCHS_FOR_BLOB_SIDECARS_REQUESTS'', 4096),
     (''BLOB_SIDECAR_SUBNET_COUNT'', 6),
     (''MIN_PER_EPOCH_CHURN_LIMIT_ELECTRA'', 128000000000),
     (''MAX_PER_EPOCH_ACTIVATION_EXIT_CHURN_LIMIT'', 256000000000),
     (''BLOB_SIDECAR_SUBNET_COUNT_ELECTRA'', 9),
     (''MAX_BLOBS_PER_BLOCK_ELECTRA'', 9),
     (''MAX_REQUEST_BLOB_SIDECARS_ELECTRA'', 1152)]"

definition minimal_config :: yaml where
  "minimal_config = [
     (''TERMINAL_TOTAL_DIFFICULTY'', 115792089237316195423570985008687907853269984665640564039457584007913129638912),
     (''TERMINAL_BLOCK_HASH_ACTIVATION_EPOCH'', 18446744073709551615),
     (''MIN_GENESIS_ACTIVE_VALIDATOR_COUNT'', 64),
     (''MIN_GENESIS_TIME'', 1578009600),
     (''GENESIS_DELAY'', 300),
     (''ALTAIR_FORK_EPOCH'', 18446744073709551615),
     (''BELLATRIX_FORK_EPOCH'', 18446744073709551615),
     (''CAPELLA_FORK_EPOCH'', 18446744073709551615),
     (''DENEB_FORK_EPOCH'', 18446744073709551615),
     (''EIP6110_FORK_EPOCH'', 18446744073709551615),
     (''EIP7002_FORK_EPOCH'', 18446744073709551615),
     (''WHISK_FORK_EPOCH'', 18446744073709551615),
     (''SECONDS_PER_SLOT'', 6),
     (''SECONDS_PER_ETH1_BLOCK'', 14),
     (''MIN_VALIDATOR_WITHDRAWABILITY_DELAY'', 256),
     (''SHARD_COMMITTEE_PERIOD'', 64),
     (''ETH1_FOLLOW_DISTANCE'', 16),
     (''INACTIVITY_SCORE_BIAS'', 4),
     (''INACTIVITY_SCORE_RECOVERY_RATE'', 16),
     (''EJECTION_BALANCE'', 16000000000),
     (''MIN_PER_EPOCH_CHURN_LIMIT'', 2),
     (''CHURN_LIMIT_QUOTIENT'', 32),
     (''MAX_PER_EPOCH_ACTIVATION_CHURN_LIMIT'', 4),
     (''PROPOSER_SCORE_BOOST'', 40),
     (''REORG_HEAD_WEIGHT_THRESHOLD'', 20),
     (''REORG_PARENT_WEIGHT_THRESHOLD'', 160),
     (''REORG_MAX_EPOCHS_SINCE_FINALIZATION'', 2),
     (''DEPOSIT_CHAIN_ID'', 5),
     (''DEPOSIT_NETWORK_ID'', 5),
     (''GOSSIP_MAX_SIZE'', 10485760),
     (''MAX_REQUEST_BLOCKS'', 1024),
     (''EPOCHS_PER_SUBNET_SUBSCRIPTION'', 256),
     (''MIN_EPOCHS_FOR_BLOCK_REQUESTS'', 272),
     (''MAX_CHUNK_SIZE'', 10485760),
     (''TTFB_TIMEOUT'', 5),
     (''RESP_TIMEOUT'', 10),
     (''ATTESTATION_PROPAGATION_SLOT_RANGE'', 32),
     (''MAXIMUM_GOSSIP_CLOCK_DISPARITY'', 500),
     (''SUBNETS_PER_NODE'', 2),
     (''ATTESTATION_SUBNET_COUNT'', 64),
     (''ATTESTATION_SUBNET_EXTRA_BITS'', 0),
     (''ATTESTATION_SUBNET_PREFIX_BITS'', 6),
     (''MAX_REQUEST_BLOCKS_DENEB'', 128),
     (''MIN_EPOCHS_FOR_BLOB_SIDECARS_REQUESTS'', 4096),
     (''BLOB_SIDECAR_SUBNET_COUNT'', 6),
     (''MAX_BLOBS_PER_BLOCK'', 6),
     (''MAX_REQUEST_BLOB_SIDECARS'', 768),
     (''WHISK_EPOCHS_PER_SHUFFLING_PHASE'', 4),
     (''WHISK_PROPOSER_SELECTION_GAP'', 1),
     (''EIP7594_FORK_EPOCH'', 18446744073709551615),
     (''MIN_PER_EPOCH_CHURN_LIMIT_ELECTRA'', 64000000000),
     (''MAX_PER_EPOCH_ACTIVATION_EXIT_CHURN_LIMIT'', 128000000000),
     (''MAX_BLOBS_PER_BLOCK_ELECTRA'', 9)]"

definition gnosis_config :: yaml where
  "gnosis_config = [
     (''TERMINAL_TOTAL_DIFFICULTY'', 8626000000000000000000058750000000000000000000),
     (''TERMINAL_BLOCK_HASH_ACTIVATION_EPOCH'', 18446744073709551615),
     (''MIN_GENESIS_ACTIVE_VALIDATOR_COUNT'', 4096),
     (''MIN_GENESIS_TIME'', 1638968400),
     (''GENESIS_DELAY'', 6000),
     (''ALTAIR_FORK_EPOCH'', 512),
     (''BELLATRIX_FORK_EPOCH'', 385536),
     (''CAPELLA_FORK_EPOCH'', 648704),
     (''DENEB_FORK_EPOCH'', 889856),
     (''SECONDS_PER_SLOT'', 5),
     (''SECONDS_PER_ETH1_BLOCK'', 6),
     (''MIN_VALIDATOR_WITHDRAWABILITY_DELAY'', 256),
     (''SHARD_COMMITTEE_PERIOD'', 256),
     (''ETH1_FOLLOW_DISTANCE'', 1024),
     (''INACTIVITY_SCORE_BIAS'', 4),
     (''INACTIVITY_SCORE_RECOVERY_RATE'', 16),
     (''EJECTION_BALANCE'', 16000000000),
     (''MIN_PER_EPOCH_CHURN_LIMIT'', 4),
     (''CHURN_LIMIT_QUOTIENT'', 4096),
     (''MAX_PER_EPOCH_ACTIVATION_CHURN_LIMIT'', 2),
     (''PROPOSER_SCORE_BOOST'', 40),
     (''REORG_HEAD_WEIGHT_THRESHOLD'', 20),
     (''REORG_PARENT_WEIGHT_THRESHOLD'', 160),
     (''REORG_MAX_EPOCHS_SINCE_FINALIZATION'', 2),
     (''DEPOSIT_CHAIN_ID'', 100),
     (''DEPOSIT_NETWORK_ID'', 100),
     (''GOSSIP_MAX_SIZE'', 10485760),
     (''MAX_REQUEST_BLOCKS'', 1024),
     (''EPOCHS_PER_SUBNET_SUBSCRIPTION'', 256),
     (''MIN_EPOCHS_FOR_BLOCK_REQUESTS'', 33024),
     (''MAX_CHUNK_SIZE'', 10485760),
     (''TTFB_TIMEOUT'', 5),
     (''RESP_TIMEOUT'', 10),
     (''ATTESTATION_PROPAGATION_SLOT_RANGE'', 32),
     (''MAXIMUM_GOSSIP_CLOCK_DISPARITY'', 500),
     (''SUBNETS_PER_NODE'', 2),
     (''ATTESTATION_SUBNET_COUNT'', 64),
     (''ATTESTATION_SUBNET_EXTRA_BITS'', 0),
     (''ATTESTATION_SUBNET_PREFIX_BITS'', 6),
     (''MAX_REQUEST_BLOCKS_DENEB'', 128),
     (''MAX_REQUEST_BLOB_SIDECARS'', 768),
     (''MIN_EPOCHS_FOR_BLOB_SIDECARS_REQUESTS'', 16384),
     (''BLOB_SIDECAR_SUBNET_COUNT'', 6)]"

definition hoodi_config :: yaml where
  "hoodi_config = [
     (''MIN_GENESIS_ACTIVE_VALIDATOR_COUNT'', 16384),
     (''MIN_GENESIS_TIME'', 1742212800),
     (''GENESIS_DELAY'', 600),
     (''ALTAIR_FORK_EPOCH'', 0),
     (''BELLATRIX_FORK_EPOCH'', 0),
     (''TERMINAL_TOTAL_DIFFICULTY'', 0),
     (''TERMINAL_BLOCK_HASH_ACTIVATION_EPOCH'', 18446744073709551615),
     (''CAPELLA_FORK_EPOCH'', 0),
     (''DENEB_FORK_EPOCH'', 0),
     (''ELECTRA_FORK_EPOCH'', 2048),
     (''FULU_FORK_EPOCH'', 18446744073709551615),
     (''SECONDS_PER_SLOT'', 12),
     (''SECONDS_PER_ETH1_BLOCK'', 12),
     (''MIN_VALIDATOR_WITHDRAWABILITY_DELAY'', 256),
     (''SHARD_COMMITTEE_PERIOD'', 256),
     (''ETH1_FOLLOW_DISTANCE'', 2048),
     (''INACTIVITY_SCORE_BIAS'', 4),
     (''INACTIVITY_SCORE_RECOVERY_RATE'', 16),
     (''EJECTION_BALANCE'', 16000000000),
     (''MIN_PER_EPOCH_CHURN_LIMIT'', 4),
     (''CHURN_LIMIT_QUOTIENT'', 65536),
     (''MAX_PER_EPOCH_ACTIVATION_CHURN_LIMIT'', 8),
     (''PROPOSER_SCORE_BOOST'', 40),
     (''REORG_HEAD_WEIGHT_THRESHOLD'', 20),
     (''REORG_PARENT_WEIGHT_THRESHOLD'', 160),
     (''REORG_MAX_EPOCHS_SINCE_FINALIZATION'', 2),
     (''DEPOSIT_CHAIN_ID'', 560048),
     (''DEPOSIT_NETWORK_ID'', 560048),
     (''MAX_PAYLOAD_SIZE'', 10485760),
     (''MAX_REQUEST_BLOCKS'', 1024),
     (''EPOCHS_PER_SUBNET_SUBSCRIPTION'', 256),
     (''MIN_EPOCHS_FOR_BLOCK_REQUESTS'', 33024),
     (''TTFB_TIMEOUT'', 5),
     (''RESP_TIMEOUT'', 10),
     (''ATTESTATION_PROPAGATION_SLOT_RANGE'', 32),
     (''MAXIMUM_GOSSIP_CLOCK_DISPARITY'', 500),
     (''SUBNETS_PER_NODE'', 2),
     (''ATTESTATION_SUBNET_COUNT'', 64),
     (''ATTESTATION_SUBNET_EXTRA_BITS'', 0),
     (''ATTESTATION_SUBNET_PREFIX_BITS'', 6),
     (''MAX_REQUEST_BLOCKS_DENEB'', 128),
     (''MAX_REQUEST_BLOB_SIDECARS'', 768),
     (''MIN_EPOCHS_FOR_BLOB_SIDECARS_REQUESTS'', 4096),
     (''BLOB_SIDECAR_SUBNET_COUNT'', 6),
     (''MAX_BLOBS_PER_BLOCK'', 6),
     (''MIN_PER_EPOCH_CHURN_LIMIT_ELECTRA'', 128000000000),
     (''MAX_PER_EPOCH_ACTIVATION_EXIT_CHURN_LIMIT'', 256000000000),
     (''BLOB_SIDECAR_SUBNET_COUNT_ELECTRA'', 9),
     (''TARGET_BLOBS_PER_BLOCK_ELECTRA'', 6),
     (''MAX_BLOBS_PER_BLOCK_ELECTRA'', 9),
     (''MAX_REQUEST_BLOB_SIDECARS_ELECTRA'', 1152),
     (''WHISK_EPOCHS_PER_SHUFFLING_PHASE'', 256),
     (''WHISK_PROPOSER_SELECTION_GAP'', 2),
     (''NUMBER_OF_COLUMNS'', 128),
     (''NUMBER_OF_CUSTODY_GROUPS'', 128),
     (''DATA_COLUMN_SIDECAR_SUBNET_COUNT'', 128),
     (''MAX_REQUEST_DATA_COLUMN_SIDECARS'', 16384),
     (''SAMPLES_PER_SLOT'', 8),
     (''CUSTODY_REQUIREMENT'', 4),
     (''MAX_BLOBS_PER_BLOCK_FULU'', 12),
     (''MIN_EPOCHS_FOR_DATA_COLUMN_SIDECARS_REQUESTS'', 4096),
     (''MAX_REQUEST_PAYLOADS'', 128)]"

definition parse_preset :: "string \<Rightarrow> (string \<rightharpoonup> int) ex" where
  "parse_preset name =
     (if name = ''mainnet'' then Ok (load_preset_from_dir [mainnet_phase0, mainnet_altair, mainnet_bellatrix,
        mainnet_capella, mainnet_deneb, mainnet_electra])
      else if name = ''minimal'' then Ok (load_preset_from_dir [minimal_phase0, minimal_altair, minimal_bellatrix,
        minimal_capella, minimal_deneb, minimal_electra])
      else if name = ''gnosis'' then Ok (load_preset_from_dir [gnosis_phase0, gnosis_altair, gnosis_bellatrix,
        gnosis_capella, gnosis_deneb, gnosis_electra])
      else Panic ''Unknown preset'')"

text \<open>A configuration: its \<open>PRESET_BASE\<close> and its integer entries.\<close>

type_synonym network = "string \<times> yaml"

definition parse_config :: "string \<Rightarrow> network option" where
  "parse_config name = map_of [
     (''mainnet'', ''mainnet'', mainnet_config),
     (''sepolia'', ''mainnet'', sepolia_config),
     (''holesky'', ''mainnet'', holesky_config),
     (''minimal'', ''minimal'', minimal_config),
     (''gnosis'', ''gnosis'', gnosis_config),
     (''hoodi'', ''mainnet'', hoodi_config)] name"

text \<open>The configuration module: its unified map, \<open>get\<close>, which raises for a missing key, and the preset.\<close>

definition unified :: "network \<Rightarrow> (string \<rightharpoonup> int) ex" where
  "unified config = and_then (parse_preset (fst config)) (\<lambda>preset. Ok (preset ++ map_of (snd config)))"

definition ChainSpec_get :: "network \<Rightarrow> string \<Rightarrow> int ex" where
  "ChainSpec_get config key =
     and_then (unified config) (\<lambda>unified.
     case unified key of Some n \<Rightarrow> Ok n | None \<Rightarrow> Panic ''KeyError'')"

definition get_preset :: "network \<Rightarrow> string" where
  "get_preset config = fst config"

section \<open>The constants that the containers use\<close>

type_synonym chain_spec = "string \<Rightarrow> nat"

definition spec_of :: "network \<Rightarrow> chain_spec" where
  "spec_of config key = (case ChainSpec_get config key of Ok n \<Rightarrow> nat n | _ \<Rightarrow> 0)"

text \<open>Their values, in each network.\<close>

lemma get_mainnet:
  "list_all (\<lambda>(k, v). ChainSpec_get (''mainnet'', mainnet_config) k = Ok v) [
     (''ATTESTATION_SUBNET_COUNT'', 64),
     (''BYTES_PER_LOGS_BLOOM'', 256),
     (''EPOCHS_PER_ETH1_VOTING_PERIOD'', 64),
     (''EPOCHS_PER_HISTORICAL_VECTOR'', 65536),
     (''EPOCHS_PER_SLASHINGS_VECTOR'', 8192),
     (''FIELD_ELEMENTS_PER_BLOB'', 4096),
     (''HISTORICAL_ROOTS_LIMIT'', 16777216),
     (''KZG_COMMITMENT_INCLUSION_PROOF_DEPTH'', 17),
     (''MAX_ATTESTATIONS_ELECTRA'', 8),
     (''MAX_ATTESTER_SLASHINGS_ELECTRA'', 1),
     (''MAX_BLOB_COMMITMENTS_PER_BLOCK'', 4096),
     (''MAX_BLS_TO_EXECUTION_CHANGES'', 16),
     (''MAX_BYTES_PER_TRANSACTION'', 1073741824),
     (''MAX_COMMITTEES_PER_SLOT'', 64),
     (''MAX_CONSOLIDATION_REQUESTS_PER_PAYLOAD'', 2),
     (''MAX_DEPOSITS'', 16),
     (''MAX_DEPOSIT_REQUESTS_PER_PAYLOAD'', 8192),
     (''MAX_EXTRA_DATA_BYTES'', 32),
     (''MAX_PROPOSER_SLASHINGS'', 16),
     (''MAX_TRANSACTIONS_PER_PAYLOAD'', 1048576),
     (''MAX_VALIDATORS_PER_COMMITTEE'', 2048),
     (''MAX_VOLUNTARY_EXITS'', 16),
     (''MAX_WITHDRAWALS_PER_PAYLOAD'', 16),
     (''MAX_WITHDRAWAL_REQUESTS_PER_PAYLOAD'', 16),
     (''PENDING_CONSOLIDATIONS_LIMIT'', 262144),
     (''PENDING_DEPOSITS_LIMIT'', 134217728),
     (''PENDING_PARTIAL_WITHDRAWALS_LIMIT'', 134217728),
     (''SLOTS_PER_EPOCH'', 32),
     (''SLOTS_PER_HISTORICAL_ROOT'', 8192),
     (''SYNC_COMMITTEE_SIZE'', 512),
     (''VALIDATOR_REGISTRY_LIMIT'', 1099511627776)]"
  by code_simp

lemma get_sepolia:
  "list_all (\<lambda>(k, v). ChainSpec_get (''mainnet'', sepolia_config) k = Ok v) [
     (''ATTESTATION_SUBNET_COUNT'', 64),
     (''BYTES_PER_LOGS_BLOOM'', 256),
     (''EPOCHS_PER_ETH1_VOTING_PERIOD'', 64),
     (''EPOCHS_PER_HISTORICAL_VECTOR'', 65536),
     (''EPOCHS_PER_SLASHINGS_VECTOR'', 8192),
     (''FIELD_ELEMENTS_PER_BLOB'', 4096),
     (''HISTORICAL_ROOTS_LIMIT'', 16777216),
     (''KZG_COMMITMENT_INCLUSION_PROOF_DEPTH'', 17),
     (''MAX_ATTESTATIONS_ELECTRA'', 8),
     (''MAX_ATTESTER_SLASHINGS_ELECTRA'', 1),
     (''MAX_BLOB_COMMITMENTS_PER_BLOCK'', 4096),
     (''MAX_BLS_TO_EXECUTION_CHANGES'', 16),
     (''MAX_BYTES_PER_TRANSACTION'', 1073741824),
     (''MAX_COMMITTEES_PER_SLOT'', 64),
     (''MAX_CONSOLIDATION_REQUESTS_PER_PAYLOAD'', 2),
     (''MAX_DEPOSITS'', 16),
     (''MAX_DEPOSIT_REQUESTS_PER_PAYLOAD'', 8192),
     (''MAX_EXTRA_DATA_BYTES'', 32),
     (''MAX_PROPOSER_SLASHINGS'', 16),
     (''MAX_TRANSACTIONS_PER_PAYLOAD'', 1048576),
     (''MAX_VALIDATORS_PER_COMMITTEE'', 2048),
     (''MAX_VOLUNTARY_EXITS'', 16),
     (''MAX_WITHDRAWALS_PER_PAYLOAD'', 16),
     (''MAX_WITHDRAWAL_REQUESTS_PER_PAYLOAD'', 16),
     (''PENDING_CONSOLIDATIONS_LIMIT'', 262144),
     (''PENDING_DEPOSITS_LIMIT'', 134217728),
     (''PENDING_PARTIAL_WITHDRAWALS_LIMIT'', 134217728),
     (''SLOTS_PER_EPOCH'', 32),
     (''SLOTS_PER_HISTORICAL_ROOT'', 8192),
     (''SYNC_COMMITTEE_SIZE'', 512),
     (''VALIDATOR_REGISTRY_LIMIT'', 1099511627776)]"
  by code_simp

lemma get_holesky:
  "list_all (\<lambda>(k, v). ChainSpec_get (''mainnet'', holesky_config) k = Ok v) [
     (''ATTESTATION_SUBNET_COUNT'', 64),
     (''BYTES_PER_LOGS_BLOOM'', 256),
     (''EPOCHS_PER_ETH1_VOTING_PERIOD'', 64),
     (''EPOCHS_PER_HISTORICAL_VECTOR'', 65536),
     (''EPOCHS_PER_SLASHINGS_VECTOR'', 8192),
     (''FIELD_ELEMENTS_PER_BLOB'', 4096),
     (''HISTORICAL_ROOTS_LIMIT'', 16777216),
     (''KZG_COMMITMENT_INCLUSION_PROOF_DEPTH'', 17),
     (''MAX_ATTESTATIONS_ELECTRA'', 8),
     (''MAX_ATTESTER_SLASHINGS_ELECTRA'', 1),
     (''MAX_BLOB_COMMITMENTS_PER_BLOCK'', 4096),
     (''MAX_BLS_TO_EXECUTION_CHANGES'', 16),
     (''MAX_BYTES_PER_TRANSACTION'', 1073741824),
     (''MAX_COMMITTEES_PER_SLOT'', 64),
     (''MAX_CONSOLIDATION_REQUESTS_PER_PAYLOAD'', 2),
     (''MAX_DEPOSITS'', 16),
     (''MAX_DEPOSIT_REQUESTS_PER_PAYLOAD'', 8192),
     (''MAX_EXTRA_DATA_BYTES'', 32),
     (''MAX_PROPOSER_SLASHINGS'', 16),
     (''MAX_TRANSACTIONS_PER_PAYLOAD'', 1048576),
     (''MAX_VALIDATORS_PER_COMMITTEE'', 2048),
     (''MAX_VOLUNTARY_EXITS'', 16),
     (''MAX_WITHDRAWALS_PER_PAYLOAD'', 16),
     (''MAX_WITHDRAWAL_REQUESTS_PER_PAYLOAD'', 16),
     (''PENDING_CONSOLIDATIONS_LIMIT'', 262144),
     (''PENDING_DEPOSITS_LIMIT'', 134217728),
     (''PENDING_PARTIAL_WITHDRAWALS_LIMIT'', 134217728),
     (''SLOTS_PER_EPOCH'', 32),
     (''SLOTS_PER_HISTORICAL_ROOT'', 8192),
     (''SYNC_COMMITTEE_SIZE'', 512),
     (''VALIDATOR_REGISTRY_LIMIT'', 1099511627776)]"
  by code_simp

lemma get_minimal:
  "list_all (\<lambda>(k, v). ChainSpec_get (''minimal'', minimal_config) k = Ok v) [
     (''ATTESTATION_SUBNET_COUNT'', 64),
     (''BYTES_PER_LOGS_BLOOM'', 256),
     (''EPOCHS_PER_ETH1_VOTING_PERIOD'', 4),
     (''EPOCHS_PER_HISTORICAL_VECTOR'', 64),
     (''EPOCHS_PER_SLASHINGS_VECTOR'', 64),
     (''FIELD_ELEMENTS_PER_BLOB'', 4096),
     (''HISTORICAL_ROOTS_LIMIT'', 16777216),
     (''KZG_COMMITMENT_INCLUSION_PROOF_DEPTH'', 10),
     (''MAX_ATTESTATIONS_ELECTRA'', 8),
     (''MAX_ATTESTER_SLASHINGS_ELECTRA'', 1),
     (''MAX_BLOB_COMMITMENTS_PER_BLOCK'', 32),
     (''MAX_BLS_TO_EXECUTION_CHANGES'', 16),
     (''MAX_BYTES_PER_TRANSACTION'', 1073741824),
     (''MAX_COMMITTEES_PER_SLOT'', 4),
     (''MAX_CONSOLIDATION_REQUESTS_PER_PAYLOAD'', 2),
     (''MAX_DEPOSITS'', 16),
     (''MAX_DEPOSIT_REQUESTS_PER_PAYLOAD'', 4),
     (''MAX_EXTRA_DATA_BYTES'', 32),
     (''MAX_PROPOSER_SLASHINGS'', 16),
     (''MAX_TRANSACTIONS_PER_PAYLOAD'', 1048576),
     (''MAX_VALIDATORS_PER_COMMITTEE'', 2048),
     (''MAX_VOLUNTARY_EXITS'', 16),
     (''MAX_WITHDRAWALS_PER_PAYLOAD'', 4),
     (''MAX_WITHDRAWAL_REQUESTS_PER_PAYLOAD'', 2),
     (''PENDING_CONSOLIDATIONS_LIMIT'', 64),
     (''PENDING_DEPOSITS_LIMIT'', 134217728),
     (''PENDING_PARTIAL_WITHDRAWALS_LIMIT'', 64),
     (''SLOTS_PER_EPOCH'', 8),
     (''SLOTS_PER_HISTORICAL_ROOT'', 64),
     (''SYNC_COMMITTEE_SIZE'', 32),
     (''VALIDATOR_REGISTRY_LIMIT'', 1099511627776)]"
  by code_simp

lemma get_gnosis:
  "list_all (\<lambda>(k, v). ChainSpec_get (''gnosis'', gnosis_config) k = Ok v) [
     (''ATTESTATION_SUBNET_COUNT'', 64),
     (''BYTES_PER_LOGS_BLOOM'', 256),
     (''EPOCHS_PER_ETH1_VOTING_PERIOD'', 64),
     (''EPOCHS_PER_HISTORICAL_VECTOR'', 65536),
     (''EPOCHS_PER_SLASHINGS_VECTOR'', 8192),
     (''FIELD_ELEMENTS_PER_BLOB'', 4096),
     (''HISTORICAL_ROOTS_LIMIT'', 16777216),
     (''KZG_COMMITMENT_INCLUSION_PROOF_DEPTH'', 17),
     (''MAX_ATTESTATIONS_ELECTRA'', 8),
     (''MAX_ATTESTER_SLASHINGS_ELECTRA'', 1),
     (''MAX_BLOB_COMMITMENTS_PER_BLOCK'', 4096),
     (''MAX_BLS_TO_EXECUTION_CHANGES'', 16),
     (''MAX_BYTES_PER_TRANSACTION'', 1073741824),
     (''MAX_COMMITTEES_PER_SLOT'', 64),
     (''MAX_CONSOLIDATION_REQUESTS_PER_PAYLOAD'', 2),
     (''MAX_DEPOSITS'', 16),
     (''MAX_DEPOSIT_REQUESTS_PER_PAYLOAD'', 8192),
     (''MAX_EXTRA_DATA_BYTES'', 32),
     (''MAX_PROPOSER_SLASHINGS'', 16),
     (''MAX_TRANSACTIONS_PER_PAYLOAD'', 1048576),
     (''MAX_VALIDATORS_PER_COMMITTEE'', 2048),
     (''MAX_VOLUNTARY_EXITS'', 16),
     (''MAX_WITHDRAWALS_PER_PAYLOAD'', 8),
     (''MAX_WITHDRAWAL_REQUESTS_PER_PAYLOAD'', 16),
     (''PENDING_CONSOLIDATIONS_LIMIT'', 262144),
     (''PENDING_DEPOSITS_LIMIT'', 134217728),
     (''PENDING_PARTIAL_WITHDRAWALS_LIMIT'', 134217728),
     (''SLOTS_PER_EPOCH'', 16),
     (''SLOTS_PER_HISTORICAL_ROOT'', 8192),
     (''SYNC_COMMITTEE_SIZE'', 512),
     (''VALIDATOR_REGISTRY_LIMIT'', 1099511627776)]"
  by code_simp

lemma get_hoodi:
  "list_all (\<lambda>(k, v). ChainSpec_get (''mainnet'', hoodi_config) k = Ok v) [
     (''ATTESTATION_SUBNET_COUNT'', 64),
     (''BYTES_PER_LOGS_BLOOM'', 256),
     (''EPOCHS_PER_ETH1_VOTING_PERIOD'', 64),
     (''EPOCHS_PER_HISTORICAL_VECTOR'', 65536),
     (''EPOCHS_PER_SLASHINGS_VECTOR'', 8192),
     (''FIELD_ELEMENTS_PER_BLOB'', 4096),
     (''HISTORICAL_ROOTS_LIMIT'', 16777216),
     (''KZG_COMMITMENT_INCLUSION_PROOF_DEPTH'', 17),
     (''MAX_ATTESTATIONS_ELECTRA'', 8),
     (''MAX_ATTESTER_SLASHINGS_ELECTRA'', 1),
     (''MAX_BLOB_COMMITMENTS_PER_BLOCK'', 4096),
     (''MAX_BLS_TO_EXECUTION_CHANGES'', 16),
     (''MAX_BYTES_PER_TRANSACTION'', 1073741824),
     (''MAX_COMMITTEES_PER_SLOT'', 64),
     (''MAX_CONSOLIDATION_REQUESTS_PER_PAYLOAD'', 2),
     (''MAX_DEPOSITS'', 16),
     (''MAX_DEPOSIT_REQUESTS_PER_PAYLOAD'', 8192),
     (''MAX_EXTRA_DATA_BYTES'', 32),
     (''MAX_PROPOSER_SLASHINGS'', 16),
     (''MAX_TRANSACTIONS_PER_PAYLOAD'', 1048576),
     (''MAX_VALIDATORS_PER_COMMITTEE'', 2048),
     (''MAX_VOLUNTARY_EXITS'', 16),
     (''MAX_WITHDRAWALS_PER_PAYLOAD'', 16),
     (''MAX_WITHDRAWAL_REQUESTS_PER_PAYLOAD'', 16),
     (''PENDING_CONSOLIDATIONS_LIMIT'', 262144),
     (''PENDING_DEPOSITS_LIMIT'', 134217728),
     (''PENDING_PARTIAL_WITHDRAWALS_LIMIT'', 134217728),
     (''SLOTS_PER_EPOCH'', 32),
     (''SLOTS_PER_HISTORICAL_ROOT'', 8192),
     (''SYNC_COMMITTEE_SIZE'', 512),
     (''VALIDATOR_REGISTRY_LIMIT'', 1099511627776)]"
  by code_simp


end
