(* ===== verification/Ssz_Spec.thy ===== *)
theory Ssz_Spec
  imports Ssz_Ex_Schema
begin

text \<open>
  The serialization that the SSZ specification defines, as a reference for the codecs: a sequence
  of elements is written as a fixed-size part, which holds the elements of fixed size and an offset
  of four bytes for each element of variable size, and the elements of variable size after it.
\<close>

section \<open>Sequences of parts\<close>

text \<open>A part is the encoding of an element, marked when the element has variable size.\<close>

type_synonym part = "bool \<times> bytes"

definition fixed_part_length :: "part list \<Rightarrow> nat" where
  "fixed_part_length ps = sum_list (map (\<lambda>(var, b). if var then 4 else length b) ps)"

definition offset_bytes :: "nat \<Rightarrow> bytes" where
  "offset_bytes off = le_bytes 4 (int off)"

fun fixed_bytes :: "nat \<Rightarrow> part list \<Rightarrow> bytes" where
  "fixed_bytes off [] = []"
| "fixed_bytes off ((var, b) # ps) =
     (if var then offset_bytes off @ fixed_bytes (off + length b) ps else b @ fixed_bytes off ps)"

definition variable_bytes :: "part list \<Rightarrow> bytes" where
  "variable_bytes ps = concat (map snd (filter fst ps))"

definition serialize_parts :: "part list \<Rightarrow> bytes" where
  "serialize_parts ps = fixed_bytes (fixed_part_length ps) ps @ variable_bytes ps"

lemma length_offset_bytes [simp]: "length (offset_bytes off) = 4"
  by (simp add: offset_bytes_def)

lemma le_nat_offset_bytes: "off < 2 ^ 32 \<Longrightarrow> le_nat (offset_bytes off) = off"
  using le_nat_le_bytes [of 4 "int off"] by (simp add: offset_bytes_def)

lemma fixed_part_length_simps [simp]:
  "fixed_part_length [] = 0"
  "fixed_part_length ((var, b) # ps) = (if var then 4 else length b) + fixed_part_length ps"
  by (simp_all add: fixed_part_length_def)

lemma fixed_part_length_append [simp]:
  "fixed_part_length (ps @ qs) = fixed_part_length ps + fixed_part_length qs"
  by (simp add: fixed_part_length_def)

lemma variable_bytes_simps [simp]:
  "variable_bytes [] = []"
  "variable_bytes ((var, b) # ps) = (if var then b else []) @ variable_bytes ps"
  by (simp_all add: variable_bytes_def)

lemma length_fixed_bytes [simp]: "length (fixed_bytes off ps) = fixed_part_length ps"
  by (induction off ps rule: fixed_bytes.induct) simp_all

lemma length_serialize_parts:
  "length (serialize_parts ps) = fixed_part_length ps + length (variable_bytes ps)"
  by (simp add: serialize_parts_def)

lemma serialize_fixed_parts:
  "\<not> var \<Longrightarrow> serialize_parts (map (\<lambda>v. (var, f v)) vs) = concat (map f vs)"
proof -
  assume "\<not> var"
  then have "fixed_bytes off (map (\<lambda>v. (var, f v)) vs) = concat (map f vs)" for off
    by (induction vs) simp_all
  moreover have "variable_bytes (map (\<lambda>v. (var, f v)) vs) = []"
    using \<open>\<not> var\<close> by (induction vs) simp_all
  ultimately show ?thesis by (simp add: serialize_parts_def)
qed

text \<open>Every part is contained in the whole.\<close>

lemma length_part_le: "(var, b) \<in> set ps \<Longrightarrow> length b \<le> length (serialize_parts ps)"
  unfolding length_serialize_parts by (induction ps) auto

section \<open>Serialization\<close>

text \<open>A schema has variable size when it is a kind of list or contains one.\<close>

fun dynamic :: "schema \<Rightarrow> bool" where
  "dynamic (SByteList n) = True"
| "dynamic (SBitlist n) = True"
| "dynamic (SList s n) = True"
| "dynamic (SVector s n) = dynamic s"
| "dynamic (SModule nm fs) = (\<exists>(k, s) \<in> set fs. dynamic s)"
| "dynamic _ = False"

text \<open>
  Bits are packed from the lowest bit of the first byte on; a bit list is followed by one more bit. The
  bit with index 0 is the last one of an Elixir bit string.
\<close>

fun serialize_bits :: "bool list \<Rightarrow> bytes" where
  "serialize_bits bits =
     (if bits = [] then [] else word_of_nat (horner_sum of_bool 2 (take 8 bits)) # serialize_bits (drop 8 bits))"

declare serialize_bits.simps [simp del]

fun serialize :: "schema \<Rightarrow> ex_val \<Rightarrow> bytes" where
  "serialize SBool v = (case v of XBool b \<Rightarrow> [if b then 1 else 0] | _ \<Rightarrow> [])"
| "serialize (SInt n) v = (case v of XInt i \<Rightarrow> le_bytes (n div 8) i | _ \<Rightarrow> [])"
| "serialize (SByteList n) v = (case v of XBin b \<Rightarrow> b | _ \<Rightarrow> [])"
| "serialize (SByteVector n) v = (case v of XBin b \<Rightarrow> b | _ \<Rightarrow> [])"
| "serialize (SList s n) v =
     (case v of XList vs \<Rightarrow> serialize_parts (map (\<lambda>w. (dynamic s, serialize s w)) vs) | _ \<Rightarrow> [])"
| "serialize (SVector s n) v =
     (case v of XList vs \<Rightarrow> serialize_parts (map (\<lambda>w. (dynamic s, serialize s w)) vs) | _ \<Rightarrow> [])"
| "serialize (SBitlist n) v = (case v of XBits bs \<Rightarrow> serialize_bits (rev bs @ [True]) | _ \<Rightarrow> [])"
| "serialize (SBitvector n) v = (case v of XBits bs \<Rightarrow> serialize_bits (rev bs) | _ \<Rightarrow> [])"
| "serialize (SModule nm fs) v =
     (case v of
        XStruct nm' vs \<Rightarrow>
          serialize_parts (map (\<lambda>(k, s). (dynamic s, serialize s (the (map_of vs k)))) fs)
      | _ \<Rightarrow> [])"

text \<open>The bit fields of \<open>lib/lambda_ethereum_consensus/utils\<close> write the packed bits.\<close>

lemma horner_sum_less: "horner_sum of_bool 2 bits < (2 :: nat) ^ length bits"
  by (induction bits) auto

lemma unat_horner_sum: "length bits \<le> 8 \<Longrightarrow> unat (word_of_nat (horner_sum of_bool 2 bits) :: byte) = horner_sum of_bool 2 bits"
proof -
  assume "length bits \<le> 8"
  then have "(2 :: nat) ^ length bits \<le> 2 ^ 8" by (intro power_increasing) simp_all
  with horner_sum_less [of bits] show ?thesis by (simp add: unat_of_nat)
qed

lemma serialize_bits_number: "le_nat (serialize_bits bits) = horner_sum of_bool 2 bits"
proof (induction bits rule: serialize_bits.induct)
  case (1 bits)
  consider "bits = []" | "bits \<noteq> []" "length bits < 8" | "bits \<noteq> []" "8 \<le> length bits" by linarith
  then show ?case
  proof cases
    case 2
    then show ?thesis by (simp add: serialize_bits.simps [of bits] serialize_bits.simps [of "[]"] unat_horner_sum)
  next
    case 3
    have "horner_sum of_bool (2 :: nat) bits =
        horner_sum of_bool 2 (take 8 bits) + 256 * horner_sum of_bool 2 (drop 8 bits)"
      using horner_sum_append [of of_bool "2 :: nat" "take 8 bits" "drop 8 bits"] 3 by simp
    with 1 3 show ?thesis by (simp add: serialize_bits.simps [of bits] unat_horner_sum)
  qed (simp add: serialize_bits.simps [of "[]"])
qed

lemma length_serialize_bits: "length (serialize_bits bits) = (length bits + 7) div 8"
proof (induction bits rule: serialize_bits.induct)
  case (1 bits)
  consider "bits = []" | "bits \<noteq> []" "length bits < 8" | "bits \<noteq> []" "8 \<le> length bits" by linarith
  then show ?case
  proof cases
    case 2
    then have "(length bits + 7) div 8 = 1" by (cases bits) (simp_all add: le_div_geq)
    with 2 show ?thesis by (simp add: serialize_bits.simps [of bits] serialize_bits.simps [of "[]"])
  next
    case 3
    with 1 show ?thesis by (simp add: serialize_bits.simps [of bits] le_div_geq)
  qed (simp add: serialize_bits.simps [of "[]"])
qed

lemma bits_int_horner: "bits_int bs = horner_sum of_bool 2 (rev bs)"
  by (induction bs rule: rev_induct) simp_all

lemma serialize_bits_vector: "serialize_bits (rev bs) = BitVector_to_bytes bs"
  by (rule le_nat_inject) (simp_all add: serialize_bits_number length_serialize_bits BitVector_number bits_int_horner byte_size_def)

lemma serialize_bits_list: "serialize_bits (rev bs @ [True]) = BitList_to_bytes bs"
  by (rule le_nat_inject)
     (simp_all add: serialize_bits_number length_serialize_bits length_BitList_to_bytes BitList_number bits_int_horner horner_sum_append)

lemma dynamic_eq: "dynamic s = variable_size s"
proof (induction s)
  case (SModule nm fs)
  then have "dynamic s = variable_size s" if "(k, s) \<in> set fs" for k s using that by fastforce
  then show ?case by (fastforce simp: list_ex_iff)
qed simp_all

declare serialize.simps [simp del]

lemma serialize_simps [simp]:
  "serialize SBool v = (case v of XBool b \<Rightarrow> [if b then 1 else 0] | _ \<Rightarrow> [])"
  "serialize (SInt n) v = (case v of XInt i \<Rightarrow> le_bytes (n div 8) i | _ \<Rightarrow> [])"
  "serialize (SByteList n) v = (case v of XBin b \<Rightarrow> b | _ \<Rightarrow> [])"
  "serialize (SByteVector n) v = (case v of XBin b \<Rightarrow> b | _ \<Rightarrow> [])"
  "serialize (SList s n) v =
     (case v of XList vs \<Rightarrow> serialize_parts (map (\<lambda>w. (variable_size s, serialize s w)) vs) | _ \<Rightarrow> [])"
  "serialize (SVector s n) v =
     (case v of XList vs \<Rightarrow> serialize_parts (map (\<lambda>w. (variable_size s, serialize s w)) vs) | _ \<Rightarrow> [])"
  "serialize (SBitlist n) v = (case v of XBits bs \<Rightarrow> BitList_to_bytes bs | _ \<Rightarrow> [])"
  "serialize (SBitvector n) v = (case v of XBits bs \<Rightarrow> BitVector_to_bytes bs | _ \<Rightarrow> [])"
  "serialize (SModule nm fs) v =
     (case v of
        XStruct nm' vs \<Rightarrow>
          serialize_parts (map (\<lambda>(k, s). (variable_size s, serialize s (the (map_of vs k)))) fs)
      | _ \<Rightarrow> [])"
  by (cases v; simp add: serialize.simps dynamic_eq serialize_bits_vector serialize_bits_list)+

text \<open>The parts of a container.\<close>

definition field_parts :: "(string \<times> schema) list \<Rightarrow> (string \<times> ex_val) list \<Rightarrow> part list" where
  "field_parts fs vs = map (\<lambda>(k, s). (variable_size s, serialize s (the (map_of vs k)))) fs"

lemma field_parts_simps [simp]:
  "field_parts [] vs = []"
  "field_parts ((k, s) # fs) vs =
     (variable_size s, serialize s (the (map_of vs k))) # field_parts fs vs"
  by (simp_all add: field_parts_def)

lemma serialize_module:
  "serialize (SModule nm fs) (XStruct nm' vs) = serialize_parts (field_parts fs vs)"
  by (simp add: field_parts_def)

text \<open>A value of a schema of fixed size is serialized to that size.\<close>

lemma fixed_parts_length:
  assumes "\<And>k s. (k, s) \<in> set fs \<Longrightarrow> \<not> variable_size s"
    and "\<And>k s. (k, s) \<in> set fs \<Longrightarrow> length (serialize s (the (map_of vs k))) = get_fixed_size s"
  shows "length (serialize_parts (field_parts fs vs)) = sum_list (map (\<lambda>(k, s). get_fixed_size s) fs)"
proof -
  have "fixed_part_length (field_parts fs vs) = sum_list (map (\<lambda>(k, s). get_fixed_size s) fs)"
    using assms by (induction fs) fastforce+
  moreover have "variable_bytes (field_parts fs vs) = []"
    using assms(1) by (induction fs) fastforce+
  ultimately show ?thesis by (simp add: length_serialize_parts)
qed

lemma conforms_field:
  assumes "conforms (SModule nm fs) (XStruct nm' vs)" and "(k, s) \<in> set fs"
  shows "\<exists>w. map_of vs k = Some w \<and> conforms s w"
  using assms by (auto simp: conforms_iff list_all_iff simp del: conforms.simps)

lemma length_serialize_fixed:
  "schema_wf s \<Longrightarrow> conforms s v \<Longrightarrow> \<not> variable_size s \<Longrightarrow> length (serialize s v) = get_fixed_size s"
proof (induction s arbitrary: v)
  case (SVector s n)
  then obtain vs where vs: "v = XList vs" "length vs = n" "list_all (conforms s) vs"
    by (auto simp: conforms_iff simp del: conforms.simps)
  then have "map (\<lambda>w. length (serialize s w)) vs = replicate n (get_fixed_size s)"
    using SVector by (auto simp: list_all_iff map_replicate_const intro: nth_equalityI)
  with vs SVector.prems show ?case
    by (simp add: serialize_fixed_parts length_concat comp_def sum_list_replicate)
next
  case (SModule nm fs)
  then obtain vs where vs: "v = XStruct nm vs" by (auto simp: conforms_iff simp del: conforms.simps)
  have "\<not> variable_size s \<and> length (serialize s (the (map_of vs k))) = get_fixed_size s"
    if "(k, s) \<in> set fs" for k s
  proof
    show fixed: "\<not> variable_size s" using that SModule.prems(3) by (auto simp: list_ex_iff)
    from conforms_field [OF SModule.prems(2) [unfolded vs] that] obtain w
      where "map_of vs k = Some w" "conforms s w" by blast
    moreover have "schema_wf s" using that SModule.prems(1) by (auto simp: list_all_iff)
    ultimately show "length (serialize s (the (map_of vs k))) = get_fixed_size s"
      using that fixed SModule.IH [of "(k, s)" s] by simp
  qed
  with fixed_parts_length [of fs vs] show ?case by (simp add: vs serialize_module del: serialize_simps)
qed (auto simp: conforms_iff byte_size_def simp del: conforms.simps)

text \<open>A value of a schema that is not empty takes at least a byte, as a part of a sequence.\<close>

lemma part_pos:
  assumes "schema_wf s" and "conforms s v"
  shows "0 < (if variable_size s then 4 else length (serialize s v))"
  using assms length_serialize_fixed [OF assms] fixed_size_pos [OF assms(1)] by simp

lemma length_le_serialize:
  assumes "schema_wf s" and "list_all (conforms s) vs"
  shows "length vs \<le> length (serialize_parts (map (\<lambda>w. (variable_size s, serialize s w)) vs))"
proof -
  have "length vs \<le> fixed_part_length (map (\<lambda>w. (variable_size s, serialize s w)) vs)"
    using assms(2)
  proof (induction vs)
    case (Cons v vs)
    with part_pos [OF assms(1), of v] show ?case by auto
  qed simp
  then show ?thesis by (simp add: length_serialize_parts)
qed

end
