(* ===== verification/Ssz_Ex_Encode.thy ===== *)
theory Ssz_Ex_Encode
  imports Ssz_Spec
begin

text \<open>
  \<open>lib/ssz_ex/encode.ex\<close>, one definition per function. A function that encodes elements takes the
  encoder of the elements; the encoder of a container carries the encoder of each field. The lemmas
  show that \<open>encode\<close> computes the reference serialization of every value whose serialization is
  shorter than the range of the offsets.
\<close>

section \<open>Basic values\<close>

definition encode_int :: "nat \<Rightarrow> ex_val \<Rightarrow> bytes ex" where
  "encode_int n value = (case value of XInt i \<Rightarrow> Ok (le_bytes (n div 8) i) | _ \<Rightarrow> no_clause)"

definition encode_bool :: "ex_val \<Rightarrow> bytes ex" where
  "encode_bool value =
     (case value of XBool True \<Rightarrow> Ok [1] | XBool False \<Rightarrow> Ok [0] | _ \<Rightarrow> no_clause)"

text \<open>
  A value at a byte list or byte vector is returned as it is, whatever its length. One that is not a
  binary, which the code also returns and fails on where parts are joined, is \<open>Panic\<close>.
\<close>

definition encode_bytes :: "ex_val \<Rightarrow> bytes ex" where
  "encode_bytes value = (case value of XBin b \<Rightarrow> Ok b | _ \<Rightarrow> Panic ''not a binary'')"

definition encode_bitlist :: "bitstring \<Rightarrow> nat \<Rightarrow> bytes ex" where
  "encode_bitlist bit_list max_size =
     (let len = length bit_list
      in if len > max_size then Err (error_of (EncodeBitlistLength max_size len))
         else Ok (BitList_to_bytes bit_list))"

definition encode_bitvector :: "bitstring \<Rightarrow> nat \<Rightarrow> bytes ex" where
  "encode_bitvector bit_vector n =
     (if length bit_vector \<noteq> n then Err (error_of (EncodeBitvectorLength n (length bit_vector)))
      else Ok (BitVector_to_bytes bit_vector))"

text \<open>\<open>:binary.encode_unsigned\<close>: the bytes of a number, most significant first.\<close>

fun encode_unsigned :: "nat \<Rightarrow> bytes" where
  "encode_unsigned n =
     (if n < 256 then [word_of_nat n] else encode_unsigned (n div 256) @ [word_of_nat n])"

section \<open>Lists\<close>

definition check_length :: "nat \<Rightarrow> nat \<Rightarrow> unit ex" where
  "check_length fixed_lengths total_byte_size =
     (if fixed_lengths + total_byte_size < 2 ^ (4 * 8) then Ok ()
      else Err (error_of (EncodeSizeOutOfRange (fixed_lengths + total_byte_size))))"

definition encode_fixed_size_list ::
  "(ex_val \<Rightarrow> bytes ex) \<Rightarrow> schema \<Rightarrow> ex_val list \<Rightarrow> nat \<Rightarrow> bytes ex" where
  "encode_fixed_size_list enc inner_type list max_size =
     (let n = length list
      in if n > max_size then Err (error_of (EncodeListLength inner_type max_size n))
         else map_ok concat (flatten_results (map enc list)))"

fun encode_variable_parts_loop ::
  "(ex_val \<Rightarrow> bytes ex) \<Rightarrow> ex_val list \<Rightarrow> bytes list \<Rightarrow> nat list \<Rightarrow> nat \<Rightarrow>
     (bytes list \<times> nat list \<times> nat) ex" where
  "encode_variable_parts_loop enc [] res_encoded res_size acc = Ok (res_encoded, res_size, acc)"
| "encode_variable_parts_loop enc (value # values) res_encoded res_size acc =
     and_then (enc value) (\<lambda>encoded.
     let n = length encoded
     in encode_variable_parts_loop enc values (encoded # res_encoded) (n # res_size) (n + acc))"

definition encode_variable_parts ::
  "(ex_val \<Rightarrow> bytes ex) \<Rightarrow> ex_val list \<Rightarrow> (bytes list \<times> nat list \<times> nat) ex" where
  "encode_variable_parts enc list =
     and_then (encode_variable_parts_loop enc list [] [] 0)
       (\<lambda>(encoded_list, byte_size_list, total_byte_size).
          Ok (rev encoded_list, rev byte_size_list, total_byte_size))"

definition encode_variable_size_list ::
  "(ex_val \<Rightarrow> bytes ex) \<Rightarrow> schema \<Rightarrow> ex_val list \<Rightarrow> nat \<Rightarrow> bytes ex" where
  "encode_variable_size_list enc inner_type list max_size =
     (let n = length list
      in if n > max_size then Err (error_of (EncodeListLength inner_type max_size n))
         else
           let fixed_lengths = 4 * length list
           in and_then (encode_variable_parts enc list)
                (\<lambda>(encoded_variable_parts, variable_offsets_list, total_byte_size).
              and_then (check_length fixed_lengths total_byte_size) (\<lambda>_.
              let (variable_offsets, _) =
                    foldl (\<lambda>(res, acc) element. ((fixed_lengths + acc) # res, element + acc))
                      ([], 0) variable_offsets_list
              in and_then
                   (flatten_results
                      (map (\<lambda>off. encode_int 32 (XInt (int off))) (rev variable_offsets)))
                   (\<lambda>encoded_variable_offsets.
                      Ok (concat (encoded_variable_offsets @ encoded_variable_parts))))))"

section \<open>Containers\<close>

text \<open>
  An element of the fixed-size part: a value with its key and its encoder, or the place of an
  offset.
\<close>

datatype fixed_value = Offset | Value ex_val string "ex_val \<Rightarrow> bytes ex"

fun analyze_schemas ::
  "(string \<times> ex_val) list \<Rightarrow> (string \<times> schema \<times> (ex_val \<Rightarrow> bytes ex)) list \<Rightarrow>
     fixed_value list \<times> nat \<times> fixed_value list \<Rightarrow>
     (fixed_value list \<times> nat \<times> fixed_value list) ex" where
  "analyze_schemas container [] acc = Ok acc"
| "analyze_schemas container ((key, schema, enc) # schemas)
     (acc_fixed_size_values, acc_fixed_length, acc_variable_values) =
     (case map_of container key of
        None \<Rightarrow> Panic ''KeyError''
      | Some value \<Rightarrow>
          analyze_schemas container schemas
            (if variable_size schema then
               (Offset # acc_fixed_size_values, 4 + acc_fixed_length,
                Value value key enc # acc_variable_values)
             else
               (Value value key enc # acc_fixed_size_values,
                acc_fixed_length + get_fixed_size schema, acc_variable_values)))"

definition encode_schemas :: "fixed_value list \<Rightarrow> bytes list ex" where
  "encode_schemas tuple_values =
     flatten_results
       (map (\<lambda>tv. case tv of Value value key enc \<Rightarrow> add_trace (enc value) key | Offset \<Rightarrow> no_clause)
          tuple_values)"

definition calculate_offsets :: "bytes list \<Rightarrow> nat \<Rightarrow> fixed_value list" where
  "calculate_offsets variable_parts fixed_length =
     fst (foldl (\<lambda>(res, acc) element.
                   (Value (XInt (int acc)) ''offset'' (encode_int 32) # res, length element + acc))
            ([], fixed_length) variable_parts)"

fun replace_offset :: "fixed_value list \<times> fixed_value list \<Rightarrow> fixed_value \<Rightarrow>
    fixed_value list \<times> fixed_value list" where
  "replace_offset (acc_fixed_list, offset # rest_offsets) Offset =
     (offset # acc_fixed_list, rest_offsets)"
| "replace_offset (acc_fixed_list, acc_offsets_list) element =
     (element # acc_fixed_list, acc_offsets_list)"

definition replace_offsets :: "fixed_value list \<Rightarrow> fixed_value list \<Rightarrow> fixed_value list" where
  "replace_offsets fixed_size_values offsets = fst (foldl replace_offset ([], offsets) fixed_size_values)"

definition encode_container ::
  "(string \<times> ex_val) list \<Rightarrow> (string \<times> schema \<times> (ex_val \<Rightarrow> bytes ex)) list \<Rightarrow> bytes ex" where
  "encode_container container schemas =
     and_then (analyze_schemas container schemas ([], 0, []))
       (\<lambda>(fixed_size_values, fixed_length, variable_values).
     and_then (encode_schemas (rev variable_values)) (\<lambda>variable_parts.
     let offsets = calculate_offsets variable_parts fixed_length;
         variable_length = foldl (\<lambda>acc part. length part + acc) 0 variable_parts
     in and_then (check_length fixed_length variable_length) (\<lambda>_.
        and_then (encode_schemas (replace_offsets fixed_size_values offsets)) (\<lambda>fixed_parts.
        Ok (concat (fixed_parts @ variable_parts))))))"

section \<open>Encoding a value\<close>

fun encode :: "schema \<Rightarrow> ex_val \<Rightarrow> bytes ex" where
  "encode (SInt n) value = encode_int n value"
| "encode SBool value = encode_bool value"
| "encode (SByteList n) value = encode_bytes value"
| "encode (SByteVector n) value = encode_bytes value"
| "encode (SList inner_type n) value =
     (case value of
        XList list \<Rightarrow>
          if variable_size inner_type
          then encode_variable_size_list (encode inner_type) inner_type list n
          else encode_fixed_size_list (encode inner_type) inner_type list n
      | _ \<Rightarrow> Panic ''Protocol.UndefinedError'')"
| "encode (SVector inner_type n) value =
     (case value of
        XList list \<Rightarrow>
          if variable_size inner_type
          then encode_variable_size_list (encode inner_type) inner_type list n
          else encode_fixed_size_list (encode inner_type) inner_type list n
      | _ \<Rightarrow> Panic ''Protocol.UndefinedError'')"
| "encode (SBitlist n) value =
     (case value of
        XBits b \<Rightarrow> encode_bitlist b n
      | XInt i \<Rightarrow>
          if i < 0 then Panic ''ArgumentError''
          else encode_bitlist (bits_of_bytes (encode_unsigned (nat i))) n
      | _ \<Rightarrow> no_clause)"
| "encode (SBitvector n) value =
     (case value of XBits b \<Rightarrow> encode_bitvector b n | _ \<Rightarrow> no_clause)"
| "encode (SModule nm fs) value =
     (case value of
        XStruct nm' vs \<Rightarrow> encode_container vs (map (\<lambda>(k, s). (k, s, encode s)) fs)
      | _ \<Rightarrow> no_clause)"

section \<open>Results that are right or too big\<close>

text \<open>
  The outcome of encoding a value whose serialization is \<open>b\<close>: the serialization, or the error that
  a part of it does not fit the offsets.
\<close>

definition too_big :: "nat \<Rightarrow> 'a ex \<Rightarrow> bool" where
  "too_big n r \<longleftrightarrow> (\<exists>m tr. r = Err (Error (EncodeSizeOutOfRange m) tr) \<and> 2 ^ 32 \<le> m \<and> m \<le> n)"

definition sized :: "bytes \<Rightarrow> bytes ex \<Rightarrow> bool" where
  "sized b r \<longleftrightarrow> r = Ok b \<or> too_big (length b) r"

lemma sized_Ok [simp]: "sized b (Ok b)"
  by (simp add: sized_def)

lemma too_big_mono: "too_big n r \<Longrightarrow> n \<le> n' \<Longrightarrow> too_big n' r"
  by (auto simp: too_big_def)

lemma too_big_Err [simp]: "too_big n (Err e :: 'a ex) \<longleftrightarrow> too_big n (Err e :: 'b ex)"
  by (simp add: too_big_def)

lemma too_big_and_then: "too_big n r \<Longrightarrow> too_big n (and_then r f)"
  by (auto simp: too_big_def)

lemma too_big_map_ok: "too_big n r \<Longrightarrow> too_big n (map_ok f r)"
  by (auto simp: too_big_def)

lemma sized_add_trace: "sized b r \<Longrightarrow> sized b (add_trace r k)"
  by (auto simp: sized_def too_big_def add_trace_def)

lemma sized_not_raised: "sized b r \<Longrightarrow> \<not> panics r \<and> \<not> is_section r"
  by (auto simp: sized_def too_big_def)

lemma collect_sized:
  assumes "list_all2 sized bs rs"
  shows "collect rs = Ok bs \<or> (\<exists>b \<in> set bs. too_big (length b) (collect rs))"
  using assms
proof (induction rule: list_all2_induct)
  case (Cons b bs r rs)
  from Cons.hyps(1) consider "r = Ok b" | "too_big (length b) r" by (auto simp: sized_def)
  then show ?case
  proof cases
    case 1
    with Cons.IH show ?thesis by (auto intro: too_big_map_ok)
  next
    case 2
    then show ?thesis by (auto intro: too_big_and_then)
  qed
qed simp

lemma flatten_results_collect:
  assumes "\<And>r. r \<in> set rs \<Longrightarrow> \<not> panics r \<and> \<not> is_section r"
  shows "flatten_results rs = collect rs"
proof -
  have "filter panics rs = []" "\<not> list_ex is_section rs"
    using assms by (auto simp: filter_empty_conv list_ex_iff)
  then show ?thesis by (simp add: flatten_results_def)
qed

lemma flatten_sized:
  assumes "list_all2 sized bs rs"
  shows "flatten_results rs = Ok bs \<or> (\<exists>b \<in> set bs. too_big (length b) (flatten_results rs))"
proof -
  have "\<not> panics r \<and> \<not> is_section r" if "r \<in> set rs" for r
    using assms that sized_not_raised
    by (metis in_set_conv_nth list_all2_conv_all_nth)
  then have "flatten_results rs = collect rs" by (rule flatten_results_collect)
  with collect_sized [OF assms] show ?thesis by simp
qed

lemma check_length_sized:
  "check_length a b = Ok () \<and> a + b < 2 ^ 32 \<or> too_big (a + b) (check_length a b)"
  by (auto simp: check_length_def error_of_def too_big_def)

section \<open>Lists\<close>

fun offsets_from :: "nat \<Rightarrow> nat list \<Rightarrow> nat list" where
  "offsets_from off [] = []"
| "offsets_from off (l # ls) = off # offsets_from (off + l) ls"

lemma encode_variable_parts_loop_collect:
  "encode_variable_parts_loop enc vs re rs acc =
     map_ok (\<lambda>bs. (rev bs @ re, rev (map length bs) @ rs, sum_list (map length bs) + acc))
       (collect (map enc vs))"
proof (induction vs arbitrary: re rs acc)
  case (Cons v vs)
  show ?case
  proof (cases "enc v")
    case (Ok b)
    with Cons show ?thesis by (cases "collect (map enc vs)") (simp_all add: Let_def algebra_simps)
  qed simp_all
qed simp

lemma encode_variable_parts_collect:
  "encode_variable_parts enc vs =
     map_ok (\<lambda>bs. (bs, map length bs, sum_list (map length bs))) (collect (map enc vs))"
  by (cases "collect (map enc vs)")
     (simp_all add: encode_variable_parts_def encode_variable_parts_loop_collect rev_map)

lemma foldl_offsets:
  "foldl (\<lambda>(res, acc) element. ((f + acc) # res, element + acc)) (res, acc) ls =
     (rev (offsets_from (f + acc) ls) @ res, acc + sum_list ls)"
  by (induction ls arbitrary: res acc) (simp_all add: algebra_simps)

lemma fixed_bytes_variable:
  "fixed_bytes off (map (Pair True) bs) = concat (map offset_bytes (offsets_from off (map length bs)))"
  by (induction bs arbitrary: off) simp_all

lemma variable_parts_simps:
  "fixed_part_length (map (Pair True) bs) = 4 * length bs"
  "variable_bytes (map (Pair True) bs) = concat bs"
  by (induction bs) simp_all

lemma encode_fixed_size_list_sized:
  assumes "length vs \<le> n" and "\<And>v. v \<in> set vs \<Longrightarrow> sized (f v) (enc v)"
  shows "sized (concat (map f vs)) (encode_fixed_size_list enc s vs n)"
proof -
  have "list_all2 sized (map f vs) (map enc vs)"
    using assms(2) by (simp add: list_all2_map1 list_all2_map2 list_all2_same)
  from flatten_sized [OF this]
  consider "flatten_results (map enc vs) = Ok (map f vs)"
    | b where "b \<in> set (map f vs)" "too_big (length b) (flatten_results (map enc vs))" by blast
  then show ?thesis
  proof cases
    case 1
    with assms(1) show ?thesis by (simp add: encode_fixed_size_list_def)
  next
    case 2
    then have "length b \<le> length (concat (map f vs))"
      by (auto simp: length_concat intro!: member_le_sum_list)
    with 2 assms(1) show ?thesis
      by (auto simp: encode_fixed_size_list_def sized_def intro: too_big_map_ok too_big_mono)
  qed
qed

lemma encode_variable_size_list_sized:
  assumes "length vs \<le> n" and "\<And>v. v \<in> set vs \<Longrightarrow> sized (f v) (enc v)"
  shows "sized (serialize_parts (map (\<lambda>v. (True, f v)) vs)) (encode_variable_size_list enc s vs n)"
proof -
  let ?bs = "map f vs" and ?F = "4 * length vs"
  have whole: "serialize_parts (map (\<lambda>v. (True, f v)) vs) =
      concat (map offset_bytes (offsets_from ?F (map length ?bs))) @ concat ?bs"
    using fixed_bytes_variable [of ?F ?bs] variable_parts_simps [of ?bs]
    by (simp add: serialize_parts_def comp_def)
  have offs: "map (\<lambda>off. encode_int 32 (XInt (int off))) os = map Ok (map offset_bytes os)" for os
    by (simp add: encode_int_def offset_bytes_def)
  have "list_all2 sized ?bs (map enc vs)"
    using assms(2) by (simp add: list_all2_map1 list_all2_map2 list_all2_same)
  from collect_sized [OF this]
  consider "collect (map enc vs) = Ok ?bs"
    | b where "b \<in> set ?bs" "too_big (length b) (collect (map enc vs))" by blast
  then show ?thesis
  proof cases
    case 1
    have len: "?F + sum_list (map length ?bs) = length (serialize_parts (map (\<lambda>v. (True, f v)) vs))"
      using variable_parts_simps [of ?bs] by (simp add: length_serialize_parts length_concat comp_def)
    from check_length_sized [of ?F "sum_list (map length ?bs)"] show ?thesis
    proof
      assume "check_length ?F (sum_list (map length ?bs)) = Ok () \<and> ?F + sum_list (map length ?bs) < 2 ^ 32"
      with 1 assms(1) have "encode_variable_size_list enc s vs n =
          Ok (concat (map offset_bytes (offsets_from ?F (map length ?bs))) @ concat ?bs)"
        by (simp add: encode_variable_size_list_def encode_variable_parts_collect foldl_offsets offs
            del: map_map)
      then show ?thesis by (simp add: whole)
    next
      assume "too_big (?F + sum_list (map length ?bs)) (check_length ?F (sum_list (map length ?bs)))"
      with 1 assms(1) have "too_big (?F + sum_list (map length ?bs)) (encode_variable_size_list enc s vs n)"
        by (simp add: encode_variable_size_list_def encode_variable_parts_collect Let_def
            too_big_and_then del: map_map)
      then show ?thesis unfolding len by (simp add: sized_def)
    qed
  next
    case 2
    then obtain v where "v \<in> set vs" "b = f v" by auto
    then have "length b \<le> length (serialize_parts (map (\<lambda>v. (True, f v)) vs))"
      by (intro length_part_le [of True]) auto
    moreover have "too_big (length b) (encode_variable_size_list enc s vs n)"
      using 2 assms(1)
      by (simp add: encode_variable_size_list_def encode_variable_parts_collect Let_def
          too_big_and_then too_big_map_ok)
    ultimately show ?thesis by (auto simp: sized_def intro: too_big_mono)
  qed
qed

section \<open>Containers\<close>

definition fixed_item :: "(string \<times> ex_val) list \<Rightarrow> string \<times> schema \<Rightarrow> fixed_value" where
  "fixed_item vs = (\<lambda>(k, s).
     if variable_size s then Offset else Value (the (map_of vs k)) k (encode s))"

definition variable_items :: "(string \<times> ex_val) list \<Rightarrow> (string \<times> schema) list \<Rightarrow> fixed_value list" where
  "variable_items vs fs =
     map (\<lambda>(k, s). Value (the (map_of vs k)) k (encode s)) (filter (\<lambda>(k, s). variable_size s) fs)"

lemma analyze_schemas_Ok:
  assumes "\<And>k s. (k, s) \<in> set fs \<Longrightarrow> \<exists>w. map_of vs k = Some w"
  shows "analyze_schemas vs (map (\<lambda>(k, s). (k, s, encode s)) fs) (fx, fl, va) =
    Ok (rev (map (fixed_item vs) fs) @ fx,
        fl + sum_list (map (\<lambda>(k, s). if variable_size s then 4 else get_fixed_size s) fs),
        rev (variable_items vs fs) @ va)"
  using assms
proof (induction fs arbitrary: fx fl va)
  case (Cons f fs)
  obtain k s where f: "f = (k, s)" by (cases f)
  with Cons.prems obtain w where "map_of vs k = Some w" by auto
  moreover have keys: "\<exists>w. map_of vs k = Some w" if "(k, s) \<in> set fs" for k s
    using Cons.prems [of k s] that by simp
  note Cons.IH [OF keys]
  ultimately show ?case by (simp add: f fixed_item_def variable_items_def)
qed (simp add: variable_items_def)

text \<open>The offsets, in the order of the fields, put in their places.\<close>

fun offset_values :: "nat \<Rightarrow> bytes list \<Rightarrow> fixed_value list" where
  "offset_values off [] = []"
| "offset_values off (b # bs) =
     Value (XInt (int off)) ''offset'' (encode_int 32) # offset_values (off + length b) bs"

fun fill :: "fixed_value list \<Rightarrow> fixed_value list \<Rightarrow> fixed_value list" where
  "fill [] os = []"
| "fill (Offset # xs) (off # os) = off # fill xs os"
| "fill (x # xs) os = x # fill xs os"

lemma calculate_offsets_eq: "calculate_offsets bs fl = rev (offset_values fl bs)"
proof -
  have "foldl (\<lambda>(res, acc) element.
      (Value (XInt (int acc)) ''offset'' (encode_int 32) # res, length element + acc)) (res, acc) bs =
    (rev (offset_values acc bs) @ res, acc + sum_list (map length bs))" for res acc
    by (induction bs arbitrary: res acc) (simp_all add: algebra_simps)
  then show ?thesis by (simp add: calculate_offsets_def)
qed

lemma replace_offset_simps:
  "replace_offset (acc, off # os) Offset = (off # acc, os)"
  "x \<noteq> Offset \<Longrightarrow> replace_offset (acc, os) x = (x # acc, os)"
  by (cases x; cases os; simp)+

lemma foldr_replace_offset:
  "length os = length (filter ((=) Offset) xs) \<Longrightarrow>
     foldr (\<lambda>x y. replace_offset y x) xs (acc, rev os @ rest) = (fill xs os @ acc, rest)"
proof (induction xs arbitrary: os rest)
  case (Cons x xs)
  show ?case
  proof (cases "x = Offset")
    case True
    with Cons.prems obtain off os' where os: "os = off # os'" by (cases os) auto
    with True Cons.prems have "foldr (\<lambda>x y. replace_offset y x) xs (acc, rev os' @ off # rest) =
        (fill xs os' @ acc, off # rest)"
      by (intro Cons.IH) simp
    with True os show ?thesis by (simp add: replace_offset_simps)
  next
    case False
    then have "fill (x # xs) os = x # fill xs os" by (cases x) auto
    with False Cons show ?thesis by (simp add: replace_offset_simps)
  qed
qed simp

lemma replace_offsets_eq:
  "length os = length (filter ((=) Offset) xs) \<Longrightarrow> replace_offsets (rev xs) (rev os) = fill xs os"
  using foldr_replace_offset [of os xs "[]" "[]"]
  by (simp add: replace_offsets_def foldl_conv_foldr)

lemma length_offset_values [simp]: "length (offset_values off bs) = length bs"
  by (induction bs arbitrary: off) simp_all

abbreviation encode_item :: "fixed_value \<Rightarrow> bytes ex" where
  "encode_item tv \<equiv> (case tv of Value value key enc \<Rightarrow> add_trace (enc value) key | Offset \<Rightarrow> no_clause)"

text \<open>The pieces of the fixed-size part of a container.\<close>

fun fixed_pieces :: "nat \<Rightarrow> part list \<Rightarrow> bytes list" where
  "fixed_pieces off [] = []"
| "fixed_pieces off ((var, b) # ps) =
     (if var then offset_bytes off # fixed_pieces (off + length b) ps else b # fixed_pieces off ps)"

lemma concat_fixed_pieces: "concat (fixed_pieces off ps) = fixed_bytes off ps"
  by (induction off ps rule: fixed_pieces.induct) simp_all

lemma encode_fixed_items_sized:
  assumes "\<And>k s. (k, s) \<in> set fs \<Longrightarrow>
      sized (serialize s (the (map_of vs k))) (encode s (the (map_of vs k)))"
  shows "list_all2 sized (fixed_pieces off (field_parts fs vs))
    (map encode_item (fill (map (fixed_item vs) fs)
      (offset_values off (map snd (filter fst (field_parts fs vs))))))"
  using assms
proof (induction fs arbitrary: off)
  case (Cons f fs)
  obtain k s where f: "f = (k, s)" by (cases f)
  have IH: "list_all2 sized (fixed_pieces off (field_parts fs vs))
    (map encode_item (fill (map (fixed_item vs) fs)
      (offset_values off (map snd (filter fst (field_parts fs vs))))))" for off
    using Cons.prems by (intro Cons.IH) simp
  have "sized (serialize s (the (map_of vs k))) (encode s (the (map_of vs k)))"
    using Cons.prems f by simp
  then show ?case
    using IH by (simp add: f fixed_item_def sized_add_trace encode_int_def offset_bytes_def)
qed simp

lemma encode_variable_items_sized:
  assumes "\<And>k s. (k, s) \<in> set fs \<Longrightarrow>
      sized (serialize s (the (map_of vs k))) (encode s (the (map_of vs k)))"
  shows "list_all2 sized (map snd (filter fst (field_parts fs vs))) (map encode_item (variable_items vs fs))"
  using assms
proof (induction fs)
  case (Cons f fs)
  obtain k s where f: "f = (k, s)" by (cases f)
  with Cons show ?case by (simp add: variable_items_def sized_add_trace)
qed (simp add: variable_items_def)

lemma foldl_lengths: "foldl (\<lambda>acc part. length part + acc) a bs = a + length (concat bs)"
  by (induction bs arbitrary: a) simp_all

lemma fixed_pieces_cases:
  "p \<in> set (fixed_pieces off ps) \<Longrightarrow> (\<exists>o'. p = offset_bytes o') \<or> (\<exists>var. (var, p) \<in> set ps)"
  by (induction off ps rule: fixed_pieces.induct) (auto split: if_splits)

lemma too_big_part:
  assumes "b \<in> set (map snd (filter fst ps)) \<or> b \<in> set (fixed_pieces off ps)"
    and "too_big (length b) r"
  shows "too_big (length (serialize_parts ps)) r"
proof -
  have "\<not> too_big 4 r'" for r' :: "'a ex" by (auto simp: too_big_def)
  then have "\<not> (\<exists>o'. b = offset_bytes o')" using assms(2) by (metis length_offset_bytes)
  with assms(1) fixed_pieces_cases [of b off ps] obtain var where "(var, b) \<in> set ps" by auto
  then have "length b \<le> length (serialize_parts ps)" by (rule length_part_le)
  with assms(2) show ?thesis by (rule too_big_mono)
qed

lemma encode_container_sized:
  assumes "\<And>k s. (k, s) \<in> set fs \<Longrightarrow> \<exists>w. map_of vs k = Some w"
    and "\<And>k s. (k, s) \<in> set fs \<Longrightarrow>
      sized (serialize s (the (map_of vs k))) (encode s (the (map_of vs k)))"
    and "\<And>k s. (k, s) \<in> set fs \<Longrightarrow> \<not> variable_size s \<Longrightarrow>
      length (serialize s (the (map_of vs k))) = get_fixed_size s"
  shows "sized (serialize_parts (field_parts fs vs))
    (encode_container vs (map (\<lambda>(k, s). (k, s, encode s)) fs))" (is "sized ?b ?r")
proof -
  let ?ps = "field_parts fs vs" and ?vbs = "map snd (filter fst (field_parts fs vs))"
  let ?F = "fixed_part_length ?ps"
  have F: "sum_list (map (\<lambda>(k, s). if variable_size s then 4 else get_fixed_size s) fs) = ?F"
    using assms(3) by (induction fs) fastforce+
  have offs: "length (offset_values ?F ?vbs) = length (filter ((=) Offset) (map (fixed_item vs) fs))"
    by (induction fs) (auto simp: fixed_item_def split: if_splits)
  have r: "?r = and_then (flatten_results (map encode_item (variable_items vs fs))) (\<lambda>bs.
      and_then (check_length ?F (length (concat bs))) (\<lambda>_.
      and_then (flatten_results (map encode_item
        (replace_offsets (rev (map (fixed_item vs) fs)) (calculate_offsets bs ?F)))) (\<lambda>fixed_parts.
      Ok (concat (fixed_parts @ bs)))))"
    using analyze_schemas_Ok [OF assms(1), where fx = "[]" and fl = 0 and va = "[]"]
    by (simp add: encode_container_def encode_schemas_def F foldl_lengths Let_def)
  from flatten_sized [OF encode_variable_items_sized [OF assms(2)]]
  consider "flatten_results (map encode_item (variable_items vs fs)) = Ok ?vbs"
    | b where "b \<in> set ?vbs" "too_big (length b) (flatten_results (map encode_item (variable_items vs fs)))"
    by blast
  then show ?thesis
  proof cases
    case 1
    have len: "?F + length (concat ?vbs) = length ?b"
      by (simp add: length_serialize_parts variable_bytes_def)
    note r = r [unfolded 1 and_then.simps calculate_offsets_eq replace_offsets_eq [OF offs]]
    from check_length_sized [of ?F "length (concat ?vbs)"] show ?thesis
    proof
      assume ok: "check_length ?F (length (concat ?vbs)) = Ok () \<and> ?F + length (concat ?vbs) < 2 ^ 32"
      from flatten_sized [OF encode_fixed_items_sized [OF assms(2), where off = ?F]]
      consider "flatten_results (map encode_item (fill (map (fixed_item vs) fs) (offset_values ?F ?vbs))) =
          Ok (fixed_pieces ?F ?ps)"
        | b where "b \<in> set (fixed_pieces ?F ?ps)" "too_big (length b)
          (flatten_results (map encode_item (fill (map (fixed_item vs) fs) (offset_values ?F ?vbs))))"
        by blast
      then show ?thesis
      proof cases
        case 1
        then have "?r = Ok (concat (fixed_pieces ?F ?ps) @ concat ?vbs)" by (simp add: r ok)
        then show ?thesis by (simp add: concat_fixed_pieces serialize_parts_def variable_bytes_def)
      next
        case 2
        then have "too_big (length ?b)
            (flatten_results (map encode_item (fill (map (fixed_item vs) fs) (offset_values ?F ?vbs))))"
          by (intro too_big_part) auto
        then show ?thesis by (simp add: r ok sized_def too_big_and_then)
      qed
    next
      assume "too_big (?F + length (concat ?vbs)) (check_length ?F (length (concat ?vbs)))"
      then have "too_big (length ?b) ?r" unfolding r len by (rule too_big_and_then)
      then show ?thesis by (simp add: sized_def)
    qed
  next
    case 2
    then have "too_big (length ?b) (flatten_results (map encode_item (variable_items vs fs)))"
      by (intro too_big_part [of b ?ps 0]) auto
    then show ?thesis by (simp add: r sized_def too_big_and_then)
  qed
qed

section \<open>Encoding computes the serialization\<close>

lemma encode_sized: "schema_wf s \<Longrightarrow> conforms s v \<Longrightarrow> sized (serialize s v) (encode s v)"
proof (induction s arbitrary: v)
  case (SList s n)
  then obtain vs where vs: "v = XList vs" "length vs \<le> n" "\<forall>w \<in> set vs. conforms s w"
    by (auto simp: conforms_iff list_all_iff simp del: conforms.simps)
  then have elems: "\<And>w. w \<in> set vs \<Longrightarrow> sized (serialize s w) (encode s w)" using SList by simp
  from encode_variable_size_list_sized [OF vs(2) elems] encode_fixed_size_list_sized [OF vs(2) elems]
  show ?case by (cases "variable_size s") (simp_all add: vs serialize_fixed_parts)
next
  case (SVector s n)
  then obtain vs where vs: "v = XList vs" "length vs \<le> n" "\<forall>w \<in> set vs. conforms s w"
    by (auto simp: conforms_iff list_all_iff simp del: conforms.simps)
  then have elems: "\<And>w. w \<in> set vs \<Longrightarrow> sized (serialize s w) (encode s w)" using SVector by simp
  from encode_variable_size_list_sized [OF vs(2) elems] encode_fixed_size_list_sized [OF vs(2) elems]
  show ?case by (cases "variable_size s") (simp_all add: vs serialize_fixed_parts)
next
  case (SModule nm fs)
  then obtain vs where v: "v = XStruct nm vs" by (auto simp: conforms_iff simp del: conforms.simps)
  have field: "schema_wf s \<and> (\<exists>w. map_of vs k = Some w \<and> conforms s w)" if "(k, s) \<in> set fs" for k s
    using that SModule.prems conforms_field [OF SModule.prems(2) [unfolded v] that]
    by (auto simp: list_all_iff)
  have "sized (serialize_parts (field_parts fs vs))
      (encode_container vs (map (\<lambda>(k, s). (k, s, encode s)) fs))"
  proof (rule encode_container_sized)
    fix k s assume ks: "(k, s) \<in> set fs"
    from field [OF this] obtain w where w: "map_of vs k = Some w" "conforms s w" "schema_wf s" by blast
    then show "\<exists>w. map_of vs k = Some w" by blast
    from w ks show "sized (serialize s (the (map_of vs k))) (encode s (the (map_of vs k)))"
      using SModule.IH [of "(k, s)" s] by simp
    from w show "length (serialize s (the (map_of vs k))) = get_fixed_size s" if "\<not> variable_size s"
      using length_serialize_fixed that by simp
  qed
  then show ?case by (simp add: v field_parts_def)
qed (auto simp: conforms_iff encode_int_def encode_bool_def encode_bytes_def encode_bitlist_def
      encode_bitvector_def Let_def split: bool.splits simp del: conforms.simps)

end
