(* ===== verification/Ssz_Ex_Decode.thy ===== *)
theory Ssz_Ex_Decode
  imports Ssz_Ex_Encode
begin

text \<open>
  \<open>lib/ssz_ex/decode.ex\<close>, one definition per function. A function that decodes elements takes the
  decoder of the elements. A failed match raises and is \<open>Panic\<close>; the results of the elements are
  collected first and flattened afterwards, as in the sources. The hook \<open>decode_ex\<close>, which changes
  the representation of the lists of a \<open>BeaconState\<close>, is left out. The loop over a collection of
  elements of fixed size runs on fuel, since it makes no progress when the size is zero; the length
  of the binary is enough fuel otherwise.
\<close>

type_synonym decoder = "bytes \<Rightarrow> ex_val ex"

section \<open>Basic values\<close>

definition decode_uint :: "bytes \<Rightarrow> nat \<Rightarrow> ex_val ex" where
  "decode_uint binary n =
     (if 8 * length binary \<noteq> n then Err (error_of (DecodeUintLength n (8 * length binary)))
      else Ok (XInt (int (le_nat binary))))"

definition decode_bool :: "bytes \<Rightarrow> ex_val ex" where
  "decode_bool binary =
     (if length binary \<noteq> 1 then Err (error_of (DecodeBoolLength (length binary)))
      else if binary = [1] then Ok (XBool True)
      else if binary = [0] then Ok (XBool False)
      else Err (error_of (DecodeBoolValue binary)))"

definition decode_bitlist :: "bytes \<Rightarrow> nat \<Rightarrow> ex_val ex" where
  "decode_bitlist bit_list max_size =
     (if bit_list = [] then Err (error_of DecodeBitlistEmpty)
      else
        case BitList_new bit_list of
          Ok decoded \<Rightarrow>
            (let len = BitList_length decoded
             in if last bit_list = 0 then Err (error_of DecodeBitlistSentinel)
                else if len > max_size then Err (error_of (DecodeBitlistLength max_size len))
                else Ok (XBits decoded))
        | Err e \<Rightarrow> Panic ''unreachable''
        | Panic m \<Rightarrow> Panic m)"

definition get_first_bytes :: "nat \<Rightarrow> int" where
  "get_first_bytes n = (if n mod 8 = 0 then int (n div 8) - 1 else int (n div 8))"

definition decode_bitvector :: "bytes \<Rightarrow> nat \<Rightarrow> ex_val ex" where
  "decode_bitvector bit_vector n =
     (let first_num_bytes = get_first_bytes n; padding_bits = (8 - n mod 8) mod 8
      in if 0 \<le> first_num_bytes \<and> int (length bit_vector) = first_num_bytes + 1 \<and>
            take padding_bits (byte_bits (last bit_vector)) = replicate padding_bits False
         then Ok (XBits (BitVector_new bit_vector n))
         else Err (error_of (DecodeBitvectorLength n)))"

section \<open>Collections of elements of fixed size\<close>

text \<open>An element that raises ends the loop.\<close>

fun decode_fixed_collection_loop ::
  "nat \<Rightarrow> decoder \<Rightarrow> bytes \<Rightarrow> nat \<Rightarrow> ex_val ex list \<Rightarrow> ex_val ex list ex" where
  "decode_fixed_collection_loop 0 dec binary chunk_size results = Panic ''out of fuel''"
| "decode_fixed_collection_loop (Suc fuel) dec binary chunk_size results =
     (if binary = [] then Ok results
      else if length binary < chunk_size then
        Ok (Err (error_of (CollectionLength chunk_size (length binary))) # results)
      else
        case dec (take chunk_size binary) of
          Panic m \<Rightarrow> Panic m
        | r \<Rightarrow> decode_fixed_collection_loop fuel dec (drop chunk_size binary) chunk_size (r # results))"

definition decode_fixed_collection :: "decoder \<Rightarrow> bytes \<Rightarrow> nat \<Rightarrow> ex_val list ex" where
  "decode_fixed_collection dec binary chunk_size =
     and_then (decode_fixed_collection_loop (length binary + 1) dec binary chunk_size [])
       (\<lambda>results. flatten_results (rev results))"

definition check_valid_fixed_list_size :: "nat \<Rightarrow> schema \<Rightarrow> nat \<Rightarrow> nat \<Rightarrow> unit ex" where
  "check_valid_fixed_list_size byte_length inner_type inner_type_size max_size =
     (if byte_length > inner_type_size * max_size
      then Err (error_of (DecodeListLength inner_type max_size byte_length)) else Ok ())"

definition check_valid_vector_size :: "nat \<Rightarrow> schema \<Rightarrow> nat \<Rightarrow> nat \<Rightarrow> unit ex" where
  "check_valid_vector_size byte_length inner_type inner_type_size n =
     (if byte_length \<noteq> inner_type_size * n
      then Err (error_of (DecodeVectorLength inner_type (inner_type_size * n) byte_length)) else Ok ())"

definition check_valid_vector_size_after_decode :: "nat \<Rightarrow> nat \<Rightarrow> unit ex" where
  "check_valid_vector_size_after_decode n decoded_size =
     (if decoded_size = n \<and> decoded_size > 0 then Ok ()
      else Err (error_of (DecodeVectorSize n decoded_size)))"

definition decode_fixed_list :: "decoder \<Rightarrow> bytes \<Rightarrow> schema \<Rightarrow> nat \<Rightarrow> ex_val ex" where
  "decode_fixed_list dec binary inner_type n =
     (let fixed_size = get_fixed_size inner_type; byte_length = length binary
      in and_then (check_valid_fixed_list_size byte_length inner_type fixed_size n) (\<lambda>_.
         map_ok XList (decode_fixed_collection dec binary fixed_size)))"

definition decode_fixed_vector :: "decoder \<Rightarrow> bytes \<Rightarrow> schema \<Rightarrow> nat \<Rightarrow> ex_val ex" where
  "decode_fixed_vector dec binary inner_type n =
     (let fixed_size = get_fixed_size inner_type; byte_size = length binary
      in and_then (check_valid_vector_size byte_size inner_type fixed_size n) (\<lambda>_.
         and_then (decode_fixed_collection dec binary fixed_size) (\<lambda>decoded_vector.
         and_then (check_valid_vector_size_after_decode n (length decoded_vector)) (\<lambda>_.
         Ok (XList decoded_vector)))))"

section \<open>Offsets\<close>

text \<open>The two clauses of \<open>sanitize_offset\<close>, by its last argument.\<close>

definition sanitize_offset :: "nat \<Rightarrow> nat option \<Rightarrow> nat \<Rightarrow> nat option \<Rightarrow> unit ex" where
  "sanitize_offset offset previous_offset num_bytes num_fixed_bytes =
     (case num_fixed_bytes of
        None \<Rightarrow>
          if offset > num_bytes then Err (error_of (OffsetOutside num_bytes offset))
          else (case previous_offset of
                  Some p \<Rightarrow> if p > offset then Err (error_of (OffsetBackwards p offset)) else Ok ()
                | None \<Rightarrow> Ok ())
      | Some fixed \<Rightarrow>
          if offset < fixed then Err (error_of (OffsetIntoFixed fixed offset))
          else if previous_offset = None \<and> offset \<noteq> fixed
          then Err (error_of (OffsetNotFirst fixed offset))
          else Ok ())"

text \<open>
  \<open>:binary.part(binary, pos, len)\<close>: a negative length takes the bytes before the position; a part
  that is not inside the binary raises.
\<close>

definition binary_part :: "bytes \<Rightarrow> nat \<Rightarrow> int \<Rightarrow> bytes ex" where
  "binary_part binary pos len =
     (let a = min (int pos) (int pos + len); b = max (int pos) (int pos + len)
      in if 0 \<le> a \<and> b \<le> int (length binary)
         then Ok (take (nat (b - a)) (drop (nat a) binary))
         else Panic ''ArgumentError'')"

text \<open>Matching \<open><<offset::integer-32-little, rest::bitstring>>\<close>.\<close>

definition read_offset :: "bytes \<Rightarrow> (nat \<times> bytes) ex" where
  "read_offset b = (if length b < 4 then Panic ''MatchError'' else Ok (le_nat (take 4 b), drop 4 b))"

section \<open>Lists of elements of variable size\<close>

text \<open>
  A bad offset inside the list makes the loop return an error tuple where its caller expects a
  list, and the call of \<open>Enum.reverse\<close> raises.
\<close>

fun decode_variable_list_elements ::
  "nat \<Rightarrow> decoder \<Rightarrow> bytes \<Rightarrow> nat \<Rightarrow> bytes \<Rightarrow> nat \<Rightarrow> ex_val ex list \<Rightarrow> ex_val ex list ex" where
  "decode_variable_list_elements 0 dec acc_rest_bytes offset binary first_offset results =
     Panic ''unreachable''"
| "decode_variable_list_elements (Suc 0) dec acc_rest_bytes offset binary first_offset results =
     and_then (binary_part binary offset (int (length binary) - int offset)) (\<lambda>part.
     case dec part of Panic m \<Rightarrow> Panic m | r \<Rightarrow> Ok (r # results))"
| "decode_variable_list_elements (Suc (Suc n)) dec acc_rest_bytes offset binary first_offset results =
     and_then (read_offset acc_rest_bytes) (\<lambda>(next_offset, rest_bytes).
     case sanitize_offset next_offset (Some offset) (length binary) (Some first_offset) of
       Ok _ \<Rightarrow>
         and_then (binary_part binary offset (int next_offset - int offset)) (\<lambda>part.
         case dec part of
           Panic m \<Rightarrow> Panic m
         | r \<Rightarrow> decode_variable_list_elements (Suc n) dec rest_bytes next_offset binary first_offset
                  (r # results))
     | Err e \<Rightarrow> Panic ''Protocol.UndefinedError''
     | Panic m \<Rightarrow> Panic m)"

definition decode_variable_list :: "decoder \<Rightarrow> bytes \<Rightarrow> schema \<Rightarrow> nat \<Rightarrow> ex_val ex" where
  "decode_variable_list dec binary inner_type n =
     (if binary = [] then Ok (XList [])
      else
        and_then (read_offset binary) (\<lambda>(first_offset, rest_bytes).
        if first_offset div 4 > n then
          Err (error_of (DecodeFirstOffsetMax inner_type n first_offset))
        else
          let num_elements = first_offset div 4
          in if first_offset mod 4 \<noteq> 0 \<or> first_offset < 4 then
               Err (error_of (DecodeFirstOffset inner_type first_offset))
             else
               and_then (sanitize_offset first_offset None (length binary) (Some first_offset)) (\<lambda>_.
               and_then (decode_variable_list_elements num_elements dec rest_bytes first_offset
                           binary first_offset []) (\<lambda>results.
               map_ok XList (flatten_results (rev results))))))"

section \<open>Containers\<close>

text \<open>
  The errors of a container's fields: a field whose result is not a pair is a failed match; the
  first error in the order of the list is returned with its key.
\<close>

fun first_error :: "(string \<times> 'a ex) list \<Rightarrow> (string \<times> ex_error) option" where
  "first_error [] = None"
| "first_error ((k, r) # rs) = (case r of Err e \<Rightarrow> Some (k, e) | _ \<Rightarrow> first_error rs)"

fun ok_values :: "(string \<times> 'a ex) list \<Rightarrow> (string \<times> 'a) list" where
  "ok_values [] = []"
| "ok_values ((k, r) # rs) = (case r of Ok a \<Rightarrow> (k, a) # ok_values rs | _ \<Rightarrow> ok_values rs)"

definition flatten_container_results :: "(string \<times> ex_val ex) list \<Rightarrow> (string \<times> ex_val) list ex" where
  "flatten_container_results results =
     (if list_ex (\<lambda>(k, r). is_section r) results then Panic ''FunctionClauseError''
      else case first_error results of
             Some (k, e) \<Rightarrow> Err (Keyed k e)
           | None \<Rightarrow> Ok (ok_values results))"

definition get_fixed_length :: "(string \<times> schema \<times> decoder) list \<Rightarrow> nat" where
  "get_fixed_length schemas =
     sum_list (map (\<lambda>(k, s, dec). if variable_size s then 4 else get_fixed_size s) schemas)"

text \<open>\<open>decode_fixed_section\<close> as a loop over the fields.\<close>

fun decode_fixed_fields ::
  "(string \<times> schema \<times> decoder) list \<Rightarrow>
   bytes \<times> (string \<times> ex_val ex) list \<times> (nat \<times> string \<times> decoder) list \<times> nat \<Rightarrow>
   (bytes \<times> (string \<times> ex_val ex) list \<times> (nat \<times> string \<times> decoder) list \<times> nat) ex" where
  "decode_fixed_fields [] acc = Ok acc"
| "decode_fixed_fields ((key, schema, dec) # schemas) (binary, fixed_parts, offsets, items_index) =
     (if variable_size schema then
        and_then (read_offset binary) (\<lambda>(offset, rest).
        decode_fixed_fields schemas
          (rest, fixed_parts, (offset, key, dec) # offsets, items_index + 4))
      else
        let ssz_fixed_len = get_fixed_size schema
        in if length binary < ssz_fixed_len then Panic ''MatchError''
           else case dec (take ssz_fixed_len binary) of
                  Panic m \<Rightarrow> Panic m
                | r \<Rightarrow> decode_fixed_fields schemas
                    (drop ssz_fixed_len binary, (key, add_trace r key) # fixed_parts, offsets,
                     items_index + ssz_fixed_len))"

definition decode_fixed_section ::
  "bytes \<Rightarrow> (string \<times> schema \<times> decoder) list \<Rightarrow>
     ((string \<times> ex_val) list \<times> (nat \<times> string \<times> decoder) list \<times> nat) ex" where
  "decode_fixed_section binary schemas =
     and_then (decode_fixed_fields schemas (binary, [], [], 0))
       (\<lambda>(rest_bytes, fixed_parts, offsets, items_index).
          case flatten_container_results fixed_parts of
            Ok parts \<Rightarrow> Ok (parts, rev offsets, items_index)
          | Err (Keyed k e) \<Rightarrow> Err (Section k e)
          | Err e \<Rightarrow> Err e
          | Panic m \<Rightarrow> Panic m)"

definition check_first_offset :: "(nat \<times> string \<times> decoder) list \<Rightarrow> nat \<Rightarrow> unit ex" where
  "check_first_offset offsets items_index =
     (case offsets of
        (offset, _) # rest \<Rightarrow>
          if offset \<noteq> items_index then Err (error_of (FirstOffset items_index offset)) else Ok ()
      | [] \<Rightarrow> Ok ())"

text \<open>
  \<open>decode_variable_section\<close> over the offsets paired with their successors: a bad offset ends the
  loop with an error for the field before it.
\<close>

fun decode_variable_fields ::
  "nat \<Rightarrow> (nat \<times> string \<times> decoder) list \<Rightarrow> bytes \<Rightarrow> (string \<times> ex_val ex) list \<Rightarrow>
     (bytes \<times> (string \<times> ex_val ex) list) ex" where
  "decode_variable_fields num_bytes [] rest_bytes acc = Ok (rest_bytes, acc)"
| "decode_variable_fields num_bytes [(offset, key, dec)] rest_bytes acc =
     (case dec rest_bytes of
        Panic m \<Rightarrow> Panic m
      | r \<Rightarrow> Ok ([], (key, add_trace r key) # acc))"
| "decode_variable_fields num_bytes ((offset, key, dec) # (next_offset, key', dec') # offsets)
     rest_bytes acc =
     (case sanitize_offset next_offset (Some offset) num_bytes None of
        Ok _ \<Rightarrow>
          let n = next_offset - offset
          in if length rest_bytes < n then Panic ''MatchError''
             else case dec (take n rest_bytes) of
                    Panic m \<Rightarrow> Panic m
                  | r \<Rightarrow> decode_variable_fields num_bytes ((next_offset, key', dec') # offsets)
                      (drop n rest_bytes) ((key, add_trace r key) # acc)
      | Err e \<Rightarrow> Ok ([], (key, Err e) # acc)
      | Panic m \<Rightarrow> Panic m)"

definition decode_variable_section ::
  "bytes \<Rightarrow> bytes \<Rightarrow> (nat \<times> string \<times> decoder) list \<Rightarrow> (string \<times> ex_val) list ex" where
  "decode_variable_section full_binary binary offsets =
     and_then (decode_variable_fields (length full_binary) offsets binary [])
       (\<lambda>(rest, variable_parts).
          if rest = [] then flatten_container_results variable_parts else no_clause)"

text \<open>\<open>struct!\<close>: the fields of the module, set from a list of keys and values.\<close>

definition make_struct :: "string \<Rightarrow> string list \<Rightarrow> (string \<times> ex_val) list \<Rightarrow> ex_val" where
  "make_struct module keys parts =
     XStruct module (map (\<lambda>k. (k, case map_of (rev parts) k of Some v \<Rightarrow> v | None \<Rightarrow> XNil)) keys)"

definition check_fixed_container_size :: "string \<Rightarrow> nat \<Rightarrow> nat \<Rightarrow> unit ex" where
  "check_fixed_container_size module expected_length n =
     (if expected_length \<noteq> n then Err (error_of (DecodeContainerLength module expected_length n))
      else Ok ())"

definition decode_fixed_container ::
  "string \<Rightarrow> (string \<times> schema \<times> decoder) list \<Rightarrow> bytes \<Rightarrow> ex_val ex" where
  "decode_fixed_container module schemas binary =
     (let fixed_length = get_fixed_length schemas; byte_size = length binary
      in and_then (check_fixed_container_size module fixed_length byte_size) (\<lambda>_.
         and_then (decode_fixed_section binary schemas) (\<lambda>(fixed_parts, offsets, items_index).
         Ok (make_struct module (map fst schemas) fixed_parts))))"

definition decode_variable_container ::
  "string \<Rightarrow> (string \<times> schema \<times> decoder) list \<Rightarrow> bytes \<Rightarrow> ex_val ex" where
  "decode_variable_container module schemas binary =
     (let fixed_length = get_fixed_length schemas
      in and_then (sanitize_offset fixed_length None (length binary) None) (\<lambda>_.
         let fixed_binary = take fixed_length binary; variable_binary = drop fixed_length binary
         in and_then (decode_fixed_section fixed_binary schemas) (\<lambda>(fixed_parts, offsets, items_index).
            and_then (check_first_offset offsets items_index) (\<lambda>_.
            and_then (decode_variable_section binary variable_binary offsets) (\<lambda>variable_parts.
            Ok (make_struct module (map fst schemas) (fixed_parts @ variable_parts)))))))"

section \<open>Decoding a binary\<close>

text \<open>
  A container module may export \<open>decode_ex\<close>, which is applied to its decoded struct: the table of the
  modules that do.
\<close>

type_synonym hooks = "string \<Rightarrow> (ex_val \<Rightarrow> ex_val) option"

fun decode :: "hooks \<Rightarrow> schema \<Rightarrow> bytes \<Rightarrow> ex_val ex" where
  "decode h SBool binary = decode_bool binary"
| "decode h (SInt n) binary = decode_uint binary n"
| "decode h (SByteList n) value = Ok (XBin value)"
| "decode h (SByteVector n) value = Ok (XBin value)"
| "decode h (SList inner_type n) binary =
     (if variable_size inner_type then decode_variable_list (decode h inner_type) binary inner_type n
      else decode_fixed_list (decode h inner_type) binary inner_type n)"
| "decode h (SVector inner_type n) binary =
     (if variable_size inner_type then decode_variable_list (decode h inner_type) binary inner_type n
      else decode_fixed_vector (decode h inner_type) binary inner_type n)"
| "decode h (SBitlist n) value = decode_bitlist value n"
| "decode h (SBitvector n) value = decode_bitvector value n"
| "decode h (SModule nm fs) binary =
     map_ok (case h nm of Some decode_ex \<Rightarrow> decode_ex | None \<Rightarrow> id)
       (if variable_size (SModule nm fs)
        then decode_variable_container nm (map (\<lambda>(k, s). (k, s, decode h s)) fs) binary
        else decode_fixed_container nm (map (\<lambda>(k, s). (k, s, decode h s)) fs) binary)"

text \<open>The schemas whose containers have no such function.\<close>

fun unhooked :: "hooks \<Rightarrow> schema \<Rightarrow> bool" where
  "unhooked h (SList s n) = unhooked h s"
| "unhooked h (SVector s n) = unhooked h s"
| "unhooked h (SModule nm fs) = (h nm = None \<and> list_all (\<lambda>(k, s). unhooked h s) fs)"
| "unhooked h _ = True"

section \<open>Reading back what was serialized\<close>

subsection \<open>Bit fields\<close>

lemma decode_bitlist_to_bytes:
  "length bl \<le> n \<Longrightarrow> decode_bitlist (BitList_to_bytes bl) n = Ok (XBits bl)"
proof -
  assume "length bl \<le> n"
  moreover have "BitList_to_bytes bl \<noteq> []"
    using length_BitList_to_bytes [of bl] by auto
  moreover have "last (BitList_to_bytes bl) \<noteq> 0" by (rule last_BitList_to_bytes)
  ultimately show ?thesis
    by (simp add: decode_bitlist_def BitList_new_to_bytes BitList_length_def)
qed

lemma decode_bitlist_Ok:
  assumes "decode_bitlist b n = Ok v"
  obtains bl where "v = XBits bl" "length bl \<le> n" "b = BitList_to_bytes bl"
proof -
  from assms obtain bl where "BitList_new b = Ok bl" "last b \<noteq> 0" "length bl \<le> n" "v = XBits bl"
    by (auto simp: decode_bitlist_def BitList_length_def Let_def split: rust.splits if_splits)
  with BitList_to_bytes_new that show ?thesis by metis
qed

text \<open>The pattern of \<open>decode_bitvector\<close> matches the binaries that hold at most \<open>n\<close> bits.\<close>

lemma decode_bitvector_eq:
  assumes "0 < n"
  shows "decode_bitvector b n =
    (if length b = (n + 7) div 8 \<and> le_nat b < 2 ^ n then Ok (XBits (BitVector_new b n))
     else Err (error_of (DecodeBitvectorLength n)))"
proof -
  let ?p = "(8 - n mod 8) mod 8" and ?q = "n div 8" and ?r = "n mod 8"
  have n: "n = 8 * ?q + ?r" by simp
  have up: "(n + 7) div 8 = (if ?r = 0 then ?q else ?q + 1)" by (rule byte_count)
  have q: "0 < ?q" if "?r = 0" using that assms n by auto
  have first: "get_first_bytes n + 1 = int ((n + 7) div 8)" "0 \<le> get_first_bytes n"
    using q unfolding get_first_bytes_def up by simp_all
  have "take ?p (byte_bits (last b)) = replicate ?p False \<longleftrightarrow> le_nat b < 2 ^ n"
    if len: "length b = (n + 7) div 8"
  proof -
    from len assms have "b \<noteq> []" by auto
    then obtain front l where b: "b = front @ [l]" by (metis append_butlast_last_id)
    have "8 * length front + (8 - ?p) = n"
    proof (cases "?r = 0")
      case True
      with len up q n show ?thesis by (simp add: b)
    next
      case False
      then have "8 - ?p = ?r" by simp
      moreover have "length front = ?q" using len False unfolding up b by simp
      ultimately show ?thesis using n by simp
    qed
    with high_bits_clear [of ?p l front] show ?thesis by (simp add: b)
  qed
  with first show ?thesis by (auto simp: decode_bitvector_def Let_def)
qed

lemma decode_bitvector_to_bytes:
  "0 < n \<Longrightarrow> length bv = n \<Longrightarrow> decode_bitvector (BitVector_to_bytes bv) n = Ok (XBits bv)"
  using bits_int_less [of bv] BitVector_new_to_bytes [of bv]
  by (auto simp: decode_bitvector_eq BitVector_number byte_size_def)

lemma decode_bitvector_Ok:
  assumes "0 < n" and "decode_bitvector b n = Ok v"
  obtains bv where "v = XBits bv" "length bv = n" "b = BitVector_to_bytes bv"
proof -
  from assms have "length b = (n + 7) div 8" "le_nat b < 2 ^ n" "v = XBits (BitVector_new b n)"
    by (auto simp: decode_bitvector_eq split: if_splits)
  moreover have "length (BitVector_new b n) = n" by (simp add: BitVector_new_def)
  ultimately show ?thesis using that BitVector_to_bytes_new by metis
qed

subsection \<open>Collections of elements of fixed size\<close>

lemma decode_fixed_collection_loop_concat:
  assumes "0 < c" and "\<And>v. v \<in> set vs \<Longrightarrow> length (f v) = c \<and> dec (f v) = Ok v"
    and "length vs < fuel"
  shows "decode_fixed_collection_loop fuel dec (concat (map f vs)) c rs = Ok (rev (map Ok vs) @ rs)"
  using assms(2,3)
proof (induction vs arbitrary: fuel rs)
  case Nil
  then show ?case by (cases fuel) simp_all
next
  case (Cons v vs)
  then obtain fuel' where fuel: "fuel = Suc fuel'" "length vs < fuel'" by (cases fuel) auto
  have v: "length (f v) = c" "dec (f v) = Ok v" using Cons.prems(1) by simp_all
  with assms(1) have ne: "f v @ concat (map f vs) \<noteq> []" by auto
  have "decode_fixed_collection_loop fuel' dec (concat (map f vs)) c (Ok v # rs) =
      Ok (rev (map Ok vs) @ Ok v # rs)"
    using Cons.prems(1) fuel(2) by (intro Cons.IH) simp_all
  with ne v show ?case by (simp add: fuel(1))
qed

lemma length_concat_fixed:
  "(\<And>v. v \<in> set vs \<Longrightarrow> length (f v) = c) \<Longrightarrow> length (concat (map f vs)) = c * length vs"
  by (induction vs) simp_all

lemma decode_fixed_collection_concat:
  assumes "0 < c" and "\<And>v. v \<in> set vs \<Longrightarrow> length (f v) = c \<and> dec (f v) = Ok v"
  shows "decode_fixed_collection dec (concat (map f vs)) c = Ok vs"
proof -
  have "length vs \<le> length (concat (map f vs))"
    using assms length_concat_fixed [of vs f c] by simp
  then have "length vs < length (concat (map f vs)) + 1" by simp
  from decode_fixed_collection_loop_concat [where f = f and dec = dec, OF assms this]
  show ?thesis by (simp add: decode_fixed_collection_def rev_map)
qed

subsection \<open>Lists of elements of variable size\<close>

lemma binary_part_middle: "binary_part (pre @ p @ post) (length pre) (int (length p)) = Ok p"
  by (simp add: binary_part_def)

lemma read_offset_bytes: "off < 2 ^ 32 \<Longrightarrow> read_offset (offset_bytes off @ b) = Ok (off, b)"
  by (simp add: read_offset_def le_nat_offset_bytes)

lemma decode_variable_list_elements_concat:
  assumes "list_all2 (\<lambda>p w. dec p = Ok w) (p # ps) (w # ws)"
    and "binary = pre @ concat (p # ps)" and "length binary < 2 ^ 32" and "first \<le> length pre"
    and "rest = concat (map offset_bytes (offsets_from (length pre + length p) (map length ps))) @ x"
  shows "decode_variable_list_elements (Suc (length ps)) dec rest (length pre) binary first rs =
    Ok (rev (map Ok (w # ws)) @ rs)"
  using assms
proof (induction ps arbitrary: p w ws pre rest rs)
  case Nil
  then have "binary_part binary (length pre) (int (length binary) - int (length pre)) = Ok p"
    using binary_part_middle [of pre p "[]"] by simp
  with Nil show ?case by simp
next
  case (Cons q qs)
  let ?next = "length pre + length p"
  obtain w' ws' where ws: "ws = w' # ws'" using Cons.prems(1) by (auto simp: list_all2_Cons1)
  have "?next < 2 ^ 32" using Cons.prems(2,3) by simp
  then have rd: "read_offset rest = Ok (?next,
      concat (map offset_bytes (offsets_from (?next + length q) (map length qs))) @ x)"
    using Cons.prems(5) by (simp add: read_offset_bytes)
  have part: "binary_part binary (length pre) (int ?next - int (length pre)) = Ok p"
    using binary_part_middle [of pre p "concat (q # qs)"] Cons.prems(2) by simp
  have "decode_variable_list_elements (Suc (length qs)) dec
      (concat (map offset_bytes (offsets_from (?next + length q) (map length qs))) @ x)
      (length (pre @ p)) binary first (Ok w # rs) = Ok (rev (map Ok (w' # ws')) @ Ok w # rs)"
    using Cons.prems by (intro Cons.IH) (simp_all add: ws)
  with rd part Cons.prems(1,4) show ?case by (simp add: sanitize_offset_def ws)
qed

lemma length_offsets:
  "length (concat (map offset_bytes (offsets_from off ls))) = 4 * length ls"
  by (induction ls arbitrary: off) simp_all

lemma decode_variable_list_parts:
  assumes "list_all2 (\<lambda>p w. dec p = Ok w) ps ws" and "length ps \<le> n"
    and "length (serialize_parts (map (Pair True) ps)) < 2 ^ 32"
  shows "decode_variable_list dec (serialize_parts (map (Pair True) ps)) s n = Ok (XList ws)"
proof (cases ps)
  case Nil
  with assms(1) show ?thesis by (simp add: decode_variable_list_def serialize_parts_def)
next
  case (Cons q qs)
  let ?b = "serialize_parts (map (Pair True) ps)" and ?F = "4 * length ps"
  let ?tail = "concat (map offset_bytes (offsets_from (?F + length q) (map length qs))) @ concat ps"
  obtain w ws' where ws: "ws = w # ws'" using assms(1) Cons by (auto simp: list_all2_Cons1)
  have b: "?b = offset_bytes ?F @ ?tail"
    using fixed_bytes_variable [of ?F ps] variable_parts_simps [of ps]
    by (simp add: serialize_parts_def Cons)
  have fit: "?F < 2 ^ 32" using assms(3) variable_parts_simps [of ps] by (simp add: length_serialize_parts)
  then have rd: "read_offset ?b = Ok (?F, ?tail)" unfolding b by (rule read_offset_bytes)
  define pre where "pre = offset_bytes ?F @
    concat (map offset_bytes (offsets_from (?F + length q) (map length qs)))"
  have len: "length pre = ?F"
    by (simp add: pre_def Cons length_offsets)
  have "decode_variable_list_elements (Suc (length qs)) dec ?tail (length pre) ?b ?F [] =
      Ok (rev (map Ok (w # ws')) @ [])"
  proof (rule decode_variable_list_elements_concat [where p = q and x = "concat ps"])
    show "list_all2 (\<lambda>p w. dec p = Ok w) (q # qs) (w # ws')" using assms(1) by (simp add: Cons ws)
    show "?b = pre @ concat (q # qs)" unfolding b pre_def by (simp add: Cons)
    show "?tail = concat (map offset_bytes (offsets_from (length pre + length q) (map length qs))) @ concat ps"
      by (simp only: len)
  qed (simp_all only: assms(3) len order_refl)
  then have "decode_variable_list_elements (length ps) dec ?tail ?F ?b ?F [] = Ok (rev (map Ok ws))"
    by (simp add: len ws Cons)
  moreover have "?b \<noteq> []" unfolding b by (simp add: offset_bytes_def numeral_eq_Suc)
  ultimately show ?thesis
    using rd assms(2) Cons by (simp add: decode_variable_list_def sanitize_offset_def rev_map)
qed

subsection \<open>Containers\<close>

text \<open>
  The fields of a container with what decodes them, and the entries of the offset table: where the
  bytes of each field of variable size start.
\<close>

abbreviation field_decoders :: "hooks \<Rightarrow> (string \<times> schema) list \<Rightarrow> (string \<times> schema \<times> decoder) list" where
  "field_decoders h fs \<equiv> map (\<lambda>(k, s). (k, s, decode h s)) fs"

abbreviation field_value :: "(string \<times> ex_val) list \<Rightarrow> string \<Rightarrow> ex_val" where
  "field_value vs k \<equiv> the (map_of vs k)"

fun offset_entries ::
  "hooks \<Rightarrow> nat \<Rightarrow> (string \<times> ex_val) list \<Rightarrow> (string \<times> schema) list \<Rightarrow> (nat \<times> string \<times> decoder) list" where
  "offset_entries h off vs [] = []"
| "offset_entries h off vs ((k, s) # fs) =
     (if variable_size s
      then (off, k, decode h s) # offset_entries h (off + length (serialize s (field_value vs k))) vs fs
      else offset_entries h off vs fs)"

definition field_results :: "bool \<Rightarrow> (string \<times> ex_val) list \<Rightarrow> (string \<times> schema) list \<Rightarrow> (string \<times> ex_val) list" where
  "field_results var vs fs =
     map (\<lambda>(k, s). (k, field_value vs k)) (filter (\<lambda>(k, s). variable_size s = var) fs)"

lemma field_results_simps [simp]:
  "field_results var vs [] = []"
  "field_results var vs ((k, s) # fs) =
     (if variable_size s = var then [(k, field_value vs k)] else []) @ field_results var vs fs"
  by (simp_all add: field_results_def)

definition reads_back :: "hooks \<Rightarrow> (string \<times> ex_val) list \<Rightarrow> (string \<times> schema) list \<Rightarrow> bool" where
  "reads_back h vs fs =
     list_all (\<lambda>(k, s). decode h s (serialize s (field_value vs k)) = Ok (field_value vs k) \<and>
       (variable_size s \<or> length (serialize s (field_value vs k)) = get_fixed_size s)) fs"

lemma reads_back_simps [simp]:
  "reads_back h vs []"
  "reads_back h vs ((k, s) # fs) \<longleftrightarrow>
     decode h s (serialize s (field_value vs k)) = Ok (field_value vs k) \<and>
     (variable_size s \<or> length (serialize s (field_value vs k)) = get_fixed_size s) \<and>
     reads_back h vs fs"
  by (simp_all add: reads_back_def)

lemma decode_fixed_fields_parts:
  assumes "reads_back h vs fs" and "off + length (variable_bytes (field_parts fs vs)) < 2 ^ 32"
  shows "decode_fixed_fields (field_decoders h fs) (fixed_bytes off (field_parts fs vs) @ x, rs, os, i) =
    Ok (x, rev (map (apsnd Ok) (field_results False vs fs)) @ rs,
        rev (offset_entries h off vs fs) @ os, i + fixed_part_length (field_parts fs vs))"
  using assms
proof (induction h off vs fs arbitrary: rs os i rule: offset_entries.induct)
  case (2 h off vs k s fs)
  show ?case
  proof (cases "variable_size s")
    case True
    with 2 show ?thesis by (simp add: read_offset_bytes)
  next
    case False
    with 2 show ?thesis by simp
  qed
qed simp

lemma decode_variable_fields_parts:
  assumes "reads_back h vs fs" and "off + length (variable_bytes (field_parts fs vs)) \<le> num_bytes"
  shows "decode_variable_fields num_bytes (offset_entries h off vs fs)
      (variable_bytes (field_parts fs vs)) rs =
    Ok ([], rev (map (apsnd Ok) (field_results True vs fs)) @ rs)"
  using assms
proof (induction h off vs fs arbitrary: rs rule: offset_entries.induct)
  case (2 h off vs k s fs)
  show ?case
  proof (cases "variable_size s")
    case var: True
    let ?b = "serialize s (field_value vs k)"
    from 2 var have IH: "decode_variable_fields num_bytes (offset_entries h (off + length ?b) vs fs)
        (variable_bytes (field_parts fs vs)) ((k, Ok (field_value vs k)) # rs) =
      Ok ([], rev (map (apsnd Ok) (field_results True vs fs)) @ (k, Ok (field_value vs k)) # rs)"
      by simp
    show ?thesis
    proof (cases "offset_entries h (off + length ?b) vs fs")
      case Nil
      with IH have "variable_bytes (field_parts fs vs) = []" by simp
      with Nil IH var 2 show ?thesis by simp
    next
      case (Cons e es)
      then obtain k' dec' where e: "e = (off + length ?b, k', dec')"
        by (induction h "off + length ?b" vs fs rule: offset_entries.induct) (auto split: if_splits)
      with Cons IH var 2 show ?thesis by (simp add: sanitize_offset_def)
    qed
  next
    case False
    with 2 show ?thesis by simp
  qed
qed simp

lemma flatten_container_Ok:
  "flatten_container_results (map (apsnd Ok) rs) = Ok rs"
proof -
  have "first_error (map (apsnd Ok) rs) = None" "ok_values (map (apsnd Ok) rs) = rs"
    by (induction rs) auto
  moreover have "\<not> list_ex (\<lambda>(k, r). is_section r) (map (apsnd Ok) rs)"
    by (auto simp: list_ex_iff)
  ultimately show ?thesis by (simp add: flatten_container_results_def)
qed

lemma map_of_function:
  "(\<And>k v. (k, v) \<in> set l \<Longrightarrow> v = g k) \<Longrightarrow> k \<in> fst ` set l \<Longrightarrow> map_of l k = Some (g k)"
  by (induction l) (auto split: if_splits)

lemma make_struct_results:
  assumes "map fst vs = map fst fs" and "distinct (map fst fs)"
    and "set parts = set (field_results False vs fs) \<union> set (field_results True vs fs)"
  shows "make_struct nm (map fst (field_decoders h fs)) parts = XStruct nm vs"
proof -
  have "map_of (rev parts) k = Some (field_value vs k)" if "k \<in> set (map fst fs)" for k
  proof (rule map_of_function)
    show "k \<in> fst ` set (rev parts)" using that assms(3) by (force simp: field_results_def)
    show "v = field_value vs k" if "(k, v) \<in> set (rev parts)" for k v
      using that assms(3) by (auto simp: field_results_def)
  qed
  then have "make_struct nm (map fst (field_decoders h fs)) parts =
      XStruct nm (map (\<lambda>k. (k, field_value vs k)) (map fst vs))"
    by (force simp: make_struct_def assms(1) comp_def)
  moreover have "map (\<lambda>k. (k, field_value vs k)) (map fst vs) = vs"
  proof -
    have "distinct (map fst vs)" using assms(1,2) by simp
    then have "field_value vs k = v" if "(k, v) \<in> set vs" for k v using that by simp
    then show ?thesis by (auto simp: comp_def intro!: map_idI)
  qed
  ultimately show ?thesis by simp
qed

lemma get_fixed_length_parts:
  "reads_back h vs fs \<Longrightarrow> get_fixed_length (field_decoders h fs) = fixed_part_length (field_parts fs vs)"
  by (induction fs) (auto simp: get_fixed_length_def)

lemma check_first_offset_entries: "check_first_offset (offset_entries h off vs fs) off = Ok ()"
  by (induction h off vs fs rule: offset_entries.induct) (simp_all add: check_first_offset_def)

lemma decode_fixed_section_parts:
  assumes "reads_back h vs fs" and "off + length (variable_bytes (field_parts fs vs)) < 2 ^ 32"
  shows "decode_fixed_section (fixed_bytes off (field_parts fs vs)) (field_decoders h fs) =
    Ok (rev (field_results False vs fs), offset_entries h off vs fs,
        fixed_part_length (field_parts fs vs))"
  using decode_fixed_fields_parts [OF assms, of "[]" "[]" "[]" 0]
    flatten_container_Ok [of "rev (field_results False vs fs)"]
  by (simp add: decode_fixed_section_def rev_map)

lemma decode_container_parts:
  assumes "reads_back h vs fs" and "length (serialize_parts (field_parts fs vs)) < 2 ^ 32"
    and "map fst vs = map fst fs" and "distinct (map fst fs)" and "h nm = None"
  shows "decode h (SModule nm fs) (serialize_parts (field_parts fs vs)) = Ok (XStruct nm vs)"
proof -
  let ?ps = "field_parts fs vs" and ?b = "serialize_parts (field_parts fs vs)"
  let ?F = "fixed_part_length ?ps" and ?fixed = "field_results False vs fs" and ?var = "field_results True vs fs"
  have len: "get_fixed_length (field_decoders h fs) = ?F" using assms(1) by (rule get_fixed_length_parts)
  have room: "?F + length (variable_bytes ?ps) < 2 ^ 32" using assms(2) by (simp add: length_serialize_parts)
  note fixed = decode_fixed_section_parts [OF assms(1) room]
  show ?thesis
  proof (cases "variable_size (SModule nm fs)")
    case True
    have "decode_variable_section ?b (variable_bytes ?ps) (offset_entries h ?F vs fs) = Ok (rev ?var)"
      using decode_variable_fields_parts [OF assms(1), of ?F "length ?b" "[]"]
        flatten_container_Ok [of "rev ?var"]
      by (simp add: decode_variable_section_def length_serialize_parts rev_map)
    moreover have "make_struct nm (map fst (field_decoders h fs)) (rev ?fixed @ rev ?var) = XStruct nm vs"
      using assms(3,4) by (intro make_struct_results) auto
    moreover have "take ?F ?b = fixed_bytes ?F ?ps" "drop ?F ?b = variable_bytes ?ps" "?F \<le> length ?b"
      by (simp_all add: serialize_parts_def)
    ultimately show ?thesis
      using True fixed assms(5) check_first_offset_entries [of h ?F vs fs]
      by (simp add: decode_variable_container_def len sanitize_offset_def del: variable_size.simps map_map)
  next
    case False
    then have "\<forall>(k, s) \<in> set fs. \<not> variable_size s" by (auto simp: list_ex_iff)
    then have "?var = []" "variable_bytes ?ps = []"
      by (auto simp: field_results_def variable_bytes_def field_parts_def filter_empty_conv)
    moreover have "make_struct nm (map fst (field_decoders h fs)) (rev ?fixed) = XStruct nm vs"
      using assms(3,4) \<open>?var = []\<close> by (intro make_struct_results) auto
    ultimately show ?thesis
      using False fixed assms(5)
      by (simp add: decode_fixed_container_def check_fixed_container_size_def len serialize_parts_def
          del: variable_size.simps map_map)
  qed
qed

subsection \<open>All schemas\<close>

lemma decode_elements:
  assumes "\<And>v. conforms s v \<Longrightarrow> length (serialize s v) < 2 ^ 32 \<Longrightarrow> decode h s (serialize s v) = Ok v"
    and "schema_wf s" and "list_all (conforms s) vs"
    and "length (serialize_parts (map (\<lambda>w. (variable_size s, serialize s w)) vs)) < 2 ^ 32"
  shows "variable_size s \<Longrightarrow> length vs \<le> n \<Longrightarrow>
      decode_variable_list (decode h s) (serialize_parts (map (\<lambda>w. (variable_size s, serialize s w)) vs)) s n =
      Ok (XList vs)"
    and "\<not> variable_size s \<Longrightarrow>
      decode_fixed_collection (decode h s)
        (serialize_parts (map (\<lambda>w. (variable_size s, serialize s w)) vs)) (get_fixed_size s) = Ok vs"
    and "\<not> variable_size s \<Longrightarrow>
      length (serialize_parts (map (\<lambda>w. (variable_size s, serialize s w)) vs)) =
      get_fixed_size s * length vs"
proof -
  have each: "conforms s v \<and> decode h s (serialize s v) = Ok v" if "v \<in> set vs" for v
  proof -
    from that have "(variable_size s, serialize s v) \<in> set (map (\<lambda>w. (variable_size s, serialize s w)) vs)"
      by simp
    from length_part_le [OF this] assms(4) have "length (serialize s v) < 2 ^ 32" by linarith
    moreover have "conforms s v" using that assms(3) by (simp add: list_all_iff)
    ultimately show ?thesis using assms(1) by blast
  qed
  {
    assume var: "variable_size s" and n: "length vs \<le> n"
    have parts: "map (\<lambda>w. (variable_size s, serialize s w)) vs = map (Pair True) (map (serialize s) vs)"
      using var by simp
    show "decode_variable_list (decode h s) (serialize_parts (map (\<lambda>w. (variable_size s, serialize s w)) vs)) s n =
        Ok (XList vs)"
      unfolding parts
    proof (rule decode_variable_list_parts)
      show "list_all2 (\<lambda>p w. decode h s p = Ok w) (map (serialize s) vs) vs"
        using each by (simp add: list_all2_conv_all_nth)
    qed (use n assms(4) parts in simp_all)
  next
    assume fixed: "\<not> variable_size s"
    have len: "length (serialize s v) = get_fixed_size s" if "v \<in> set vs" for v
      using each [OF that] assms(2) fixed by (simp add: length_serialize_fixed)
    show "decode_fixed_collection (decode h s)
        (serialize_parts (map (\<lambda>w. (variable_size s, serialize s w)) vs)) (get_fixed_size s) = Ok vs"
      unfolding serialize_fixed_parts [OF fixed]
      using each len fixed_size_pos [OF assms(2) fixed] by (intro decode_fixed_collection_concat) simp_all
    show "length (serialize_parts (map (\<lambda>w. (variable_size s, serialize s w)) vs)) =
        get_fixed_size s * length vs"
      unfolding serialize_fixed_parts [OF fixed] using len by (rule length_concat_fixed)
  }
qed

lemma decode_serialize:
  "schema_wf s \<Longrightarrow> unhooked h s \<Longrightarrow> conforms s v \<Longrightarrow> length (serialize s v) < 2 ^ 32 \<Longrightarrow>
     decode h s (serialize s v) = Ok v"
proof (induction s arbitrary: v)
  case SBool
  then show ?case by (auto simp: conforms_iff decode_bool_def simp del: conforms.simps split: if_splits)
next
  case (SInt n)
  then obtain i where i: "v = XInt i" "0 \<le> i" "i < 2 ^ n"
    by (auto simp: conforms_iff simp del: conforms.simps)
  have n: "8 * (n div 8) = n" using SInt.prems(1) by auto
  have "(256::int) ^ (n div 8) = 2 ^ (8 * (n div 8))" by (simp add: power_mult)
  with i n show ?case using le_nat_le_bytes [of "n div 8" i] by (simp add: decode_uint_def)
next
  case (SList s n)
  then obtain vs where vs: "v = XList vs" "length vs \<le> n" "list_all (conforms s) vs"
    by (auto simp: conforms_iff simp del: conforms.simps)
  have wf: "schema_wf s" and hook: "unhooked h s" using SList.prems by simp_all
  note elements = decode_elements [OF SList.IH [OF wf hook] wf vs(3)]
  from SList.prems(4) vs show ?case
    using elements by (cases "variable_size s")
      (simp_all add: decode_fixed_list_def check_valid_fixed_list_size_def Let_def)
next
  case (SVector s n)
  then obtain vs where vs: "v = XList vs" "length vs = n" "list_all (conforms s) vs"
    by (auto simp: conforms_iff simp del: conforms.simps)
  have wf: "schema_wf s" and hook: "unhooked h s" and "0 < n" using SVector.prems by simp_all
  note elements = decode_elements [OF SVector.IH [OF wf hook] wf vs(3)]
  have "vs \<noteq> []" using \<open>0 < n\<close> vs(2) by auto
  with SVector.prems(4) \<open>0 < n\<close> vs show ?case
    using elements by (cases "variable_size s")
      (simp_all add: decode_fixed_vector_def check_valid_vector_size_def
        check_valid_vector_size_after_decode_def Let_def)
next
  case (SBitlist n)
  then show ?case by (auto simp: conforms_iff decode_bitlist_to_bytes simp del: conforms.simps)
next
  case (SBitvector n)
  then show ?case by (auto simp: conforms_iff decode_bitvector_to_bytes simp del: conforms.simps)
next
  case (SModule nm fs)
  then obtain vs where vs: "v = XStruct nm vs" "map fst vs = map fst fs"
    by (auto simp: conforms_iff simp del: conforms.simps)
  have "decode h s (serialize s (field_value vs k)) = Ok (field_value vs k) \<and>
       (variable_size s \<or> length (serialize s (field_value vs k)) = get_fixed_size s)"
    if ks: "(k, s) \<in> set fs" for k s
  proof -
    obtain w where w: "map_of vs k = Some w" "conforms s w"
      using conforms_field [OF SModule.prems(3) [unfolded vs(1)] ks] by blast
    have wf: "schema_wf s" using ks SModule.prems(1) by (auto simp: list_all_iff)
    have "(variable_size s, serialize s w) \<in> set (field_parts fs vs)"
      using ks w(1) by (force simp: field_parts_def)
    from length_part_le [OF this] have "length (serialize s w) < 2 ^ 32"
      using SModule.prems(4) by (simp add: vs(1) serialize_module del: serialize_simps)
    with wf w have "decode h s (serialize s w) = Ok w"
      using SModule.IH [of "(k, s)" s w] SModule.prems(2) ks by (auto simp: list_all_iff)
    with length_serialize_fixed [OF wf w(2)] w(1) show ?thesis by auto
  qed
  then have "reads_back h vs fs" by (auto simp: reads_back_def list_all_iff)
  with SModule.prems vs show ?case
    unfolding vs(1) serialize_module by (intro decode_container_parts) (simp_all add: serialize_module del: serialize_simps)
qed (auto simp: conforms_iff simp del: conforms.simps)

end
