(* ===== verification/Ssz_Ex.thy ===== *)
theory Ssz_Ex
  imports Ssz_Ex_Decode
begin

text \<open>
  The interface of the Elixir SSZ library, \<open>lib/ssz_ex/ssz_ex.ex\<close>: encoding and decoding by schema,
  with the name of the container put in front of the trace of an error. The lemmas relate the two to
  the reference serialization, say which exceptions decoding can raise, and show where it accepts
  or rejects what the specification does not.
\<close>

section \<open>The interface\<close>

text \<open>\<open>Module.split\<close> followed by \<open>List.last\<close>: what stands after the last dot.\<close>

definition last_segment :: "string \<Rightarrow> string" where
  "last_segment m = rev (takeWhile (\<lambda>c. c \<noteq> CHR ''.'') (rev m))"

fun add_container_error :: "ex_error \<Rightarrow> string \<Rightarrow> ex_error" where
  "add_container_error (Error message stacktrace) m = Error message (last_segment m # stacktrace)"
| "add_container_error e m = e"

definition add_container :: "'a ex \<Rightarrow> string \<Rightarrow> 'a ex" where
  "add_container r m = map_err (\<lambda>e. add_container_error e m) r"

text \<open>
  \<open>encode/1\<close> of a struct, whose module's schema is given, \<open>encode/2\<close>, and \<open>decode/2\<close>, whose first
  clause is for the schemas that are modules.
\<close>

definition SszEx_encode_struct :: "(string \<times> schema) list \<Rightarrow> ex_val \<Rightarrow> bytes ex" where
  "SszEx_encode_struct fs value =
     (case value of
        XStruct name vs \<Rightarrow> add_container (encode (SModule name fs) value) name
      | _ \<Rightarrow> no_clause)"

definition SszEx_encode :: "ex_val \<Rightarrow> schema \<Rightarrow> bytes ex" where
  "SszEx_encode value schema = encode schema value"

definition SszEx_decode :: "hooks \<Rightarrow> bytes \<Rightarrow> schema \<Rightarrow> ex_val ex" where
  "SszEx_decode h value schema =
     (case schema of
        SModule name fs \<Rightarrow> add_container (decode h schema value) name
      | _ \<Rightarrow> decode h schema value)"

lemma add_container_eq_Ok [simp]: "add_container r m = Ok a \<longleftrightarrow> r = Ok a"
  by (simp add: add_container_def)

lemma add_container_eq_Panic [simp]: "add_container r m = Panic p \<longleftrightarrow> r = Panic p"
  by (cases r) (simp_all add: add_container_def)

lemma SszEx_decode_eq_Ok [simp]: "SszEx_decode h b s = Ok v \<longleftrightarrow> decode h s b = Ok v"
  by (cases s) (simp_all add: SszEx_decode_def)

lemma SszEx_decode_eq_Panic [simp]: "SszEx_decode h b s = Panic m \<longleftrightarrow> decode h s b = Panic m"
  by (cases s) (simp_all add: SszEx_decode_def)

section \<open>The exceptions of decoding\<close>

text \<open>
  The exceptions that decoding can raise; running out of fuel is not one of them, so the fuel is
  enough and decoding ends.
\<close>

definition decode_exceptions :: "string set" where
  "decode_exceptions =
     {''MatchError'', ''ArgumentError'', ''FunctionClauseError'', ''Protocol.UndefinedError''}"

definition raises_only :: "string set \<Rightarrow> 'a ex \<Rightarrow> bool" where
  "raises_only E r \<longleftrightarrow> (\<forall>m. r = Panic m \<longrightarrow> m \<in> E)"

lemma raises_only_simps [simp]:
  "raises_only E (Ok a)" "raises_only E (Err e)" "raises_only E (Panic m) \<longleftrightarrow> m \<in> E"
  by (simp_all add: raises_only_def)

lemma raises_only_and_then [intro]:
  "raises_only E r \<Longrightarrow> (\<And>a. r = Ok a \<Longrightarrow> raises_only E (f a)) \<Longrightarrow> raises_only E (and_then r f)"
  by (cases r) simp_all

lemma raises_only_map_ok [simp]: "raises_only E (map_ok f r) \<longleftrightarrow> raises_only E r"
  by (cases r) simp_all

lemma raises_only_add_trace [simp]: "raises_only E (add_trace r k) \<longleftrightarrow> raises_only E r"
  by (cases r) (simp_all add: add_trace_def)

lemma raises_only_if [simp]:
  "raises_only E (if c then r else q) \<longleftrightarrow> (if c then raises_only E r else raises_only E q)"
  by simp

lemma collect_raises:
  "(\<And>r. r \<in> set rs \<Longrightarrow> raises_only E r) \<Longrightarrow> raises_only E (collect rs)"
proof (induction rs)
  case (Cons r rs)
  then have "raises_only E r" "raises_only E (collect rs)" by simp_all
  then show ?case by (cases r) simp_all
qed simp

lemma flatten_results_raises:
  assumes "\<And>r. r \<in> set rs \<Longrightarrow> raises_only E r" and "''FunctionClauseError'' \<in> E"
  shows "raises_only E (flatten_results rs)"
proof (cases "filter panics rs")
  case (Cons r ps)
  then have "r \<in> set (filter panics rs)" by simp
  then have "r \<in> set rs" "panics r" by simp_all
  with Cons assms(1) [of r] show ?thesis by (cases r) (simp_all add: flatten_results_def)
next
  case Nil
  with assms collect_raises [of rs E] show ?thesis by (simp add: flatten_results_def)
qed

lemma flatten_container_raises:
  "''FunctionClauseError'' \<in> E \<Longrightarrow> raises_only E (flatten_container_results rs)"
  by (simp add: flatten_container_results_def split: option.split)

lemma sanitize_offset_raises [simp]: "raises_only E (sanitize_offset a b c d)"
  by (simp add: sanitize_offset_def split: option.split)

lemma read_offset_raises: "''MatchError'' \<in> E \<Longrightarrow> raises_only E (read_offset b)"
  by (simp add: read_offset_def)

lemma binary_part_raises: "''ArgumentError'' \<in> E \<Longrightarrow> raises_only E (binary_part b p l)"
  by (simp add: binary_part_def Let_def)

text \<open>A loop that returns a list of results, none of which raises anything else.\<close>

definition results_only :: "string set \<Rightarrow> 'a ex list ex \<Rightarrow> bool" where
  "results_only E r \<longleftrightarrow> raises_only E r \<and> (\<forall>rs. r = Ok rs \<longrightarrow> list_all (raises_only E) rs)"

lemma results_only_simps [simp]:
  "results_only E (Ok rs) \<longleftrightarrow> list_all (raises_only E) rs"
  "results_only E (Err e)" "results_only E (Panic m) \<longleftrightarrow> m \<in> E"
  by (simp_all add: results_only_def)

lemma flatten_only:
  "results_only E r \<Longrightarrow> ''FunctionClauseError'' \<in> E \<Longrightarrow>
     raises_only E (and_then r (\<lambda>rs. flatten_results (rev rs)))"
  "results_only E r \<Longrightarrow> ''FunctionClauseError'' \<in> E \<Longrightarrow>
     raises_only E (and_then r (\<lambda>rs. map_ok f (flatten_results (rev rs))))"
  by (cases r; auto simp: list_all_iff intro!: flatten_results_raises)+

text \<open>The loop over elements of fixed size ends: its results are those of the decoder.\<close>

lemma decode_fixed_collection_loop_returns:
  assumes "0 < c" and "\<And>x. raises_only E (dec x)" and "length b < fuel"
    and "list_all (raises_only E) rs"
  shows "results_only E (decode_fixed_collection_loop fuel dec b c rs)"
  using assms(3,4)
proof (induction fuel arbitrary: b rs)
  case (Suc fuel)
  show ?case
  proof (cases "b = [] \<or> length b < c")
    case True
    with Suc.prems show ?thesis by auto
  next
    case False
    then have "length (drop c b) < fuel" using Suc.prems(1) assms(1) by (cases b) auto
    with Suc.IH [of "drop c b" "dec (take c b) # rs"] Suc.prems(2) assms(2) [of "take c b"] False
    show ?thesis by (cases "dec (take c b)") auto
  qed
qed simp

lemma decode_fixed_collection_raises:
  assumes "0 < c" and "\<And>x. raises_only E (dec x)" and "''FunctionClauseError'' \<in> E"
  shows "raises_only E (decode_fixed_collection dec b c)"
  unfolding decode_fixed_collection_def
  using decode_fixed_collection_loop_returns [of c E dec b "length b + 1" "[]"] assms
  by (intro flatten_only) simp_all

lemma decode_variable_list_elements_raises:
  assumes "\<And>x. raises_only E (dec x)" and "decode_exceptions \<subseteq> E" and "0 < n"
    and "list_all (raises_only E) rs"
  shows "results_only E (decode_variable_list_elements n dec rest off b first rs)"
  using assms(3,4)
proof (induction n arbitrary: rest off rs rule: nat_induct_non_zero)
  case 1
  show ?case
  proof (cases "binary_part b off (int (length b) - int off)")
    case (Ok part)
    with 1 assms(1) [of part] show ?thesis by (cases "dec part") auto
  next
    case (Panic m)
    with binary_part_raises [of E b off "int (length b) - int off"] assms(2)
    show ?thesis by (auto simp: decode_exceptions_def)
  qed simp
next
  case (Suc n)
  then obtain n' where n': "n = Suc n'" by (cases n) auto
  have E: "''MatchError'' \<in> E" "''ArgumentError'' \<in> E" "''Protocol.UndefinedError'' \<in> E"
    using assms(2) by (auto simp: decode_exceptions_def)
  show ?case
  proof (cases "read_offset rest")
    case (Ok p)
    then obtain next' rest' where p: "read_offset rest = Ok (next', rest')" by (cases p) auto
    let ?part = "binary_part b off (int next' - int off)"
    have part: "raises_only E ?part" using E(2) by (rule binary_part_raises)
    show ?thesis
    proof (cases "sanitize_offset next' (Some off) (length b) (Some first)")
      case (Ok u)
      show ?thesis
      proof (cases ?part)
        case part': (Ok chunk)
        with Suc.IH [of "dec chunk # rs" rest' next'] Suc.prems assms(1) [of chunk] p Ok
        show ?thesis by (cases "dec chunk") (auto simp: n')
      qed (use part p Ok in \<open>auto simp: n'\<close>)
    qed (use p E sanitize_offset_raises [of E next' "Some off" "length b" "Some first"] in \<open>auto simp: n'\<close>)
  qed (use E read_offset_raises [of E rest] in \<open>auto simp: n'\<close>)
qed

lemma decode_variable_list_raises:
  assumes "\<And>x. raises_only E (dec x)" and "decode_exceptions \<subseteq> E"
  shows "raises_only E (decode_variable_list dec b s n)"
proof -
  have "results_only E (decode_variable_list_elements (f div 4) dec rest f b f [])"
    if "\<not> f < 4" for f rest
    using assms that by (intro decode_variable_list_elements_raises) auto
  moreover have "''MatchError'' \<in> E" "''FunctionClauseError'' \<in> E"
    using assms(2) by (auto simp: decode_exceptions_def)
  ultimately show ?thesis
    unfolding decode_variable_list_def Let_def
    by (auto simp: split_beta intro!: raises_only_and_then read_offset_raises flatten_only)
qed

lemma decode_fixed_fields_raises:
  assumes "\<And>k s dec x. (k, s, dec) \<in> set fs \<Longrightarrow> raises_only E (dec x)" and "''MatchError'' \<in> E"
  shows "raises_only E (decode_fixed_fields fs (b, ps, os, i))"
  using assms(1)
proof (induction fs arbitrary: b ps os i)
  case (Cons f fs)
  obtain k s dec where f: "f = (k, s, dec)" by (cases f)
  have IH: "raises_only E (decode_fixed_fields fs (b, ps, os, i))" for b ps os i
    using Cons.prems by (intro Cons.IH) auto
  have "raises_only E (dec (take (get_fixed_size s) b))" using Cons.prems by (auto simp: f)
  with IH show ?case
    using assms(2) read_offset_raises [of E b]
    by (cases "dec (take (get_fixed_size s) b)") (auto simp: f Let_def split_beta)
qed simp

lemma decode_fixed_fields_offsets:
  "decode_fixed_fields fs (b, ps, os, i) = Ok (rest, ps', os', i') \<Longrightarrow> (o', k, dec) \<in> set os' \<Longrightarrow>
     (o', k, dec) \<in> set os \<or> (\<exists>s. (k, s, dec) \<in> set fs)"
proof (induction fs arbitrary: b ps os i)
  case (Cons f fs)
  obtain k' s' dec' where f: "f = (k', s', dec')" by (cases f)
  show ?case
  proof (cases "variable_size s'")
    case True
    then obtain off b' where "decode_fixed_fields fs (b', ps, (off, k', dec') # os, i + 4) = Ok (rest, ps', os', i')"
      using Cons.prems(1) by (cases "read_offset b") (auto simp: f)
    from Cons.IH [OF this Cons.prems(2)] show ?thesis by (auto simp: f)
  next
    case False
    let ?n = "get_fixed_size s'"
    from False Cons.prems(1) have "decode_fixed_fields fs (drop ?n b,
        (k', add_trace (dec' (take ?n b)) k') # ps, os, i + ?n) = Ok (rest, ps', os', i')"
      by (cases "dec' (take ?n b)") (auto simp: f Let_def split: if_splits)
    from Cons.IH [OF this Cons.prems(2)] show ?thesis by (auto simp: f)
  qed
qed simp

lemma decode_variable_fields_raises:
  assumes "\<And>o' k dec x. (o', k, dec) \<in> set es \<Longrightarrow> raises_only E (dec x)" and "''MatchError'' \<in> E"
  shows "raises_only E (decode_variable_fields n es rest acc)"
  using assms(1)
proof (induction es arbitrary: rest acc)
  case (Cons e es)
  obtain off k dec where e: "e = (off, k, dec)" by (cases e)
  have IH: "raises_only E (decode_variable_fields n es rest acc)" for rest acc
    using Cons.prems by (intro Cons.IH) auto
  have dec: "raises_only E (dec x)" for x using Cons.prems by (auto simp: e)
  show ?case
  proof (cases es)
    case Nil
    with dec [of rest] show ?thesis by (cases "dec rest") (simp_all add: e)
  next
    case (Cons e' es')
    obtain off' k' dec' where e': "e' = (off', k', dec')" by (cases e')
    with IH Cons dec [of "take (off' - off) rest"] assms(2)
      sanitize_offset_raises [of E off' "Some off" n None]
    show ?thesis
      by (cases "sanitize_offset off' (Some off) n None"; cases "dec (take (off' - off) rest)")
        (simp_all add: e Let_def)
  qed
qed simp

lemma decode_fixed_section_eq_Ok:
  "decode_fixed_section b fs = Ok (ps, os, i) \<longleftrightarrow>
     (\<exists>rest rs. decode_fixed_fields fs (b, [], [], 0) = Ok (rest, rs, rev os, i) \<and>
        flatten_container_results rs = Ok ps)"
proof (cases "decode_fixed_fields fs (b, [], [], 0)")
  case (Ok r)
  obtain rest rs os' i' where r: "r = (rest, rs, os', i')" by (cases r)
  then show ?thesis
    using Ok by (cases "flatten_container_results rs")
      (auto simp: decode_fixed_section_def split: ex_error.splits)
qed (simp_all add: decode_fixed_section_def)

lemma decode_container_raises:
  assumes "\<And>k s dec x. (k, s, dec) \<in> set fs \<Longrightarrow> raises_only E (dec x)" and "decode_exceptions \<subseteq> E"
  shows "raises_only E (decode_fixed_container nm fs b)" "raises_only E (decode_variable_container nm fs b)"
proof -
  have E: "''MatchError'' \<in> E" "''FunctionClauseError'' \<in> E"
    using assms(2) by (auto simp: decode_exceptions_def)
  have fields: "raises_only E (decode_fixed_fields fs (b, [], [], 0))" for b
    using assms(1) E(1) by (intro decode_fixed_fields_raises) auto
  have fixed: "raises_only E (decode_fixed_section b fs)" for b
  proof (cases "decode_fixed_fields fs (b, [], [], 0)")
    case (Ok r)
    obtain rest ps os i where r: "r = (rest, ps, os, i)" by (cases r)
    show ?thesis
      using Ok flatten_container_raises [OF E(2), of ps]
      by (cases "flatten_container_results ps")
        (auto simp: decode_fixed_section_def r split: ex_error.splits)
  qed (use fields [of b] in \<open>simp_all add: decode_fixed_section_def\<close>)
  have offsets: "raises_only E (dec x)"
    if "decode_fixed_section b fs = Ok (ps, os, i)" and e: "(o', k, dec) \<in> set os"
    for b ps os i o' k dec x
  proof -
    from that(1) obtain rest rs where "decode_fixed_fields fs (b, [], [], 0) = Ok (rest, rs, rev os, i)"
      by (auto simp: decode_fixed_section_eq_Ok)
    from decode_fixed_fields_offsets [OF this, of o' k dec] e obtain s where "(k, s, dec) \<in> set fs" by auto
    then show ?thesis by (rule assms(1))
  qed
  show "raises_only E (decode_fixed_container nm fs b)"
    unfolding decode_fixed_container_def Let_def check_fixed_container_size_def
    using fixed by (intro raises_only_and_then) (auto split: prod.splits)
  have "raises_only E (decode_variable_section b c os)"
    if "decode_fixed_section d fs = Ok (ps, os, i)" for b c d ps os i
  proof -
    have "raises_only E (decode_variable_fields (length b) os c [])"
      using offsets [OF that] E(1) by (intro decode_variable_fields_raises) auto
    then show ?thesis
      unfolding decode_variable_section_def using E(2)
      by (auto simp: no_clause_def intro!: raises_only_and_then flatten_container_raises split: prod.splits)
  qed
  then show "raises_only E (decode_variable_container nm fs b)"
    unfolding decode_variable_container_def Let_def check_first_offset_def
    using fixed by (intro raises_only_and_then) (auto split: prod.splits list.splits intro!: raises_only_and_then)
qed

lemma decode_raises:
  "schema_wf s \<Longrightarrow> raises_only decode_exceptions (decode h s b)"
proof (induction s arbitrary: b)
  case (SBitlist n)
  have "raises_only decode_exceptions (decode_bitlist b n)"
    by (cases b) (auto simp: decode_bitlist_def BitList_new_def Let_def)
  then show ?case by simp
next
  case (SList s n)
  have "raises_only decode_exceptions (decode_fixed_collection (decode h s) b (get_fixed_size s))"
    if "\<not> variable_size s"
    using that SList fixed_size_pos [of s]
    by (intro decode_fixed_collection_raises) (simp_all add: decode_exceptions_def)
  moreover have "raises_only decode_exceptions (decode_variable_list (decode h s) b s n)"
    using SList by (intro decode_variable_list_raises) simp_all
  ultimately show ?case
    by (auto simp: decode_fixed_list_def Let_def check_valid_fixed_list_size_def intro!: raises_only_and_then)
next
  case (SVector s n)
  have "raises_only decode_exceptions (decode_fixed_collection (decode h s) b (get_fixed_size s))"
    if "\<not> variable_size s"
    using that SVector fixed_size_pos [of s]
    by (intro decode_fixed_collection_raises) (simp_all add: decode_exceptions_def)
  moreover have "raises_only decode_exceptions (decode_variable_list (decode h s) b s n)"
    using SVector by (intro decode_variable_list_raises) simp_all
  ultimately show ?case
    by (auto simp: decode_fixed_vector_def Let_def check_valid_vector_size_def
        check_valid_vector_size_after_decode_def intro!: raises_only_and_then)
next
  case (SModule nm fs)
  have "raises_only decode_exceptions (dec x)" if "(k, s, dec) \<in> set (field_decoders h fs)" for k s dec x
  proof -
    from that have "(k, s) \<in> set fs" "dec = decode h s" by auto
    with SModule.prems show ?thesis
      using SModule.IH [of "(k, s)" s] by (auto simp: list_all_iff)
  qed
  then show ?case
    using decode_container_raises [where fs = "field_decoders h fs" and E = decode_exceptions and nm = nm and b = b]
    by simp
qed (simp_all add: decode_bool_def decode_uint_def decode_bitvector_def Let_def)

end
