(* ===== verification/Merkle_Trees.thy ===== *)
theory Merkle_Trees
  imports Prelude
begin

text \<open>
  Merkle trees as the SSZ specification defines them, over a hash function on byte strings: the root
  of a tree of a given depth over a list of leaves, padded on the right with a default leaf. The
  lemmas give the view of the tree that the code computes with, layer by layer from the leaves, and
  the root that a branch of siblings leads to.
\<close>

section \<open>Roots\<close>

type_synonym hasher = "bytes \<Rightarrow> bytes"

definition hash_nodes :: "hasher \<Rightarrow> bytes \<Rightarrow> bytes \<Rightarrow> bytes" where
  "hash_nodes H left right = H (left @ right)"

fun merkle_root :: "hasher \<Rightarrow> bytes \<Rightarrow> nat \<Rightarrow> bytes list \<Rightarrow> bytes" where
  "merkle_root H z 0 cs = (case cs of [] \<Rightarrow> z | c # _ \<Rightarrow> c)"
| "merkle_root H z (Suc d) cs =
     hash_nodes H (merkle_root H z d (take (2 ^ d) cs)) (merkle_root H z d (drop (2 ^ d) cs))"

definition zero_chunk :: bytes where
  "zero_chunk = replicate 32 0"

text \<open>The root of a tree of default leaves.\<close>

primrec zero_root :: "hasher \<Rightarrow> nat \<Rightarrow> bytes" where
  "zero_root H 0 = zero_chunk"
| "zero_root H (Suc d) = hash_nodes H (zero_root H d) (zero_root H d)"

lemma length_zero_chunk [simp]: "length zero_chunk = 32"
  by (simp add: zero_chunk_def)

lemma length_zero_root [simp]: "(\<And>b. length (H b) = 32) \<Longrightarrow> length (zero_root H d) = 32"
  by (cases d) (simp_all add: hash_nodes_def)

lemma merkle_root_Nil: "merkle_root H (zero_root H i) d [] = zero_root H (i + d)"
  by (induction d) simp_all

text \<open>Leaves beyond the width of the tree do not count.\<close>

lemma merkle_root_take: "2 ^ d \<le> n \<Longrightarrow> merkle_root H z d (take n cs) = merkle_root H z d cs"
proof (induction d arbitrary: n cs)
  case 0
  then show ?case by (cases cs; cases n) simp_all
next
  case (Suc d)
  then have "min (2 ^ d) n = 2 ^ d" by simp
  moreover have "merkle_root H z d (drop (2 ^ d) (take n cs)) = merkle_root H z d (drop (2 ^ d) cs)"
    using Suc.prems by (simp add: drop_take Suc.IH)
  ultimately show ?case by (simp add: take_take)
qed

text \<open>Nor do default leaves at the end.\<close>

lemma merkle_root_padded: "merkle_root H z d (cs @ replicate k z) = merkle_root H z d cs"
proof (induction d arbitrary: cs k)
  case 0
  then show ?case by (cases cs; cases k) simp_all
next
  case (Suc d)
  have "take (2 ^ d) (replicate k z) = replicate (min (2 ^ d) k) z" for k by simp
  then show ?case by (simp add: Suc)
qed

section \<open>Layers\<close>

text \<open>The next layer: each pair of neighbours is hashed, a last node alone with the default.\<close>

fun next_layer :: "hasher \<Rightarrow> bytes \<Rightarrow> bytes list \<Rightarrow> bytes list" where
  "next_layer H z (a # b # cs) = hash_nodes H a b # next_layer H z cs"
| "next_layer H z [a] = [hash_nodes H a z]"
| "next_layer H z [] = []"

lemma length_next_layer [simp]: "length (next_layer H z cs) = (length cs + 1) div 2"
  by (induction H z cs rule: next_layer.induct) simp_all

lemma next_layer_take: "next_layer H z (take (2 * n) cs) = take n (next_layer H z cs)"
proof (induction H z cs arbitrary: n rule: next_layer.induct)
  case (1 H z a b cs)
  then show ?case by (cases n) simp_all
next
  case (2 H z a)
  then show ?case by (cases n) simp_all
qed simp

lemma next_layer_drop: "next_layer H z (drop (2 * n) cs) = drop n (next_layer H z cs)"
proof (induction H z cs arbitrary: n rule: next_layer.induct)
  case (1 H z a b cs)
  then show ?case by (cases n) simp_all
next
  case (2 H z a)
  then show ?case by (cases n) simp_all
qed simp

lemma merkle_root_next_layer:
  "merkle_root H (hash_nodes H z z) d (next_layer H z cs) = merkle_root H z (Suc d) cs"
proof (induction d arbitrary: cs)
  case 0
  show ?case by (cases "(H, z, cs)" rule: next_layer.cases) simp_all
next
  case (Suc d)
  have "merkle_root H (hash_nodes H z z) (Suc d) (next_layer H z cs) =
      hash_nodes H (merkle_root H z (Suc d) (take (2 ^ Suc d) cs)) (merkle_root H z (Suc d) (drop (2 ^ Suc d) cs))"
    unfolding Suc.IH [symmetric] by (simp add: next_layer_take next_layer_drop)
  also have "\<dots> = merkle_root H z (Suc (Suc d)) cs" by (rule merkle_root.simps(2) [symmetric])
  finally show ?case .
qed

text \<open>All layers up to the root.\<close>

fun layers_root :: "hasher \<Rightarrow> nat \<Rightarrow> nat \<Rightarrow> bytes list \<Rightarrow> bytes list" where
  "layers_root H i 0 cs = cs"
| "layers_root H i (Suc d) cs = layers_root H (Suc i) d (next_layer H (zero_root H i) cs)"

lemma layers_root_nonempty: "cs \<noteq> [] \<Longrightarrow> layers_root H i d cs \<noteq> []"
proof (induction d arbitrary: i cs)
  case (Suc d)
  then have "next_layer H (zero_root H i) cs \<noteq> []" by (cases "(H, zero_root H i, cs)" rule: next_layer.cases) simp_all
  with Suc show ?case by simp
qed simp

lemma hd_layers_root:
  "cs \<noteq> [] \<Longrightarrow> hd (layers_root H i d cs) = merkle_root H (zero_root H i) d cs"
proof (induction d arbitrary: i cs)
  case 0
  then show ?case by (cases cs) simp_all
next
  case (Suc d)
  then have "next_layer H (zero_root H i) cs \<noteq> []" by (cases "(H, zero_root H i, cs)" rule: next_layer.cases) simp_all
  with Suc.IH have "hd (layers_root H i (Suc d) cs) =
      merkle_root H (zero_root H (Suc i)) d (next_layer H (zero_root H i) cs)" by simp
  also have "\<dots> = merkle_root H (zero_root H i) (Suc d) cs"
    using merkle_root_next_layer [of H "zero_root H i" d cs] by simp
  finally show ?case .
qed

section \<open>Branches\<close>

text \<open>The leaf at an index, with the default beyond the leaves.\<close>

definition leaf_at :: "bytes \<Rightarrow> bytes list \<Rightarrow> nat \<Rightarrow> bytes" where
  "leaf_at z cs i = (if i < length cs then cs ! i else z)"

lemma leaf_at_simps [simp]:
  "leaf_at z [] i = z" "leaf_at z (c # cs) 0 = c" "leaf_at z (c # cs) (Suc i) = leaf_at z cs i"
  by (simp_all add: leaf_at_def)

definition sibling :: "nat \<Rightarrow> nat" where
  "sibling i = (if even i then i + 1 else i - 1)"

text \<open>The root that a leaf and the siblings on its path lead to, from the leaf up.\<close>

fun branch_root :: "hasher \<Rightarrow> bytes \<Rightarrow> bytes list \<Rightarrow> nat \<Rightarrow> bytes" where
  "branch_root H v [] i = v"
| "branch_root H v (s # ss) i =
     branch_root H (if odd i then hash_nodes H s v else hash_nodes H v s) ss (i div 2)"

fun merkle_branch :: "hasher \<Rightarrow> nat \<Rightarrow> nat \<Rightarrow> bytes list \<Rightarrow> nat \<Rightarrow> bytes list" where
  "merkle_branch H i 0 cs k = []"
| "merkle_branch H i (Suc d) cs k =
     leaf_at (zero_root H i) cs (sibling k) # merkle_branch H (Suc i) d (next_layer H (zero_root H i) cs) (k div 2)"

lemma leaf_at_next_layer:
  "leaf_at (hash_nodes H z z) (next_layer H z cs) k =
     hash_nodes H (leaf_at z cs (2 * k)) (leaf_at z cs (2 * k + 1))"
proof (induction H z cs arbitrary: k rule: next_layer.induct)
  case (1 H z a b cs)
  then show ?case by (cases k) simp_all
next
  case (2 H z a)
  show ?case by (cases k) simp_all
qed simp

lemma branch_step:
  "(if odd k then hash_nodes H (leaf_at z cs (sibling k)) (leaf_at z cs k)
    else hash_nodes H (leaf_at z cs k) (leaf_at z cs (sibling k))) =
     leaf_at (hash_nodes H z z) (next_layer H z cs) (k div 2)"
  unfolding leaf_at_next_layer by (cases "even k") (auto simp: sibling_def elim!: oddE)

lemma branch_root_branch:
  "k < 2 ^ d \<Longrightarrow>
     branch_root H (leaf_at (zero_root H i) cs k) (merkle_branch H i d cs k) k =
       merkle_root H (zero_root H i) d cs"
proof (induction d arbitrary: i cs k)
  case 0
  then show ?case by (cases cs) (simp_all add: leaf_at_def)
next
  case (Suc d)
  let ?z = "zero_root H i"
  have "k div 2 < 2 ^ d" using Suc.prems by (simp add: less_mult_imp_div_less mult.commute)
  from Suc.IH [OF this, of "Suc i" "next_layer H ?z cs"] show ?case
    by (simp only: merkle_branch.simps branch_root.simps branch_step zero_root.simps merkle_root_next_layer)
qed

lemma length_branch [simp]: "length (merkle_branch H i d cs k) = d"
  by (induction d arbitrary: i cs k) simp_all

end
