(* ===== verification/Ssz_Ex_Merkleization.thy ===== *)
theory Ssz_Ex_Merkleization
  imports Ssz_Ex Merkle_Trees
begin

text \<open>
  \<open>lib/ssz_ex/hash.ex\<close> and \<open>lib/ssz_ex/merkleization.ex\<close>: hash tree roots of values, by layers held
  in one binary, and Merkle proofs. The hash function is SHA-256 from the Erlang library, a parameter
  here. \<open>compute_pow\<close> is a floating-point logarithm, modelled where it is exact.
\<close>

section \<open>Hashes of empty trees\<close>

definition compute_zero_hashes :: "hasher \<Rightarrow> bytes" where
  "compute_zero_hashes H = concat (map (\<lambda>i. ((\<lambda>z. hash_nodes H z z) ^^ i) zero_chunk) [0..<64 + 1])"

definition Hash_get_zero_hash :: "int \<Rightarrow> bytes \<Rightarrow> bytes ex" where
  "Hash_get_zero_hash depth zero_hashes =
     (if 0 \<le> depth \<and> depth \<le> 64 then
        let offset = (nat depth + 1) * 32 - 32
        in if length zero_hashes < offset + 32 then Panic ''MatchError''
           else Ok (take 32 (drop offset zero_hashes))
      else no_clause)"

definition get_zero_hash :: "hasher \<Rightarrow> int \<Rightarrow> bytes ex" where
  "get_zero_hash H depth = Hash_get_zero_hash depth (compute_zero_hashes H)"

section \<open>Powers of two\<close>

fun log2_floor :: "nat \<Rightarrow> nat" where
  "log2_floor n = (if n < 2 then 0 else Suc (log2_floor (n div 2)))"

declare log2_floor.simps [simp del]

text \<open>
  \<open>compute_pow\<close> is \<open>trunc(:math.log2(value))\<close>, on floats of 64 bits. The float is the exact logarithm
  of a power of two. For the other numbers below \<open>2 ^ 48\<close> the logarithm is at least
  \<open>0.72\<close> units in the last place below the next integer, which is more than the error of the
  logarithm, so that the integer part is right. From \<open>2 ^ 48\<close> on this fails: \<open>:math.log2(2 ** 49 - 1)\<close> is
  \<open>49.0\<close>. What the rounding gives for such a number depends on the C library; the value
  \<open>Panic ''inexact log2''\<close> says that the number is outside the model, and stands for no exception of
  the code.
\<close>

definition log2_exact :: "nat \<Rightarrow> bool" where
  "log2_exact value \<longleftrightarrow> value < 2 ^ 48 \<or> value = 2 ^ log2_floor value \<and> log2_floor value < 1024"

definition compute_pow :: "nat \<Rightarrow> nat ex" where
  "compute_pow value =
     (if value = 0 then Panic ''ArithmeticError''
      else if log2_exact value then Ok (log2_floor value)
      else Panic ''inexact log2'')"

definition next_pow_of_two :: "nat \<Rightarrow> nat ex" where
  "next_pow_of_two len = (if len = 0 then Ok 0 else map_ok (\<lambda>n. 2 ^ n) (compute_pow (2 * len - 1)))"

section \<open>Layers\<close>

definition get_chunks_len :: "bytes \<Rightarrow> nat" where
  "get_chunks_len chunks = length chunks div 32"

definition extract_chunks :: "nat \<Rightarrow> bytes \<Rightarrow> nat \<Rightarrow> bytes ex" where
  "extract_chunks left_chunk_index chunks chunk_count =
     (let start = left_chunk_index * 32; stop = (left_chunk_index + chunk_count) * 32
      in binary_part chunks start (int stop - int start))"

definition get_node_pair :: "nat \<Rightarrow> bytes \<Rightarrow> (bytes \<times> bytes) ex" where
  "get_node_pair left_children_index current_layer =
     and_then (extract_chunks left_children_index current_layer 2) (\<lambda>children.
     if length children = 64 then Ok (take 32 children, drop 32 children) else Panic ''MatchError'')"

definition get_nodes :: "hasher \<Rightarrow> nat \<Rightarrow> nat \<Rightarrow> nat \<Rightarrow> bytes \<Rightarrow> nat \<Rightarrow> (bytes \<times> bytes) ex" where
  "get_nodes H i left_children_index height current_layer current_last_index =
     (if left_children_index < current_last_index then get_node_pair left_children_index current_layer
      else if left_children_index = current_last_index then
        and_then (extract_chunks left_children_index current_layer 1) (\<lambda>left.
        let depth = int height - int i - 1
        in and_then (get_zero_hash H depth) (\<lambda>right. Ok (left, right)))
      else no_clause)"

definition get_parent_layer :: "hasher \<Rightarrow> nat \<Rightarrow> nat \<Rightarrow> bytes \<Rightarrow> nat \<Rightarrow> bytes ex" where
  "get_parent_layer H i height current_layer current_last_index =
     foldl (\<lambda>acc j. and_then acc (\<lambda>acc_parent_layer.
              and_then (get_nodes H i j height current_layer current_last_index) (\<lambda>(left, right).
              Ok (acc_parent_layer @ hash_nodes H left right))))
       (Ok []) [j \<leftarrow> [0..<Suc current_last_index]. j mod 2 = 0]"

text \<open>A range without a step counts down when its end is below its start.\<close>

definition ex_range :: "nat \<Rightarrow> nat \<Rightarrow> nat list" where
  "ex_range a b = (if a \<le> b then [a..<Suc b] else rev [b..<Suc a])"

definition merkleize_chunks_with_virtual_padding :: "hasher \<Rightarrow> bytes \<Rightarrow> nat \<Rightarrow> bytes ex" where
  "merkleize_chunks_with_virtual_padding H chunks leaf_count =
     (let chunks_len = get_chunks_len chunks
      in and_then (compute_pow leaf_count) (\<lambda>power.
         let height = power + 1
         in if chunks_len = 0 then get_zero_hash H (int height - 1)
            else if chunks_len = 1 \<and> leaf_count = 1 then Ok chunks
            else
              and_then
                (foldl (\<lambda>acc i. and_then acc (\<lambda>(current_last_index, current_layer).
                   and_then (get_parent_layer H i height current_layer current_last_index) (\<lambda>parent_layers.
                   Ok (current_last_index div 2, parent_layers))))
                   (Ok (chunks_len - 1, chunks)) (rev (ex_range 1 (height - 1))))
                (\<lambda>(_, final_layer).
                   if length final_layer < 32 then Panic ''MatchError'' else Ok (take 32 final_layer))))"

text \<open>\<open>merkleize_chunks\<close>, which pads the first layer with zero chunks instead.\<close>

definition get_full_parent_layer :: "hasher \<Rightarrow> bytes \<Rightarrow> bytes ex" where
  "get_full_parent_layer H current_layer =
     (if get_chunks_len current_layer = 0 then Panic ''ArgumentError''
      else foldl (\<lambda>acc j. and_then acc (\<lambda>acc_parent_layer.
              and_then (get_node_pair j current_layer) (\<lambda>(left, right).
              Ok (acc_parent_layer @ hash_nodes H left right))))
           (Ok []) [j \<leftarrow> [0..<get_chunks_len current_layer]. j mod 2 = 0])"

definition convert_to_next_pow_of_two :: "bytes \<Rightarrow> nat \<Rightarrow> bytes ex" where
  "convert_to_next_pow_of_two chunks leaf_count =
     (let n = length chunks div 32
      in and_then (next_pow_of_two leaf_count) (\<lambda>next_pow.
         if n = next_pow then Ok chunks
         else
           let steps = (if n < next_pow then next_pow - n else n - next_pow + 2);
               zero_chunks = concat (replicate steps zero_chunk)
           in Ok (chunks @ zero_chunks)))"

definition merkleize_chunks :: "hasher \<Rightarrow> bytes \<Rightarrow> nat option \<Rightarrow> bytes ex" where
  "merkleize_chunks H chunks leaf_count =
     (if get_chunks_len chunks = 1 \<and> leaf_count = None then Ok chunks
      else case leaf_count of
             None \<Rightarrow> Panic ''ArgumentError''
           | Some leaf_count \<Rightarrow>
               and_then (compute_pow leaf_count) (\<lambda>power.
               let height = power + 1
               in and_then (convert_to_next_pow_of_two chunks leaf_count) (\<lambda>first_layer.
                  foldl (\<lambda>acc i. and_then acc (get_full_parent_layer H)) (Ok first_layer)
                    (ex_range (height - 1) 1))))"

section \<open>Packing\<close>

definition pack_bytes :: "bytes \<Rightarrow> bytes" where
  "pack_bytes value =
     (let incomplete_chunk_len = length value * 8 mod 256
      in if incomplete_chunk_len \<noteq> 0 then
           let pad = 256 - incomplete_chunk_len in value @ replicate (pad div 8) 0
         else value)"

definition pack_bool :: "ex_val \<Rightarrow> bytes ex" where
  "pack_bool value =
     (case value of XBool True \<Rightarrow> Ok (le_bytes 32 1) | XBool False \<Rightarrow> Ok zero_chunk | _ \<Rightarrow> no_clause)"

definition pack_int :: "nat \<Rightarrow> ex_val \<Rightarrow> bytes ex" where
  "pack_int n value =
     (case value of XInt i \<Rightarrow> Ok (pack_bytes (le_bytes (n div 8) i)) | _ \<Rightarrow> Panic ''ArgumentError'')"

definition pack_list :: "schema \<Rightarrow> ex_val list \<Rightarrow> bytes ex" where
  "pack_list s list =
     map_ok pack_bytes
       (foldl (\<lambda>r x. and_then r (\<lambda>acc.
                 case encode s x of
                   Ok encoded \<Rightarrow> Ok (acc @ encoded)
                 | Err e \<Rightarrow> Panic ''MatchError''
                 | Panic m \<Rightarrow> Panic m)) (Ok []) list)"

fun chunk_count :: "schema \<Rightarrow> nat" where
  "chunk_count (SList s max_size) =
     (if basic_type s then (max_size * size_of s + 31) div 32 else max_size)"
| "chunk_count (SByteList max_size) = (max_size + 31) div 32"
| "chunk_count (SBitlist n) = (n + 256 - 1) div 256"
| "chunk_count (SBitvector n) = (n + 256 - 1) div 256"

section \<open>Hash tree roots\<close>

definition mix_in_length_ex :: "hasher \<Rightarrow> bytes \<Rightarrow> nat \<Rightarrow> bytes ex" where
  "mix_in_length_ex H root len =
     (case encode (SInt 256) (XInt (int len)) of
        Ok serialized_len \<Rightarrow> Ok (hash_nodes H root serialized_len)
      | _ \<Rightarrow> Panic ''MatchError'')"

definition hash_tree_root_list :: "hasher \<Rightarrow> bytes \<Rightarrow> nat \<Rightarrow> nat \<Rightarrow> bytes ex" where
  "hash_tree_root_list H chunks limit len =
     and_then (merkleize_chunks_with_virtual_padding H chunks limit) (\<lambda>root. mix_in_length_ex H root len)"

definition hash_tree_root_vector :: "hasher \<Rightarrow> bytes \<Rightarrow> bytes ex" where
  "hash_tree_root_vector H chunks =
     and_then (next_pow_of_two (get_chunks_len chunks)) (\<lambda>leaf_count.
     merkleize_chunks_with_virtual_padding H chunks leaf_count)"

text \<open>The loop over the elements of a list or vector, which stops at the first error.\<close>

fun list_hash_tree_root :: "(ex_val \<Rightarrow> bytes ex) \<Rightarrow> ex_val list \<Rightarrow> bytes \<Rightarrow> bytes ex" where
  "list_hash_tree_root root_of [] acc_roots = Ok acc_roots"
| "list_hash_tree_root root_of (value # list) acc_roots =
     and_then (root_of value) (\<lambda>root. list_hash_tree_root root_of list (acc_roots @ root))"

text \<open>The loop over the fields of a container.\<close>

fun container_hash_tree_root ::
  "(string \<times> ex_val) list \<Rightarrow> (string \<times> (ex_val \<Rightarrow> bytes ex)) list \<Rightarrow> bytes \<Rightarrow> bytes ex" where
  "container_hash_tree_root container [] acc_root = Ok acc_root"
| "container_hash_tree_root container ((key, root_of) # schemas) acc_root =
     (let value = (case map_of container key of Some v \<Rightarrow> v | None \<Rightarrow> XNil)
      in and_then (add_trace (root_of value) key) (\<lambda>root.
         container_hash_tree_root container schemas (acc_root @ root)))"

fun ex_hash_tree_root :: "hasher \<Rightarrow> schema \<Rightarrow> ex_val \<Rightarrow> bytes ex" where
  "ex_hash_tree_root H SBool value = pack_bool value"
| "ex_hash_tree_root H (SInt n) value = pack_int n value"
| "ex_hash_tree_root H (SByteList n) value =
     (case value of
        XBin b \<Rightarrow> hash_tree_root_list H (pack_bytes b) (chunk_count (SByteList n)) (length b)
      | _ \<Rightarrow> no_clause)"
| "ex_hash_tree_root H (SByteVector n) value =
     (case value of
        XBin b \<Rightarrow>
          if length b \<noteq> n then Err (error_of (MerkleByteVectorLength n (length b)))
          else hash_tree_root_vector H (pack_bytes b)
      | _ \<Rightarrow> no_clause)"
| "ex_hash_tree_root H (SBitlist n) value =
     (case value of
        XBits bs \<Rightarrow>
          and_then (next_pow_of_two (chunk_count (SBitlist n))) (\<lambda>leaf_count.
          and_then (merkleize_chunks_with_virtual_padding H (pack_bytes (BitList_to_packed_bytes bs)) leaf_count)
            (\<lambda>root. mix_in_length_ex H root (length bs)))
      | _ \<Rightarrow> Panic ''ArgumentError'')"
| "ex_hash_tree_root H (SBitvector n) value =
     (case value of
        XBits bs \<Rightarrow>
          and_then (next_pow_of_two (chunk_count (SBitvector n))) (\<lambda>leaf_count.
          merkleize_chunks_with_virtual_padding H (pack_bytes (BitVector_to_bytes bs)) leaf_count)
      | _ \<Rightarrow> Panic ''ArgumentError'')"
| "ex_hash_tree_root H (SList s max_size) value =
     (case value of
        XList list \<Rightarrow>
          let len = length list
          in if len > max_size then Err (error_of (MerkleListLength s max_size len))
             else if basic_type s then
               and_then (pack_list s list) (\<lambda>chunks.
               hash_tree_root_list H chunks (chunk_count (SList s max_size)) len)
             else
               and_then (list_hash_tree_root (ex_hash_tree_root H s) list []) (\<lambda>chunks.
               hash_tree_root_list H chunks (chunk_count (SList s max_size)) len)
      | _ \<Rightarrow> Panic ''Protocol.UndefinedError'')"
| "ex_hash_tree_root H (SVector s n) value =
     (case value of
        XList vector \<Rightarrow>
          if length vector \<noteq> n then Err (error_of (MerkleVectorLength s n (length vector)))
          else
            and_then (if basic_type s then pack_list s vector
                      else list_hash_tree_root (ex_hash_tree_root H s) vector [])
              (hash_tree_root_vector H)
      | _ \<Rightarrow> Panic ''Protocol.UndefinedError'')"
| "ex_hash_tree_root H (SModule nm fs) value =
     (case value of
        XStruct nm' vs \<Rightarrow>
          and_then (container_hash_tree_root vs (map (\<lambda>(k, s). (k, ex_hash_tree_root H s)) fs) []) (\<lambda>chunks.
          and_then (next_pow_of_two (get_chunks_len chunks)) (\<lambda>leaf_count.
          merkleize_chunks_with_virtual_padding H chunks leaf_count))
      | _ \<Rightarrow> no_clause)"

definition hash_tree_root_bang :: "hasher \<Rightarrow> schema \<Rightarrow> ex_val \<Rightarrow> bytes ex" where
  "hash_tree_root_bang H s value =
     (case ex_hash_tree_root H s value of
        Ok root \<Rightarrow> Ok root
      | Err e \<Rightarrow> Panic ''MatchError''
      | Panic m \<Rightarrow> Panic m)"

text \<open>\<open>SszEx.hash_tree_root/1\<close> of a struct, whose module's schema is given.\<close>

definition SszEx_hash_tree_root_struct :: "hasher \<Rightarrow> (string \<times> schema) list \<Rightarrow> ex_val \<Rightarrow> bytes ex" where
  "SszEx_hash_tree_root_struct H fs value =
     (case value of
        XStruct name vs \<Rightarrow> add_container (ex_hash_tree_root H (SModule name fs) value) name
      | _ \<Rightarrow> no_clause)"

section \<open>Merkle proofs\<close>

text \<open>\<open>Stream.chunk_every(leaves, 2)\<close> with the function that hashes the chunks.\<close>

fun hash_pairs :: "hasher \<Rightarrow> bytes \<Rightarrow> bytes list \<Rightarrow> bytes list" where
  "hash_pairs H default_hash (left # right # rest) = hash_nodes H left right # hash_pairs H default_hash rest"
| "hash_pairs H default_hash [node] = [hash_nodes H node default_hash]"
| "hash_pairs H default_hash [] = []"

function compute_merkle_proof_loop ::
  "hasher \<Rightarrow> bytes list \<Rightarrow> nat \<Rightarrow> nat \<Rightarrow> nat \<Rightarrow> bytes list \<Rightarrow> bytes list ex" where
  "compute_merkle_proof_loop H leaves index height max_height proof =
     (if length leaves = 1 \<and> height = max_height then Ok (rev proof)
      else if height > 64 then no_clause
      else
        and_then (get_zero_hash H (int height)) (\<lambda>default_hash.
        let sibling_index = index + 1 - index mod 2 * 2;
            proof_element = (if sibling_index < length leaves then leaves ! sibling_index else default_hash)
        in compute_merkle_proof_loop H (hash_pairs H default_hash leaves) (index div 2) (height + 1)
             max_height (proof_element # proof)))"
  by pat_completeness auto
termination by (relation "measure (\<lambda>(H, leaves, index, height, max_height, proof). 65 - height)") auto

declare compute_merkle_proof_loop.simps [simp del]

definition compute_merkle_proof :: "hasher \<Rightarrow> bytes list \<Rightarrow> nat \<Rightarrow> nat \<Rightarrow> bytes list ex" where
  "compute_merkle_proof H leaves index height = compute_merkle_proof_loop H leaves index 0 height []"

text \<open>\<open>lib/lambda_ethereum_consensus/state_transition/predicates.ex\<close>: the check of a branch.\<close>

definition hash_merkle_node :: "hasher \<Rightarrow> bytes \<Rightarrow> bytes \<Rightarrow> nat \<Rightarrow> nat \<Rightarrow> bytes" where
  "hash_merkle_node H value_1 value_2 index i =
     (if index div 2 ^ i mod 2 = 1 then H (value_1 @ value_2) else H (value_2 @ value_1))"

definition generate_merkle_proof :: "hasher \<Rightarrow> bytes \<Rightarrow> bytes list \<Rightarrow> nat \<Rightarrow> nat \<Rightarrow> bytes" where
  "generate_merkle_proof H leaf branch depth index =
     foldl (\<lambda>value (i, v). hash_merkle_node H v value index i) leaf (enumerate 0 (take depth branch))"

definition valid_merkle_branch :: "hasher \<Rightarrow> bytes \<Rightarrow> bytes list \<Rightarrow> nat \<Rightarrow> nat \<Rightarrow> bytes \<Rightarrow> bool" where
  "valid_merkle_branch H leaf branch depth index root \<longleftrightarrow>
     root = generate_merkle_proof H leaf branch depth index"

end
