(* ===== verification/Deposit_Tree.thy ===== *)
theory Deposit_Tree
  imports Ssz_Ex_Merkleization
begin

text \<open>
  \<open>lib/types/deposit_tree.ex\<close> and \<open>lib/types/deposit_tree_snapshot.ex\<close>: the pruned Merkle tree of
  deposits of EIP-4881. A node stands for an empty subtree, a leaf, a subtree whose leaves are
  finalized and forgotten, or two subtrees. The levels that the code counts down are integers, as
  there is nothing in the code that stops them at zero.
\<close>

section \<open>State\<close>

datatype tree_node =
    Leaf "bytes \<times> ex_val"
  | Zero int
  | Finalized "bytes \<times> nat"
  | Node tree_node tree_node

record deposit_tree =
  inner :: tree_node
  deposit_count :: nat
  finalized_execution_block :: "(bytes \<times> int) option"

record DepositTreeSnapshot =
  finalized :: "bytes list"
  deposit_root :: bytes
  snapshot_deposit_count :: nat
  execution_block_hash :: bytes
  execution_block_height :: int

record Eth1Data =
  eth1_deposit_root :: bytes
  eth1_deposit_count :: nat
  eth1_block_hash :: bytes

record Deposit =
  deposit_proof :: "bytes list"
  deposit_data :: ex_val

definition tree_depth :: nat where
  "tree_depth = 32"

definition DepositData_schema :: "(string \<times> schema) list" where
  "DepositData_schema =
     [(''pubkey'', SByteVector 48), (''withdrawal_credentials'', SByteVector 32),
      (''amount'', SInt 64), (''signature'', SByteVector 96)]"

abbreviation DepositData :: schema where
  "DepositData \<equiv> SModule ''Types.DepositData'' DepositData_schema"

section \<open>Private functions\<close>

text \<open>
  The subtree of a snapshot. Below level zero \<open>2 ** (level - 1)\<close> is a float. More than one deposit
  there are never used up, so the hashes run out and no clause matches. With hashes left over for no
  deposits the levels count down until \<open>2 ** level\<close> is \<open>0.0\<close>, at level \<open>-1075\<close>, where it is equal to the
  count: the first hash ends up under 1075 nodes, each with an empty subtree of a negative level beside it.
\<close>

fun parts_below_zero :: "bytes \<Rightarrow> nat \<Rightarrow> tree_node" where
  "parts_below_zero head 0 = Finalized (head, 0)"
| "parts_below_zero head (Suc k) = Node (parts_below_zero head k) (Zero (int k - 1075))"

fun from_snapshot_parts :: "bytes list \<Rightarrow> nat \<Rightarrow> nat \<Rightarrow> tree_node ex" where
  "from_snapshot_parts [] n level = (if n = 0 then Ok (Zero (int level)) else no_clause)"
| "from_snapshot_parts (head # rest) n 0 =
     (if n = 1 then Ok (Finalized (head, n)) else if n = 0 then Ok (parts_below_zero head 1075) else no_clause)"
| "from_snapshot_parts (head # rest) n (Suc level) =
     (let left_subtree = 2 ^ level
      in if n = 2 ^ Suc level then Ok (Finalized (head, n))
         else if n \<le> left_subtree then
           map_ok (\<lambda>left. Node left (Zero (int level))) (from_snapshot_parts (head # rest) n level)
         else
           map_ok (Node (Finalized (head, left_subtree))) (from_snapshot_parts rest (n - left_subtree) level))"

fun create_node :: "(bytes \<times> ex_val) list \<Rightarrow> nat \<Rightarrow> tree_node" where
  "create_node [] depth = Zero (int depth)"
| "create_node (leaf # _) 0 = Leaf leaf"
| "create_node leaves (Suc depth) =
     Node (create_node (take (2 ^ depth) leaves) depth) (create_node (drop (2 ^ depth) leaves) depth)"

fun get_node_root :: "hasher \<Rightarrow> tree_node \<Rightarrow> bytes ex" where
  "get_node_root H (Zero level) = get_zero_hash H level"
| "get_node_root H (Finalized (hash, _)) = Ok hash"
| "get_node_root H (Node left right) =
     and_then (get_node_root H left) (\<lambda>l.
     and_then (get_node_root H right) (\<lambda>r. Ok (hash_nodes H l r)))"
| "get_node_root H (Leaf (hash, _)) = Ok hash"

fun finalize_tree :: "hasher \<Rightarrow> tree_node \<Rightarrow> nat \<Rightarrow> nat \<Rightarrow> tree_node ex" where
  "finalize_tree H (Zero depth) n deposits = (if n = 0 then Ok (Zero depth) else no_clause)"
| "finalize_tree H (Finalized x) _ deposits = Ok (Finalized x)"
| "finalize_tree H (Leaf (hash, _)) _ deposits = Ok (Finalized (hash, 1))"
| "finalize_tree H (Node left right) to_finalize deposits =
     (if deposits \<le> to_finalize then
        map_ok (\<lambda>root. Finalized (root, deposits)) (get_node_root H (Node left right))
      else
        let child_deposits = deposits div 2
        in and_then (finalize_tree H left to_finalize child_deposits) (\<lambda>new_left.
           and_then
             (if to_finalize > child_deposits
              then finalize_tree H right (to_finalize - child_deposits) child_deposits
              else Ok right) (\<lambda>new_right.
           Ok (Node new_left new_right))))"

text \<open>
  A leaf ends the descent only at depth zero. A node at depth zero goes on below it, to a leaf at a
  negative depth or to a node without leaves, for which there is no clause.
\<close>

fun generate_proof :: "hasher \<Rightarrow> tree_node \<Rightarrow> nat \<Rightarrow> nat \<Rightarrow> bytes list \<Rightarrow> (ex_val \<times> bytes list) ex" where
  "generate_proof H (Leaf (_, data)) index depth proof = (if depth = 0 then Ok (data, proof) else no_clause)"
| "generate_proof H (Node left right) index depth proof =
     (case depth of
        0 \<Rightarrow> no_clause
      | Suc depth' \<Rightarrow>
          let ith_bit = index div 2 ^ depth' mod 2
          in if ith_bit = 1
             then and_then (get_node_root H left) (\<lambda>r. generate_proof H right index depth' (r # proof))
             else and_then (get_node_root H right) (\<lambda>r. generate_proof H left index depth' (r # proof)))"
| "generate_proof H _ index depth proof = no_clause"

fun full :: "tree_node \<Rightarrow> bool" where
  "full (Node _ right) = full right"
| "full (Zero _) = False"
| "full _ = True"

text \<open>For an empty subtree of a negative level \<open>create_node\<close> splits the leaves at a float, which raises.\<close>

fun push_leaf_inner :: "tree_node \<Rightarrow> bytes \<times> ex_val \<Rightarrow> int \<Rightarrow> tree_node ex" where
  "push_leaf_inner (Node left right) leaf_value level =
     (if full left then
        and_then (push_leaf_inner right leaf_value (level - 1)) (\<lambda>new_right. Ok (Node left new_right))
      else
        and_then (push_leaf_inner left leaf_value (level - 1)) (\<lambda>new_left. Ok (Node new_left right)))"
| "push_leaf_inner (Zero depth) leaf_value level =
     (if depth = level \<and> 0 \<le> depth then Ok (create_node [leaf_value] (nat depth)) else no_clause)"
| "push_leaf_inner _ leaf_value level = no_clause"

fun count_finalized :: "tree_node \<Rightarrow> nat" where
  "count_finalized (Finalized (_, n)) = n"
| "count_finalized (Node left right) = count_finalized left + count_finalized right"
| "count_finalized (Leaf _) = 0"
| "count_finalized (Zero _) = 0"

fun get_finalized :: "tree_node \<Rightarrow> bytes list" where
  "get_finalized (Finalized (hash, _)) = [hash]"
| "get_finalized (Node left right) = get_finalized right @ get_finalized left"
| "get_finalized (Leaf _) = []"
| "get_finalized (Zero _) = []"

section \<open>Public API\<close>

definition tree_mix_in_length :: "hasher \<Rightarrow> deposit_tree \<Rightarrow> bytes ex" where
  "tree_mix_in_length H tree = hash_tree_root_bang H (SInt 64) (XInt (int (deposit_count tree)))"

definition new_tree :: deposit_tree where
  "new_tree = \<lparr>inner = Zero (int tree_depth), deposit_count = 0, finalized_execution_block = None\<rparr>"

definition get_root :: "hasher \<Rightarrow> deposit_tree \<Rightarrow> bytes ex" where
  "get_root H tree =
     and_then (get_node_root H (inner tree)) (\<lambda>root.
     and_then (tree_mix_in_length H tree) (\<lambda>len. Ok (hash_nodes H root len)))"

definition from_snapshot :: "DepositTreeSnapshot \<Rightarrow> deposit_tree ex" where
  "from_snapshot snapshot =
     map_ok (\<lambda>inner_tree.
         \<lparr>inner = inner_tree, deposit_count = snapshot_deposit_count snapshot,
          finalized_execution_block =
            Some (execution_block_hash snapshot, execution_block_height snapshot)\<rparr>)
       (from_snapshot_parts (finalized snapshot) (snapshot_deposit_count snapshot) tree_depth)"

definition get_snapshot :: "hasher \<Rightarrow> deposit_tree \<Rightarrow> DepositTreeSnapshot ex" where
  "get_snapshot H tree =
     and_then (get_root H tree) (\<lambda>root.
     case finalized_execution_block tree of
       None \<Rightarrow> Panic ''MatchError''
     | Some (el_hash, el_height) \<Rightarrow>
         Ok \<lparr>finalized = get_finalized (inner tree), deposit_root = root,
             snapshot_deposit_count = deposit_count tree, execution_block_hash = el_hash,
             execution_block_height = el_height\<rparr>)"

definition finalize :: "hasher \<Rightarrow> deposit_tree \<Rightarrow> Eth1Data \<Rightarrow> int \<Rightarrow> deposit_tree ex" where
  "finalize H tree eth1_data block_height =
     and_then (finalize_tree H (inner tree) (eth1_deposit_count eth1_data) (2 ^ tree_depth)) (\<lambda>new_inner.
     Ok (tree\<lparr>inner := new_inner,
              finalized_execution_block := Some (eth1_block_hash eth1_data, block_height)\<rparr>))"

datatype deposit_error = DepositAlreadyFinalized | DepositIndexOutOfBounds

definition get_deposit :: "hasher \<Rightarrow> deposit_tree \<Rightarrow> nat \<Rightarrow> (deposit_error, Deposit) rust" where
  "get_deposit H tree index =
     (if index < count_finalized (inner tree) then Err DepositAlreadyFinalized
      else if index \<ge> deposit_count tree then Err DepositIndexOutOfBounds
      else
        case and_then (tree_mix_in_length H tree) (\<lambda>len.
             generate_proof H (inner tree) index tree_depth [len]) of
          Ok (data, proof) \<Rightarrow> Ok \<lparr>deposit_proof = proof, deposit_data = data\<rparr>
        | Err e \<Rightarrow> Panic ''MatchError''
        | Panic m \<Rightarrow> Panic m)"

definition push_leaf :: "hasher \<Rightarrow> deposit_tree \<Rightarrow> ex_val \<Rightarrow> deposit_tree ex" where
  "push_leaf H tree deposit =
     (case deposit of
        XStruct name vs \<Rightarrow>
          if name = ''Types.DepositData'' then
            and_then (hash_tree_root_bang H DepositData deposit) (\<lambda>root.
            and_then (push_leaf_inner (inner tree) (root, deposit) (int tree_depth)) (\<lambda>new_inner.
            Ok (tree\<lparr>inner := new_inner, deposit_count := deposit_count tree + 1\<rparr>)))
          else no_clause
      | _ \<Rightarrow> no_clause)"

text \<open>The snapshot of the empty tree, and the Eth1 data of a snapshot.\<close>

definition for_empty_tree :: "hasher \<Rightarrow> bytes \<Rightarrow> int \<Rightarrow> DepositTreeSnapshot ex" where
  "for_empty_tree H block_hash block_height =
     and_then (get_root H new_tree) (\<lambda>empty_root.
     Ok \<lparr>finalized = [], deposit_root = empty_root, snapshot_deposit_count = 0,
         execution_block_hash = block_hash, execution_block_height = block_height\<rparr>)"

definition get_eth1_data :: "DepositTreeSnapshot \<Rightarrow> Eth1Data" where
  "get_eth1_data snapshot =
     \<lparr>eth1_deposit_root = deposit_root snapshot, eth1_deposit_count = snapshot_deposit_count snapshot,
      eth1_block_hash = execution_block_hash snapshot\<rparr>"

text \<open>\<open>execution_chain.ex\<close>: all deposits of a list are pushed in its order.\<close>

fun update_tree_with_deposits :: "hasher \<Rightarrow> deposit_tree \<Rightarrow> ex_val list \<Rightarrow> deposit_tree ex" where
  "update_tree_with_deposits H tree [] = Ok tree"
| "update_tree_with_deposits H tree (deposit # rest) =
     and_then (push_leaf H tree deposit) (\<lambda>tree. update_tree_with_deposits H tree rest)"

end
