(* ===== verification/Containers.thy ===== *)
theory Containers
  imports Chain_Spec Deposit_Tree
begin

text \<open>
  The schemas of the consensus containers, \<open>schema/0\<close> of the modules under \<open>lib/types\<close>, with the
  aliases of \<open>lib/types/type_aliases.ex\<close>. The constants of the network are the argument \<open>spec\<close>. A
  module is declared after the ones its schema names. The table \<open>containers\<close> collects them.
\<close>

section \<open>Constants\<close>

definition justification_bits_length :: nat where
  "justification_bits_length = 4"

definition sync_committee_subnet_count :: nat where
  "sync_committee_subnet_count = 4"

definition bytes_per_field_element :: nat where
  "bytes_per_field_element = 32"

definition sync_subcommittee_size :: "chain_spec \<Rightarrow> nat" where
  "sync_subcommittee_size spec = spec ''SYNC_COMMITTEE_SIZE'' div sync_committee_subnet_count"

section \<open>Aliases\<close>

definition alias_root :: schema where
  "alias_root = SByteVector 32"

definition alias_epoch :: schema where
  "alias_epoch = SInt 64"

definition alias_bls_signature :: schema where
  "alias_bls_signature = SByteVector 96"

definition alias_slot :: schema where
  "alias_slot = SInt 64"

definition alias_commitee_index :: schema where
  "alias_commitee_index = SInt 64"

definition alias_validator_index :: schema where
  "alias_validator_index = SInt 64"

definition alias_gwei :: schema where
  "alias_gwei = SInt 64"

definition alias_participation_flags :: schema where
  "alias_participation_flags = SInt 8"

definition alias_withdrawal_index :: schema where
  "alias_withdrawal_index = SInt 64"

definition alias_bls_pubkey :: schema where
  "alias_bls_pubkey = SByteVector 48"

definition alias_execution_address :: schema where
  "alias_execution_address = SByteVector 20"

definition alias_version :: schema where
  "alias_version = SByteVector 4"

definition alias_domain :: schema where
  "alias_domain = SByteVector 32"

definition alias_domain_type :: schema where
  "alias_domain_type = SByteVector 4"

definition alias_fork_digest :: schema where
  "alias_fork_digest = SByteVector 4"

definition alias_blob :: "chain_spec \<Rightarrow> schema" where
  "alias_blob spec = SByteVector (bytes_per_field_element * spec ''FIELD_ELEMENTS_PER_BLOB'')"

definition alias_kzg_commitment :: schema where
  "alias_kzg_commitment = SByteVector 48"

definition alias_kzg_proof :: schema where
  "alias_kzg_proof = SByteVector 48"

definition alias_bytes32 :: schema where
  "alias_bytes32 = SByteVector 32"

definition alias_uint64 :: schema where
  "alias_uint64 = SInt 64"

definition alias_hash32 :: schema where
  "alias_hash32 = SByteVector 32"

definition alias_uint256 :: schema where
  "alias_uint256 = SInt 256"

definition alias_transactions :: "chain_spec \<Rightarrow> schema" where
  "alias_transactions spec = (let transaction = SByteList (spec ''MAX_BYTES_PER_TRANSACTION'')
      in SList transaction (spec ''MAX_TRANSACTIONS_PER_PAYLOAD''))"

definition alias_beacon_blocks_by_root_request :: "chain_spec \<Rightarrow> schema" where
  "alias_beacon_blocks_by_root_request spec = SList alias_root (spec ''MAX_REQUEST_BLOCKS'')"

definition alias_error_message :: schema where
  "alias_error_message = SByteList 256"

definition alias_blob_index :: schema where
  "alias_blob_index = alias_uint64"

lemmas alias_defs =
  alias_root_def alias_epoch_def alias_bls_signature_def alias_slot_def alias_commitee_index_def
  alias_validator_index_def alias_gwei_def alias_participation_flags_def alias_withdrawal_index_def
  alias_bls_pubkey_def alias_execution_address_def alias_version_def alias_domain_def
  alias_domain_type_def alias_fork_digest_def alias_blob_def alias_kzg_commitment_def
  alias_kzg_proof_def alias_bytes32_def alias_uint64_def alias_hash32_def alias_uint256_def
  alias_transactions_def alias_beacon_blocks_by_root_request_def alias_error_message_def
  alias_blob_index_def

section \<open>Containers\<close>

definition Checkpoint_container :: "chain_spec \<Rightarrow> schema" where
  "Checkpoint_container spec = SModule ''Types.Checkpoint'' [
     (''epoch'', alias_epoch),
     (''root'', alias_root)]"

definition AttestationData_container :: "chain_spec \<Rightarrow> schema" where
  "AttestationData_container spec = SModule ''Types.AttestationData'' [
     (''slot'', alias_slot),
     (''index'', alias_commitee_index),
     (''beacon_block_root'', alias_root),
     (''source'', Checkpoint_container spec),
     (''target'', Checkpoint_container spec)]"

definition Attestation_container :: "chain_spec \<Rightarrow> schema" where
  "Attestation_container spec = SModule ''Types.Attestation'' [
     (''aggregation_bits'', SBitlist (spec ''MAX_VALIDATORS_PER_COMMITTEE'' * spec ''MAX_COMMITTEES_PER_SLOT'')),
     (''data'', AttestationData_container spec),
     (''signature'', alias_bls_signature),
     (''committee_bits'', SBitvector (spec ''MAX_COMMITTEES_PER_SLOT''))]"

definition IndexedAttestation_container :: "chain_spec \<Rightarrow> schema" where
  "IndexedAttestation_container spec = SModule ''Types.IndexedAttestation'' [
     (''attesting_indices'', SList alias_validator_index (spec ''MAX_VALIDATORS_PER_COMMITTEE'' * spec ''MAX_COMMITTEES_PER_SLOT'')),
     (''data'', AttestationData_container spec),
     (''signature'', alias_bls_signature)]"

definition AttesterSlashing_container :: "chain_spec \<Rightarrow> schema" where
  "AttesterSlashing_container spec = SModule ''Types.AttesterSlashing'' [
     (''attestation_1'', IndexedAttestation_container spec),
     (''attestation_2'', IndexedAttestation_container spec)]"

definition Eth1Data_container :: "chain_spec \<Rightarrow> schema" where
  "Eth1Data_container spec = SModule ''Types.Eth1Data'' [
     (''deposit_root'', alias_root),
     (''deposit_count'', alias_uint64),
     (''block_hash'', alias_hash32)]"

definition BeaconBlockHeader_container :: "chain_spec \<Rightarrow> schema" where
  "BeaconBlockHeader_container spec = SModule ''Types.BeaconBlockHeader'' [
     (''slot'', alias_slot),
     (''proposer_index'', alias_validator_index),
     (''parent_root'', alias_root),
     (''state_root'', alias_root),
     (''body_root'', alias_root)]"

definition SignedBeaconBlockHeader_container :: "chain_spec \<Rightarrow> schema" where
  "SignedBeaconBlockHeader_container spec = SModule ''Types.SignedBeaconBlockHeader'' [
     (''message'', BeaconBlockHeader_container spec),
     (''signature'', alias_bls_signature)]"

definition ProposerSlashing_container :: "chain_spec \<Rightarrow> schema" where
  "ProposerSlashing_container spec = SModule ''Types.ProposerSlashing'' [
     (''signed_header_1'', SignedBeaconBlockHeader_container spec),
     (''signed_header_2'', SignedBeaconBlockHeader_container spec)]"

definition DepositData_container :: "chain_spec \<Rightarrow> schema" where
  "DepositData_container spec = SModule ''Types.DepositData'' DepositData_schema"

definition Deposit_container :: "chain_spec \<Rightarrow> schema" where
  "Deposit_container spec = SModule ''Types.Deposit'' [
     (''proof'', SVector alias_bytes32 33),
     (''data'', DepositData_container spec)]"

definition VoluntaryExit_container :: "chain_spec \<Rightarrow> schema" where
  "VoluntaryExit_container spec = SModule ''Types.VoluntaryExit'' [
     (''epoch'', alias_epoch),
     (''validator_index'', alias_validator_index)]"

definition SignedVoluntaryExit_container :: "chain_spec \<Rightarrow> schema" where
  "SignedVoluntaryExit_container spec = SModule ''Types.SignedVoluntaryExit'' [
     (''message'', VoluntaryExit_container spec),
     (''signature'', alias_bls_signature)]"

definition SyncAggregate_container :: "chain_spec \<Rightarrow> schema" where
  "SyncAggregate_container spec = SModule ''Types.SyncAggregate'' [
     (''sync_committee_bits'', SBitvector (spec ''SYNC_COMMITTEE_SIZE'')),
     (''sync_committee_signature'', alias_bls_signature)]"

definition Withdrawal_container :: "chain_spec \<Rightarrow> schema" where
  "Withdrawal_container spec = SModule ''Types.Withdrawal'' [
     (''index'', alias_withdrawal_index),
     (''validator_index'', alias_validator_index),
     (''address'', alias_execution_address),
     (''amount'', alias_gwei)]"

definition ExecutionPayload_container :: "chain_spec \<Rightarrow> schema" where
  "ExecutionPayload_container spec = SModule ''Types.ExecutionPayload'' [
     (''parent_hash'', alias_hash32),
     (''fee_recipient'', alias_execution_address),
     (''state_root'', alias_root),
     (''receipts_root'', alias_root),
     (''logs_bloom'', SByteVector (spec ''BYTES_PER_LOGS_BLOOM'')),
     (''prev_randao'', alias_bytes32),
     (''block_number'', alias_uint64),
     (''gas_limit'', alias_uint64),
     (''gas_used'', alias_uint64),
     (''timestamp'', alias_uint64),
     (''extra_data'', SByteList (spec ''MAX_EXTRA_DATA_BYTES'')),
     (''base_fee_per_gas'', alias_uint256),
     (''block_hash'', alias_hash32),
     (''transactions'', alias_transactions spec),
     (''withdrawals'', SList (Withdrawal_container spec) (spec ''MAX_WITHDRAWALS_PER_PAYLOAD'')),
     (''blob_gas_used'', alias_uint64),
     (''excess_blob_gas'', alias_uint64)]"

definition BLSToExecutionChange_container :: "chain_spec \<Rightarrow> schema" where
  "BLSToExecutionChange_container spec = SModule ''Types.BLSToExecutionChange'' [
     (''validator_index'', alias_validator_index),
     (''from_bls_pubkey'', alias_bls_pubkey),
     (''to_execution_address'', alias_execution_address)]"

definition SignedBLSToExecutionChange_container :: "chain_spec \<Rightarrow> schema" where
  "SignedBLSToExecutionChange_container spec = SModule ''Types.SignedBLSToExecutionChange'' [
     (''message'', BLSToExecutionChange_container spec),
     (''signature'', alias_bls_signature)]"

definition DepositRequest_container :: "chain_spec \<Rightarrow> schema" where
  "DepositRequest_container spec = SModule ''Types.DepositRequest'' [
     (''pubkey'', alias_bls_pubkey),
     (''withdrawal_credentials'', alias_bytes32),
     (''amount'', alias_gwei),
     (''signature'', alias_bls_signature),
     (''index'', alias_uint64)]"

definition WithdrawalRequest_container :: "chain_spec \<Rightarrow> schema" where
  "WithdrawalRequest_container spec = SModule ''Types.WithdrawalRequest'' [
     (''source_address'', alias_execution_address),
     (''validator_pubkey'', alias_bls_pubkey),
     (''amount'', alias_gwei)]"

definition ConsolidationRequest_container :: "chain_spec \<Rightarrow> schema" where
  "ConsolidationRequest_container spec = SModule ''Types.ConsolidationRequest'' [
     (''source_address'', alias_execution_address),
     (''source_pubkey'', alias_bls_pubkey),
     (''target_pubkey'', alias_bls_pubkey)]"

definition ExecutionRequests_container :: "chain_spec \<Rightarrow> schema" where
  "ExecutionRequests_container spec = SModule ''Types.ExecutionRequests'' [
     (''deposits'', SList (DepositRequest_container spec) (spec ''MAX_DEPOSIT_REQUESTS_PER_PAYLOAD'')),
     (''withdrawals'', SList (WithdrawalRequest_container spec) (spec ''MAX_WITHDRAWAL_REQUESTS_PER_PAYLOAD'')),
     (''consolidations'', SList (ConsolidationRequest_container spec) (spec ''MAX_CONSOLIDATION_REQUESTS_PER_PAYLOAD''))]"

definition BeaconBlockBody_container :: "chain_spec \<Rightarrow> schema" where
  "BeaconBlockBody_container spec = SModule ''Types.BeaconBlockBody'' [
     (''randao_reveal'', alias_bls_signature),
     (''eth1_data'', Eth1Data_container spec),
     (''graffiti'', alias_bytes32),
     (''proposer_slashings'', SList (ProposerSlashing_container spec) (spec ''MAX_PROPOSER_SLASHINGS'')),
     (''attester_slashings'', SList (AttesterSlashing_container spec) (spec ''MAX_ATTESTER_SLASHINGS_ELECTRA'')),
     (''attestations'', SList (Attestation_container spec) (spec ''MAX_ATTESTATIONS_ELECTRA'')),
     (''deposits'', SList (Deposit_container spec) (spec ''MAX_DEPOSITS'')),
     (''voluntary_exits'', SList (SignedVoluntaryExit_container spec) (spec ''MAX_VOLUNTARY_EXITS'')),
     (''sync_aggregate'', SyncAggregate_container spec),
     (''execution_payload'', ExecutionPayload_container spec),
     (''bls_to_execution_changes'', SList (SignedBLSToExecutionChange_container spec) (spec ''MAX_BLS_TO_EXECUTION_CHANGES'')),
     (''blob_kzg_commitments'', SList alias_kzg_commitment (spec ''MAX_BLOB_COMMITMENTS_PER_BLOCK'')),
     (''execution_requests'', ExecutionRequests_container spec)]"

definition BeaconBlock_container :: "chain_spec \<Rightarrow> schema" where
  "BeaconBlock_container spec = SModule ''Types.BeaconBlock'' [
     (''slot'', alias_slot),
     (''proposer_index'', alias_validator_index),
     (''parent_root'', alias_root),
     (''state_root'', alias_root),
     (''body'', BeaconBlockBody_container spec)]"

definition Fork_container :: "chain_spec \<Rightarrow> schema" where
  "Fork_container spec = SModule ''Types.Fork'' [
     (''previous_version'', alias_version),
     (''current_version'', alias_version),
     (''epoch'', alias_epoch)]"

definition Validator_container :: "chain_spec \<Rightarrow> schema" where
  "Validator_container spec = SModule ''Types.Validator'' [
     (''pubkey'', alias_bls_pubkey),
     (''withdrawal_credentials'', alias_bytes32),
     (''effective_balance'', alias_gwei),
     (''slashed'', SBool),
     (''activation_eligibility_epoch'', alias_epoch),
     (''activation_epoch'', alias_epoch),
     (''exit_epoch'', alias_epoch),
     (''withdrawable_epoch'', alias_epoch)]"

definition SyncCommittee_container :: "chain_spec \<Rightarrow> schema" where
  "SyncCommittee_container spec = SModule ''Types.SyncCommittee'' [
     (''pubkeys'', SVector alias_bls_pubkey (spec ''SYNC_COMMITTEE_SIZE'')),
     (''aggregate_pubkey'', alias_bls_pubkey)]"

definition ExecutionPayloadHeader_container :: "chain_spec \<Rightarrow> schema" where
  "ExecutionPayloadHeader_container spec = SModule ''Types.ExecutionPayloadHeader'' [
     (''parent_hash'', alias_hash32),
     (''fee_recipient'', alias_execution_address),
     (''state_root'', alias_root),
     (''receipts_root'', alias_root),
     (''logs_bloom'', SByteVector (spec ''BYTES_PER_LOGS_BLOOM'')),
     (''prev_randao'', alias_bytes32),
     (''block_number'', alias_uint64),
     (''gas_limit'', alias_uint64),
     (''gas_used'', alias_uint64),
     (''timestamp'', alias_uint64),
     (''extra_data'', SByteList (spec ''MAX_EXTRA_DATA_BYTES'')),
     (''base_fee_per_gas'', alias_uint256),
     (''block_hash'', alias_hash32),
     (''transactions_root'', alias_root),
     (''withdrawals_root'', alias_root),
     (''blob_gas_used'', alias_uint64),
     (''excess_blob_gas'', alias_uint64)]"

definition HistoricalSummary_container :: "chain_spec \<Rightarrow> schema" where
  "HistoricalSummary_container spec = SModule ''Types.HistoricalSummary'' [
     (''block_summary_root'', alias_root),
     (''state_summary_root'', alias_root)]"

definition PendingDeposit_container :: "chain_spec \<Rightarrow> schema" where
  "PendingDeposit_container spec = SModule ''Types.PendingDeposit'' [
     (''pubkey'', alias_bls_pubkey),
     (''withdrawal_credentials'', alias_bytes32),
     (''amount'', alias_gwei),
     (''signature'', alias_bls_signature),
     (''slot'', alias_slot)]"

definition PendingPartialWithdrawal_container :: "chain_spec \<Rightarrow> schema" where
  "PendingPartialWithdrawal_container spec = SModule ''Types.PendingPartialWithdrawal'' [
     (''validator_index'', alias_validator_index),
     (''amount'', alias_gwei),
     (''withdrawable_epoch'', alias_epoch)]"

definition PendingConsolidation_container :: "chain_spec \<Rightarrow> schema" where
  "PendingConsolidation_container spec = SModule ''Types.PendingConsolidation'' [
     (''source_index'', alias_validator_index),
     (''target_index'', alias_validator_index)]"

definition BeaconState_container :: "chain_spec \<Rightarrow> schema" where
  "BeaconState_container spec = SModule ''Types.BeaconState'' [
     (''genesis_time'', alias_uint64),
     (''genesis_validators_root'', alias_root),
     (''slot'', alias_slot),
     (''fork'', Fork_container spec),
     (''latest_block_header'', BeaconBlockHeader_container spec),
     (''block_roots'', SVector alias_root (spec ''SLOTS_PER_HISTORICAL_ROOT'')),
     (''state_roots'', SVector alias_root (spec ''SLOTS_PER_HISTORICAL_ROOT'')),
     (''historical_roots'', SList alias_root (spec ''HISTORICAL_ROOTS_LIMIT'')),
     (''eth1_data'', Eth1Data_container spec),
     (''eth1_data_votes'', SList (Eth1Data_container spec) (spec ''EPOCHS_PER_ETH1_VOTING_PERIOD'' * spec ''SLOTS_PER_EPOCH'')),
     (''eth1_deposit_index'', alias_uint64),
     (''validators'', SList (Validator_container spec) (spec ''VALIDATOR_REGISTRY_LIMIT'')),
     (''balances'', SList alias_gwei (spec ''VALIDATOR_REGISTRY_LIMIT'')),
     (''randao_mixes'', SVector alias_bytes32 (spec ''EPOCHS_PER_HISTORICAL_VECTOR'')),
     (''slashings'', SVector alias_gwei (spec ''EPOCHS_PER_SLASHINGS_VECTOR'')),
     (''previous_epoch_participation'', SList alias_participation_flags (spec ''VALIDATOR_REGISTRY_LIMIT'')),
     (''current_epoch_participation'', SList alias_participation_flags (spec ''VALIDATOR_REGISTRY_LIMIT'')),
     (''justification_bits'', SBitvector justification_bits_length),
     (''previous_justified_checkpoint'', Checkpoint_container spec),
     (''current_justified_checkpoint'', Checkpoint_container spec),
     (''finalized_checkpoint'', Checkpoint_container spec),
     (''inactivity_scores'', SList alias_uint64 (spec ''VALIDATOR_REGISTRY_LIMIT'')),
     (''current_sync_committee'', SyncCommittee_container spec),
     (''next_sync_committee'', SyncCommittee_container spec),
     (''latest_execution_payload_header'', ExecutionPayloadHeader_container spec),
     (''next_withdrawal_index'', alias_withdrawal_index),
     (''next_withdrawal_validator_index'', alias_validator_index),
     (''historical_summaries'', SList (HistoricalSummary_container spec) (spec ''HISTORICAL_ROOTS_LIMIT'')),
     (''deposit_requests_start_index'', alias_uint64),
     (''deposit_balance_to_consume'', alias_gwei),
     (''exit_balance_to_consume'', alias_gwei),
     (''earliest_exit_epoch'', alias_epoch),
     (''consolidation_balance_to_consume'', alias_gwei),
     (''earliest_consolidation_epoch'', alias_epoch),
     (''pending_deposits'', SList (PendingDeposit_container spec) (spec ''PENDING_DEPOSITS_LIMIT'')),
     (''pending_partial_withdrawals'', SList (PendingPartialWithdrawal_container spec) (spec ''PENDING_PARTIAL_WITHDRAWALS_LIMIT'')),
     (''pending_consolidations'', SList (PendingConsolidation_container spec) (spec ''PENDING_CONSOLIDATIONS_LIMIT''))]"

definition BlobIdentifier_container :: "chain_spec \<Rightarrow> schema" where
  "BlobIdentifier_container spec = SModule ''Types.BlobIdentifier'' [
     (''block_root'', alias_root),
     (''index'', alias_blob_index)]"

definition alias_blob_sidecars_by_root_request :: "chain_spec \<Rightarrow> schema" where
  "alias_blob_sidecars_by_root_request spec = SList (BlobIdentifier_container spec) (spec ''MAX_REQUEST_BLOB_SIDECARS'')"

definition BlobSidecar_container :: "chain_spec \<Rightarrow> schema" where
  "BlobSidecar_container spec = SModule ''Types.BlobSidecar'' [
     (''index'', alias_blob_index),
     (''blob'', alias_blob spec),
     (''kzg_commitment'', alias_kzg_commitment),
     (''kzg_proof'', alias_kzg_proof),
     (''signed_block_header'', SignedBeaconBlockHeader_container spec),
     (''kzg_commitment_inclusion_proof'', SVector alias_bytes32 (spec ''KZG_COMMITMENT_INCLUSION_PROOF_DEPTH''))]"

definition DepositMessage_container :: "chain_spec \<Rightarrow> schema" where
  "DepositMessage_container spec = SModule ''Types.DepositMessage'' [
     (''pubkey'', alias_bls_pubkey),
     (''withdrawal_credentials'', alias_bytes32),
     (''amount'', alias_gwei)]"

definition Eth1Block_container :: "chain_spec \<Rightarrow> schema" where
  "Eth1Block_container spec = SModule ''Types.Eth1Block'' [
     (''timestamp'', alias_uint64),
     (''deposit_root'', alias_root),
     (''deposit_count'', alias_uint64)]"

definition ForkData_container :: "chain_spec \<Rightarrow> schema" where
  "ForkData_container spec = SModule ''Types.ForkData'' [
     (''current_version'', alias_version),
     (''genesis_validators_root'', alias_root)]"

definition HistoricalBatch_container :: "chain_spec \<Rightarrow> schema" where
  "HistoricalBatch_container spec = SModule ''Types.HistoricalBatch'' [
     (''block_roots'', SVector alias_root (spec ''SLOTS_PER_HISTORICAL_ROOT'')),
     (''state_roots'', SVector alias_root (spec ''SLOTS_PER_HISTORICAL_ROOT''))]"

definition PendingAttestation_container :: "chain_spec \<Rightarrow> schema" where
  "PendingAttestation_container spec = SModule ''Types.PendingAttestation'' [
     (''aggregation_bits'', SBitlist (spec ''MAX_VALIDATORS_PER_COMMITTEE'')),
     (''data'', AttestationData_container spec),
     (''inclusion_delay'', alias_slot),
     (''proposer_index'', alias_validator_index)]"

definition SignedBeaconBlock_container :: "chain_spec \<Rightarrow> schema" where
  "SignedBeaconBlock_container spec = SModule ''Types.SignedBeaconBlock'' [
     (''message'', BeaconBlock_container spec),
     (''signature'', alias_bls_signature)]"

definition SigningData_container :: "chain_spec \<Rightarrow> schema" where
  "SigningData_container spec = SModule ''Types.SigningData'' [
     (''object_root'', alias_root),
     (''domain'', alias_domain)]"

definition SingleAttestation_container :: "chain_spec \<Rightarrow> schema" where
  "SingleAttestation_container spec = SModule ''Types.SingleAttestation'' [
     (''committee_index'', alias_commitee_index),
     (''attester_index'', alias_validator_index),
     (''data'', AttestationData_container spec),
     (''signature'', alias_bls_signature)]"

definition SyncAggregatorSelectionData_container :: "chain_spec \<Rightarrow> schema" where
  "SyncAggregatorSelectionData_container spec = SModule ''Types.SyncAggregatorSelectionData'' [
     (''slot'', alias_slot),
     (''subcommittee_index'', alias_uint64)]"

definition AggregateAndProof_container :: "chain_spec \<Rightarrow> schema" where
  "AggregateAndProof_container spec = SModule ''Types.AggregateAndProof'' [
     (''aggregator_index'', alias_validator_index),
     (''aggregate'', Attestation_container spec),
     (''selection_proof'', alias_bls_signature)]"

definition SyncCommitteeContribution_container :: "chain_spec \<Rightarrow> schema" where
  "SyncCommitteeContribution_container spec = SModule ''Types.SyncCommitteeContribution'' [
     (''slot'', alias_slot),
     (''beacon_block_root'', alias_root),
     (''subcommittee_index'', alias_uint64),
     (''aggregation_bits'', SBitvector (sync_subcommittee_size spec)),
     (''signature'', alias_bls_signature)]"

definition ContributionAndProof_container :: "chain_spec \<Rightarrow> schema" where
  "ContributionAndProof_container spec = SModule ''Types.ContributionAndProof'' [
     (''aggregator_index'', alias_validator_index),
     (''contribution'', SyncCommitteeContribution_container spec),
     (''selection_proof'', alias_bls_signature)]"

definition SignedAggregateAndProof_container :: "chain_spec \<Rightarrow> schema" where
  "SignedAggregateAndProof_container spec = SModule ''Types.SignedAggregateAndProof'' [
     (''message'', AggregateAndProof_container spec),
     (''signature'', alias_bls_signature)]"

definition SignedContributionAndProof_container :: "chain_spec \<Rightarrow> schema" where
  "SignedContributionAndProof_container spec = SModule ''Types.SignedContributionAndProof'' [
     (''message'', ContributionAndProof_container spec),
     (''signature'', alias_bls_signature)]"

definition SyncCommitteeMessage_container :: "chain_spec \<Rightarrow> schema" where
  "SyncCommitteeMessage_container spec = SModule ''Types.SyncCommitteeMessage'' [
     (''slot'', alias_slot),
     (''beacon_block_root'', alias_root),
     (''validator_index'', alias_validator_index),
     (''signature'', alias_bls_signature)]"

definition BeaconBlocksByRangeRequest_container :: "chain_spec \<Rightarrow> schema" where
  "BeaconBlocksByRangeRequest_container spec = SModule ''Types.BeaconBlocksByRangeRequest'' [
     (''start_slot'', alias_slot),
     (''count'', alias_uint64),
     (''step'', alias_uint64)]"

definition EnrForkId_container :: "chain_spec \<Rightarrow> schema" where
  "EnrForkId_container spec = SModule ''Types.EnrForkId'' [
     (''fork_digest'', alias_fork_digest),
     (''next_fork_version'', alias_version),
     (''next_fork_epoch'', alias_epoch)]"

definition Metadata_container :: "chain_spec \<Rightarrow> schema" where
  "Metadata_container spec = SModule ''Types.Metadata'' [
     (''seq_number'', alias_uint64),
     (''attnets'', SBitvector (spec ''ATTESTATION_SUBNET_COUNT'')),
     (''syncnets'', SBitvector sync_committee_subnet_count)]"

definition StatusMessage_container :: "chain_spec \<Rightarrow> schema" where
  "StatusMessage_container spec = SModule ''Types.StatusMessage'' [
     (''fork_digest'', alias_fork_digest),
     (''finalized_root'', alias_root),
     (''finalized_epoch'', alias_epoch),
     (''head_root'', alias_root),
     (''head_slot'', alias_slot)]"

definition Blobdata_container :: "chain_spec \<Rightarrow> schema" where
  "Blobdata_container spec = SModule ''Types.Blobdata'' [
     (''blob'', alias_blob spec),
     (''proof'', alias_kzg_proof)]"

definition containers :: "(string \<times> (chain_spec \<Rightarrow> schema)) list" where
  "containers = [
     (''HistoricalSummary'', HistoricalSummary_container),
     (''AttestationData'', AttestationData_container),
     (''IndexedAttestation'', IndexedAttestation_container),
     (''Checkpoint'', Checkpoint_container),
     (''Eth1Data'', Eth1Data_container),
     (''Fork'', Fork_container),
     (''ForkData'', ForkData_container),
     (''HistoricalBatch'', HistoricalBatch_container),
     (''PendingAttestation'', PendingAttestation_container),
     (''Validator'', Validator_container),
     (''DepositData'', DepositData_container),
     (''VoluntaryExit'', VoluntaryExit_container),
     (''Deposit'', Deposit_container),
     (''DepositMessage'', DepositMessage_container),
     (''BLSToExecutionChange'', BLSToExecutionChange_container),
     (''SignedBLSToExecutionChange'', SignedBLSToExecutionChange_container),
     (''Attestation'', Attestation_container),
     (''BeaconBlock'', BeaconBlock_container),
     (''BeaconBlockHeader'', BeaconBlockHeader_container),
     (''AttesterSlashing'', AttesterSlashing_container),
     (''SignedBeaconBlock'', SignedBeaconBlock_container),
     (''SignedBeaconBlockHeader'', SignedBeaconBlockHeader_container),
     (''SignedVoluntaryExit'', SignedVoluntaryExit_container),
     (''ProposerSlashing'', ProposerSlashing_container),
     (''ExecutionPayload'', ExecutionPayload_container),
     (''ExecutionPayloadHeader'', ExecutionPayloadHeader_container),
     (''Withdrawal'', Withdrawal_container),
     (''SigningData'', SigningData_container),
     (''SyncAggregate'', SyncAggregate_container),
     (''SyncCommittee'', SyncCommittee_container),
     (''SyncCommitteeMessage'', SyncCommitteeMessage_container),
     (''SyncCommitteeContribution'', SyncCommitteeContribution_container),
     (''ContributionAndProof'', ContributionAndProof_container),
     (''SignedContributionAndProof'', SignedContributionAndProof_container),
     (''BeaconState'', BeaconState_container),
     (''BeaconBlockBody'', BeaconBlockBody_container),
     (''StatusMessage'', StatusMessage_container),
     (''AggregateAndProof'', AggregateAndProof_container),
     (''SignedAggregateAndProof'', SignedAggregateAndProof_container),
     (''BeaconBlocksByRangeRequest'', BeaconBlocksByRangeRequest_container),
     (''Metadata'', Metadata_container),
     (''BlobSidecar'', BlobSidecar_container),
     (''BlobIdentifier'', BlobIdentifier_container),
     (''PendingDeposit'', PendingDeposit_container),
     (''PendingPartialWithdrawal'', PendingPartialWithdrawal_container),
     (''PendingConsolidation'', PendingConsolidation_container),
     (''DepositRequest'', DepositRequest_container),
     (''WithdrawalRequest'', WithdrawalRequest_container),
     (''ConsolidationRequest'', ConsolidationRequest_container),
     (''ExecutionRequests'', ExecutionRequests_container),
     (''SingleAttestation'', SingleAttestation_container),
     (''Eth1Block'', Eth1Block_container),
     (''SyncAggregatorSelectionData'', SyncAggregatorSelectionData_container),
     (''EnrForkId'', EnrForkId_container),
     (''Blobdata'', Blobdata_container)]"

lemmas container_defs =
  Checkpoint_container_def AttestationData_container_def Attestation_container_def
  IndexedAttestation_container_def AttesterSlashing_container_def Eth1Data_container_def
  BeaconBlockHeader_container_def SignedBeaconBlockHeader_container_def
  ProposerSlashing_container_def DepositData_container_def Deposit_container_def
  VoluntaryExit_container_def SignedVoluntaryExit_container_def SyncAggregate_container_def
  Withdrawal_container_def ExecutionPayload_container_def BLSToExecutionChange_container_def
  SignedBLSToExecutionChange_container_def DepositRequest_container_def
  WithdrawalRequest_container_def ConsolidationRequest_container_def
  ExecutionRequests_container_def BeaconBlockBody_container_def BeaconBlock_container_def
  Fork_container_def Validator_container_def SyncCommittee_container_def
  ExecutionPayloadHeader_container_def HistoricalSummary_container_def PendingDeposit_container_def
  PendingPartialWithdrawal_container_def PendingConsolidation_container_def
  BeaconState_container_def BlobIdentifier_container_def BlobSidecar_container_def
  DepositMessage_container_def Eth1Block_container_def ForkData_container_def
  HistoricalBatch_container_def PendingAttestation_container_def SignedBeaconBlock_container_def
  SigningData_container_def SingleAttestation_container_def
  SyncAggregatorSelectionData_container_def AggregateAndProof_container_def
  SyncCommitteeContribution_container_def ContributionAndProof_container_def
  SignedAggregateAndProof_container_def SignedContributionAndProof_container_def
  SyncCommitteeMessage_container_def BeaconBlocksByRangeRequest_container_def
  EnrForkId_container_def Metadata_container_def StatusMessage_container_def Blobdata_container_def

text \<open>The name of the module.\<close>

lemma container_names:
  "\<exists>fs. HistoricalSummary_container spec = SModule ''Types.HistoricalSummary'' fs"
  "\<exists>fs. AttestationData_container spec = SModule ''Types.AttestationData'' fs"
  "\<exists>fs. IndexedAttestation_container spec = SModule ''Types.IndexedAttestation'' fs"
  "\<exists>fs. Checkpoint_container spec = SModule ''Types.Checkpoint'' fs"
  "\<exists>fs. Eth1Data_container spec = SModule ''Types.Eth1Data'' fs"
  "\<exists>fs. Fork_container spec = SModule ''Types.Fork'' fs"
  "\<exists>fs. ForkData_container spec = SModule ''Types.ForkData'' fs"
  "\<exists>fs. HistoricalBatch_container spec = SModule ''Types.HistoricalBatch'' fs"
  "\<exists>fs. PendingAttestation_container spec = SModule ''Types.PendingAttestation'' fs"
  "\<exists>fs. Validator_container spec = SModule ''Types.Validator'' fs"
  "\<exists>fs. DepositData_container spec = SModule ''Types.DepositData'' fs"
  "\<exists>fs. VoluntaryExit_container spec = SModule ''Types.VoluntaryExit'' fs"
  "\<exists>fs. Deposit_container spec = SModule ''Types.Deposit'' fs"
  "\<exists>fs. DepositMessage_container spec = SModule ''Types.DepositMessage'' fs"
  "\<exists>fs. BLSToExecutionChange_container spec = SModule ''Types.BLSToExecutionChange'' fs"
  "\<exists>fs. SignedBLSToExecutionChange_container spec = SModule ''Types.SignedBLSToExecutionChange'' fs"
  "\<exists>fs. Attestation_container spec = SModule ''Types.Attestation'' fs"
  "\<exists>fs. BeaconBlock_container spec = SModule ''Types.BeaconBlock'' fs"
  "\<exists>fs. BeaconBlockHeader_container spec = SModule ''Types.BeaconBlockHeader'' fs"
  "\<exists>fs. AttesterSlashing_container spec = SModule ''Types.AttesterSlashing'' fs"
  "\<exists>fs. SignedBeaconBlock_container spec = SModule ''Types.SignedBeaconBlock'' fs"
  "\<exists>fs. SignedBeaconBlockHeader_container spec = SModule ''Types.SignedBeaconBlockHeader'' fs"
  "\<exists>fs. SignedVoluntaryExit_container spec = SModule ''Types.SignedVoluntaryExit'' fs"
  "\<exists>fs. ProposerSlashing_container spec = SModule ''Types.ProposerSlashing'' fs"
  "\<exists>fs. ExecutionPayload_container spec = SModule ''Types.ExecutionPayload'' fs"
  "\<exists>fs. ExecutionPayloadHeader_container spec = SModule ''Types.ExecutionPayloadHeader'' fs"
  "\<exists>fs. Withdrawal_container spec = SModule ''Types.Withdrawal'' fs"
  "\<exists>fs. SigningData_container spec = SModule ''Types.SigningData'' fs"
  "\<exists>fs. SyncAggregate_container spec = SModule ''Types.SyncAggregate'' fs"
  "\<exists>fs. SyncCommittee_container spec = SModule ''Types.SyncCommittee'' fs"
  "\<exists>fs. SyncCommitteeMessage_container spec = SModule ''Types.SyncCommitteeMessage'' fs"
  "\<exists>fs. SyncCommitteeContribution_container spec = SModule ''Types.SyncCommitteeContribution'' fs"
  "\<exists>fs. ContributionAndProof_container spec = SModule ''Types.ContributionAndProof'' fs"
  "\<exists>fs. SignedContributionAndProof_container spec = SModule ''Types.SignedContributionAndProof'' fs"
  "\<exists>fs. BeaconState_container spec = SModule ''Types.BeaconState'' fs"
  "\<exists>fs. BeaconBlockBody_container spec = SModule ''Types.BeaconBlockBody'' fs"
  "\<exists>fs. StatusMessage_container spec = SModule ''Types.StatusMessage'' fs"
  "\<exists>fs. AggregateAndProof_container spec = SModule ''Types.AggregateAndProof'' fs"
  "\<exists>fs. SignedAggregateAndProof_container spec = SModule ''Types.SignedAggregateAndProof'' fs"
  "\<exists>fs. BeaconBlocksByRangeRequest_container spec = SModule ''Types.BeaconBlocksByRangeRequest'' fs"
  "\<exists>fs. Metadata_container spec = SModule ''Types.Metadata'' fs"
  "\<exists>fs. BlobSidecar_container spec = SModule ''Types.BlobSidecar'' fs"
  "\<exists>fs. BlobIdentifier_container spec = SModule ''Types.BlobIdentifier'' fs"
  "\<exists>fs. PendingDeposit_container spec = SModule ''Types.PendingDeposit'' fs"
  "\<exists>fs. PendingPartialWithdrawal_container spec = SModule ''Types.PendingPartialWithdrawal'' fs"
  "\<exists>fs. PendingConsolidation_container spec = SModule ''Types.PendingConsolidation'' fs"
  "\<exists>fs. DepositRequest_container spec = SModule ''Types.DepositRequest'' fs"
  "\<exists>fs. WithdrawalRequest_container spec = SModule ''Types.WithdrawalRequest'' fs"
  "\<exists>fs. ConsolidationRequest_container spec = SModule ''Types.ConsolidationRequest'' fs"
  "\<exists>fs. ExecutionRequests_container spec = SModule ''Types.ExecutionRequests'' fs"
  "\<exists>fs. SingleAttestation_container spec = SModule ''Types.SingleAttestation'' fs"
  "\<exists>fs. Eth1Block_container spec = SModule ''Types.Eth1Block'' fs"
  "\<exists>fs. SyncAggregatorSelectionData_container spec = SModule ''Types.SyncAggregatorSelectionData'' fs"
  "\<exists>fs. EnrForkId_container spec = SModule ''Types.EnrForkId'' fs"
  "\<exists>fs. Blobdata_container spec = SModule ''Types.Blobdata'' fs"
  by (rule exI, rule container_defs)+

end
