(* ===== verification/Rust_Std.thy ===== *)
theory Rust_Std
  imports Prelude
begin

text \<open>
  The pieces of the Rust standard library and of the language that the NIF crates use: writing
  into a byte slice, slicing a string at a byte index, converting a slice into an array, the
  \<open>Debug\<close> rendering of a string, \<open>Read::read_to_end\<close> and path arithmetic. A string is the list
  of the bytes of its UTF-8 encoding, so that its length is what \<open>str::len\<close> returns.
\<close>

section \<open>Writing into a slice\<close>

text \<open>
  \<open>Write for &mut [u8]\<close>: \<open>write_all\<close> copies the data over the front of the slice and fails
  when the slice is shorter than the data.
\<close>

definition write_all :: "bytes \<Rightarrow> bytes \<Rightarrow> (string, bytes) rust" where
  "write_all buf data =
     (if length data \<le> length buf then Ok (data @ drop (length data) buf)
      else Err ''failed to write whole buffer'')"

lemma write_all_same_length: "length buf = length data \<Longrightarrow> write_all buf data = Ok data"
  by (simp add: write_all_def)

section \<open>String slices\<close>

text \<open>
  A byte index is a character boundary when it is at an end of the string or in front of a byte
  that does not continue a UTF-8 sequence (a continuation byte is 10xxxxxx, 128 to 191).
\<close>

definition is_char_boundary :: "string \<Rightarrow> nat \<Rightarrow> bool" where
  "is_char_boundary s i \<longleftrightarrow>
     (if i < length s then \<not> (128 \<le> (of_char (s ! i) :: nat) \<and> (of_char (s ! i) :: nat) < 192)
      else i = length s)"

text \<open>\<open>str::get(i..)\<close>.\<close>

definition str_get_from :: "string \<Rightarrow> nat \<Rightarrow> string option" where
  "str_get_from s i = (if is_char_boundary s i then Some (drop i s) else None)"

lemma str_get_from_short: "length s < i \<Longrightarrow> str_get_from s i = None"
  by (simp add: str_get_from_def is_char_boundary_def)

lemma str_get_from_append:
  assumes "t = [] \<or> (of_char (hd t) :: nat) < 128"
  shows "str_get_from (s @ t) (length s) = Some t"
proof (cases t)
  case Nil
  then show ?thesis by (simp add: str_get_from_def is_char_boundary_def)
next
  case (Cons c cs)
  with assms show ?thesis
    by (simp add: str_get_from_def is_char_boundary_def nth_append)
qed

section \<open>Arrays from slices\<close>

text \<open>\<open>TryFrom<&[u8]> for [u8; N]\<close>, with the \<open>Display\<close> text of \<open>TryFromSliceError\<close>.\<close>

definition array_try_from :: "nat \<Rightarrow> bytes \<Rightarrow> (string, bytes) rust" where
  "array_try_from n s =
     (if length s = n then Ok s else Err ''could not convert slice to array'')"

section \<open>Rendering a string with \<open>Debug\<close>\<close>

text \<open>
  \<open>format!("{:?}", s)\<close> of a string puts it in quotes and escapes quotes, backslashes and the
  usual control characters. The strings rendered in the sources are made of printable characters,
  so the escapes of other control characters are left out.
\<close>

fun escape_debug_char :: "char \<Rightarrow> string" where
  "escape_debug_char c =
     (if c = CHR 0x22 then [CHR 0x5C, CHR 0x22]
      else if c = CHR 0x5C then [CHR 0x5C, CHR 0x5C]
      else if c = CHR 0x0A then [CHR 0x5C, CHR ''n'']
      else if c = CHR 0x0D then [CHR 0x5C, CHR ''r'']
      else if c = CHR 0x09 then [CHR 0x5C, CHR ''t'']
      else [c])"

definition debug_string :: "string \<Rightarrow> string" where
  "debug_string s = CHR 0x22 # concat (map escape_debug_char s) @ [CHR 0x22]"

lemma escape_debug_char_nonempty [simp]: "escape_debug_char c \<noteq> []"
  by simp

lemma debug_string_neq: "debug_string s \<noteq> s"
proof -
  have "length s \<le> length (concat (map escape_debug_char s))"
    by (induction s) auto
  then have "length (debug_string s) > length s"
    by (simp add: debug_string_def)
  then show ?thesis by force
qed

section \<open>Reading a stream to its end\<close>

text \<open>
  A reader is a state with a \<open>read\<close> operation: it returns the bytes it produced (none at the end
  of the stream) and its next state, or an error. \<open>read_to_end\<close> reads until the end of the stream
  and appends what it read to the buffer. A reader may go on for ever, so the loop is a partial
  function: \<open>None\<close> is a loop that does not return.
\<close>

type_synonym ('s, 'e) reader = "'s \<Rightarrow> ('e, bytes \<times> 's) rust"

partial_function (option) read_to_end ::
  "('s, 'e) reader \<Rightarrow> 's \<Rightarrow> bytes \<Rightarrow> ('e, bytes) rust option" where
  "read_to_end rd s buf =
     (case rd s of
        Ok (chunk, s') \<Rightarrow> if chunk = [] then Some (Ok buf) else read_to_end rd s' (buf @ chunk)
      | Err e \<Rightarrow> Some (Err e)
      | Panic m \<Rightarrow> Some (Panic m))"

declare read_to_end.simps [code]

text \<open>The runs of a reader: the chunks it yields before the stream ends.\<close>

inductive yields :: "('s, 'e) reader \<Rightarrow> 's \<Rightarrow> bytes \<Rightarrow> bool" where
  end_of_stream: "rd s = Ok ([], s') \<Longrightarrow> yields rd s []"
| chunk: "rd s = Ok (c, s') \<Longrightarrow> c \<noteq> [] \<Longrightarrow> yields rd s' bs \<Longrightarrow> yields rd s (c @ bs)"

lemma read_to_end_yields: "yields rd s bs \<Longrightarrow> read_to_end rd s buf = Some (Ok (buf @ bs))"
proof (induction arbitrary: buf rule: yields.induct)
  case (end_of_stream rd s s')
  then show ?case by (subst read_to_end.simps) simp
next
  case (chunk rd s c s' bs)
  then show ?case by (subst read_to_end.simps) simp
qed

text \<open>A reader that fails after some chunks: the loop returns the error.\<close>

inductive fails :: "('s, 'e) reader \<Rightarrow> 's \<Rightarrow> 'e \<Rightarrow> bool" where
  now: "rd s = Err e \<Longrightarrow> fails rd s e"
| later: "rd s = Ok (c, s') \<Longrightarrow> c \<noteq> [] \<Longrightarrow> fails rd s' e \<Longrightarrow> fails rd s e"

lemma read_to_end_fails: "fails rd s e \<Longrightarrow> read_to_end rd s buf = Some (Err e)"
proof (induction arbitrary: buf rule: fails.induct)
  case (now rd s e)
  then show ?case by (subst read_to_end.simps) simp
next
  case (later rd s c s' e)
  then show ?case by (subst read_to_end.simps) simp
qed

section \<open>Paths\<close>

text \<open>
  A path as the list of its components. \<open>Path::join\<close> of a relative path appends it, and
  \<open>Path::parent\<close> drops the last component, failing on a path that has none.
\<close>

type_synonym path = "string list"

definition path_join :: "path \<Rightarrow> path \<Rightarrow> path" where
  "path_join p q = p @ q"

definition path_parent :: "path \<Rightarrow> path option" where
  "path_parent p = (if p = [] then None else Some (butlast p))"

end
