(* ===== verification/Nif_Types.thy ===== *)
theory Nif_Types
  imports Rust_Std
begin

text \<open>
  The two families of Rust types the SSZ NIF converts between, as data: \<open>ssz_ty\<close> describes the
  types of the \<open>ssz_types\<close> module (the ones that implement SSZ), \<open>elx_ty\<close> the types of the
  \<open>elx_types\<close> module (the ones that \<open>rustler\<close> maps to Elixir terms). The NIF picks a type at run
  time from the name of a schema, and the conversions are generated by macros over the fields of a
  struct, so a type is a value here and a conversion a function over it. \<open>ssz_val\<close> and \<open>elx_val\<close>
  are the values, and \<open>ssz_typed\<close> and \<open>elx_typed\<close> say which values a type has: what the Rust
  type checker and the length checks of the \<open>ssz_types\<close> containers guarantee.
\<close>

section \<open>SSZ types and values\<close>

datatype ssz_ty =
    TBool | TU8 | TU16 | TU32 | TU64
  | TArray nat
  | TFixedVector ssz_ty nat
  | TVariableList ssz_ty nat
  | TVec ssz_ty
  | TBitList nat
  | TBitVector nat
  | TUint256
  | TStruct string "(string \<times> ssz_ty) list"

text \<open>The bits of a bit list or bit vector are listed from index 0.\<close>

datatype ssz_val =
    VBool bool | VU8 u8 | VU16 u16 | VU32 u32 | VU64 u64
  | VArray bytes
  | VFixedVector "ssz_val list"
  | VVariableList "ssz_val list"
  | VVec "ssz_val list"
  | VBitList "bool list"
  | VBitVector "bool list"
  | VUint256 bytes
  | VStruct string "(string \<times> ssz_val) list"

fun ssz_typed :: "ssz_ty \<Rightarrow> ssz_val \<Rightarrow> bool"
and ssz_typed_fields :: "(string \<times> ssz_ty) list \<Rightarrow> (string \<times> ssz_val) list \<Rightarrow> bool" where
  "ssz_typed TBool v = (case v of VBool b \<Rightarrow> True | _ \<Rightarrow> False)"
| "ssz_typed TU8 v = (case v of VU8 x \<Rightarrow> True | _ \<Rightarrow> False)"
| "ssz_typed TU16 v = (case v of VU16 x \<Rightarrow> True | _ \<Rightarrow> False)"
| "ssz_typed TU32 v = (case v of VU32 x \<Rightarrow> True | _ \<Rightarrow> False)"
| "ssz_typed TU64 v = (case v of VU64 x \<Rightarrow> True | _ \<Rightarrow> False)"
| "ssz_typed (TArray n) v = (case v of VArray b \<Rightarrow> length b = n | _ \<Rightarrow> False)"
| "ssz_typed (TFixedVector t n) v =
     (case v of VFixedVector vs \<Rightarrow> length vs = n \<and> list_all (ssz_typed t) vs | _ \<Rightarrow> False)"
| "ssz_typed (TVariableList t n) v =
     (case v of VVariableList vs \<Rightarrow> length vs \<le> n \<and> list_all (ssz_typed t) vs | _ \<Rightarrow> False)"
| "ssz_typed (TVec t) v = (case v of VVec vs \<Rightarrow> list_all (ssz_typed t) vs | _ \<Rightarrow> False)"
| "ssz_typed (TBitList n) v = (case v of VBitList bs \<Rightarrow> length bs \<le> n | _ \<Rightarrow> False)"
| "ssz_typed (TBitVector n) v = (case v of VBitVector bs \<Rightarrow> length bs = n | _ \<Rightarrow> False)"
| "ssz_typed TUint256 v = (case v of VUint256 b \<Rightarrow> length b = 32 | _ \<Rightarrow> False)"
| "ssz_typed (TStruct nm fs) v =
     (case v of VStruct nm' vs \<Rightarrow> nm' = nm \<and> ssz_typed_fields fs vs | _ \<Rightarrow> False)"
| "ssz_typed_fields [] vs = (vs = [])"
| "ssz_typed_fields ((n, t) # fs) vs =
     (case vs of [] \<Rightarrow> False | (n', v) # vs' \<Rightarrow> n' = n \<and> ssz_typed t v \<and> ssz_typed_fields fs vs')"

text \<open>
  The shape of the values of each type. These equivalences replace the equations of the checker in
  the simplifier: they give the shape of an unknown value as well as evaluate a known one.
\<close>

lemma ssz_typed_iff [simp]:
  "ssz_typed TBool v \<longleftrightarrow> (\<exists>b. v = VBool b)"
  "ssz_typed TU8 v \<longleftrightarrow> (\<exists>x. v = VU8 x)"
  "ssz_typed TU16 v \<longleftrightarrow> (\<exists>x. v = VU16 x)"
  "ssz_typed TU32 v \<longleftrightarrow> (\<exists>x. v = VU32 x)"
  "ssz_typed TU64 v \<longleftrightarrow> (\<exists>x. v = VU64 x)"
  "ssz_typed (TArray n) v \<longleftrightarrow> (\<exists>b. v = VArray b \<and> length b = n)"
  "ssz_typed (TFixedVector t n) v \<longleftrightarrow>
     (\<exists>vs. v = VFixedVector vs \<and> length vs = n \<and> list_all (ssz_typed t) vs)"
  "ssz_typed (TVariableList t n) v \<longleftrightarrow>
     (\<exists>vs. v = VVariableList vs \<and> length vs \<le> n \<and> list_all (ssz_typed t) vs)"
  "ssz_typed (TVec t) v \<longleftrightarrow> (\<exists>vs. v = VVec vs \<and> list_all (ssz_typed t) vs)"
  "ssz_typed (TBitList n) v \<longleftrightarrow> (\<exists>bs. v = VBitList bs \<and> length bs \<le> n)"
  "ssz_typed (TBitVector n) v \<longleftrightarrow> (\<exists>bs. v = VBitVector bs \<and> length bs = n)"
  "ssz_typed TUint256 v \<longleftrightarrow> (\<exists>b. v = VUint256 b \<and> length b = 32)"
  "ssz_typed (TStruct nm fs) v \<longleftrightarrow> (\<exists>vs. v = VStruct nm vs \<and> ssz_typed_fields fs vs)"
  by (cases v; simp)+

declare ssz_typed.simps [simp del] ssz_typed_fields.simps [simp del]

lemma ssz_typed_fields_Nil [simp]: "ssz_typed_fields [] vs \<longleftrightarrow> vs = []"
  by (simp add: ssz_typed_fields.simps)

lemma ssz_typed_fields_Cons [simp]:
  "ssz_typed_fields ((n, t) # fs) vs \<longleftrightarrow>
     (\<exists>v vs'. vs = (n, v) # vs' \<and> ssz_typed t v \<and> ssz_typed_fields fs vs')"
  by (auto simp: ssz_typed_fields.simps split: list.splits)

lemma ssz_typed_u8_list: "list_all (ssz_typed TU8) vs \<longleftrightarrow> (\<exists>bs. vs = map VU8 bs)"
proof (induction vs)
  case (Cons v vs)
  then show ?case by (cases v) (auto simp: Cons_eq_map_conv)
qed simp

lemma ssz_typed_fields_iff:
  "ssz_typed_fields fs vs \<longleftrightarrow> list_all2 (\<lambda>(n, t) (n', v). n' = n \<and> ssz_typed t v) fs vs"
proof (induction fs arbitrary: vs)
  case Nil
  then show ?case by (cases vs) auto
next
  case (Cons f fs)
  then show ?case by (cases f; cases vs) auto
qed

lemma ssz_typed_fields_names: "ssz_typed_fields fs vs \<Longrightarrow> map fst vs = map fst fs"
  by (auto simp: ssz_typed_fields_iff intro: list_all2_fst_eq)

lemma ssz_typed_fields_lookup:
  "ssz_typed_fields fs vs \<Longrightarrow> map_of fs n = Some t \<Longrightarrow>
     \<exists>v. map_of vs n = Some v \<and> ssz_typed t v"
  unfolding ssz_typed_fields_iff by (induction rule: list_all2_induct) (auto split: if_splits)

section \<open>Types and values on the Elixir side\<close>

datatype elx_ty =
    EBool | EU8 | EU16 | EU32 | EU64
  | EBinary
  | EVec elx_ty
  | EStruct string "(string \<times> elx_ty) list"

datatype elx_val =
    LBool bool | LU8 u8 | LU16 u16 | LU32 u32 | LU64 u64
  | LBinary bytes
  | LVec "elx_val list"
  | LStruct string "(string \<times> elx_val) list"

fun elx_typed :: "elx_ty \<Rightarrow> elx_val \<Rightarrow> bool"
and elx_typed_fields :: "(string \<times> elx_ty) list \<Rightarrow> (string \<times> elx_val) list \<Rightarrow> bool" where
  "elx_typed EBool v = (case v of LBool b \<Rightarrow> True | _ \<Rightarrow> False)"
| "elx_typed EU8 v = (case v of LU8 x \<Rightarrow> True | _ \<Rightarrow> False)"
| "elx_typed EU16 v = (case v of LU16 x \<Rightarrow> True | _ \<Rightarrow> False)"
| "elx_typed EU32 v = (case v of LU32 x \<Rightarrow> True | _ \<Rightarrow> False)"
| "elx_typed EU64 v = (case v of LU64 x \<Rightarrow> True | _ \<Rightarrow> False)"
| "elx_typed EBinary v = (case v of LBinary b \<Rightarrow> True | _ \<Rightarrow> False)"
| "elx_typed (EVec t) v = (case v of LVec vs \<Rightarrow> list_all (elx_typed t) vs | _ \<Rightarrow> False)"
| "elx_typed (EStruct m fs) v =
     (case v of LStruct m' vs \<Rightarrow> m' = m \<and> elx_typed_fields fs vs | _ \<Rightarrow> False)"
| "elx_typed_fields [] vs = (vs = [])"
| "elx_typed_fields ((n, t) # fs) vs =
     (case vs of [] \<Rightarrow> False | (n', v) # vs' \<Rightarrow> n' = n \<and> elx_typed t v \<and> elx_typed_fields fs vs')"

lemma elx_typed_iff [simp]:
  "elx_typed EBool v \<longleftrightarrow> (\<exists>b. v = LBool b)"
  "elx_typed EU8 v \<longleftrightarrow> (\<exists>x. v = LU8 x)"
  "elx_typed EU16 v \<longleftrightarrow> (\<exists>x. v = LU16 x)"
  "elx_typed EU32 v \<longleftrightarrow> (\<exists>x. v = LU32 x)"
  "elx_typed EU64 v \<longleftrightarrow> (\<exists>x. v = LU64 x)"
  "elx_typed EBinary v \<longleftrightarrow> (\<exists>b. v = LBinary b)"
  "elx_typed (EVec t) v \<longleftrightarrow> (\<exists>vs. v = LVec vs \<and> list_all (elx_typed t) vs)"
  "elx_typed (EStruct m fs) v \<longleftrightarrow> (\<exists>vs. v = LStruct m vs \<and> elx_typed_fields fs vs)"
  by (cases v; simp)+

declare elx_typed.simps [simp del] elx_typed_fields.simps [simp del]

lemma elx_typed_fields_Nil [simp]: "elx_typed_fields [] vs \<longleftrightarrow> vs = []"
  by (simp add: elx_typed_fields.simps)

lemma elx_typed_fields_Cons [simp]:
  "elx_typed_fields ((n, t) # fs) vs \<longleftrightarrow>
     (\<exists>v vs'. vs = (n, v) # vs' \<and> elx_typed t v \<and> elx_typed_fields fs vs')"
  by (auto simp: elx_typed_fields.simps split: list.splits)

lemma elx_typed_fields_iff:
  "elx_typed_fields fs vs \<longleftrightarrow> list_all2 (\<lambda>(n, t) (n', v). n' = n \<and> elx_typed t v) fs vs"
proof (induction fs arbitrary: vs)
  case Nil
  then show ?case by (cases vs) auto
next
  case (Cons f fs)
  then show ?case by (cases f; cases vs) auto
qed

lemma elx_typed_fields_names: "elx_typed_fields fs vs \<Longrightarrow> map fst vs = map fst fs"
  by (auto simp: elx_typed_fields_iff intro: list_all2_fst_eq)

section \<open>The NIF runtime\<close>

text \<open>
  \<open>rustler::Error\<close>: \<open>BadArg\<close> and \<open>Term\<close> (an error term, here always a string) are the ones the
  sources build; \<open>OtherError\<close> stands for those that only \<open>rustler\<close> itself returns.
\<close>

datatype nif_error = BadArg | Term string | OtherError string

text \<open>The atom of the NIF results.\<close>

datatype atoms = ok

text \<open>
  What the sources use of \<open>rustler\<close>, over a type \<open>'t\<close> of Elixir terms: allocating a binary
  (whose content is not specified), reading the name of an atom, testing for a list, and the
  \<open>Decoder\<close> and \<open>Encoder\<close> instances of the \<open>elx_types\<close>.
\<close>

record 't rustler =
  NewBinary_new :: "nat \<Rightarrow> bytes"
  atom_to_string :: "'t \<Rightarrow> (nif_error, string) rust"
  is_list :: "'t \<Rightarrow> bool"
  term_decode :: "elx_ty \<Rightarrow> 't \<Rightarrow> (nif_error, elx_val) rust"
  term_encode :: "elx_val \<Rightarrow> 't"

text \<open>
  \<open>bytes_to_binary\<close>, the same in all four NIF crates: allocate a binary of the length of the
  bytes and write the bytes over it, panicking if they do not fit.
\<close>

definition bytes_to_binary :: "(nat \<Rightarrow> bytes) \<Rightarrow> bytes \<Rightarrow> ('e, bytes) rust" where
  "bytes_to_binary new_binary bytes =
     expect ''called `Result::unwrap()` on an `Err` value''
       (write_all (new_binary (length bytes)) bytes)"

text \<open>The comment in the sources: the write cannot fail, because the sizes are equal.\<close>

lemma bytes_to_binary_Ok:
  "(\<And>n. length (new_binary n) = n) \<Longrightarrow> bytes_to_binary new_binary bs = Ok bs"
  by (simp add: bytes_to_binary_def write_all_same_length)

end
