(* ===== verification/Config.thy ===== *)
theory Config
  imports Nif_Types
begin

text \<open>
  The \<open>Config\<close> trait of \<open>ssz_types/config.rs\<close>: the type-level numbers that bound the lists and
  vectors of the containers, with the three presets that implement it. A \<open>typenum\<close> number is a
  natural number here, and a trait implementation a record. \<open>Minimal\<close> takes the constants that
  its \<open>inherit_from!\<close> lists from \<open>Mainnet\<close>.
\<close>

section \<open>The trait\<close>

record Config =
  JustificationBitsLength :: nat
  SubnetBitfieldLength :: nat
  MaxValidatorsPerCommittee :: nat
  GenesisEpoch :: nat
  SlotsPerEpoch :: nat
  EpochsPerEth1VotingPeriod :: nat
  SlotsPerHistoricalRoot :: nat
  EpochsPerHistoricalVector :: nat
  EpochsPerSlashingsVector :: nat
  HistoricalRootsLimit :: nat
  ValidatorRegistryLimit :: nat
  MaxProposerSlashings :: nat
  MaxAttesterSlashings :: nat
  MaxAttestations :: nat
  MaxDeposits :: nat
  MaxVoluntaryExits :: nat
  SyncCommitteeSize :: nat
  SyncCommitteeSubnetCount :: nat
  AttestationSubnetCount :: nat
  MaxBytesPerTransaction :: nat
  MaxTransactionsPerPayload :: nat
  BytesPerLogsBloom :: nat
  GasLimitDenominator :: nat
  MinGasLimit :: nat
  MaxExtraDataBytes :: nat
  MaxBlsToExecutionChanges :: nat
  MaxWithdrawalsPerPayload :: nat
  MaxBlobsPerBlock :: nat
  MaxBlobCommitmentsPerBlock :: nat
  FieldElementsPerBlob :: nat
  BytesPerFieldElement :: nat
  KzgCommitmentInclusionProofDepth :: nat
  MaxCommitteesPerSlot :: nat
  MaxConsolidationRequestsPerPayload :: nat
  MaxDepositRequestsPerPayload :: nat
  MaxWithdrawalRequestsPerPayload :: nat
  PendingDepositsLimit :: nat
  PendingPartialWithdrawalsLimit :: nat
  PendingConsolidationsLimit :: nat
  MaxAttesterSlashingsElectra :: nat
  MaxAttestationsElectra :: nat
  MaxValidatorsPerSlot :: nat
  SyncSubcommitteeSize :: nat
  MaxPendingAttestations :: nat
  SlotsPerEth1VotingPeriod :: nat
  BytesPerBlob :: nat

section \<open>The mainnet preset\<close>

definition Mainnet :: Config where
  "Mainnet = \<lparr>
     JustificationBitsLength = 4,
     SubnetBitfieldLength = 64,
     MaxValidatorsPerCommittee = 2048,
     GenesisEpoch = 0,
     SlotsPerEpoch = 32,
     EpochsPerEth1VotingPeriod = 64,
     SlotsPerHistoricalRoot = 8192,
     EpochsPerHistoricalVector = 65536,
     EpochsPerSlashingsVector = 8192,
     HistoricalRootsLimit = 16777216,
     ValidatorRegistryLimit = 1099511627776,
     MaxProposerSlashings = 16,
     MaxAttesterSlashings = 2,
     MaxAttestations = 128,
     MaxDeposits = 16,
     MaxVoluntaryExits = 16,
     SyncCommitteeSize = 512,
     SyncCommitteeSubnetCount = 4,
     AttestationSubnetCount = 64,
     MaxBytesPerTransaction = 1073741824,
     MaxTransactionsPerPayload = 1048576,
     BytesPerLogsBloom = 256,
     GasLimitDenominator = 1024,
     MinGasLimit = 5000,
     MaxExtraDataBytes = 32,
     MaxBlsToExecutionChanges = 16,
     MaxWithdrawalsPerPayload = 16,
     MaxBlobsPerBlock = 6,
     MaxBlobCommitmentsPerBlock = 4096,
     FieldElementsPerBlob = 4096,
     BytesPerFieldElement = 32,
     KzgCommitmentInclusionProofDepth = 17,
     MaxCommitteesPerSlot = 64,
     MaxConsolidationRequestsPerPayload = 2,
     MaxDepositRequestsPerPayload = 8192,
     MaxWithdrawalRequestsPerPayload = 16,
     PendingDepositsLimit = 134217728,
     PendingPartialWithdrawalsLimit = 134217728,
     PendingConsolidationsLimit = 262144,
     MaxAttesterSlashingsElectra = 1,
     MaxAttestationsElectra = 8,
     MaxValidatorsPerSlot = 131072,
     SyncSubcommitteeSize = 512 div 4,
     MaxPendingAttestations = 128 * 32,
     SlotsPerEth1VotingPeriod = 64 * 32,
     BytesPerBlob = 4096 * 32\<rparr>"

section \<open>The minimal preset\<close>

definition Minimal :: Config where
  "Minimal = \<lparr>
     JustificationBitsLength = JustificationBitsLength Mainnet,
     SubnetBitfieldLength = SubnetBitfieldLength Mainnet,
     MaxValidatorsPerCommittee = MaxValidatorsPerCommittee Mainnet,
     GenesisEpoch = GenesisEpoch Mainnet,
     SlotsPerEpoch = 8,
     EpochsPerEth1VotingPeriod = 4,
     SlotsPerHistoricalRoot = 64,
     EpochsPerHistoricalVector = 64,
     EpochsPerSlashingsVector = 64,
     HistoricalRootsLimit = HistoricalRootsLimit Mainnet,
     ValidatorRegistryLimit = ValidatorRegistryLimit Mainnet,
     MaxProposerSlashings = MaxProposerSlashings Mainnet,
     MaxAttesterSlashings = MaxAttesterSlashings Mainnet,
     MaxAttestations = MaxAttestations Mainnet,
     MaxDeposits = MaxDeposits Mainnet,
     MaxVoluntaryExits = MaxVoluntaryExits Mainnet,
     SyncCommitteeSize = 32,
     SyncCommitteeSubnetCount = SyncCommitteeSubnetCount Mainnet,
     AttestationSubnetCount = AttestationSubnetCount Mainnet,
     MaxBytesPerTransaction = MaxBytesPerTransaction Mainnet,
     MaxTransactionsPerPayload = MaxTransactionsPerPayload Mainnet,
     BytesPerLogsBloom = BytesPerLogsBloom Mainnet,
     GasLimitDenominator = GasLimitDenominator Mainnet,
     MinGasLimit = MinGasLimit Mainnet,
     MaxExtraDataBytes = MaxExtraDataBytes Mainnet,
     MaxBlsToExecutionChanges = MaxBlsToExecutionChanges Mainnet,
     MaxWithdrawalsPerPayload = 4,
     MaxBlobsPerBlock = MaxBlobsPerBlock Mainnet,
     MaxBlobCommitmentsPerBlock = 32,
     FieldElementsPerBlob = 4096,
     BytesPerFieldElement = BytesPerFieldElement Mainnet,
     KzgCommitmentInclusionProofDepth = 10,
     MaxCommitteesPerSlot = 4,
     MaxConsolidationRequestsPerPayload = MaxConsolidationRequestsPerPayload Mainnet,
     MaxDepositRequestsPerPayload = 4,
     MaxWithdrawalRequestsPerPayload = 2,
     PendingDepositsLimit = PendingDepositsLimit Mainnet,
     PendingPartialWithdrawalsLimit = 64,
     PendingConsolidationsLimit = 64,
     MaxAttesterSlashingsElectra = MaxAttesterSlashingsElectra Mainnet,
     MaxAttestationsElectra = MaxAttestationsElectra Mainnet,
     MaxValidatorsPerSlot = 8192,
     SyncSubcommitteeSize = 32 div SyncCommitteeSubnetCount Mainnet,
     MaxPendingAttestations = MaxAttestations Mainnet * 8,
     SlotsPerEth1VotingPeriod = 4 * 8,
     BytesPerBlob = 4096 * BytesPerFieldElement Mainnet\<rparr>"

section \<open>The gnosis preset\<close>

definition Gnosis :: Config where
  "Gnosis = \<lparr>
     JustificationBitsLength = 4,
     SubnetBitfieldLength = 64,
     MaxValidatorsPerCommittee = 2048,
     GenesisEpoch = 0,
     SlotsPerEpoch = 16,
     EpochsPerEth1VotingPeriod = 64,
     SlotsPerHistoricalRoot = 8192,
     EpochsPerHistoricalVector = 65536,
     EpochsPerSlashingsVector = 8192,
     HistoricalRootsLimit = 16777216,
     ValidatorRegistryLimit = 1099511627776,
     MaxProposerSlashings = 16,
     MaxAttesterSlashings = 2,
     MaxAttestations = 128,
     MaxDeposits = 16,
     MaxVoluntaryExits = 16,
     SyncCommitteeSize = 512,
     SyncCommitteeSubnetCount = 4,
     AttestationSubnetCount = 64,
     MaxBytesPerTransaction = 1073741824,
     MaxTransactionsPerPayload = 1048576,
     BytesPerLogsBloom = 256,
     GasLimitDenominator = 1024,
     MinGasLimit = 5000,
     MaxExtraDataBytes = 32,
     MaxBlsToExecutionChanges = 16,
     MaxWithdrawalsPerPayload = 8,
     MaxBlobsPerBlock = 6,
     MaxBlobCommitmentsPerBlock = 4096,
     FieldElementsPerBlob = 4096,
     BytesPerFieldElement = 32,
     KzgCommitmentInclusionProofDepth = 17,
     MaxCommitteesPerSlot = 64,
     MaxConsolidationRequestsPerPayload = 2,
     MaxDepositRequestsPerPayload = 8192,
     MaxWithdrawalRequestsPerPayload = 16,
     PendingDepositsLimit = 134217728,
     PendingPartialWithdrawalsLimit = 134217728,
     PendingConsolidationsLimit = 262144,
     MaxAttesterSlashingsElectra = 1,
     MaxAttestationsElectra = 8,
     MaxValidatorsPerSlot = 131072,
     SyncSubcommitteeSize = 512 div 4,
     MaxPendingAttestations = 128 * 16,
     SlotsPerEth1VotingPeriod = 64 * 16,
     BytesPerBlob = 4096 * 32\<rparr>"

section \<open>What the presets have in common\<close>

text \<open>
  The relations between the constants that the source states in comments: the derived constants
  are computed from the ones they derive from, \<open>MaxValidatorsPerSlot\<close>, written as a number, is
  the product it stands for, and no bound is zero.
\<close>

definition config_wf :: "Config \<Rightarrow> bool" where
  "config_wf C \<longleftrightarrow>
     SyncCommitteeSubnetCount C * SyncSubcommitteeSize C = SyncCommitteeSize C \<and>
     MaxPendingAttestations C = MaxAttestations C * SlotsPerEpoch C \<and>
     SlotsPerEth1VotingPeriod C = EpochsPerEth1VotingPeriod C * SlotsPerEpoch C \<and>
     BytesPerBlob C = FieldElementsPerBlob C * BytesPerFieldElement C \<and>
     MaxValidatorsPerSlot C = MaxValidatorsPerCommittee C * MaxCommitteesPerSlot C \<and>
     list_all (\<lambda>f. 0 < f C)
       [JustificationBitsLength, MaxValidatorsPerCommittee, SlotsPerEpoch,
        EpochsPerEth1VotingPeriod, FieldElementsPerBlob, BytesPerFieldElement, SlotsPerHistoricalRoot,
        EpochsPerHistoricalVector, EpochsPerSlashingsVector, HistoricalRootsLimit,
        ValidatorRegistryLimit, MaxProposerSlashings, MaxDeposits, MaxVoluntaryExits,
        SyncCommitteeSize, SyncCommitteeSubnetCount, AttestationSubnetCount,
        MaxTransactionsPerPayload, BytesPerLogsBloom, MaxExtraDataBytes,
        MaxBlsToExecutionChanges, MaxWithdrawalsPerPayload, MaxBlobCommitmentsPerBlock,
        KzgCommitmentInclusionProofDepth, MaxCommitteesPerSlot,
        MaxConsolidationRequestsPerPayload, MaxDepositRequestsPerPayload,
        MaxWithdrawalRequestsPerPayload, PendingDepositsLimit, PendingPartialWithdrawalsLimit,
        PendingConsolidationsLimit, MaxAttesterSlashingsElectra, MaxAttestationsElectra,
        MaxValidatorsPerSlot, SyncSubcommitteeSize, SlotsPerEth1VotingPeriod, BytesPerBlob]"

lemma config_wf_presets: "config_wf Mainnet" "config_wf Minimal" "config_wf Gnosis"
  by (simp_all add: config_wf_def Mainnet_def Minimal_def Gnosis_def)

lemma config_wf_pos:
  assumes "config_wf C"
  shows
    "0 < JustificationBitsLength C" "0 < MaxValidatorsPerCommittee C" "0 < SlotsPerHistoricalRoot C"
    "0 < EpochsPerHistoricalVector C" "0 < EpochsPerSlashingsVector C" "0 < HistoricalRootsLimit C"
    "0 < ValidatorRegistryLimit C" "0 < MaxProposerSlashings C" "0 < MaxDeposits C"
    "0 < MaxVoluntaryExits C" "0 < SyncCommitteeSize C" "0 < SyncCommitteeSubnetCount C"
    "0 < AttestationSubnetCount C" "0 < MaxTransactionsPerPayload C" "0 < BytesPerLogsBloom C"
    "0 < MaxExtraDataBytes C" "0 < MaxBlsToExecutionChanges C" "0 < MaxWithdrawalsPerPayload C"
    "0 < MaxBlobCommitmentsPerBlock C" "0 < KzgCommitmentInclusionProofDepth C"
    "0 < MaxCommitteesPerSlot C" "0 < MaxConsolidationRequestsPerPayload C"
    "0 < MaxDepositRequestsPerPayload C" "0 < MaxWithdrawalRequestsPerPayload C"
    "0 < PendingDepositsLimit C" "0 < PendingPartialWithdrawalsLimit C"
    "0 < PendingConsolidationsLimit C" "0 < MaxAttesterSlashingsElectra C"
    "0 < MaxAttestationsElectra C" "0 < MaxValidatorsPerSlot C" "0 < SyncSubcommitteeSize C"
    "0 < SlotsPerEth1VotingPeriod C" "0 < BytesPerBlob C"
  using assms unfolding config_wf_def list.pred_inject by blast+


end
