(* ===== verification/Ssz_Types.thy ===== *)
theory Ssz_Types
  imports Config
begin

text \<open>
  The \<open>ssz_types\<close> module: the type aliases of \<open>ssz_types/mod.rs\<close> and one definition for each
  struct of \<open>ssz_types/beacon_chain.rs\<close>, \<open>p2p.rs\<close> and \<open>validator.rs\<close>, with its fields in the
  order of the declaration (the order of the SSZ encoding). A struct with a \<open>C: Config\<close> parameter
  is a function of the configuration. A struct is declared after the ones it contains.
\<close>

section \<open>Type aliases\<close>

abbreviation ssz_Bytes4 :: ssz_ty where
  "ssz_Bytes4 \<equiv> TArray 4"

abbreviation ssz_Bytes20 :: ssz_ty where
  "ssz_Bytes20 \<equiv> TFixedVector TU8 20"

abbreviation ssz_Bytes32 :: ssz_ty where
  "ssz_Bytes32 \<equiv> TArray 32"

abbreviation ssz_Bytes48 :: ssz_ty where
  "ssz_Bytes48 \<equiv> TFixedVector TU8 48"

abbreviation ssz_Bytes96 :: ssz_ty where
  "ssz_Bytes96 \<equiv> TFixedVector TU8 96"

abbreviation ssz_Slot :: ssz_ty where
  "ssz_Slot \<equiv> TU64"

abbreviation ssz_Epoch :: ssz_ty where
  "ssz_Epoch \<equiv> TU64"

abbreviation ssz_CommitteeIndex :: ssz_ty where
  "ssz_CommitteeIndex \<equiv> TU64"

abbreviation ssz_ValidatorIndex :: ssz_ty where
  "ssz_ValidatorIndex \<equiv> TU64"

abbreviation ssz_Gwei :: ssz_ty where
  "ssz_Gwei \<equiv> TU64"

abbreviation ssz_Root :: ssz_ty where
  "ssz_Root \<equiv> ssz_Bytes32"

abbreviation ssz_Hash32 :: ssz_ty where
  "ssz_Hash32 \<equiv> ssz_Bytes32"

abbreviation ssz_Version :: ssz_ty where
  "ssz_Version \<equiv> ssz_Bytes4"

abbreviation ssz_DomainType :: ssz_ty where
  "ssz_DomainType \<equiv> ssz_Bytes4"

abbreviation ssz_ForkDigest :: ssz_ty where
  "ssz_ForkDigest \<equiv> ssz_Bytes4"

abbreviation ssz_Domain :: ssz_ty where
  "ssz_Domain \<equiv> ssz_Bytes32"

abbreviation ssz_BLSPubkey :: ssz_ty where
  "ssz_BLSPubkey \<equiv> ssz_Bytes48"

abbreviation ssz_BLSSignature :: ssz_ty where
  "ssz_BLSSignature \<equiv> ssz_Bytes96"

abbreviation ssz_ParticipationFlags :: ssz_ty where
  "ssz_ParticipationFlags \<equiv> TU8"

abbreviation ssz_Transaction :: ssz_ty where
  "ssz_Transaction \<equiv> TVariableList TU8 1073741824"

abbreviation ssz_ExecutionAddress :: ssz_ty where
  "ssz_ExecutionAddress \<equiv> ssz_Bytes20"

abbreviation ssz_WithdrawalIndex :: ssz_ty where
  "ssz_WithdrawalIndex \<equiv> TU64"

abbreviation ssz_KZGCommitment :: ssz_ty where
  "ssz_KZGCommitment \<equiv> ssz_Bytes48"

abbreviation ssz_KZGProof :: ssz_ty where
  "ssz_KZGProof \<equiv> ssz_Bytes48"

abbreviation ssz_BlobIndex :: ssz_ty where
  "ssz_BlobIndex \<equiv> TU64"

abbreviation ssz_Blob :: "Config \<Rightarrow> ssz_ty" where
  "ssz_Blob C \<equiv> TFixedVector TU8 (BytesPerBlob C)"

section \<open>Containers\<close>

definition ssz_Fork :: ssz_ty where
  "ssz_Fork = TStruct ''Fork'' [
     (''previous_version'', ssz_Version),
     (''current_version'', ssz_Version),
     (''epoch'', ssz_Epoch)]"

definition ssz_ForkData :: ssz_ty where
  "ssz_ForkData = TStruct ''ForkData'' [
     (''current_version'', ssz_Version),
     (''genesis_validators_root'', ssz_Root)]"

definition ssz_Checkpoint :: ssz_ty where
  "ssz_Checkpoint = TStruct ''Checkpoint'' [
     (''epoch'', ssz_Epoch),
     (''root'', ssz_Root)]"

definition ssz_Validator :: ssz_ty where
  "ssz_Validator = TStruct ''Validator'' [
     (''pubkey'', ssz_BLSPubkey),
     (''withdrawal_credentials'', ssz_Bytes32),
     (''effective_balance'', ssz_Gwei),
     (''slashed'', TBool),
     (''activation_eligibility_epoch'', ssz_Epoch),
     (''activation_epoch'', ssz_Epoch),
     (''exit_epoch'', ssz_Epoch),
     (''withdrawable_epoch'', ssz_Epoch)]"

definition ssz_AttestationData :: ssz_ty where
  "ssz_AttestationData = TStruct ''AttestationData'' [
     (''slot'', ssz_Slot),
     (''index'', ssz_CommitteeIndex),
     (''beacon_block_root'', ssz_Root),
     (''source'', ssz_Checkpoint),
     (''target'', ssz_Checkpoint)]"

definition ssz_IndexedAttestation :: "Config \<Rightarrow> ssz_ty" where
  "ssz_IndexedAttestation C = TStruct ''IndexedAttestation'' [
     (''attesting_indices'', TVariableList ssz_ValidatorIndex (MaxValidatorsPerSlot C)),
     (''data'', ssz_AttestationData),
     (''signature'', ssz_BLSSignature)]"

definition ssz_PendingAttestation :: "Config \<Rightarrow> ssz_ty" where
  "ssz_PendingAttestation C = TStruct ''PendingAttestation'' [
     (''aggregation_bits'', TBitList (MaxValidatorsPerCommittee C)),
     (''data'', ssz_AttestationData),
     (''inclusion_delay'', ssz_Slot),
     (''proposer_index'', ssz_ValidatorIndex)]"

definition ssz_Eth1Data :: ssz_ty where
  "ssz_Eth1Data = TStruct ''Eth1Data'' [
     (''deposit_root'', ssz_Root),
     (''deposit_count'', TU64),
     (''block_hash'', ssz_Hash32)]"

definition ssz_HistoricalBatch :: "Config \<Rightarrow> ssz_ty" where
  "ssz_HistoricalBatch C = TStruct ''HistoricalBatch'' [
     (''block_roots'', TFixedVector ssz_Root (SlotsPerHistoricalRoot C)),
     (''state_roots'', TFixedVector ssz_Root (SlotsPerHistoricalRoot C))]"

definition ssz_DepositMessage :: ssz_ty where
  "ssz_DepositMessage = TStruct ''DepositMessage'' [
     (''pubkey'', ssz_BLSPubkey),
     (''withdrawal_credentials'', ssz_Bytes32),
     (''amount'', ssz_Gwei)]"

definition ssz_DepositData :: ssz_ty where
  "ssz_DepositData = TStruct ''DepositData'' [
     (''pubkey'', ssz_BLSPubkey),
     (''withdrawal_credentials'', ssz_Bytes32),
     (''amount'', ssz_Gwei),
     (''signature'', ssz_BLSSignature)]"

definition ssz_HistoricalSummary :: ssz_ty where
  "ssz_HistoricalSummary = TStruct ''HistoricalSummary'' [
     (''block_summary_root'', ssz_Root),
     (''state_summary_root'', ssz_Root)]"

definition ssz_Deposit :: ssz_ty where
  "ssz_Deposit = TStruct ''Deposit'' [
     (''proof'', TFixedVector ssz_Bytes32 33),
     (''data'', ssz_DepositData)]"

definition ssz_VoluntaryExit :: ssz_ty where
  "ssz_VoluntaryExit = TStruct ''VoluntaryExit'' [
     (''epoch'', ssz_Epoch),
     (''validator_index'', ssz_ValidatorIndex)]"

definition ssz_Attestation :: "Config \<Rightarrow> ssz_ty" where
  "ssz_Attestation C = TStruct ''Attestation'' [
     (''aggregation_bits'', TBitList (MaxValidatorsPerSlot C)),
     (''data'', ssz_AttestationData),
     (''signature'', ssz_BLSSignature),
     (''committee_bits'', TBitVector (MaxCommitteesPerSlot C))]"

definition ssz_BeaconBlockHeader :: ssz_ty where
  "ssz_BeaconBlockHeader = TStruct ''BeaconBlockHeader'' [
     (''slot'', ssz_Slot),
     (''proposer_index'', ssz_ValidatorIndex),
     (''parent_root'', ssz_Root),
     (''state_root'', ssz_Root),
     (''body_root'', ssz_Root)]"

definition ssz_SignedBeaconBlockHeader :: ssz_ty where
  "ssz_SignedBeaconBlockHeader = TStruct ''SignedBeaconBlockHeader'' [
     (''message'', ssz_BeaconBlockHeader),
     (''signature'', ssz_BLSSignature)]"

definition ssz_ProposerSlashing :: ssz_ty where
  "ssz_ProposerSlashing = TStruct ''ProposerSlashing'' [
     (''signed_header_1'', ssz_SignedBeaconBlockHeader),
     (''signed_header_2'', ssz_SignedBeaconBlockHeader)]"

definition ssz_AttesterSlashing :: "Config \<Rightarrow> ssz_ty" where
  "ssz_AttesterSlashing C = TStruct ''AttesterSlashing'' [
     (''attestation_1'', ssz_IndexedAttestation C),
     (''attestation_2'', ssz_IndexedAttestation C)]"

definition ssz_SignedVoluntaryExit :: ssz_ty where
  "ssz_SignedVoluntaryExit = TStruct ''SignedVoluntaryExit'' [
     (''message'', ssz_VoluntaryExit),
     (''signature'', ssz_BLSSignature)]"

definition ssz_SyncAggregate :: "Config \<Rightarrow> ssz_ty" where
  "ssz_SyncAggregate C = TStruct ''SyncAggregate'' [
     (''sync_committee_bits'', TBitVector (SyncCommitteeSize C)),
     (''sync_committee_signature'', ssz_BLSSignature)]"

definition ssz_Withdrawal :: ssz_ty where
  "ssz_Withdrawal = TStruct ''Withdrawal'' [
     (''index'', ssz_WithdrawalIndex),
     (''validator_index'', ssz_ValidatorIndex),
     (''address'', ssz_ExecutionAddress),
     (''amount'', ssz_Gwei)]"

definition ssz_ExecutionPayload :: "Config \<Rightarrow> ssz_ty" where
  "ssz_ExecutionPayload C = TStruct ''ExecutionPayload'' [
     (''parent_hash'', ssz_Hash32),
     (''fee_recipient'', ssz_ExecutionAddress),
     (''state_root'', ssz_Root),
     (''receipts_root'', ssz_Root),
     (''logs_bloom'', TFixedVector TU8 (BytesPerLogsBloom C)),
     (''prev_randao'', ssz_Bytes32),
     (''block_number'', TU64),
     (''gas_limit'', TU64),
     (''gas_used'', TU64),
     (''timestamp'', TU64),
     (''extra_data'', TVariableList TU8 (MaxExtraDataBytes C)),
     (''base_fee_per_gas'', TUint256),
     (''block_hash'', ssz_Hash32),
     (''transactions'', TVariableList ssz_Transaction (MaxTransactionsPerPayload C)),
     (''withdrawals'', TVariableList ssz_Withdrawal (MaxWithdrawalsPerPayload C)),
     (''blob_gas_used'', TU64),
     (''excess_blob_gas'', TU64)]"

definition ssz_BLSToExecutionChange :: ssz_ty where
  "ssz_BLSToExecutionChange = TStruct ''BLSToExecutionChange'' [
     (''validator_index'', ssz_ValidatorIndex),
     (''from_bls_pubkey'', ssz_BLSPubkey),
     (''to_execution_address'', ssz_ExecutionAddress)]"

definition ssz_SignedBLSToExecutionChange :: ssz_ty where
  "ssz_SignedBLSToExecutionChange = TStruct ''SignedBLSToExecutionChange'' [
     (''message'', ssz_BLSToExecutionChange),
     (''signature'', ssz_BLSSignature)]"

definition ssz_DepositRequest :: ssz_ty where
  "ssz_DepositRequest = TStruct ''DepositRequest'' [
     (''pubkey'', ssz_BLSPubkey),
     (''withdrawal_credentials'', ssz_Bytes32),
     (''amount'', ssz_Gwei),
     (''signature'', ssz_BLSSignature),
     (''index'', TU64)]"

definition ssz_WithdrawalRequest :: ssz_ty where
  "ssz_WithdrawalRequest = TStruct ''WithdrawalRequest'' [
     (''source_address'', ssz_ExecutionAddress),
     (''validator_pubkey'', ssz_BLSPubkey),
     (''amount'', ssz_Gwei)]"

definition ssz_ConsolidationRequest :: ssz_ty where
  "ssz_ConsolidationRequest = TStruct ''ConsolidationRequest'' [
     (''source_address'', ssz_ExecutionAddress),
     (''source_pubkey'', ssz_BLSPubkey),
     (''target_pubkey'', ssz_BLSPubkey)]"

definition ssz_ExecutionRequests :: "Config \<Rightarrow> ssz_ty" where
  "ssz_ExecutionRequests C = TStruct ''ExecutionRequests'' [
     (''deposits'', TVariableList ssz_DepositRequest (MaxDepositRequestsPerPayload C)),
     (''withdrawals'', TVariableList ssz_WithdrawalRequest (MaxWithdrawalRequestsPerPayload C)),
     (''consolidations'', TVariableList ssz_ConsolidationRequest (MaxConsolidationRequestsPerPayload C))]"

definition ssz_BeaconBlockBody :: "Config \<Rightarrow> ssz_ty" where
  "ssz_BeaconBlockBody C = TStruct ''BeaconBlockBody'' [
     (''randao_reveal'', ssz_BLSSignature),
     (''eth1_data'', ssz_Eth1Data),
     (''graffiti'', ssz_Bytes32),
     (''proposer_slashings'', TVariableList ssz_ProposerSlashing (MaxProposerSlashings C)),
     (''attester_slashings'', TVariableList (ssz_AttesterSlashing C) (MaxAttesterSlashingsElectra C)),
     (''attestations'', TVariableList (ssz_Attestation C) (MaxAttestationsElectra C)),
     (''deposits'', TVariableList ssz_Deposit (MaxDeposits C)),
     (''voluntary_exits'', TVariableList ssz_SignedVoluntaryExit (MaxVoluntaryExits C)),
     (''sync_aggregate'', ssz_SyncAggregate C),
     (''execution_payload'', ssz_ExecutionPayload C),
     (''bls_to_execution_changes'', TVariableList ssz_SignedBLSToExecutionChange (MaxBlsToExecutionChanges C)),
     (''blob_kzg_commitments'', TVariableList ssz_KZGCommitment (MaxBlobCommitmentsPerBlock C)),
     (''execution_requests'', ssz_ExecutionRequests C)]"

definition ssz_BeaconBlock :: "Config \<Rightarrow> ssz_ty" where
  "ssz_BeaconBlock C = TStruct ''BeaconBlock'' [
     (''slot'', ssz_Slot),
     (''proposer_index'', ssz_ValidatorIndex),
     (''parent_root'', ssz_Root),
     (''state_root'', ssz_Root),
     (''body'', ssz_BeaconBlockBody C)]"

definition ssz_SignedBeaconBlock :: "Config \<Rightarrow> ssz_ty" where
  "ssz_SignedBeaconBlock C = TStruct ''SignedBeaconBlock'' [
     (''message'', ssz_BeaconBlock C),
     (''signature'', ssz_BLSSignature)]"

definition ssz_SigningData :: ssz_ty where
  "ssz_SigningData = TStruct ''SigningData'' [
     (''object_root'', ssz_Root),
     (''domain'', ssz_Domain)]"

definition ssz_ExecutionPayloadHeader :: "Config \<Rightarrow> ssz_ty" where
  "ssz_ExecutionPayloadHeader C = TStruct ''ExecutionPayloadHeader'' [
     (''parent_hash'', ssz_Hash32),
     (''fee_recipient'', ssz_ExecutionAddress),
     (''state_root'', ssz_Root),
     (''receipts_root'', ssz_Root),
     (''logs_bloom'', TFixedVector TU8 (BytesPerLogsBloom C)),
     (''prev_randao'', ssz_Bytes32),
     (''block_number'', TU64),
     (''gas_limit'', TU64),
     (''gas_used'', TU64),
     (''timestamp'', TU64),
     (''extra_data'', TVariableList TU8 (MaxExtraDataBytes C)),
     (''base_fee_per_gas'', TUint256),
     (''block_hash'', ssz_Hash32),
     (''transactions_root'', ssz_Root),
     (''withdrawals_root'', ssz_Root),
     (''blob_gas_used'', TU64),
     (''excess_blob_gas'', TU64)]"

definition ssz_SyncCommittee :: "Config \<Rightarrow> ssz_ty" where
  "ssz_SyncCommittee C = TStruct ''SyncCommittee'' [
     (''pubkeys'', TFixedVector ssz_BLSPubkey (SyncCommitteeSize C)),
     (''aggregate_pubkey'', ssz_BLSPubkey)]"

definition ssz_PendingDeposit :: ssz_ty where
  "ssz_PendingDeposit = TStruct ''PendingDeposit'' [
     (''pubkey'', ssz_BLSPubkey),
     (''withdrawal_credentials'', ssz_Bytes32),
     (''amount'', ssz_Gwei),
     (''signature'', ssz_BLSSignature),
     (''slot'', ssz_Slot)]"

definition ssz_PendingPartialWithdrawal :: ssz_ty where
  "ssz_PendingPartialWithdrawal = TStruct ''PendingPartialWithdrawal'' [
     (''validator_index'', ssz_ValidatorIndex),
     (''amount'', ssz_Gwei),
     (''withdrawable_epoch'', ssz_Epoch)]"

definition ssz_PendingConsolidation :: ssz_ty where
  "ssz_PendingConsolidation = TStruct ''PendingConsolidation'' [
     (''source_index'', ssz_ValidatorIndex),
     (''target_index'', ssz_ValidatorIndex)]"

definition ssz_SingleAttestation :: ssz_ty where
  "ssz_SingleAttestation = TStruct ''SingleAttestation'' [
     (''committee_index'', ssz_CommitteeIndex),
     (''attester_index'', ssz_ValidatorIndex),
     (''data'', ssz_AttestationData),
     (''signature'', ssz_BLSSignature)]"

definition ssz_BeaconState :: "Config \<Rightarrow> ssz_ty" where
  "ssz_BeaconState C = TStruct ''BeaconState'' [
     (''genesis_time'', TU64),
     (''genesis_validators_root'', ssz_Root),
     (''slot'', ssz_Slot),
     (''fork'', ssz_Fork),
     (''latest_block_header'', ssz_BeaconBlockHeader),
     (''block_roots'', TFixedVector ssz_Root (SlotsPerHistoricalRoot C)),
     (''state_roots'', TFixedVector ssz_Root (SlotsPerHistoricalRoot C)),
     (''historical_roots'', TVariableList ssz_Root (HistoricalRootsLimit C)),
     (''eth1_data'', ssz_Eth1Data),
     (''eth1_data_votes'', TVariableList ssz_Eth1Data (SlotsPerEth1VotingPeriod C)),
     (''eth1_deposit_index'', TU64),
     (''validators'', TVariableList ssz_Validator (ValidatorRegistryLimit C)),
     (''balances'', TVariableList ssz_Gwei (ValidatorRegistryLimit C)),
     (''randao_mixes'', TFixedVector ssz_Bytes32 (EpochsPerHistoricalVector C)),
     (''slashings'', TFixedVector ssz_Gwei (EpochsPerSlashingsVector C)),
     (''previous_epoch_participation'', TVariableList ssz_ParticipationFlags (ValidatorRegistryLimit C)),
     (''current_epoch_participation'', TVariableList ssz_ParticipationFlags (ValidatorRegistryLimit C)),
     (''justification_bits'', TBitVector (JustificationBitsLength C)),
     (''previous_justified_checkpoint'', ssz_Checkpoint),
     (''current_justified_checkpoint'', ssz_Checkpoint),
     (''finalized_checkpoint'', ssz_Checkpoint),
     (''inactivity_scores'', TVariableList TU64 (ValidatorRegistryLimit C)),
     (''current_sync_committee'', ssz_SyncCommittee C),
     (''next_sync_committee'', ssz_SyncCommittee C),
     (''latest_execution_payload_header'', ssz_ExecutionPayloadHeader C),
     (''next_withdrawal_index'', ssz_WithdrawalIndex),
     (''next_withdrawal_validator_index'', ssz_ValidatorIndex),
     (''historical_summaries'', TVariableList ssz_HistoricalSummary (HistoricalRootsLimit C)),
     (''deposit_requests_start_index'', TU64),
     (''deposit_balance_to_consume'', ssz_Gwei),
     (''exit_balance_to_consume'', ssz_Gwei),
     (''earliest_exit_epoch'', ssz_Epoch),
     (''consolidation_balance_to_consume'', ssz_Gwei),
     (''earliest_consolidation_epoch'', ssz_Epoch),
     (''pending_deposits'', TVariableList ssz_PendingDeposit (PendingDepositsLimit C)),
     (''pending_partial_withdrawals'', TVariableList ssz_PendingPartialWithdrawal (PendingPartialWithdrawalsLimit C)),
     (''pending_consolidations'', TVariableList ssz_PendingConsolidation (PendingConsolidationsLimit C))]"

definition ssz_StatusMessage :: ssz_ty where
  "ssz_StatusMessage = TStruct ''StatusMessage'' [
     (''fork_digest'', ssz_ForkDigest),
     (''finalized_root'', ssz_Root),
     (''finalized_epoch'', ssz_Epoch),
     (''head_root'', ssz_Root),
     (''head_slot'', ssz_Slot)]"

definition ssz_BeaconBlocksByRangeRequest :: ssz_ty where
  "ssz_BeaconBlocksByRangeRequest = TStruct ''BeaconBlocksByRangeRequest'' [
     (''start_slot'', ssz_Slot),
     (''count'', TU64),
     (''step'', TU64)]"

definition ssz_Metadata :: "Config \<Rightarrow> ssz_ty" where
  "ssz_Metadata C = TStruct ''Metadata'' [
     (''seq_number'', TU64),
     (''attnets'', TBitVector (AttestationSubnetCount C)),
     (''syncnets'', TBitVector (SyncCommitteeSubnetCount C))]"

definition ssz_BlobSidecar :: "Config \<Rightarrow> ssz_ty" where
  "ssz_BlobSidecar C = TStruct ''BlobSidecar'' [
     (''index'', ssz_BlobIndex),
     (''blob'', ssz_Blob C),
     (''kzg_commitment'', ssz_KZGCommitment),
     (''kzg_proof'', ssz_KZGProof),
     (''signed_block_header'', ssz_SignedBeaconBlockHeader),
     (''kzg_commitment_inclusion_proof'', TFixedVector ssz_Bytes32 (KzgCommitmentInclusionProofDepth C))]"

definition ssz_BlobIdentifier :: ssz_ty where
  "ssz_BlobIdentifier = TStruct ''BlobIdentifier'' [
     (''block_root'', ssz_Root),
     (''index'', ssz_BlobIndex)]"

definition ssz_AggregateAndProof :: "Config \<Rightarrow> ssz_ty" where
  "ssz_AggregateAndProof C = TStruct ''AggregateAndProof'' [
     (''aggregator_index'', ssz_ValidatorIndex),
     (''aggregate'', ssz_Attestation C),
     (''selection_proof'', ssz_BLSSignature)]"

definition ssz_SignedAggregateAndProof :: "Config \<Rightarrow> ssz_ty" where
  "ssz_SignedAggregateAndProof C = TStruct ''SignedAggregateAndProof'' [
     (''message'', ssz_AggregateAndProof C),
     (''signature'', ssz_BLSSignature)]"

definition ssz_SyncCommitteeMessage :: ssz_ty where
  "ssz_SyncCommitteeMessage = TStruct ''SyncCommitteeMessage'' [
     (''slot'', ssz_Slot),
     (''beacon_block_root'', ssz_Root),
     (''validator_index'', ssz_ValidatorIndex),
     (''signature'', ssz_BLSSignature)]"

definition ssz_SyncCommitteeContribution :: "Config \<Rightarrow> ssz_ty" where
  "ssz_SyncCommitteeContribution C = TStruct ''SyncCommitteeContribution'' [
     (''slot'', ssz_Slot),
     (''beacon_block_root'', ssz_Root),
     (''subcommittee_index'', TU64),
     (''aggregation_bits'', TBitVector (SyncSubcommitteeSize C)),
     (''signature'', ssz_BLSSignature)]"

definition ssz_ContributionAndProof :: "Config \<Rightarrow> ssz_ty" where
  "ssz_ContributionAndProof C = TStruct ''ContributionAndProof'' [
     (''aggregator_index'', ssz_ValidatorIndex),
     (''contribution'', ssz_SyncCommitteeContribution C),
     (''selection_proof'', ssz_BLSSignature)]"

definition ssz_SignedContributionAndProof :: "Config \<Rightarrow> ssz_ty" where
  "ssz_SignedContributionAndProof C = TStruct ''SignedContributionAndProof'' [
     (''message'', ssz_ContributionAndProof C),
     (''signature'', ssz_BLSSignature)]"

lemmas ssz_defs =
  ssz_Fork_def
  ssz_ForkData_def
  ssz_Checkpoint_def
  ssz_Validator_def
  ssz_AttestationData_def
  ssz_IndexedAttestation_def
  ssz_PendingAttestation_def
  ssz_Eth1Data_def
  ssz_HistoricalBatch_def
  ssz_DepositMessage_def
  ssz_DepositData_def
  ssz_HistoricalSummary_def
  ssz_Deposit_def
  ssz_VoluntaryExit_def
  ssz_Attestation_def
  ssz_BeaconBlockHeader_def
  ssz_SignedBeaconBlockHeader_def
  ssz_ProposerSlashing_def
  ssz_AttesterSlashing_def
  ssz_SignedVoluntaryExit_def
  ssz_SyncAggregate_def
  ssz_Withdrawal_def
  ssz_ExecutionPayload_def
  ssz_BLSToExecutionChange_def
  ssz_SignedBLSToExecutionChange_def
  ssz_DepositRequest_def
  ssz_WithdrawalRequest_def
  ssz_ConsolidationRequest_def
  ssz_ExecutionRequests_def
  ssz_BeaconBlockBody_def
  ssz_BeaconBlock_def
  ssz_SignedBeaconBlock_def
  ssz_SigningData_def
  ssz_ExecutionPayloadHeader_def
  ssz_SyncCommittee_def
  ssz_PendingDeposit_def
  ssz_PendingPartialWithdrawal_def
  ssz_PendingConsolidation_def
  ssz_SingleAttestation_def
  ssz_BeaconState_def
  ssz_StatusMessage_def
  ssz_BeaconBlocksByRangeRequest_def
  ssz_Metadata_def
  ssz_BlobSidecar_def
  ssz_BlobIdentifier_def
  ssz_AggregateAndProof_def
  ssz_SignedAggregateAndProof_def
  ssz_SyncCommitteeMessage_def
  ssz_SyncCommitteeContribution_def
  ssz_ContributionAndProof_def
  ssz_SignedContributionAndProof_def

end
