(* ===== verification/Elx_Types.thy ===== *)
theory Elx_Types
  imports Nif_Types
begin

text \<open>
  The \<open>elx_types\<close> module: the type aliases of \<open>elx_types/mod.rs\<close> and one definition for each
  struct that \<open>gen_struct!\<close> and \<open>gen_struct_with_config!\<close> declare in \<open>elx_types/beacon_chain.rs\<close>,
  \<open>p2p.rs\<close> and \<open>validator.rs\<close>, with the Elixir module of its \<open>NifStruct\<close> attribute and its
  fields in the order of the declaration (the order in which the generated code converts them).
\<close>

section \<open>Type aliases\<close>

abbreviation elx_Bytes4 :: elx_ty where
  "elx_Bytes4 \<equiv> EBinary"

abbreviation elx_Bytes20 :: elx_ty where
  "elx_Bytes20 \<equiv> EBinary"

abbreviation elx_Bytes32 :: elx_ty where
  "elx_Bytes32 \<equiv> EBinary"

abbreviation elx_Bytes48 :: elx_ty where
  "elx_Bytes48 \<equiv> EBinary"

abbreviation elx_Bytes96 :: elx_ty where
  "elx_Bytes96 \<equiv> EBinary"

abbreviation elx_Slot :: elx_ty where
  "elx_Slot \<equiv> EU64"

abbreviation elx_Epoch :: elx_ty where
  "elx_Epoch \<equiv> EU64"

abbreviation elx_CommitteeIndex :: elx_ty where
  "elx_CommitteeIndex \<equiv> EU64"

abbreviation elx_ValidatorIndex :: elx_ty where
  "elx_ValidatorIndex \<equiv> EU64"

abbreviation elx_Gwei :: elx_ty where
  "elx_Gwei \<equiv> EU64"

abbreviation elx_Root :: elx_ty where
  "elx_Root \<equiv> elx_Bytes32"

abbreviation elx_Hash32 :: elx_ty where
  "elx_Hash32 \<equiv> elx_Bytes32"

abbreviation elx_Version :: elx_ty where
  "elx_Version \<equiv> elx_Bytes4"

abbreviation elx_DomainType :: elx_ty where
  "elx_DomainType \<equiv> elx_Bytes4"

abbreviation elx_ForkDigest :: elx_ty where
  "elx_ForkDigest \<equiv> elx_Bytes4"

abbreviation elx_Domain :: elx_ty where
  "elx_Domain \<equiv> elx_Bytes32"

abbreviation elx_BLSPubkey :: elx_ty where
  "elx_BLSPubkey \<equiv> elx_Bytes48"

abbreviation elx_BLSSignature :: elx_ty where
  "elx_BLSSignature \<equiv> elx_Bytes96"

abbreviation elx_ParticipationFlags :: elx_ty where
  "elx_ParticipationFlags \<equiv> EU8"

abbreviation elx_Transaction :: elx_ty where
  "elx_Transaction \<equiv> EBinary"

abbreviation elx_ExecutionAddress :: elx_ty where
  "elx_ExecutionAddress \<equiv> elx_Bytes20"

abbreviation elx_WithdrawalIndex :: elx_ty where
  "elx_WithdrawalIndex \<equiv> EU64"

abbreviation elx_KZGCommitment :: elx_ty where
  "elx_KZGCommitment \<equiv> elx_Bytes48"

abbreviation elx_KZGProof :: elx_ty where
  "elx_KZGProof \<equiv> elx_Bytes48"

abbreviation elx_BlobIndex :: elx_ty where
  "elx_BlobIndex \<equiv> EU64"

abbreviation elx_Blob :: elx_ty where
  "elx_Blob \<equiv> EBinary"

abbreviation elx_Uint256 :: elx_ty where
  "elx_Uint256 \<equiv> EBinary"

section \<open>Structs\<close>

definition elx_Fork :: elx_ty where
  "elx_Fork = EStruct ''Types.Fork'' [
     (''previous_version'', elx_Version),
     (''current_version'', elx_Version),
     (''epoch'', elx_Epoch)]"

definition elx_ForkData :: elx_ty where
  "elx_ForkData = EStruct ''Types.ForkData'' [
     (''current_version'', elx_Version),
     (''genesis_validators_root'', elx_Root)]"

definition elx_Checkpoint :: elx_ty where
  "elx_Checkpoint = EStruct ''Types.Checkpoint'' [
     (''epoch'', elx_Epoch),
     (''root'', elx_Root)]"

definition elx_Validator :: elx_ty where
  "elx_Validator = EStruct ''Types.Validator'' [
     (''pubkey'', elx_BLSPubkey),
     (''withdrawal_credentials'', elx_Bytes32),
     (''effective_balance'', elx_Gwei),
     (''slashed'', EBool),
     (''activation_eligibility_epoch'', elx_Epoch),
     (''activation_epoch'', elx_Epoch),
     (''exit_epoch'', elx_Epoch),
     (''withdrawable_epoch'', elx_Epoch)]"

definition elx_AttestationData :: elx_ty where
  "elx_AttestationData = EStruct ''Types.AttestationData'' [
     (''slot'', elx_Slot),
     (''index'', elx_CommitteeIndex),
     (''beacon_block_root'', elx_Root),
     (''source'', elx_Checkpoint),
     (''target'', elx_Checkpoint)]"

definition elx_IndexedAttestation :: elx_ty where
  "elx_IndexedAttestation = EStruct ''Types.IndexedAttestation'' [
     (''attesting_indices'', EVec elx_ValidatorIndex),
     (''data'', elx_AttestationData),
     (''signature'', elx_BLSSignature)]"

definition elx_PendingAttestation :: elx_ty where
  "elx_PendingAttestation = EStruct ''Types.PendingAttestation'' [
     (''aggregation_bits'', EBinary),
     (''data'', elx_AttestationData),
     (''inclusion_delay'', elx_Slot),
     (''proposer_index'', elx_ValidatorIndex)]"

definition elx_Eth1Data :: elx_ty where
  "elx_Eth1Data = EStruct ''Types.Eth1Data'' [
     (''deposit_root'', elx_Root),
     (''deposit_count'', EU64),
     (''block_hash'', elx_Hash32)]"

definition elx_HistoricalBatch :: elx_ty where
  "elx_HistoricalBatch = EStruct ''Types.HistoricalBatch'' [
     (''block_roots'', EVec elx_Root),
     (''state_roots'', EVec elx_Root)]"

definition elx_DepositMessage :: elx_ty where
  "elx_DepositMessage = EStruct ''Types.DepositMessage'' [
     (''pubkey'', elx_BLSPubkey),
     (''withdrawal_credentials'', elx_Bytes32),
     (''amount'', elx_Gwei)]"

definition elx_DepositData :: elx_ty where
  "elx_DepositData = EStruct ''Types.DepositData'' [
     (''pubkey'', elx_BLSPubkey),
     (''withdrawal_credentials'', elx_Bytes32),
     (''amount'', elx_Gwei),
     (''signature'', elx_BLSSignature)]"

definition elx_HistoricalSummary :: elx_ty where
  "elx_HistoricalSummary = EStruct ''Types.HistoricalSummary'' [
     (''block_summary_root'', elx_Root),
     (''state_summary_root'', elx_Root)]"

definition elx_Deposit :: elx_ty where
  "elx_Deposit = EStruct ''Types.Deposit'' [
     (''proof'', EVec elx_Bytes32),
     (''data'', elx_DepositData)]"

definition elx_VoluntaryExit :: elx_ty where
  "elx_VoluntaryExit = EStruct ''Types.VoluntaryExit'' [
     (''epoch'', elx_Epoch),
     (''validator_index'', elx_ValidatorIndex)]"

definition elx_Attestation :: elx_ty where
  "elx_Attestation = EStruct ''Types.Attestation'' [
     (''aggregation_bits'', EBinary),
     (''data'', elx_AttestationData),
     (''signature'', elx_BLSSignature),
     (''committee_bits'', EBinary)]"

definition elx_BeaconBlockHeader :: elx_ty where
  "elx_BeaconBlockHeader = EStruct ''Types.BeaconBlockHeader'' [
     (''slot'', elx_Slot),
     (''proposer_index'', elx_ValidatorIndex),
     (''parent_root'', elx_Root),
     (''state_root'', elx_Root),
     (''body_root'', elx_Root)]"

definition elx_SignedBeaconBlockHeader :: elx_ty where
  "elx_SignedBeaconBlockHeader = EStruct ''Types.SignedBeaconBlockHeader'' [
     (''message'', elx_BeaconBlockHeader),
     (''signature'', elx_BLSSignature)]"

definition elx_ProposerSlashing :: elx_ty where
  "elx_ProposerSlashing = EStruct ''Types.ProposerSlashing'' [
     (''signed_header_1'', elx_SignedBeaconBlockHeader),
     (''signed_header_2'', elx_SignedBeaconBlockHeader)]"

definition elx_AttesterSlashing :: elx_ty where
  "elx_AttesterSlashing = EStruct ''Types.AttesterSlashing'' [
     (''attestation_1'', elx_IndexedAttestation),
     (''attestation_2'', elx_IndexedAttestation)]"

definition elx_SignedVoluntaryExit :: elx_ty where
  "elx_SignedVoluntaryExit = EStruct ''Types.SignedVoluntaryExit'' [
     (''message'', elx_VoluntaryExit),
     (''signature'', elx_BLSSignature)]"

definition elx_SyncAggregate :: elx_ty where
  "elx_SyncAggregate = EStruct ''Types.SyncAggregate'' [
     (''sync_committee_bits'', EBinary),
     (''sync_committee_signature'', elx_BLSSignature)]"

definition elx_Withdrawal :: elx_ty where
  "elx_Withdrawal = EStruct ''Types.Withdrawal'' [
     (''index'', elx_WithdrawalIndex),
     (''validator_index'', elx_ValidatorIndex),
     (''address'', elx_ExecutionAddress),
     (''amount'', elx_Gwei)]"

definition elx_ExecutionPayload :: elx_ty where
  "elx_ExecutionPayload = EStruct ''Types.ExecutionPayload'' [
     (''parent_hash'', elx_Hash32),
     (''fee_recipient'', elx_ExecutionAddress),
     (''state_root'', elx_Root),
     (''receipts_root'', elx_Root),
     (''logs_bloom'', EBinary),
     (''prev_randao'', elx_Bytes32),
     (''block_number'', EU64),
     (''gas_limit'', EU64),
     (''gas_used'', EU64),
     (''timestamp'', EU64),
     (''extra_data'', EBinary),
     (''base_fee_per_gas'', elx_Uint256),
     (''block_hash'', elx_Hash32),
     (''transactions'', EVec elx_Transaction),
     (''withdrawals'', EVec elx_Withdrawal),
     (''blob_gas_used'', EU64),
     (''excess_blob_gas'', EU64)]"

definition elx_BLSToExecutionChange :: elx_ty where
  "elx_BLSToExecutionChange = EStruct ''Types.BLSToExecutionChange'' [
     (''validator_index'', elx_ValidatorIndex),
     (''from_bls_pubkey'', elx_BLSPubkey),
     (''to_execution_address'', elx_ExecutionAddress)]"

definition elx_SignedBLSToExecutionChange :: elx_ty where
  "elx_SignedBLSToExecutionChange = EStruct ''Types.SignedBLSToExecutionChange'' [
     (''message'', elx_BLSToExecutionChange),
     (''signature'', elx_BLSSignature)]"

definition elx_DepositRequest :: elx_ty where
  "elx_DepositRequest = EStruct ''Types.DepositRequest'' [
     (''pubkey'', elx_BLSPubkey),
     (''withdrawal_credentials'', elx_Bytes32),
     (''amount'', elx_Gwei),
     (''signature'', elx_BLSSignature),
     (''index'', EU64)]"

definition elx_WithdrawalRequest :: elx_ty where
  "elx_WithdrawalRequest = EStruct ''Types.WithdrawalRequest'' [
     (''source_address'', elx_ExecutionAddress),
     (''validator_pubkey'', elx_BLSPubkey),
     (''amount'', elx_Gwei)]"

definition elx_ConsolidationRequest :: elx_ty where
  "elx_ConsolidationRequest = EStruct ''Types.ConsolidationRequest'' [
     (''source_address'', elx_ExecutionAddress),
     (''source_pubkey'', elx_BLSPubkey),
     (''target_pubkey'', elx_BLSPubkey)]"

definition elx_ExecutionRequests :: elx_ty where
  "elx_ExecutionRequests = EStruct ''Types.ExecutionRequests'' [
     (''deposits'', EVec elx_DepositRequest),
     (''withdrawals'', EVec elx_WithdrawalRequest),
     (''consolidations'', EVec elx_ConsolidationRequest)]"

definition elx_BeaconBlockBody :: elx_ty where
  "elx_BeaconBlockBody = EStruct ''Types.BeaconBlockBody'' [
     (''randao_reveal'', elx_BLSSignature),
     (''eth1_data'', elx_Eth1Data),
     (''graffiti'', elx_Bytes32),
     (''proposer_slashings'', EVec elx_ProposerSlashing),
     (''attester_slashings'', EVec elx_AttesterSlashing),
     (''attestations'', EVec elx_Attestation),
     (''deposits'', EVec elx_Deposit),
     (''voluntary_exits'', EVec elx_SignedVoluntaryExit),
     (''sync_aggregate'', elx_SyncAggregate),
     (''execution_payload'', elx_ExecutionPayload),
     (''bls_to_execution_changes'', EVec elx_SignedBLSToExecutionChange),
     (''blob_kzg_commitments'', EVec elx_KZGCommitment),
     (''execution_requests'', elx_ExecutionRequests)]"

definition elx_BeaconBlock :: elx_ty where
  "elx_BeaconBlock = EStruct ''Types.BeaconBlock'' [
     (''slot'', elx_Slot),
     (''proposer_index'', elx_ValidatorIndex),
     (''parent_root'', elx_Root),
     (''state_root'', elx_Root),
     (''body'', elx_BeaconBlockBody)]"

definition elx_SignedBeaconBlock :: elx_ty where
  "elx_SignedBeaconBlock = EStruct ''Types.SignedBeaconBlock'' [
     (''message'', elx_BeaconBlock),
     (''signature'', elx_BLSSignature)]"

definition elx_SigningData :: elx_ty where
  "elx_SigningData = EStruct ''Types.SigningData'' [
     (''object_root'', elx_Root),
     (''domain'', elx_Domain)]"

definition elx_ExecutionPayloadHeader :: elx_ty where
  "elx_ExecutionPayloadHeader = EStruct ''Types.ExecutionPayloadHeader'' [
     (''parent_hash'', elx_Hash32),
     (''fee_recipient'', elx_ExecutionAddress),
     (''state_root'', elx_Root),
     (''receipts_root'', elx_Root),
     (''logs_bloom'', EBinary),
     (''prev_randao'', elx_Bytes32),
     (''block_number'', EU64),
     (''gas_limit'', EU64),
     (''gas_used'', EU64),
     (''timestamp'', EU64),
     (''extra_data'', EBinary),
     (''base_fee_per_gas'', elx_Uint256),
     (''block_hash'', elx_Hash32),
     (''transactions_root'', elx_Root),
     (''withdrawals_root'', elx_Root),
     (''blob_gas_used'', EU64),
     (''excess_blob_gas'', EU64)]"

definition elx_SyncCommittee :: elx_ty where
  "elx_SyncCommittee = EStruct ''Types.SyncCommittee'' [
     (''pubkeys'', EVec elx_BLSPubkey),
     (''aggregate_pubkey'', elx_BLSPubkey)]"

definition elx_PendingDeposit :: elx_ty where
  "elx_PendingDeposit = EStruct ''Types.PendingDeposit'' [
     (''pubkey'', elx_BLSPubkey),
     (''withdrawal_credentials'', elx_Bytes32),
     (''amount'', elx_Gwei),
     (''signature'', elx_BLSSignature),
     (''slot'', elx_Slot)]"

definition elx_PendingPartialWithdrawal :: elx_ty where
  "elx_PendingPartialWithdrawal = EStruct ''Types.PendingPartialWithdrawal'' [
     (''validator_index'', elx_ValidatorIndex),
     (''amount'', elx_Gwei),
     (''withdrawable_epoch'', elx_Epoch)]"

definition elx_PendingConsolidation :: elx_ty where
  "elx_PendingConsolidation = EStruct ''Types.PendingConsolidation'' [
     (''source_index'', elx_ValidatorIndex),
     (''target_index'', elx_ValidatorIndex)]"

definition elx_SingleAttestation :: elx_ty where
  "elx_SingleAttestation = EStruct ''Types.SingleAttestation'' [
     (''committee_index'', elx_CommitteeIndex),
     (''attester_index'', elx_ValidatorIndex),
     (''data'', elx_AttestationData),
     (''signature'', elx_BLSSignature)]"

definition elx_BeaconState :: elx_ty where
  "elx_BeaconState = EStruct ''Types.BeaconState'' [
     (''genesis_time'', EU64),
     (''genesis_validators_root'', elx_Root),
     (''slot'', elx_Slot),
     (''fork'', elx_Fork),
     (''latest_block_header'', elx_BeaconBlockHeader),
     (''block_roots'', EVec elx_Root),
     (''state_roots'', EVec elx_Root),
     (''historical_roots'', EVec elx_Root),
     (''eth1_data'', elx_Eth1Data),
     (''eth1_data_votes'', EVec elx_Eth1Data),
     (''eth1_deposit_index'', EU64),
     (''validators'', EVec elx_Validator),
     (''balances'', EVec elx_Gwei),
     (''randao_mixes'', EVec elx_Bytes32),
     (''slashings'', EVec elx_Gwei),
     (''previous_epoch_participation'', EVec elx_ParticipationFlags),
     (''current_epoch_participation'', EVec elx_ParticipationFlags),
     (''justification_bits'', EBinary),
     (''previous_justified_checkpoint'', elx_Checkpoint),
     (''current_justified_checkpoint'', elx_Checkpoint),
     (''finalized_checkpoint'', elx_Checkpoint),
     (''inactivity_scores'', EVec EU64),
     (''current_sync_committee'', elx_SyncCommittee),
     (''next_sync_committee'', elx_SyncCommittee),
     (''latest_execution_payload_header'', elx_ExecutionPayloadHeader),
     (''next_withdrawal_index'', elx_WithdrawalIndex),
     (''next_withdrawal_validator_index'', elx_ValidatorIndex),
     (''historical_summaries'', EVec elx_HistoricalSummary),
     (''deposit_requests_start_index'', EU64),
     (''deposit_balance_to_consume'', elx_Gwei),
     (''exit_balance_to_consume'', elx_Gwei),
     (''earliest_exit_epoch'', elx_Epoch),
     (''consolidation_balance_to_consume'', elx_Gwei),
     (''earliest_consolidation_epoch'', elx_Epoch),
     (''pending_deposits'', EVec elx_PendingDeposit),
     (''pending_partial_withdrawals'', EVec elx_PendingPartialWithdrawal),
     (''pending_consolidations'', EVec elx_PendingConsolidation)]"

definition elx_StatusMessage :: elx_ty where
  "elx_StatusMessage = EStruct ''Types.StatusMessage'' [
     (''fork_digest'', elx_ForkDigest),
     (''finalized_root'', elx_Root),
     (''finalized_epoch'', elx_Epoch),
     (''head_root'', elx_Root),
     (''head_slot'', elx_Slot)]"

definition elx_BeaconBlocksByRangeRequest :: elx_ty where
  "elx_BeaconBlocksByRangeRequest = EStruct ''Types.BeaconBlocksByRangeRequest'' [
     (''start_slot'', elx_Slot),
     (''count'', EU64),
     (''step'', EU64)]"

definition elx_Metadata :: elx_ty where
  "elx_Metadata = EStruct ''Types.Metadata'' [
     (''seq_number'', EU64),
     (''attnets'', EBinary),
     (''syncnets'', EBinary)]"

definition elx_BlobSidecar :: elx_ty where
  "elx_BlobSidecar = EStruct ''Types.BlobSidecar'' [
     (''index'', elx_BlobIndex),
     (''blob'', elx_Blob),
     (''kzg_commitment'', elx_KZGCommitment),
     (''kzg_proof'', elx_KZGProof),
     (''signed_block_header'', elx_SignedBeaconBlockHeader),
     (''kzg_commitment_inclusion_proof'', EVec elx_Bytes32)]"

definition elx_BlobIdentifier :: elx_ty where
  "elx_BlobIdentifier = EStruct ''Types.BlobIdentifier'' [
     (''block_root'', elx_Root),
     (''index'', elx_BlobIndex)]"

definition elx_AggregateAndProof :: elx_ty where
  "elx_AggregateAndProof = EStruct ''Types.AggregateAndProof'' [
     (''aggregator_index'', elx_ValidatorIndex),
     (''aggregate'', elx_Attestation),
     (''selection_proof'', elx_BLSSignature)]"

definition elx_SignedAggregateAndProof :: elx_ty where
  "elx_SignedAggregateAndProof = EStruct ''Types.SignedAggregateAndProof'' [
     (''message'', elx_AggregateAndProof),
     (''signature'', elx_BLSSignature)]"

definition elx_SyncCommitteeMessage :: elx_ty where
  "elx_SyncCommitteeMessage = EStruct ''Types.SyncCommitteeMessage'' [
     (''slot'', elx_Slot),
     (''beacon_block_root'', elx_Root),
     (''validator_index'', elx_ValidatorIndex),
     (''signature'', elx_BLSSignature)]"

definition elx_SyncCommitteeContribution :: elx_ty where
  "elx_SyncCommitteeContribution = EStruct ''Types.SyncCommitteeContribution'' [
     (''slot'', elx_Slot),
     (''beacon_block_root'', elx_Root),
     (''subcommittee_index'', EU64),
     (''aggregation_bits'', EBinary),
     (''signature'', elx_BLSSignature)]"

definition elx_ContributionAndProof :: elx_ty where
  "elx_ContributionAndProof = EStruct ''Types.ContributionAndProof'' [
     (''aggregator_index'', elx_ValidatorIndex),
     (''contribution'', elx_SyncCommitteeContribution),
     (''selection_proof'', elx_BLSSignature)]"

definition elx_SignedContributionAndProof :: elx_ty where
  "elx_SignedContributionAndProof = EStruct ''Types.SignedContributionAndProof'' [
     (''message'', elx_ContributionAndProof),
     (''signature'', elx_BLSSignature)]"

lemmas elx_defs =
  elx_Fork_def
  elx_ForkData_def
  elx_Checkpoint_def
  elx_Validator_def
  elx_AttestationData_def
  elx_IndexedAttestation_def
  elx_PendingAttestation_def
  elx_Eth1Data_def
  elx_HistoricalBatch_def
  elx_DepositMessage_def
  elx_DepositData_def
  elx_HistoricalSummary_def
  elx_Deposit_def
  elx_VoluntaryExit_def
  elx_Attestation_def
  elx_BeaconBlockHeader_def
  elx_SignedBeaconBlockHeader_def
  elx_ProposerSlashing_def
  elx_AttesterSlashing_def
  elx_SignedVoluntaryExit_def
  elx_SyncAggregate_def
  elx_Withdrawal_def
  elx_ExecutionPayload_def
  elx_BLSToExecutionChange_def
  elx_SignedBLSToExecutionChange_def
  elx_DepositRequest_def
  elx_WithdrawalRequest_def
  elx_ConsolidationRequest_def
  elx_ExecutionRequests_def
  elx_BeaconBlockBody_def
  elx_BeaconBlock_def
  elx_SignedBeaconBlock_def
  elx_SigningData_def
  elx_ExecutionPayloadHeader_def
  elx_SyncCommittee_def
  elx_PendingDeposit_def
  elx_PendingPartialWithdrawal_def
  elx_PendingConsolidation_def
  elx_SingleAttestation_def
  elx_BeaconState_def
  elx_StatusMessage_def
  elx_BeaconBlocksByRangeRequest_def
  elx_Metadata_def
  elx_BlobSidecar_def
  elx_BlobIdentifier_def
  elx_AggregateAndProof_def
  elx_SignedAggregateAndProof_def
  elx_SyncCommitteeMessage_def
  elx_SyncCommitteeContribution_def
  elx_ContributionAndProof_def
  elx_SignedContributionAndProof_def

end
