(* ===== verification/Ssz_Crates.thy ===== *)
theory Ssz_Crates
  imports Nif_Types
begin

text \<open>
  The third-party crates the SSZ NIF calls, as records of functions that the definitions take as
  an argument: \<open>ssz_crate\<close> for \<open>ssz_types\<close> and \<open>ethereum_ssz\<close>, \<open>tree_hash_crate\<close> for
  \<open>tree_hash\<close>. A function over a Rust type takes the type as a value of \<open>ssz_ty\<close>; an error is the
  text of its \<open>Debug\<close> rendering, the only thing the sources look at. The locales state what the
  documentation of the crates promises; the lemmas of the components are proved inside them, and
  \<open>Ssz_Instance\<close> interprets them.
\<close>

section \<open>Containers and codec\<close>

record ssz_crate =
  FixedVector_new :: "nat \<Rightarrow> ssz_val list \<Rightarrow> (string, ssz_val list) rust"
  VariableList_new :: "nat \<Rightarrow> ssz_val list \<Rightarrow> (string, ssz_val list) rust"
  as_ssz_bytes :: "ssz_ty \<Rightarrow> ssz_val \<Rightarrow> bytes"
  from_ssz_bytes :: "ssz_ty \<Rightarrow> bytes \<Rightarrow> (string, ssz_val) rust"

text \<open>
  \<open>FixedVector::new\<close> accepts exactly the length of its type, \<open>VariableList::new\<close> at most the
  maximum of its type. Decoding a bit field either fails or gives a bit field of the type, and
  accepts only the encoding of the bit field it returns.
\<close>

locale ssz_containers =
  fixes K :: ssz_crate
  assumes fixed_vector_ok: "length vs = n \<Longrightarrow> FixedVector_new K n vs = Ok vs"
    and fixed_vector_err: "length vs \<noteq> n \<Longrightarrow> \<exists>e. FixedVector_new K n vs = Err e"
    and variable_list_ok: "length vs \<le> n \<Longrightarrow> VariableList_new K n vs = Ok vs"
    and variable_list_err: "n < length vs \<Longrightarrow> \<exists>e. VariableList_new K n vs = Err e"
    and decode_no_panic: "\<not> panics (from_ssz_bytes K t b)"
    and bitlist_typed: "from_ssz_bytes K (TBitList n) b = Ok v \<Longrightarrow> ssz_typed (TBitList n) v"
    and bitlist_decode_encode:
      "ssz_typed (TBitList n) v \<Longrightarrow>
         from_ssz_bytes K (TBitList n) (as_ssz_bytes K (TBitList n) v) = Ok v"
    and bitlist_encode_decode:
      "from_ssz_bytes K (TBitList n) b = Ok v \<Longrightarrow> as_ssz_bytes K (TBitList n) v = b"
    and bitvector_typed:
      "0 < n \<Longrightarrow> from_ssz_bytes K (TBitVector n) b = Ok v \<Longrightarrow> ssz_typed (TBitVector n) v"
    and bitvector_decode_encode:
      "0 < n \<Longrightarrow> ssz_typed (TBitVector n) v \<Longrightarrow>
         from_ssz_bytes K (TBitVector n) (as_ssz_bytes K (TBitVector n) v) = Ok v"
    and bitvector_encode_decode:
      "0 < n \<Longrightarrow> from_ssz_bytes K (TBitVector n) b = Ok v \<Longrightarrow> as_ssz_bytes K (TBitVector n) v = b"
begin

lemma fixed_vector_new_eq_Ok [simp]:
  "FixedVector_new K n vs = Ok ws \<longleftrightarrow> ws = vs \<and> length vs = n"
  using fixed_vector_ok [of vs n] fixed_vector_err [of vs n] by (cases "length vs = n") auto

lemma variable_list_new_eq_Ok [simp]:
  "VariableList_new K n vs = Ok ws \<longleftrightarrow> ws = vs \<and> length vs \<le> n"
  using variable_list_ok [of vs n] variable_list_err [of n vs] by (cases "length vs \<le> n") auto

lemma fixed_vector_new_no_panic [simp]: "\<not> panics (FixedVector_new K n vs)"
  by (metis fixed_vector_ok fixed_vector_err panics_simps(1,2))

lemma variable_list_new_no_panic [simp]: "\<not> panics (VariableList_new K n vs)"
  by (metis variable_list_ok variable_list_err not_le panics_simps(1,2))

end

text \<open>
  The types the codec is specified for: no empty array, vector or struct (SSZ forbids them), and
  the field names of a struct distinct.
\<close>

fun ssz_wf :: "ssz_ty \<Rightarrow> bool" where
  "ssz_wf (TArray n) = (0 < n)"
| "ssz_wf (TFixedVector t n) = (0 < n \<and> ssz_wf t)"
| "ssz_wf (TVariableList t n) = (0 < n \<and> ssz_wf t)"
| "ssz_wf (TVec t) = ssz_wf t"
| "ssz_wf (TBitList n) = (0 < n)"
| "ssz_wf (TBitVector n) = (0 < n)"
| "ssz_wf (TStruct nm fs) = (fs \<noteq> [] \<and> distinct (map fst fs) \<and> list_all (\<lambda>f. ssz_wf (snd f)) fs)"
| "ssz_wf _ = True"

text \<open>
  The derived \<open>Encode\<close> and \<open>Decode\<close> instances: decoding gives values of the type, and decoding an
  encoding gives the value back as long as the encoding fits the four-byte offsets of SSZ.
\<close>

definition max_ssz_length :: nat where
  "max_ssz_length = 2 ^ 32"

locale ssz_codec = ssz_containers +
  assumes decode_typed: "ssz_wf t \<Longrightarrow> from_ssz_bytes K t b = Ok v \<Longrightarrow> ssz_typed t v"
    and decode_encode:
      "ssz_wf t \<Longrightarrow> ssz_typed t v \<Longrightarrow> length (as_ssz_bytes K t v) < max_ssz_length \<Longrightarrow>
         from_ssz_bytes K t (as_ssz_bytes K t v) = Ok v"

section \<open>Tree hashing\<close>

datatype TreeHashType = Basic | Vector | List | Container

record 'h tree_hash_crate =
  tree_hash_type :: "ssz_ty \<Rightarrow> TreeHashType"
  tree_hash_packing_factor :: "ssz_ty \<Rightarrow> usize"
  tree_hash_packed_encoding :: "ssz_ty \<Rightarrow> ssz_val \<Rightarrow> bytes"
  tree_hash_root :: "ssz_ty \<Rightarrow> ssz_val \<Rightarrow> bytes"
  MerkleHasher_with_leaves :: "usize \<Rightarrow> 'h"
  MerkleHasher_write :: "'h \<Rightarrow> bytes \<Rightarrow> (string, 'h) rust"
  MerkleHasher_finish :: "'h \<Rightarrow> (string, bytes) rust"
  mix_in_length :: "bytes \<Rightarrow> usize \<Rightarrow> bytes"

end
