(* ===== verification/From_Elx.thy ===== *)
theory From_Elx
  imports Ssz_Crates
begin

text \<open>
  \<open>utils/from_elx.rs\<close> and the \<open>FromElx\<close> half of the \<open>gen_struct!\<close> macros of \<open>utils/mod.rs\<close>: the
  checked conversion of a decoded Elixir value into a value of an SSZ type. One definition per
  \<open>impl\<close>, and \<open>from_elx\<close> for the choice of the \<open>impl\<close>, which Rust makes from the two types. A pair
  with no \<open>impl\<close> (\<open>no_impl\<close>) does not compile; \<open>Schemas\<close> shows that no schema of the NIF leads
  to one.
\<close>

section \<open>Errors\<close>

datatype FromElxError = FromElxError string

primrec fmt_FromElxError :: "FromElxError \<Rightarrow> string" where
  "fmt_FromElxError (FromElxError e) = e"

text \<open>\<open>from_display\<close> and \<open>from_debug\<close>, on the rendered text of the error.\<close>

definition from_display :: "string \<Rightarrow> FromElxError" where
  "from_display t = FromElxError t"

definition from_debug :: "string \<Rightarrow> FromElxError" where
  "from_debug t = FromElxError t"

abbreviation no_impl :: "('e, 'a) rust" where
  "no_impl \<equiv> Panic ''no impl''"

section \<open>The implementations of \<open>FromElx\<close>\<close>

text \<open>\<open>[u8; N]\<close> from a binary.\<close>

definition array_from_elx :: "nat \<Rightarrow> bytes \<Rightarrow> (FromElxError, ssz_val) rust" where
  "array_from_elx n value = map_ok VArray (map_err from_display (array_try_from n value))"

text \<open>\<open>FixedVector<u8, N>\<close> from a binary.\<close>

definition fixed_vector_u8_from_elx ::
  "ssz_crate \<Rightarrow> nat \<Rightarrow> bytes \<Rightarrow> (FromElxError, ssz_val) rust" where
  "fixed_vector_u8_from_elx K n value =
     map_ok VFixedVector (map_err from_debug (FixedVector_new K n (map VU8 value)))"

text \<open>\<open>FixedVector<Ssz, N>\<close> from a list whose items are already converted.\<close>

definition fixed_vector_from_elx ::
  "ssz_crate \<Rightarrow> nat \<Rightarrow> (FromElxError, ssz_val list) rust \<Rightarrow> (FromElxError, ssz_val) rust" where
  "fixed_vector_from_elx K n v =
     and_then v (\<lambda>vs. map_ok VFixedVector (map_err from_debug (FixedVector_new K n vs)))"

text \<open>\<open>VariableList<Ssz, N>\<close>, in the same way.\<close>

definition variable_list_from_elx ::
  "ssz_crate \<Rightarrow> nat \<Rightarrow> (FromElxError, ssz_val list) rust \<Rightarrow> (FromElxError, ssz_val) rust" where
  "variable_list_from_elx K n v =
     and_then v (\<lambda>vs. map_ok VVariableList (map_err from_debug (VariableList_new K n vs)))"

text \<open>\<open>BitList<N>\<close> and \<open>BitVector<N>\<close> decode the SSZ encoding that Elixir holds in the binary.\<close>

definition bitlist_from_elx :: "ssz_crate \<Rightarrow> nat \<Rightarrow> bytes \<Rightarrow> (FromElxError, ssz_val) rust" where
  "bitlist_from_elx K n value = map_err from_debug (from_ssz_bytes K (TBitList n) value)"

definition bitvector_from_elx :: "ssz_crate \<Rightarrow> nat \<Rightarrow> bytes \<Rightarrow> (FromElxError, ssz_val) rust" where
  "bitvector_from_elx K n value = map_err from_debug (from_ssz_bytes K (TBitVector n) value)"

text \<open>\<open>VariableList<u8, N>\<close> from a binary.\<close>

definition variable_list_u8_from_elx ::
  "ssz_crate \<Rightarrow> nat \<Rightarrow> bytes \<Rightarrow> (FromElxError, ssz_val) rust" where
  "variable_list_u8_from_elx K n value =
     map_ok VVariableList (map_err from_debug (VariableList_new K n (map VU8 value)))"

text \<open>
  \<open>Uint256\<close> from a binary: 32 zero bytes, overwritten at the front by as much of the binary as
  fits.
\<close>

definition uint256_from_elx :: "bytes \<Rightarrow> (FromElxError, ssz_val) rust" where
  "uint256_from_elx value =
     (let v = replicate 32 0;
          v = (if 0 < length value
               then (let len = min (length v) (length value) in take len value @ drop len v)
               else v)
      in Ok (VUint256 v))"

text \<open>
  The struct conversion of \<open>gen_struct!\<close>: the converted fields, bound in the order of the Elixir
  struct, are put into the fields of the SSZ struct by name.
\<close>

definition build_struct ::
  "string \<Rightarrow> (string \<times> ssz_ty) list \<Rightarrow> (string \<times> ssz_val) list \<Rightarrow> (FromElxError, ssz_val) rust"
where
  "build_struct nm fs bound =
     map_ok (VStruct nm)
       (collect (map (\<lambda>(n, t). case map_of bound n of
                                  Some v \<Rightarrow> Ok (n, v)
                                | None \<Rightarrow> no_impl) fs))"

section \<open>The choice of the implementation\<close>

lemma size_snd_lt [termination_simp]:
  "(n, v) \<in> set vs \<Longrightarrow> size v < Suc (size_list (\<lambda>p. Suc (size (snd p))) vs)"
  by (induction vs) auto

fun from_elx :: "ssz_crate \<Rightarrow> ssz_ty \<Rightarrow> elx_val \<Rightarrow> (FromElxError, ssz_val) rust" where
  "from_elx K t (LBool b) = (case t of TBool \<Rightarrow> Ok (VBool b) | _ \<Rightarrow> no_impl)"
| "from_elx K t (LU8 x) = (case t of TU8 \<Rightarrow> Ok (VU8 x) | _ \<Rightarrow> no_impl)"
| "from_elx K t (LU16 x) = (case t of TU16 \<Rightarrow> Ok (VU16 x) | _ \<Rightarrow> no_impl)"
| "from_elx K t (LU32 x) = (case t of TU32 \<Rightarrow> Ok (VU32 x) | _ \<Rightarrow> no_impl)"
| "from_elx K t (LU64 x) = (case t of TU64 \<Rightarrow> Ok (VU64 x) | _ \<Rightarrow> no_impl)"
| "from_elx K t (LBinary b) =
     (case t of
        TArray n \<Rightarrow> array_from_elx n b
      | TFixedVector TU8 n \<Rightarrow> fixed_vector_u8_from_elx K n b
      | TVariableList TU8 n \<Rightarrow> variable_list_u8_from_elx K n b
      | TBitList n \<Rightarrow> bitlist_from_elx K n b
      | TBitVector n \<Rightarrow> bitvector_from_elx K n b
      | TUint256 \<Rightarrow> uint256_from_elx b
      | _ \<Rightarrow> no_impl)"
| "from_elx K t (LVec ws) =
     (case t of
        TVec t' \<Rightarrow> map_ok VVec (collect (map (from_elx K t') ws))
      | TFixedVector t' n \<Rightarrow> fixed_vector_from_elx K n (collect (map (from_elx K t') ws))
      | TVariableList t' n \<Rightarrow> variable_list_from_elx K n (collect (map (from_elx K t') ws))
      | _ \<Rightarrow> no_impl)"
| "from_elx K t (LStruct m ws) =
     (case t of
        TStruct nm fs \<Rightarrow>
          and_then
            (collect (map (\<lambda>(n, w). case map_of fs n of
                                       Some t' \<Rightarrow> map_ok (Pair n) (from_elx K t' w)
                                     | None \<Rightarrow> no_impl) ws))
            (build_struct nm fs)
      | _ \<Rightarrow> no_impl)"

end
