(* ===== verification/From_Ssz.thy ===== *)
theory From_Ssz
  imports From_Elx
begin

text \<open>
  \<open>utils/from_ssz.rs\<close> and the \<open>FromSsz\<close> half of the \<open>gen_struct!\<close> macros: the conversion of an
  SSZ value into the value that \<open>rustler\<close> encodes as an Elixir term. It has no error of its own;
  the only way out other than a value is the panic of \<open>bytes_to_binary\<close>. As in \<open>From_Elx\<close>, one
  definition per \<open>impl\<close>, and \<open>from_ssz\<close> for the choice that Rust makes from the two types.
  \<open>convertible\<close> holds for the pairs of types that have both conversions.
\<close>

section \<open>The implementations of \<open>FromSsz\<close>\<close>

text \<open>\<open>Binary\<close> from \<open>[u8; N]\<close>.\<close>

definition binary_from_array :: "(nat \<Rightarrow> bytes) \<Rightarrow> bytes \<Rightarrow> ('e, elx_val) rust" where
  "binary_from_array nb value = map_ok LBinary (bytes_to_binary nb value)"

text \<open>The bytes of a vector or list of \<open>u8\<close>, as its \<open>Deref\<close> to a slice gives them.\<close>

definition u8_slice :: "ssz_val list \<Rightarrow> ('e, bytes) rust" where
  "u8_slice vs = collect (map (\<lambda>v. case v of VU8 x \<Rightarrow> Ok x | _ \<Rightarrow> no_impl) vs)"

text \<open>\<open>Binary\<close> from \<open>FixedVector<u8, N>\<close> and from \<open>VariableList<u8, N>\<close>.\<close>

definition binary_from_fixed_vector :: "(nat \<Rightarrow> bytes) \<Rightarrow> ssz_val list \<Rightarrow> ('e, elx_val) rust" where
  "binary_from_fixed_vector nb value =
     and_then (u8_slice value) (\<lambda>bs. map_ok LBinary (bytes_to_binary nb bs))"

definition binary_from_variable_list :: "(nat \<Rightarrow> bytes) \<Rightarrow> ssz_val list \<Rightarrow> ('e, elx_val) rust" where
  "binary_from_variable_list nb value =
     and_then (u8_slice value) (\<lambda>bs. map_ok LBinary (bytes_to_binary nb bs))"

text \<open>\<open>Binary\<close> from \<open>BitVector<N>\<close> and from \<open>BitList<N>\<close>: their SSZ encodings.\<close>

definition binary_from_bitvector ::
  "(nat \<Rightarrow> bytes) \<Rightarrow> ssz_crate \<Rightarrow> nat \<Rightarrow> ssz_val \<Rightarrow> ('e, elx_val) rust" where
  "binary_from_bitvector nb K n value =
     map_ok LBinary (bytes_to_binary nb (as_ssz_bytes K (TBitVector n) value))"

definition binary_from_bitlist ::
  "(nat \<Rightarrow> bytes) \<Rightarrow> ssz_crate \<Rightarrow> nat \<Rightarrow> ssz_val \<Rightarrow> ('e, elx_val) rust" where
  "binary_from_bitlist nb K n value =
     map_ok LBinary (bytes_to_binary nb (as_ssz_bytes K (TBitList n) value))"

text \<open>\<open>Binary\<close> from \<open>Uint256\<close>.\<close>

definition binary_from_uint256 :: "(nat \<Rightarrow> bytes) \<Rightarrow> bytes \<Rightarrow> ('e, elx_val) rust" where
  "binary_from_uint256 nb value = map_ok LBinary (bytes_to_binary nb value)"

section \<open>The choice of the implementation\<close>

fun from_ssz ::
  "(nat \<Rightarrow> bytes) \<Rightarrow> ssz_crate \<Rightarrow> ssz_ty \<Rightarrow> elx_ty \<Rightarrow> ssz_val \<Rightarrow> (nif_error, elx_val) rust" where
  "from_ssz nb K t EBool v = (case (t, v) of (TBool, VBool b) \<Rightarrow> Ok (LBool b) | _ \<Rightarrow> no_impl)"
| "from_ssz nb K t EU8 v = (case (t, v) of (TU8, VU8 x) \<Rightarrow> Ok (LU8 x) | _ \<Rightarrow> no_impl)"
| "from_ssz nb K t EU16 v = (case (t, v) of (TU16, VU16 x) \<Rightarrow> Ok (LU16 x) | _ \<Rightarrow> no_impl)"
| "from_ssz nb K t EU32 v = (case (t, v) of (TU32, VU32 x) \<Rightarrow> Ok (LU32 x) | _ \<Rightarrow> no_impl)"
| "from_ssz nb K t EU64 v = (case (t, v) of (TU64, VU64 x) \<Rightarrow> Ok (LU64 x) | _ \<Rightarrow> no_impl)"
| "from_ssz nb K t EBinary v =
     (case (t, v) of
        (TArray n, VArray b) \<Rightarrow> binary_from_array nb b
      | (TFixedVector TU8 n, VFixedVector vs) \<Rightarrow> binary_from_fixed_vector nb vs
      | (TVariableList TU8 n, VVariableList vs) \<Rightarrow> binary_from_variable_list nb vs
      | (TBitVector n, VBitVector bs) \<Rightarrow> binary_from_bitvector nb K n v
      | (TBitList n, VBitList bs) \<Rightarrow> binary_from_bitlist nb K n v
      | (TUint256, VUint256 b) \<Rightarrow> binary_from_uint256 nb b
      | _ \<Rightarrow> no_impl)"
| "from_ssz nb K t (EVec e) v =
     (case (t, v) of
        (TFixedVector t' n, VFixedVector vs) \<Rightarrow> map_ok LVec (collect (map (from_ssz nb K t' e) vs))
      | (TVariableList t' n, VVariableList vs) \<Rightarrow> map_ok LVec (collect (map (from_ssz nb K t' e) vs))
      | (TVec t', VVec vs) \<Rightarrow> map_ok LVec (collect (map (from_ssz nb K t' e) vs))
      | _ \<Rightarrow> no_impl)"
| "from_ssz nb K t (EStruct m es) v =
     (case (t, v) of
        (TStruct nm fs, VStruct nm' vs) \<Rightarrow>
          map_ok (LStruct m)
            (collect (map (\<lambda>(n, e). case (map_of fs n, map_of vs n) of
                                       (Some t', Some v') \<Rightarrow> map_ok (Pair n) (from_ssz nb K t' e v')
                                     | _ \<Rightarrow> no_impl) es))
      | _ \<Rightarrow> no_impl)"

text \<open>
  The pairs of types for which Rust finds both implementations. The generated code of a struct
  needs the fields of the two structs to have the same names.
\<close>

fun convertible :: "ssz_ty \<Rightarrow> elx_ty \<Rightarrow> bool" where
  "convertible t EBool = (t = TBool)"
| "convertible t EU8 = (t = TU8)"
| "convertible t EU16 = (t = TU16)"
| "convertible t EU32 = (t = TU32)"
| "convertible t EU64 = (t = TU64)"
| "convertible t EBinary =
     (case t of
        TArray n \<Rightarrow> True
      | TFixedVector t' n \<Rightarrow> t' = TU8
      | TVariableList t' n \<Rightarrow> t' = TU8
      | TBitVector n \<Rightarrow> 0 < n
      | TBitList n \<Rightarrow> True
      | TUint256 \<Rightarrow> True
      | _ \<Rightarrow> False)"
| "convertible t (EVec e) =
     (case t of
        TFixedVector t' n \<Rightarrow> convertible t' e
      | TVariableList t' n \<Rightarrow> convertible t' e
      | TVec t' \<Rightarrow> convertible t' e
      | _ \<Rightarrow> False)"
| "convertible t (EStruct m es) =
     (case t of
        TStruct nm fs \<Rightarrow>
          distinct (map fst fs) \<and> distinct (map fst es) \<and> set (map fst fs) = set (map fst es) \<and>
          list_all (\<lambda>(n, e). case map_of fs n of Some t' \<Rightarrow> convertible t' e | None \<Rightarrow> False) es
      | _ \<Rightarrow> False)"

end
