(* ===== verification/Conversions.thy ===== *)
theory Conversions
  imports From_Ssz
begin

text \<open>
  The correctness of the two conversions, for every pair of types that has both. Inside the
  locale \<open>nif_conversions\<close> (the containers and bit fields of the crates, and a \<open>NewBinary::new\<close>
  that allocates what it is asked for): \<open>from_elx\<close> never panics and only builds values of the SSZ
  type, \<open>from_ssz\<close> always succeeds, and the two are inverse to each other, apart from \<open>Uint256\<close>,
  where \<open>from_elx\<close> also accepts binaries that are not 32 bytes long.
\<close>

section \<open>Association lists with the same keys\<close>

lemma list_all2_map_of_Some:
  "list_all2 (\<lambda>(n, x) (n', y). n' = n \<and> Q n x y) xs ys \<Longrightarrow> map_of xs k = Some x \<Longrightarrow>
     \<exists>y. map_of ys k = Some y \<and> Q k x y"
  by (induction rule: list_all2_induct) (auto split: if_splits)

lemma list_all2_map_of_Some2:
  "list_all2 (\<lambda>(n, x) (n', y). n' = n \<and> Q n x y) xs ys \<Longrightarrow> map_of ys k = Some y \<Longrightarrow>
     \<exists>x. map_of xs k = Some x \<and> Q k x y"
  by (induction rule: list_all2_induct) (auto split: if_splits)

lemma list_all2_fields_choice:
  "(\<And>n x. (n, x) \<in> set xs \<Longrightarrow> \<exists>y. Q n x y) \<Longrightarrow>
     \<exists>ys. list_all2 (\<lambda>(n, x) (n', y). n' = n \<and> Q n x y) xs ys"
proof (induction xs)
  case (Cons p xs)
  obtain n x where p: "p = (n, x)" by (cases p)
  from Cons.prems [of n x] p obtain y where "Q n x y" by auto
  moreover from Cons obtain ys where "list_all2 (\<lambda>(n, x) (n', y). n' = n \<and> Q n x y) xs ys"
    by auto
  ultimately show ?case using p by (intro exI [of _ "(n, y) # ys"]) simp
qed (auto intro: exI [of _ "[]"])

lemma collect_fields_eq_Ok:
  "collect (map (\<lambda>(n, x). case f n of Some g \<Rightarrow> map_ok (Pair n) (h n g x) | None \<Rightarrow> no_impl) xs) = Ok ys
     \<longleftrightarrow> list_all2 (\<lambda>(n, x) (n', y). n' = n \<and> (\<exists>g. f n = Some g \<and> h n g x = Ok y)) xs ys"
  unfolding collect_map_eq_Ok
  by (rule iffI; erule list.rel_mono_strong) (auto split: option.splits)

lemma build_struct_eq_Ok:
  "build_struct nm fs bound = Ok v \<longleftrightarrow>
     (\<exists>vs. v = VStruct nm vs \<and> list_all2 (\<lambda>(n, t) (n', v). n' = n \<and> map_of bound n = Some v) fs vs)"
proof -
  have "collect (map (\<lambda>(n, t). case map_of bound n of Some v \<Rightarrow> Ok (n, v) | None \<Rightarrow> no_impl) fs) = Ok vs
      \<longleftrightarrow> list_all2 (\<lambda>(n, t) (n', v). n' = n \<and> map_of bound n = Some v) fs vs" for vs
    unfolding collect_map_eq_Ok
    by (rule iffI; erule list.rel_mono_strong) (auto split: option.splits)
  then show ?thesis by (auto simp: build_struct_def)
qed

lemma from_elx_struct_eq_Ok:
  "from_elx K (TStruct nm fs) (LStruct m ws) = Ok v \<longleftrightarrow>
     (\<exists>bound vs. v = VStruct nm vs \<and>
        list_all2 (\<lambda>(n, w) (n', v). n' = n \<and> (\<exists>t. map_of fs n = Some t \<and> from_elx K t w = Ok v)) ws bound \<and>
        list_all2 (\<lambda>(n, t) (n', v). n' = n \<and> map_of bound n = Some v) fs vs)"
  by (auto simp: collect_fields_eq_Ok build_struct_eq_Ok)

lemma from_ssz_struct_eq_Ok:
  "from_ssz nb K (TStruct nm fs) (EStruct m es) (VStruct nm' vs) = Ok w \<longleftrightarrow>
     (\<exists>ws. w = LStruct m ws \<and>
        list_all2 (\<lambda>(n, e) (n', w). n' = n \<and>
          (\<exists>t v. map_of fs n = Some t \<and> map_of vs n = Some v \<and> from_ssz nb K t e v = Ok w)) es ws)"
proof -
  have "collect (map (\<lambda>(n, e). case (map_of fs n, map_of vs n) of
            (Some t', Some v') \<Rightarrow> map_ok (Pair n) (from_ssz nb K t' e v') | _ \<Rightarrow> no_impl) es) = Ok ws
      \<longleftrightarrow> list_all2 (\<lambda>(n, e) (n', w). n' = n \<and>
          (\<exists>t v. map_of fs n = Some t \<and> map_of vs n = Some v \<and> from_ssz nb K t e v = Ok w)) es ws" for ws
    unfolding collect_map_eq_Ok
    by (rule iffI; erule list.rel_mono_strong) (auto split: option.splits)
  then show ?thesis by auto
qed

text \<open>Corresponding fields of two convertible structs.\<close>

lemma convertible_struct_fields:
  assumes "convertible (TStruct nm fs) (EStruct m es)"
  shows "map_of es n = Some e \<Longrightarrow> \<exists>t. map_of fs n = Some t \<and> convertible t e"
    and "map_of fs n = Some t \<Longrightarrow> \<exists>e. map_of es n = Some e \<and> convertible t e"
proof -
  have es: "(n, e) \<in> set es \<Longrightarrow> \<exists>t. map_of fs n = Some t \<and> convertible t e" for n e
    using assms by (fastforce simp: list_all_iff split: option.splits)
  then show "map_of es n = Some e \<Longrightarrow> \<exists>t. map_of fs n = Some t \<and> convertible t e"
    by (simp add: map_of_SomeD)
  assume t: "map_of fs n = Some t"
  then have "n \<in> set (map fst es)"
    using assms map_of_SomeD [OF t] by (force simp del: map_of_eq_Some_iff)
  then obtain e where "map_of es n = Some e"
    by (metis map_of_eq_None_iff not_Some_eq set_map)
  with es [of n e] t show "\<exists>e. map_of es n = Some e \<and> convertible t e"
    by (auto dest: map_of_SomeD)
qed

section \<open>Well-typed values\<close>

lemma list_all2_typed_lookup:
  assumes "elx_typed_fields es ws" and "map_of ws n = Some w"
  shows "\<exists>e. map_of es n = Some e \<and> elx_typed e w"
  using assms list_all2_map_of_Some2 [of "\<lambda>n e w. elx_typed e w" es ws n w]
  by (simp add: elx_typed_fields_iff)

text \<open>The binaries of a \<open>Uint256\<close> are exactly 32 bytes long, everywhere in a value.\<close>

fun uint256_exact :: "ssz_ty \<Rightarrow> elx_val \<Rightarrow> bool" where
  "uint256_exact t (LBinary b) = (t = TUint256 \<longrightarrow> length b = 32)"
| "uint256_exact t (LVec ws) =
     (case t of
        TFixedVector t' n \<Rightarrow> list_all (uint256_exact t') ws
      | TVariableList t' n \<Rightarrow> list_all (uint256_exact t') ws
      | TVec t' \<Rightarrow> list_all (uint256_exact t') ws
      | _ \<Rightarrow> True)"
| "uint256_exact t (LStruct m ws) =
     (case t of
        TStruct nm fs \<Rightarrow>
          list_all (\<lambda>(n, w). case map_of fs n of Some t' \<Rightarrow> uint256_exact t' w | None \<Rightarrow> True) ws
      | _ \<Rightarrow> True)"
| "uint256_exact t w = True"

lemma uint256_from_elx_eq:
  "uint256_from_elx b = Ok (VUint256 (take 32 b @ replicate (32 - length b) 0))"
  by (auto simp: uint256_from_elx_def Let_def min_def)

lemma uint256_from_elx_exact: "length b = 32 \<Longrightarrow> uint256_from_elx b = Ok (VUint256 b)"
  by (simp add: uint256_from_elx_eq)

section \<open>The conversions inside the contract of the crates\<close>

locale nif_conversions = ssz_containers +
  fixes nb :: "nat \<Rightarrow> bytes"
  assumes new_binary_length: "length (nb n) = n"
begin

lemma bytes_to_binary_eq [simp]: "bytes_to_binary nb bs = Ok bs"
  by (rule bytes_to_binary_Ok) (rule new_binary_length)

lemma u8_slice_map [simp]: "u8_slice (map VU8 bs) = Ok bs"
proof -
  have "(case x of VU8 y \<Rightarrow> Ok y | _ \<Rightarrow> no_impl) = Ok y" if "x = VU8 y" for x y
    using that by simp
  then show ?thesis by (simp add: u8_slice_def o_def collect_map_eq_Ok list_all2_conv_all_nth)
qed

lemma bitlist_decodeD:
  "from_ssz_bytes K (TBitList n) b = Ok v \<Longrightarrow>
     \<exists>bs. v = VBitList bs \<and> length bs \<le> n \<and> as_ssz_bytes K (TBitList n) (VBitList bs) = b"
  using bitlist_typed [of n b v] bitlist_encode_decode [of n b v] by auto

lemma bitvector_decodeD:
  "from_ssz_bytes K (TBitVector n) b = Ok v \<Longrightarrow> 0 < n \<Longrightarrow>
     \<exists>bs. v = VBitVector bs \<and> length bs = n \<and> as_ssz_bytes K (TBitVector n) (VBitVector bs) = b"
  using bitvector_typed [of n b v] bitvector_encode_decode [of n b v] by auto

text \<open>Every SSZ value of the type can be handed to Elixir.\<close>

lemma from_ssz_total:
  "convertible t e \<Longrightarrow> ssz_typed t v \<Longrightarrow>
     \<exists>w. from_ssz nb K t e v = Ok w \<and> elx_typed e w"
proof (induction e arbitrary: t v)
  case EBinary
  then show ?case
    by (cases t)
      (auto simp: ssz_typed_u8_list binary_from_array_def
        binary_from_fixed_vector_def binary_from_variable_list_def binary_from_bitvector_def
        binary_from_bitlist_def binary_from_uint256_def)
next
  case (EVec e)
  have items: "\<exists>ws. collect (map (from_ssz nb K t' e) vs) = Ok ws \<and> list_all (elx_typed e) ws"
    if "convertible t' e" and "list_all (ssz_typed t') vs" for t' vs
    using that(2)
  proof (induction vs)
    case (Cons v vs)
    then show ?case using EVec.IH [OF that(1), of v] by auto
  qed simp
  from EVec.prems show ?case
    by (cases t) (auto dest!: items)
next
  case (EStruct m es)
  then obtain nm fs vs where t: "t = TStruct nm fs" and v: "v = VStruct nm vs"
    and typed: "ssz_typed_fields fs vs"
    by (cases t) auto
  have field: "\<exists>w. (\<exists>t' v'. map_of fs n = Some t' \<and> map_of vs n = Some v' \<and>
      from_ssz nb K t' e v' = Ok w) \<and> elx_typed e w" if "(n, e) \<in> set es" for n e
  proof -
    from that EStruct.prems t have "map_of es n = Some e" by simp
    from convertible_struct_fields(1) [OF EStruct.prems(1) [unfolded t] this]
    obtain t' where t': "map_of fs n = Some t'" "convertible t' e" by blast
    with ssz_typed_fields_lookup [OF typed] obtain v' where "map_of vs n = Some v'" "ssz_typed t' v'"
      by blast
    with t' EStruct.IH [OF that, of e t' v'] show ?thesis by auto
  qed
  then have "\<exists>ws. list_all2 (\<lambda>(n, e) (n', w). n' = n \<and> (\<exists>t' v'. map_of fs n = Some t' \<and>
      map_of vs n = Some v' \<and> from_ssz nb K t' e v' = Ok w) \<and> elx_typed e w) es ws"
    by (rule list_all2_fields_choice)
  then obtain ws where ws: "list_all2 (\<lambda>(n, e) (n', w). n' = n \<and> (\<exists>t' v'. map_of fs n = Some t' \<and>
      map_of vs n = Some v' \<and> from_ssz nb K t' e v' = Ok w) \<and> elx_typed e w) es ws" ..
  have "from_ssz nb K t (EStruct m es) v = Ok (LStruct m ws)"
    unfolding t v from_ssz_struct_eq_Ok using ws by (auto elim: list.rel_mono_strong)
  moreover have "elx_typed (EStruct m es) (LStruct m ws)"
    using ws by (auto simp: elx_typed_fields_iff elim: list.rel_mono_strong)
  ultimately show ?case by blast
qed auto

text \<open>
  What \<open>from_ssz\<close> hands to Elixir converts back to the value it came from.
\<close>

lemma from_elx_from_ssz:
  "convertible t e \<Longrightarrow> ssz_typed t v \<Longrightarrow> from_ssz nb K t e v = Ok w \<Longrightarrow> from_elx K t w = Ok v"
proof (induction e arbitrary: t v w)
  case EBinary
  then show ?case
    by (cases t)
      (auto simp: ssz_typed_u8_list binary_from_array_def binary_from_fixed_vector_def
        binary_from_variable_list_def binary_from_bitvector_def binary_from_bitlist_def
        binary_from_uint256_def array_from_elx_def array_try_from_def
        fixed_vector_u8_from_elx_def variable_list_u8_from_elx_def bitlist_from_elx_def
        bitvector_from_elx_def uint256_from_elx_exact bitlist_decode_encode
        bitvector_decode_encode)
next
  case (EVec e)
  have items: "collect (map (from_elx K t') ws) = Ok vs"
    if "convertible t' e" and "list_all (ssz_typed t') vs"
      and "collect (map (from_ssz nb K t' e) vs) = Ok ws" for t' vs ws
    using that(2,3)
  proof (induction vs arbitrary: ws)
    case (Cons v vs)
    then show ?case using EVec.IH [OF that(1), of v] by auto
  qed simp
  from EVec.prems show ?case
    by (cases t)
      (auto simp: fixed_vector_from_elx_def variable_list_from_elx_def intro!: items)
next
  case (EStruct m es)
  then obtain nm fs vs where t: "t = TStruct nm fs" and v: "v = VStruct nm vs"
    and typed: "ssz_typed_fields fs vs" and dist: "distinct (map fst fs)"
    by (cases t) auto
  from EStruct.prems(3) obtain ws where w: "w = LStruct m ws"
    and ws: "list_all2 (\<lambda>(n, e) (n', w). n' = n \<and> (\<exists>t v. map_of fs n = Some t \<and>
      map_of vs n = Some v \<and> from_ssz nb K t e v = Ok w)) es ws"
    unfolding t v from_ssz_struct_eq_Ok by blast
  have field: "\<exists>v. (\<exists>t. map_of fs n = Some t \<and> from_elx K t w = Ok v) \<and> map_of vs n = Some v"
    if "(n, w) \<in> set ws" for n w
  proof -
    from ws that obtain e where e: "(n, e) \<in> set es" and "\<exists>t v. map_of fs n = Some t \<and>
        map_of vs n = Some v \<and> from_ssz nb K t e v = Ok w"
      by (fastforce simp: list_all2_conv_all_nth in_set_conv_nth)
    then obtain t' v' where f: "map_of fs n = Some t'" "map_of vs n = Some v'"
      "from_ssz nb K t' e v' = Ok w" by blast
    from e EStruct.prems(1) t have "map_of es n = Some e" by simp
    with convertible_struct_fields(1) [OF EStruct.prems(1) [unfolded t]] f(1)
    have "convertible t' e" by fastforce
    moreover from ssz_typed_fields_lookup [OF typed f(1)] f(2) have "ssz_typed t' v'" by simp
    ultimately have "from_elx K t' w = Ok v'" using EStruct.IH [OF e, of e t' v' w] f(3) by simp
    with f show ?thesis by blast
  qed
  then have "\<exists>bound. list_all2 (\<lambda>(n, w) (n', v). n' = n \<and> (\<exists>t. map_of fs n = Some t \<and>
      from_elx K t w = Ok v) \<and> map_of vs n = Some v) ws bound"
    by (rule list_all2_fields_choice)
  then obtain bound where bound: "list_all2 (\<lambda>(n, w) (n', v). n' = n \<and> (\<exists>t. map_of fs n = Some t \<and>
      from_elx K t w = Ok v) \<and> map_of vs n = Some v) ws bound" ..
  have "map_of bound n = Some v'" if "(n, t') \<in> set fs" "(n, v') \<in> set vs" for n t' v'
  proof -
    from that(1) dist have "map_of fs n = Some t'" by simp
    with convertible_struct_fields(2) [OF EStruct.prems(1) [unfolded t]]
    obtain e where "map_of es n = Some e" by blast
    from list_all2_map_of_Some [OF ws this] obtain w' where "map_of ws n = Some w'" by blast
    from list_all2_map_of_Some [OF bound this] obtain v'' where
      "map_of bound n = Some v''" "map_of vs n = Some v''" by blast
    moreover from that(2) dist ssz_typed_fields_names [OF typed] have "map_of vs n = Some v'" by simp
    ultimately show ?thesis by simp
  qed
  with typed have "list_all2 (\<lambda>(n, t) (n', v). n' = n \<and> map_of bound n = Some v) fs vs"
    unfolding ssz_typed_fields_iff by (auto elim!: list.rel_mono_strong)
  moreover from bound have "list_all2 (\<lambda>(n, w) (n', v). n' = n \<and> (\<exists>t. map_of fs n = Some t \<and>
      from_elx K t w = Ok v)) ws bound"
    by (auto elim: list.rel_mono_strong)
  ultimately show ?case unfolding t v w from_elx_struct_eq_Ok by blast
qed auto

text \<open>
  On a decoded Elixir value of the right type, \<open>from_elx\<close> reports an error or builds a value of
  the SSZ type: it does not panic.
\<close>

lemma from_elx_no_panic:
  "convertible t e \<Longrightarrow> elx_typed e w \<Longrightarrow> \<not> panics (from_elx K t w)"
proof (induction e arbitrary: t w)
  case EBinary
  then show ?case
    by (cases t)
      (auto simp: array_from_elx_def array_try_from_def fixed_vector_u8_from_elx_def
        variable_list_u8_from_elx_def bitlist_from_elx_def bitvector_from_elx_def
        uint256_from_elx_eq decode_no_panic split: if_splits)
next
  case (EVec e)
  have items: "\<not> panics (collect (map (from_elx K t') ws))"
    if "convertible t' e" and "list_all (elx_typed e) ws" for t' ws
    using that EVec.IH [OF that(1)] by (intro collect_map_not_panics) (auto simp: list_all_iff)
  from EVec.prems show ?case
    by (cases t) (auto simp: fixed_vector_from_elx_def variable_list_from_elx_def items)
next
  case (EStruct m es)
  then obtain nm fs ws where t: "t = TStruct nm fs" and w: "w = LStruct m ws"
    and typed: "elx_typed_fields es ws"
    by (cases t) auto
  have conv: "\<not> panics (case map_of fs n of Some t' \<Rightarrow> map_ok (Pair n) (from_elx K t' w) | None \<Rightarrow> no_impl)"
    if "(n, w) \<in> set ws" for n w
  proof -
    from typed that obtain e where e: "(n, e) \<in> set es" and "elx_typed e w"
      unfolding elx_typed_fields_iff by (fastforce simp: list_all2_conv_all_nth in_set_conv_nth)
    from e EStruct.prems(1) t have "map_of es n = Some e" by simp
    from convertible_struct_fields(1) [OF EStruct.prems(1) [unfolded t] this]
    obtain t' where "map_of fs n = Some t'" "convertible t' e" by blast
    with \<open>elx_typed e w\<close> EStruct.IH [OF e, of e t' w] show ?thesis by simp
  qed
  have "\<not> panics (build_struct nm fs bound)"
    if coll: "collect (map (\<lambda>(n, w). case map_of fs n of Some t' \<Rightarrow> map_ok (Pair n) (from_elx K t' w)
        | None \<Rightarrow> no_impl) ws) = Ok bound" for bound
  proof -
    have "\<exists>v. map_of bound n = Some v" if n: "(n, t') \<in> set fs" for n t'
    proof -
      from n EStruct.prems(1) t have "map_of fs n = Some t'" by simp
      with convertible_struct_fields(2) [OF EStruct.prems(1) [unfolded t]]
      obtain e where "map_of es n = Some e" by blast
      with list_all2_map_of_Some [OF typed [unfolded elx_typed_fields_iff]]
      obtain w' where "map_of ws n = Some w'" by blast
      with list_all2_map_of_Some [OF coll [unfolded collect_fields_eq_Ok]]
      show ?thesis by blast
    qed
    then have "\<not> panics (case map_of bound n of Some v \<Rightarrow> Ok (n, v) | None \<Rightarrow> no_impl)"
      if "(n, t') \<in> set fs" for n t' using that by force
    then show ?thesis
      unfolding build_struct_def panics_map_ok by (intro collect_map_not_panics) auto
  qed
  then show ?case unfolding t w using conv by (auto intro!: collect_map_not_panics)
qed auto

lemma from_elx_typed:
  "convertible t e \<Longrightarrow> elx_typed e w \<Longrightarrow> from_elx K t w = Ok v \<Longrightarrow> ssz_typed t v"
proof (induction e arbitrary: t v w)
  case EBinary
  then show ?case
    by (cases t)
      (auto simp: array_from_elx_def array_try_from_def fixed_vector_u8_from_elx_def
        variable_list_u8_from_elx_def bitlist_from_elx_def bitvector_from_elx_def
        uint256_from_elx_eq list_all_iff split: if_splits dest!: bitlist_decodeD bitvector_decodeD)
next
  case (EVec e)
  have items: "list_all (ssz_typed t') vs"
    if "convertible t' e" and "list_all (elx_typed e) ws"
      and "collect (map (from_elx K t') ws) = Ok vs" for t' vs ws
    using that(2,3)
  proof (induction ws arbitrary: vs)
    case (Cons w ws)
    then show ?case using EVec.IH [OF that(1), of w] by auto
  qed simp
  from EVec.prems show ?case
    by (cases t)
      (auto simp: fixed_vector_from_elx_def variable_list_from_elx_def intro!: items)
next
  case (EStruct m es)
  then obtain nm fs ws where t: "t = TStruct nm fs" and w: "w = LStruct m ws"
    and typed: "elx_typed_fields es ws" and dist: "distinct (map fst fs)"
    by (cases t) auto
  from EStruct.prems(3) obtain bound vs where v: "v = VStruct nm vs"
    and bound: "list_all2 (\<lambda>(n, w) (n', v). n' = n \<and> (\<exists>t. map_of fs n = Some t \<and>
      from_elx K t w = Ok v)) ws bound"
    and vs: "list_all2 (\<lambda>(n, t) (n', v). n' = n \<and> map_of bound n = Some v) fs vs"
    unfolding t w from_elx_struct_eq_Ok by blast
  have "ssz_typed t' v'" if "(n, t') \<in> set fs" "map_of bound n = Some v'" for n t' v'
  proof -
    from list_all2_map_of_Some2 [OF bound that(2)] that(1) dist
    obtain w' where w': "map_of ws n = Some w'" "from_elx K t' w' = Ok v'" by auto
    from list_all2_typed_lookup [OF typed w'(1)] obtain e where
      e: "map_of es n = Some e" "elx_typed e w'" by blast
    from convertible_struct_fields(1) [OF EStruct.prems(1) [unfolded t] e(1)] that(1) dist
    have "convertible t' e" by auto
    with e w' EStruct.IH [of "(n, e)" e t' w' v'] show ?thesis by (auto dest: map_of_SomeD)
  qed
  with vs have "ssz_typed_fields fs vs"
    unfolding ssz_typed_fields_iff by (auto elim!: list.rel_mono_strong)
  then show ?case by (simp add: t v)
qed auto

text \<open>
  And what \<open>from_elx\<close> accepts comes back unchanged, provided the binaries of \<open>Uint256\<close> have their
  32 bytes.
\<close>

lemma from_ssz_from_elx:
  "convertible t e \<Longrightarrow> elx_typed e w \<Longrightarrow> uint256_exact t w \<Longrightarrow> from_elx K t w = Ok v \<Longrightarrow>
     from_ssz nb K t e v = Ok w"
proof (induction e arbitrary: t v w)
  case EBinary
  then show ?case
    by (cases t)
      (auto simp: array_from_elx_def array_try_from_def fixed_vector_u8_from_elx_def
        variable_list_u8_from_elx_def bitlist_from_elx_def bitvector_from_elx_def
        uint256_from_elx_exact binary_from_array_def binary_from_fixed_vector_def
        binary_from_variable_list_def binary_from_bitvector_def binary_from_bitlist_def
        binary_from_uint256_def split: if_splits dest!: bitlist_decodeD bitvector_decodeD)
next
  case (EVec e)
  have items: "collect (map (from_ssz nb K t' e) vs) = Ok ws"
    if "convertible t' e" and "list_all (elx_typed e) ws" and "list_all (uint256_exact t') ws"
      and "collect (map (from_elx K t') ws) = Ok vs" for t' vs ws
    using that(2,3,4)
  proof (induction ws arbitrary: vs)
    case (Cons w ws)
    then show ?case using EVec.IH [OF that(1), of w] by auto
  qed simp
  from EVec.prems show ?case
    by (cases t)
      (auto simp: fixed_vector_from_elx_def variable_list_from_elx_def intro!: items)
next
  case (EStruct m es)
  then obtain nm fs ws where t: "t = TStruct nm fs" and w: "w = LStruct m ws"
    and typed: "elx_typed_fields es ws" and dist: "distinct (map fst fs)" "distinct (map fst es)"
    by (cases t) auto
  from EStruct.prems(4) obtain bound vs where v: "v = VStruct nm vs"
    and bound: "list_all2 (\<lambda>(n, w) (n', v). n' = n \<and> (\<exists>t. map_of fs n = Some t \<and>
      from_elx K t w = Ok v)) ws bound"
    and vs: "list_all2 (\<lambda>(n, t) (n', v). n' = n \<and> map_of bound n = Some v) fs vs"
    unfolding t w from_elx_struct_eq_Ok by blast
  have "\<exists>t v. map_of fs n = Some t \<and> map_of vs n = Some v \<and> from_ssz nb K t e v = Ok w'"
    if "(n, e) \<in> set es" "(n, w') \<in> set ws" "elx_typed e w'" for n e w'
  proof -
    from that(2) dist elx_typed_fields_names [OF typed] have w': "map_of ws n = Some w'" by simp
    from that(1) dist have "map_of es n = Some e" by simp
    from convertible_struct_fields(1) [OF EStruct.prems(1) [unfolded t] this]
    obtain t' where t': "map_of fs n = Some t'" "convertible t' e" by blast
    from list_all2_map_of_Some [OF bound w'] t'(1) obtain v' where
      v': "map_of bound n = Some v'" "from_elx K t' w' = Ok v'" by auto
    from list_all2_map_of_Some [OF vs t'(1)] v'(1) have "map_of vs n = Some v'" by simp
    moreover from EStruct.prems(3) that(2) t'(1) have "uint256_exact t' w'"
      by (auto simp: t w list_all_iff)
    ultimately show ?thesis
      using EStruct.IH [OF that(1), of e t' w' v'] t' v'(2) that(3) by auto
  qed
  with typed have "list_all2 (\<lambda>(n, e) (n', w). n' = n \<and> (\<exists>t v. map_of fs n = Some t \<and>
      map_of vs n = Some v \<and> from_ssz nb K t e v = Ok w)) es ws"
    unfolding elx_typed_fields_iff by (auto elim!: list.rel_mono_strong)
  then show ?case unfolding t v w from_ssz_struct_eq_Ok by blast
qed auto

end

end
