(* ===== verification/Schemas.thy ===== *)
theory Schemas
  imports Ssz_Types Elx_Types Conversions
begin

text \<open>
  The dispatch macros of \<open>utils/mod.rs\<close>: \<open>schema_match!\<close> maps the name of a schema to a pair of
  types, \<open>config_match!\<close> instantiates the SSZ type at the preset named by the configuration. An
  entry \<open>WithConfig\<close> is a schema listed with \<open>\<C>\<close> in angle brackets, \<open>Plain\<close> one listed without. The macros
  are expanded at a helper \<open>f\<close>, which is an argument here.
\<close>

section \<open>The table\<close>

datatype schema_entry =
    Plain string elx_ty ssz_ty
  | WithConfig string elx_ty "Config \<Rightarrow> ssz_ty"

definition schema_entries :: "schema_entry list" where
  "schema_entries = [
     Plain ''HistoricalSummary'' elx_HistoricalSummary ssz_HistoricalSummary,
     Plain ''AttestationData'' elx_AttestationData ssz_AttestationData,
     WithConfig ''IndexedAttestation'' elx_IndexedAttestation ssz_IndexedAttestation,
     Plain ''Checkpoint'' elx_Checkpoint ssz_Checkpoint,
     Plain ''Eth1Data'' elx_Eth1Data ssz_Eth1Data,
     Plain ''Fork'' elx_Fork ssz_Fork,
     Plain ''ForkData'' elx_ForkData ssz_ForkData,
     WithConfig ''HistoricalBatch'' elx_HistoricalBatch ssz_HistoricalBatch,
     WithConfig ''PendingAttestation'' elx_PendingAttestation ssz_PendingAttestation,
     Plain ''Validator'' elx_Validator ssz_Validator,
     Plain ''DepositData'' elx_DepositData ssz_DepositData,
     Plain ''VoluntaryExit'' elx_VoluntaryExit ssz_VoluntaryExit,
     Plain ''Deposit'' elx_Deposit ssz_Deposit,
     Plain ''DepositMessage'' elx_DepositMessage ssz_DepositMessage,
     Plain ''BLSToExecutionChange'' elx_BLSToExecutionChange ssz_BLSToExecutionChange,
     Plain ''SignedBLSToExecutionChange'' elx_SignedBLSToExecutionChange ssz_SignedBLSToExecutionChange,
     WithConfig ''Attestation'' elx_Attestation ssz_Attestation,
     WithConfig ''BeaconBlock'' elx_BeaconBlock ssz_BeaconBlock,
     Plain ''BeaconBlockHeader'' elx_BeaconBlockHeader ssz_BeaconBlockHeader,
     WithConfig ''AttesterSlashing'' elx_AttesterSlashing ssz_AttesterSlashing,
     WithConfig ''SignedBeaconBlock'' elx_SignedBeaconBlock ssz_SignedBeaconBlock,
     Plain ''SignedBeaconBlockHeader'' elx_SignedBeaconBlockHeader ssz_SignedBeaconBlockHeader,
     Plain ''SignedVoluntaryExit'' elx_SignedVoluntaryExit ssz_SignedVoluntaryExit,
     Plain ''ProposerSlashing'' elx_ProposerSlashing ssz_ProposerSlashing,
     WithConfig ''ExecutionPayload'' elx_ExecutionPayload ssz_ExecutionPayload,
     WithConfig ''ExecutionPayloadHeader'' elx_ExecutionPayloadHeader ssz_ExecutionPayloadHeader,
     Plain ''Withdrawal'' elx_Withdrawal ssz_Withdrawal,
     Plain ''SigningData'' elx_SigningData ssz_SigningData,
     WithConfig ''SyncAggregate'' elx_SyncAggregate ssz_SyncAggregate,
     WithConfig ''SyncCommittee'' elx_SyncCommittee ssz_SyncCommittee,
     Plain ''SyncCommitteeMessage'' elx_SyncCommitteeMessage ssz_SyncCommitteeMessage,
     WithConfig ''SyncCommitteeContribution'' elx_SyncCommitteeContribution ssz_SyncCommitteeContribution,
     WithConfig ''ContributionAndProof'' elx_ContributionAndProof ssz_ContributionAndProof,
     WithConfig ''SignedContributionAndProof'' elx_SignedContributionAndProof ssz_SignedContributionAndProof,
     WithConfig ''BeaconState'' elx_BeaconState ssz_BeaconState,
     WithConfig ''BeaconBlockBody'' elx_BeaconBlockBody ssz_BeaconBlockBody,
     Plain ''StatusMessage'' elx_StatusMessage ssz_StatusMessage,
     WithConfig ''AggregateAndProof'' elx_AggregateAndProof ssz_AggregateAndProof,
     WithConfig ''SignedAggregateAndProof'' elx_SignedAggregateAndProof ssz_SignedAggregateAndProof,
     Plain ''BeaconBlocksByRangeRequest'' elx_BeaconBlocksByRangeRequest ssz_BeaconBlocksByRangeRequest,
     Plain ''Transaction'' elx_Transaction ssz_Transaction,
     WithConfig ''Metadata'' elx_Metadata ssz_Metadata,
     Plain ''Root'' elx_Root ssz_Root,
     Plain ''Epoch'' elx_Epoch ssz_Epoch,
     WithConfig ''BlobSidecar'' elx_BlobSidecar ssz_BlobSidecar,
     Plain ''BlobIdentifier'' elx_BlobIdentifier ssz_BlobIdentifier,
     Plain ''PendingDeposit'' elx_PendingDeposit ssz_PendingDeposit,
     Plain ''PendingPartialWithdrawal'' elx_PendingPartialWithdrawal ssz_PendingPartialWithdrawal,
     Plain ''PendingConsolidation'' elx_PendingConsolidation ssz_PendingConsolidation,
     Plain ''DepositRequest'' elx_DepositRequest ssz_DepositRequest,
     Plain ''WithdrawalRequest'' elx_WithdrawalRequest ssz_WithdrawalRequest,
     Plain ''ConsolidationRequest'' elx_ConsolidationRequest ssz_ConsolidationRequest,
     WithConfig ''ExecutionRequests'' elx_ExecutionRequests ssz_ExecutionRequests,
     Plain ''SingleAttestation'' elx_SingleAttestation ssz_SingleAttestation]"

section \<open>The dispatch\<close>

fun config_match ::
  "string \<Rightarrow> (elx_ty \<Rightarrow> ssz_ty \<Rightarrow> (nif_error, 'a) rust) \<Rightarrow> schema_entry \<Rightarrow> (nif_error, 'a) rust" where
  "config_match config f (WithConfig nm elx ssz) =
     (if config = ''mainnet'' then f elx (ssz Mainnet)
      else if config = ''minimal'' then f elx (ssz Minimal)
      else if config = ''gnosis'' then f elx (ssz Gnosis)
      else Err BadArg)"
| "config_match config f (Plain nm elx ssz) =
     (if config = ''mainnet'' \<or> config = ''minimal'' \<or> config = ''gnosis'' then f elx ssz
      else Err BadArg)"

fun entry_name :: "schema_entry \<Rightarrow> string" where
  "entry_name (WithConfig nm elx ssz) = nm"
| "entry_name (Plain nm elx ssz) = nm"

fun schema_match_impl ::
  "string \<Rightarrow> string \<Rightarrow> (elx_ty \<Rightarrow> ssz_ty \<Rightarrow> (nif_error, 'a) rust) \<Rightarrow> schema_entry list \<Rightarrow>
     (nif_error, 'a) rust" where
  "schema_match_impl schema config f [] = Err BadArg"
| "schema_match_impl schema config f (en # ens) =
     (if schema = entry_name en then config_match config f en
      else schema_match_impl schema config f ens)"

definition schema_match ::
  "string \<Rightarrow> string \<Rightarrow> (elx_ty \<Rightarrow> ssz_ty \<Rightarrow> (nif_error, 'a) rust) \<Rightarrow> (nif_error, 'a) rust" where
  "schema_match schema config f = schema_match_impl schema config f schema_entries"

section \<open>The types a schema stands for\<close>

text \<open>\<open>schema_types\<close> is the dispatch with nothing to run: the pair of types it selects.\<close>

definition schema_types :: "string \<Rightarrow> string \<Rightarrow> (nif_error, elx_ty \<times> ssz_ty) rust" where
  "schema_types schema config = schema_match schema config (\<lambda>e t. Ok (e, t))"

lemma schema_match_impl_types:
  "schema_match_impl schema config f ens =
     and_then (schema_match_impl schema config (\<lambda>e t. Ok (e, t)) ens) (\<lambda>(e, t). f e t)"
proof (induction ens)
  case (Cons en ens)
  then show ?case by (cases en) auto
qed simp

lemma schema_match_types:
  "schema_match schema config f = and_then (schema_types schema config) (\<lambda>(e, t). f e t)"
  unfolding schema_match_def schema_types_def by (rule schema_match_impl_types)

lemma schema_types_cases:
  "schema_types schema config = Err BadArg \<or> (\<exists>e t. schema_types schema config = Ok (e, t))"
proof -
  have "schema_match_impl schema config (\<lambda>e t. Ok (e, t)) ens = Err BadArg \<or>
      (\<exists>e t. schema_match_impl schema config (\<lambda>e t. Ok (e, t)) ens = Ok (e, t))" for ens
  proof (induction ens)
    case (Cons en ens)
    then show ?case by (cases en) auto
  qed simp
  then show ?thesis by (simp add: schema_types_def schema_match_def)
qed

text \<open>The SSZ type of an entry at a configuration, and the entry's types.\<close>

fun entry_elx :: "schema_entry \<Rightarrow> elx_ty" where
  "entry_elx (WithConfig nm elx ssz) = elx"
| "entry_elx (Plain nm elx ssz) = elx"

fun entry_ssz :: "Config \<Rightarrow> schema_entry \<Rightarrow> ssz_ty" where
  "entry_ssz C (WithConfig nm elx ssz) = ssz C"
| "entry_ssz C (Plain nm elx ssz) = ssz"

definition config_named :: "string \<Rightarrow> Config option" where
  "config_named config =
     (if config = ''mainnet'' then Some Mainnet
      else if config = ''minimal'' then Some Minimal
      else if config = ''gnosis'' then Some Gnosis
      else None)"

lemma config_named_wf: "config_named config = Some C \<Longrightarrow> config_wf C"
  using config_wf_presets by (auto simp: config_named_def split: if_splits)

lemma config_match_types:
  "config_match config (\<lambda>e t. Ok (e, t)) en =
     (case config_named config of Some C \<Rightarrow> Ok (entry_elx en, entry_ssz C en) | None \<Rightarrow> Err BadArg)"
  by (cases en) (auto simp: config_named_def)

lemma schema_types_entry:
  assumes "schema_types schema config = Ok (e, t)"
  obtains en C where "en \<in> set schema_entries" "config_named config = Some C"
    "entry_name en = schema" "e = entry_elx en" "t = entry_ssz C en"
proof -
  have "\<exists>en C. en \<in> set ens \<and> config_named config = Some C \<and> entry_name en = schema \<and>
      e = entry_elx en \<and> t = entry_ssz C en"
    if "schema_match_impl schema config (\<lambda>e t. Ok (e, t)) ens = Ok (e, t)" for ens
    using that
  proof (induction ens)
    case (Cons en ens)
    then show ?case by (auto simp: config_match_types split: if_splits option.splits)
  qed simp
  from this [OF assms [unfolded schema_types_def schema_match_def]] that show ?thesis by blast
qed

section \<open>Every schema has its conversions\<close>

text \<open>
  A pair of types is fit for a schema when it is convertible and the codec is specified for it.
  The equations check two structs with the same fields in the same order field by field.
\<close>

definition schema_ok :: "ssz_ty \<Rightarrow> elx_ty \<Rightarrow> bool" where
  "schema_ok t e \<longleftrightarrow> convertible t e \<and> ssz_wf t"

lemma convertible_same_fields:
  assumes "map fst fs = map fst es" and "distinct (map fst es)"
  shows "convertible (TStruct nm fs) (EStruct m es) \<longleftrightarrow>
    list_all2 (\<lambda>f g. convertible (snd f) (snd g)) fs es"
proof -
  have len: "length fs = length es" using assms(1) by (metis length_map)
  have nth: "map_of fs (fst (es ! i)) = Some (snd (fs ! i))" if "i < length es" for i
    using assms len that by (metis map_of_eq_Some_iff nth_map nth_mem prod.collapse)
  have "list_all (\<lambda>(n, e). case map_of fs n of Some t' \<Rightarrow> convertible t' e | None \<Rightarrow> False) es
      \<longleftrightarrow> list_all2 (\<lambda>f g. convertible (snd f) (snd g)) fs es"
    using len nth by (auto simp: list_all_length list_all2_conv_all_nth case_prod_beta)
  moreover have "set (map fst fs) = set (map fst es)" "distinct (map fst fs)"
    using assms by (simp_all only: assms(1))
  ultimately show ?thesis using assms(2) by simp
qed

lemma schema_ok_struct:
  assumes "map fst fs = map fst es" and "distinct (map fst es)" and "fs \<noteq> []"
  shows "schema_ok (TStruct nm fs) (EStruct m es) \<longleftrightarrow>
    list_all2 (\<lambda>f g. schema_ok (snd f) (snd g)) fs es"
  using assms unfolding schema_ok_def convertible_same_fields [OF assms(1,2)]
  by (auto simp: list_all2_conv_all_nth list_all_length)

lemma schema_ok_leaf:
  "schema_ok TBool EBool" "schema_ok TU8 EU8" "schema_ok TU64 EU64"
  "schema_ok (TArray n) EBinary \<longleftrightarrow> 0 < n"
  "schema_ok (TFixedVector TU8 n) EBinary \<longleftrightarrow> 0 < n"
  "schema_ok (TVariableList TU8 n) EBinary \<longleftrightarrow> 0 < n"
  "schema_ok (TBitList n) EBinary \<longleftrightarrow> 0 < n"
  "schema_ok (TBitVector n) EBinary \<longleftrightarrow> 0 < n"
  "schema_ok TUint256 EBinary"
  "schema_ok (TFixedVector t n) (EVec e) \<longleftrightarrow> 0 < n \<and> schema_ok t e"
  "schema_ok (TVariableList t n) (EVec e) \<longleftrightarrow> 0 < n \<and> schema_ok t e"
  by (auto simp: schema_ok_def)

lemmas schema_ok_simps = schema_ok_struct schema_ok_leaf

text \<open>
  The containers, by the depth of their nesting: the structs with plain fields first, then those
  that contain them, up to the beacon state and the signed block.
\<close>

lemma containers_ok_0:
  assumes "config_wf C"
  shows
    "schema_ok ssz_Fork elx_Fork"
    "schema_ok ssz_ForkData elx_ForkData"
    "schema_ok ssz_Checkpoint elx_Checkpoint"
    "schema_ok ssz_Validator elx_Validator"
    "schema_ok ssz_Eth1Data elx_Eth1Data"
    "schema_ok (ssz_HistoricalBatch C) elx_HistoricalBatch"
    "schema_ok ssz_DepositMessage elx_DepositMessage"
    "schema_ok ssz_DepositData elx_DepositData"
    "schema_ok ssz_HistoricalSummary elx_HistoricalSummary"
    "schema_ok ssz_VoluntaryExit elx_VoluntaryExit"
    "schema_ok ssz_BeaconBlockHeader elx_BeaconBlockHeader"
    "schema_ok (ssz_SyncAggregate C) elx_SyncAggregate"
    "schema_ok ssz_Withdrawal elx_Withdrawal"
    "schema_ok ssz_BLSToExecutionChange elx_BLSToExecutionChange"
    "schema_ok ssz_DepositRequest elx_DepositRequest"
    "schema_ok ssz_WithdrawalRequest elx_WithdrawalRequest"
    "schema_ok ssz_ConsolidationRequest elx_ConsolidationRequest"
    "schema_ok ssz_SigningData elx_SigningData"
    "schema_ok (ssz_ExecutionPayloadHeader C) elx_ExecutionPayloadHeader"
    "schema_ok (ssz_SyncCommittee C) elx_SyncCommittee"
    "schema_ok ssz_PendingDeposit elx_PendingDeposit"
    "schema_ok ssz_PendingPartialWithdrawal elx_PendingPartialWithdrawal"
    "schema_ok ssz_PendingConsolidation elx_PendingConsolidation"
    "schema_ok ssz_StatusMessage elx_StatusMessage"
    "schema_ok ssz_BeaconBlocksByRangeRequest elx_BeaconBlocksByRangeRequest"
    "schema_ok (ssz_Metadata C) elx_Metadata"
    "schema_ok ssz_BlobIdentifier elx_BlobIdentifier"
    "schema_ok ssz_SyncCommitteeMessage elx_SyncCommitteeMessage"
    "schema_ok (ssz_SyncCommitteeContribution C) elx_SyncCommitteeContribution"
  by (simp_all add: schema_ok_simps config_wf_pos [OF assms]
      ssz_Fork_def elx_Fork_def ssz_ForkData_def elx_ForkData_def ssz_Checkpoint_def
      elx_Checkpoint_def ssz_Validator_def elx_Validator_def ssz_Eth1Data_def elx_Eth1Data_def
      ssz_HistoricalBatch_def elx_HistoricalBatch_def ssz_DepositMessage_def
      elx_DepositMessage_def ssz_DepositData_def elx_DepositData_def ssz_HistoricalSummary_def
      elx_HistoricalSummary_def ssz_VoluntaryExit_def elx_VoluntaryExit_def
      ssz_BeaconBlockHeader_def elx_BeaconBlockHeader_def ssz_SyncAggregate_def
      elx_SyncAggregate_def ssz_Withdrawal_def elx_Withdrawal_def ssz_BLSToExecutionChange_def
      elx_BLSToExecutionChange_def ssz_DepositRequest_def elx_DepositRequest_def
      ssz_WithdrawalRequest_def elx_WithdrawalRequest_def ssz_ConsolidationRequest_def
      elx_ConsolidationRequest_def ssz_SigningData_def elx_SigningData_def
      ssz_ExecutionPayloadHeader_def elx_ExecutionPayloadHeader_def ssz_SyncCommittee_def
      elx_SyncCommittee_def ssz_PendingDeposit_def elx_PendingDeposit_def
      ssz_PendingPartialWithdrawal_def elx_PendingPartialWithdrawal_def
      ssz_PendingConsolidation_def elx_PendingConsolidation_def ssz_StatusMessage_def
      elx_StatusMessage_def ssz_BeaconBlocksByRangeRequest_def elx_BeaconBlocksByRangeRequest_def
      ssz_Metadata_def elx_Metadata_def ssz_BlobIdentifier_def elx_BlobIdentifier_def
      ssz_SyncCommitteeMessage_def elx_SyncCommitteeMessage_def ssz_SyncCommitteeContribution_def
      elx_SyncCommitteeContribution_def)

lemma containers_ok_1:
  assumes "config_wf C"
  shows
    "schema_ok ssz_AttestationData elx_AttestationData"
    "schema_ok ssz_Deposit elx_Deposit"
    "schema_ok ssz_SignedBeaconBlockHeader elx_SignedBeaconBlockHeader"
    "schema_ok ssz_SignedVoluntaryExit elx_SignedVoluntaryExit"
    "schema_ok (ssz_ExecutionPayload C) elx_ExecutionPayload"
    "schema_ok ssz_SignedBLSToExecutionChange elx_SignedBLSToExecutionChange"
    "schema_ok (ssz_ExecutionRequests C) elx_ExecutionRequests"
    "schema_ok (ssz_BeaconState C) elx_BeaconState"
    "schema_ok (ssz_ContributionAndProof C) elx_ContributionAndProof"
  by (simp_all add: schema_ok_simps config_wf_pos [OF assms]
      containers_ok_0 [OF assms] ssz_AttestationData_def elx_AttestationData_def ssz_Deposit_def
      elx_Deposit_def ssz_SignedBeaconBlockHeader_def elx_SignedBeaconBlockHeader_def
      ssz_SignedVoluntaryExit_def elx_SignedVoluntaryExit_def ssz_ExecutionPayload_def
      elx_ExecutionPayload_def ssz_SignedBLSToExecutionChange_def
      elx_SignedBLSToExecutionChange_def ssz_ExecutionRequests_def elx_ExecutionRequests_def
      ssz_BeaconState_def elx_BeaconState_def ssz_ContributionAndProof_def
      elx_ContributionAndProof_def)

lemma containers_ok_2:
  assumes "config_wf C"
  shows
    "schema_ok (ssz_IndexedAttestation C) elx_IndexedAttestation"
    "schema_ok (ssz_PendingAttestation C) elx_PendingAttestation"
    "schema_ok (ssz_Attestation C) elx_Attestation"
    "schema_ok ssz_ProposerSlashing elx_ProposerSlashing"
    "schema_ok ssz_SingleAttestation elx_SingleAttestation"
    "schema_ok (ssz_BlobSidecar C) elx_BlobSidecar"
    "schema_ok (ssz_SignedContributionAndProof C) elx_SignedContributionAndProof"
  by (simp_all add: schema_ok_simps config_wf_pos [OF assms]
      containers_ok_0 [OF assms] containers_ok_1 [OF assms] ssz_IndexedAttestation_def
      elx_IndexedAttestation_def ssz_PendingAttestation_def elx_PendingAttestation_def
      ssz_Attestation_def elx_Attestation_def ssz_ProposerSlashing_def elx_ProposerSlashing_def
      ssz_SingleAttestation_def elx_SingleAttestation_def ssz_BlobSidecar_def elx_BlobSidecar_def
      ssz_SignedContributionAndProof_def elx_SignedContributionAndProof_def)

lemma containers_ok_3:
  assumes "config_wf C"
  shows
    "schema_ok (ssz_AttesterSlashing C) elx_AttesterSlashing"
    "schema_ok (ssz_AggregateAndProof C) elx_AggregateAndProof"
  by (simp_all add: schema_ok_simps config_wf_pos [OF assms]
      containers_ok_0 [OF assms] containers_ok_1 [OF assms] containers_ok_2 [OF assms]
      ssz_AttesterSlashing_def elx_AttesterSlashing_def ssz_AggregateAndProof_def
      elx_AggregateAndProof_def)

lemma containers_ok_4:
  assumes "config_wf C"
  shows
    "schema_ok (ssz_BeaconBlockBody C) elx_BeaconBlockBody"
    "schema_ok (ssz_SignedAggregateAndProof C) elx_SignedAggregateAndProof"
  by (simp_all add: schema_ok_simps config_wf_pos [OF assms]
      containers_ok_0 [OF assms] containers_ok_1 [OF assms] containers_ok_2 [OF assms]
      containers_ok_3 [OF assms] ssz_BeaconBlockBody_def elx_BeaconBlockBody_def
      ssz_SignedAggregateAndProof_def elx_SignedAggregateAndProof_def)

lemma containers_ok_5:
  assumes "config_wf C"
  shows
    "schema_ok (ssz_BeaconBlock C) elx_BeaconBlock"
  by (simp_all add: schema_ok_simps config_wf_pos [OF assms]
      containers_ok_0 [OF assms] containers_ok_1 [OF assms] containers_ok_2 [OF assms]
      containers_ok_3 [OF assms] containers_ok_4 [OF assms] ssz_BeaconBlock_def
      elx_BeaconBlock_def)

lemma containers_ok_6:
  assumes "config_wf C"
  shows
    "schema_ok (ssz_SignedBeaconBlock C) elx_SignedBeaconBlock"
  by (simp_all add: schema_ok_simps config_wf_pos [OF assms]
      containers_ok_0 [OF assms] containers_ok_1 [OF assms] containers_ok_2 [OF assms]
      containers_ok_3 [OF assms] containers_ok_4 [OF assms] containers_ok_5 [OF assms]
      ssz_SignedBeaconBlock_def elx_SignedBeaconBlock_def)

lemmas containers_ok =
  containers_ok_0 containers_ok_1 containers_ok_2 containers_ok_3 containers_ok_4 containers_ok_5
  containers_ok_6

lemma entries_ok:
  assumes "config_wf C"
  shows "list_all (\<lambda>en. schema_ok (entry_ssz C en) (entry_elx en)) schema_entries"
  by (simp add: schema_entries_def schema_ok_leaf containers_ok [OF assms])

lemma schema_types_ok:
  assumes "schema_types schema config = Ok (e, t)"
  shows "convertible t e" and "ssz_wf t"
proof -
  from assms obtain en C where "en \<in> set schema_entries" "config_named config = Some C"
    and [simp]: "e = entry_elx en" "t = entry_ssz C en"
    by (rule schema_types_entry)
  with config_named_wf entries_ok show "convertible t e" "ssz_wf t"
    by (auto simp: list_all_iff schema_ok_def)
qed

end
