(* ===== verification/Helpers.thy ===== *)
theory Helpers
  imports Conversions
begin

text \<open>
  \<open>utils/helpers.rs\<close>: the generic helpers that the NIFs run at the types of a schema, and the
  \<open>TreeHash\<close> instance of \<open>Uint256\<close> from \<open>ssz_types/mod.rs\<close>. A generic parameter \<open>Elx\<close> or \<open>Ssz\<close> is
  an argument of type \<open>elx_ty\<close> or \<open>ssz_ty\<close>. The arithmetic on \<open>usize\<close> wraps around, as it does in
  the release profile the NIF is compiled with.
\<close>

section \<open>Errors\<close>

definition to_nif_result :: "FromElxError \<Rightarrow> nif_error" where
  "to_nif_result result = Term (fmt_FromElxError result)"

text \<open>On the \<open>Debug\<close> rendering of the error.\<close>

definition debug_error_to_nif :: "string \<Rightarrow> nif_error" where
  "debug_error_to_nif error = Term error"

section \<open>Encoding and decoding\<close>

definition encode_ssz ::
  "'t rustler \<Rightarrow> ssz_crate \<Rightarrow> elx_ty \<Rightarrow> ssz_ty \<Rightarrow> 't \<Rightarrow> (nif_error, bytes) rust" where
  "encode_ssz R K Elx Ssz value =
     (if is_list R value then
        and_then (term_decode R (EVec Elx) value) (\<lambda>value_nif.
        and_then (map_err to_nif_result
                    (case value_nif of
                       LVec items \<Rightarrow> collect (map (from_elx K Ssz) items)
                     | _ \<Rightarrow> no_impl)) (\<lambda>value_ssz.
        Ok (as_ssz_bytes K (TVec Ssz) (VVec value_ssz))))
      else
        and_then (term_decode R Elx value) (\<lambda>value_nif.
        and_then (map_err to_nif_result (from_elx K Ssz value_nif)) (\<lambda>value_ssz.
        Ok (as_ssz_bytes K Ssz value_ssz))))"

definition decode_ssz ::
  "'t rustler \<Rightarrow> ssz_crate \<Rightarrow> elx_ty \<Rightarrow> ssz_ty \<Rightarrow> bytes \<Rightarrow> (nif_error, 't) rust" where
  "decode_ssz R K Elx Ssz bytes =
     and_then (map_err debug_error_to_nif (from_ssz_bytes K Ssz bytes)) (\<lambda>recovered_value.
     and_then (from_ssz (NewBinary_new R) K Ssz Elx recovered_value) (\<lambda>checkpoint.
     Ok (term_encode R checkpoint)))"

definition list_decode_ssz ::
  "'t rustler \<Rightarrow> ssz_crate \<Rightarrow> elx_ty \<Rightarrow> ssz_ty \<Rightarrow> bytes \<Rightarrow> (nif_error, 't) rust" where
  "list_decode_ssz R K Elx Ssz args = decode_ssz R K (EVec Elx) (TVec Ssz) args"

section \<open>Tree hashing\<close>

text \<open>
  The \<open>TreeHash\<close> instances: the source gives the one of \<open>Uint256\<close>, in terms of the instance of
  \<open>[u8; 32]\<close>; the others come from the crate and its derive macro.
\<close>

definition Uint256_tree_hash_type :: "'h tree_hash_crate \<Rightarrow> TreeHashType" where
  "Uint256_tree_hash_type H = tree_hash_type H (TArray 32)"

definition Uint256_tree_hash_packed_encoding :: "'h tree_hash_crate \<Rightarrow> bytes \<Rightarrow> bytes" where
  "Uint256_tree_hash_packed_encoding H b = tree_hash_packed_encoding H (TArray 32) (VArray b)"

definition Uint256_tree_hash_packing_factor :: "'h tree_hash_crate \<Rightarrow> usize" where
  "Uint256_tree_hash_packing_factor H = tree_hash_packing_factor H (TArray 32)"

definition Uint256_tree_hash_root :: "'h tree_hash_crate \<Rightarrow> bytes \<Rightarrow> bytes" where
  "Uint256_tree_hash_root H b = tree_hash_root H (TArray 32) (VArray b)"

definition hash_type_of :: "'h tree_hash_crate \<Rightarrow> ssz_ty \<Rightarrow> TreeHashType" where
  "hash_type_of H T = (if T = TUint256 then Uint256_tree_hash_type H else tree_hash_type H T)"

definition packing_factor_of :: "'h tree_hash_crate \<Rightarrow> ssz_ty \<Rightarrow> usize" where
  "packing_factor_of H T =
     (if T = TUint256 then Uint256_tree_hash_packing_factor H else tree_hash_packing_factor H T)"

definition packed_encoding_of :: "'h tree_hash_crate \<Rightarrow> ssz_ty \<Rightarrow> ssz_val \<Rightarrow> bytes" where
  "packed_encoding_of H T v =
     (case v of VUint256 b \<Rightarrow> Uint256_tree_hash_packed_encoding H b
      | _ \<Rightarrow> tree_hash_packed_encoding H T v)"

definition hash_root_of :: "'h tree_hash_crate \<Rightarrow> ssz_ty \<Rightarrow> ssz_val \<Rightarrow> bytes" where
  "hash_root_of H T v =
     (case v of VUint256 b \<Rightarrow> Uint256_tree_hash_root H b | _ \<Rightarrow> tree_hash_root H T v)"

definition hash_tree_root ::
  "'t rustler \<Rightarrow> ssz_crate \<Rightarrow> 'h tree_hash_crate \<Rightarrow> elx_ty \<Rightarrow> ssz_ty \<Rightarrow> 't \<Rightarrow>
     (nif_error, bytes) rust" where
  "hash_tree_root R K H Elx Ssz value =
     and_then (term_decode R Elx value) (\<lambda>value_nif.
     and_then (map_err to_nif_result (from_elx K Ssz value_nif)) (\<lambda>value_ssz.
     Ok (hash_root_of H Ssz value_ssz)))"

text \<open>The loops of \<open>vec_tree_hash_root\<close>: write one piece per item, panicking on an error.\<close>

fun write_each :: "'h tree_hash_crate \<Rightarrow> string \<Rightarrow> 'h \<Rightarrow> bytes list \<Rightarrow> (nif_error, 'h) rust" where
  "write_each H msg hasher [] = Ok hasher"
| "write_each H msg hasher (b # bs) =
     and_then (expect msg (MerkleHasher_write H hasher b)) (\<lambda>hasher'. write_each H msg hasher' bs)"

definition vec_tree_hash_root ::
  "'h tree_hash_crate \<Rightarrow> ssz_ty \<Rightarrow> ssz_val list \<Rightarrow> usize \<Rightarrow> (nif_error, bytes) rust" where
  "vec_tree_hash_root H T vec max_size =
     (case hash_type_of H T of
        Basic \<Rightarrow>
          (if packing_factor_of H T = 0 then Panic ''attempt to divide by zero''
           else
             let hasher = MerkleHasher_with_leaves H
                   ((max_size + packing_factor_of H T - 1) div packing_factor_of H T)
             in and_then
                  (write_each H ''ssz_types variable vec should not contain more elements than max''
                     hasher (map (packed_encoding_of H T) vec)) (\<lambda>hasher.
                expect ''ssz_types variable vec should not have a remaining buffer''
                  (MerkleHasher_finish H hasher)))
      | _ \<Rightarrow>
          (let hasher = MerkleHasher_with_leaves H max_size
           in and_then
                (write_each H ''ssz_types vec should not contain more elements than max''
                   hasher (map (hash_root_of H T) vec)) (\<lambda>hasher.
              expect ''ssz_types vec should not have a remaining buffer''
                (MerkleHasher_finish H hasher))))"

definition hash_vector_tree_root ::
  "'t rustler \<Rightarrow> ssz_crate \<Rightarrow> 'h tree_hash_crate \<Rightarrow> elx_ty \<Rightarrow> ssz_ty \<Rightarrow> 't list \<times> usize \<Rightarrow>
     (nif_error, bytes) rust" where
  "hash_vector_tree_root R K H Elx Ssz args =
     (case args of (list, max_size) \<Rightarrow>
        and_then (collect (map (term_decode R Elx) list)) (\<lambda>v.
        and_then (map_err to_nif_result (collect (map (from_elx K Ssz) v))) (\<lambda>x.
        vec_tree_hash_root H Ssz x max_size)))"

definition hash_list_tree_root ::
  "'t rustler \<Rightarrow> ssz_crate \<Rightarrow> 'h tree_hash_crate \<Rightarrow> elx_ty \<Rightarrow> ssz_ty \<Rightarrow> 't list \<times> usize \<Rightarrow>
     (nif_error, bytes) rust" where
  "hash_list_tree_root R K H Elx Ssz args =
     (case args of (list, max_size) \<Rightarrow>
        let list_size = of_nat (length list)
        in and_then (hash_vector_tree_root R K H Elx Ssz (list, max_size)) (\<lambda>root.
           Ok (mix_in_length H root list_size)))"

section \<open>The terms of Elixir\<close>

text \<open>
  What \<open>rustler\<close> promises: a decoded term is a value of the type asked for, an encoded value
  decodes to itself, and the encoding of a \<open>Vec\<close> is a list and nothing else is. Decoding reports
  errors and does not panic.
\<close>

locale rustler_terms =
  fixes R :: "'t rustler"
  assumes new_binary: "length (NewBinary_new R n) = n"
    and term_decode_typed: "term_decode R e t = Ok w \<Longrightarrow> elx_typed e w"
    and term_decode_encode: "elx_typed e w \<Longrightarrow> term_decode R e (term_encode R w) = Ok w"
    and term_decode_no_panic: "\<not> panics (term_decode R e t)"
    and is_list_encode: "is_list R (term_encode R w) \<longleftrightarrow> (\<exists>ws. w = LVec ws)"
    and atom_to_string_no_panic: "\<not> panics (atom_to_string R t)"

locale ssz_nif = rustler_terms R + ssz_codec K
  for R :: "'t rustler" and K :: ssz_crate

sublocale ssz_nif \<subseteq> conv: nif_conversions K "NewBinary_new R"
  by unfold_locales (rule new_binary)

context ssz_nif
begin

lemma encode_ssz_no_panic:
  assumes "convertible t e"
  shows "\<not> panics (encode_ssz R K e t x)"
proof -
  have "\<not> panics (collect (map (from_elx K t) items))" if "list_all (elx_typed e) items" for items
    using that conv.from_elx_no_panic [OF assms]
    by (intro collect_map_not_panics) (auto simp: list_all_iff)
  moreover have "\<not> panics (from_elx K t w)" if "term_decode R e x = Ok w" for w
    using conv.from_elx_no_panic [OF assms] term_decode_typed [OF that] by simp
  ultimately show ?thesis
    by (auto simp: encode_ssz_def term_decode_no_panic dest!: term_decode_typed)
qed

lemma decode_ssz_no_panic:
  assumes "convertible t e" and "ssz_wf t"
  shows "\<not> panics (decode_ssz R K e t b)"
  using conv.from_ssz_total [OF assms(1)] decode_typed [OF assms(2)]
  by (fastforce simp: decode_ssz_def decode_no_panic)

text \<open>The value that an encoded term stands for, and its encoding.\<close>

lemma encode_ssz_Ok:
  assumes "encode_ssz R K e t x = Ok bs" and "convertible t e" and "\<not> is_list R x"
  obtains w v where "term_decode R e x = Ok w" "elx_typed e w" "from_elx K t w = Ok v"
    "ssz_typed t v" "bs = as_ssz_bytes K t v"
proof -
  from assms(1,3) obtain w v where w: "term_decode R e x = Ok w" "from_elx K t w = Ok v"
    "bs = as_ssz_bytes K t v" by (auto simp: encode_ssz_def)
  from term_decode_typed [OF w(1)] conv.from_elx_typed [OF assms(2)] w that show ?thesis by blast
qed

lemma encode_ssz_list_Ok:
  assumes "encode_ssz R K e t x = Ok bs" and "convertible t e" and "is_list R x"
  obtains w v where "term_decode R (EVec e) x = Ok w" "elx_typed (EVec e) w"
    "from_elx K (TVec t) w = Ok v" "ssz_typed (TVec t) v" "bs = as_ssz_bytes K (TVec t) v"
proof -
  have conv: "convertible (TVec t) (EVec e)" using assms(2) by simp
  from assms obtain w where w: "term_decode R (EVec e) x = Ok w" by (auto simp: encode_ssz_def)
  with term_decode_typed obtain items where items: "w = LVec items" by fastforce
  with assms w obtain vs where vs: "collect (map (from_elx K t) items) = Ok vs"
    "bs = as_ssz_bytes K (TVec t) (VVec vs)" by (auto simp: encode_ssz_def)
  then have "from_elx K (TVec t) w = Ok (VVec vs)" by (simp add: items)
  with conv.from_elx_typed [OF conv] term_decode_typed [OF w] that w vs(2) show ?thesis by blast
qed

text \<open>Decoding what \<open>encode_ssz\<close> wrote gives the term's value back.\<close>

lemma decode_after_encode:
  assumes "convertible t e" and "ssz_wf t" and "elx_typed e w" and "uint256_exact t w"
    and "from_elx K t w = Ok v" and "length (as_ssz_bytes K t v) < max_ssz_length"
  shows "decode_ssz R K e t (as_ssz_bytes K t v) = Ok (term_encode R w)"
proof -
  from assms have "ssz_typed t v" by (blast intro: conv.from_elx_typed)
  with assms have "from_ssz_bytes K t (as_ssz_bytes K t v) = Ok v" by (intro decode_encode)
  moreover have "from_ssz (NewBinary_new R) K t e v = Ok w"
    using assms by (intro conv.from_ssz_from_elx)
  ultimately show ?thesis by (simp add: decode_ssz_def)
qed

text \<open>A decoded term encodes again, and the new encoding decodes to the same term.\<close>

lemma encode_after_decode:
  assumes "convertible t e" and "ssz_wf t" and "decode_ssz R K e t b = Ok x" and "\<not> is_list R x"
  obtains v where "encode_ssz R K e t x = Ok (as_ssz_bytes K t v)"
    "length (as_ssz_bytes K t v) < max_ssz_length \<Longrightarrow>
       decode_ssz R K e t (as_ssz_bytes K t v) = Ok x"
proof -
  from assms(3) obtain v w where v: "from_ssz_bytes K t b = Ok v"
    and w: "from_ssz (NewBinary_new R) K t e v = Ok w" and x: "x = term_encode R w"
    by (auto simp: decode_ssz_def)
  from decode_typed [OF assms(2) v] have typed: "ssz_typed t v" .
  with w conv.from_ssz_total [OF assms(1)] have "elx_typed e w" by fastforce
  moreover have "from_elx K t w = Ok v" by (rule conv.from_elx_from_ssz [OF assms(1) typed w])
  ultimately have "encode_ssz R K e t x = Ok (as_ssz_bytes K t v)"
    using assms(4) by (simp add: encode_ssz_def x term_decode_encode)
  moreover have "decode_ssz R K e t (as_ssz_bytes K t v) = Ok x"
    if "length (as_ssz_bytes K t v) < max_ssz_length"
    using decode_encode [OF assms(2) typed that] w by (simp add: decode_ssz_def x)
  ultimately show ?thesis by (rule that)
qed

end

end
