(* ===== verification/Ssz_Nif.thy ===== *)
theory Ssz_Nif
  imports Schemas Helpers
begin

text \<open>
  \<open>native/ssz_nif/src/lib.rs\<close>: the six NIFs of the module \<open>Ssz\<close>. Each takes the name of the
  schema from an atom, cutting the prefix of the Elixir module namespace off by its length, and
  runs one helper at the types the schema stands for under the configuration. The lemmas are over
  the contract \<open>ssz_nif\<close> of \<open>rustler\<close> and of the SSZ crates.
\<close>

section \<open>The NIFs\<close>

definition SCHEMA_PREFIX_SIZE :: nat where
  "SCHEMA_PREFIX_SIZE = length ''Elixir.Types.''"

definition to_ssz_rs ::
  "'t rustler \<Rightarrow> ssz_crate \<Rightarrow> 't \<Rightarrow> 't \<Rightarrow> 't \<Rightarrow> (nif_error, atoms \<times> bytes) rust" where
  "to_ssz_rs R K map' schema config =
     and_then (atom_to_string R schema) (\<lambda>schema.
     and_then (ok_or (str_get_from schema SCHEMA_PREFIX_SIZE) BadArg) (\<lambda>schema.
     and_then (atom_to_string R config) (\<lambda>config.
     let serialized = schema_match schema config (\<lambda>Elx Ssz. encode_ssz R K Elx Ssz map')
     in and_then serialized (\<lambda>serialized.
        and_then (bytes_to_binary (NewBinary_new R) serialized) (\<lambda>binary. Ok (ok, binary))))))"

definition from_ssz_rs ::
  "'t rustler \<Rightarrow> ssz_crate \<Rightarrow> bytes \<Rightarrow> 't \<Rightarrow> 't \<Rightarrow> (nif_error, atoms \<times> 't) rust" where
  "from_ssz_rs R K bytes schema config =
     and_then (atom_to_string R schema) (\<lambda>schema.
     and_then (ok_or (str_get_from schema SCHEMA_PREFIX_SIZE) BadArg) (\<lambda>schema.
     and_then (atom_to_string R config) (\<lambda>config.
     and_then (schema_match schema config (\<lambda>Elx Ssz. decode_ssz R K Elx Ssz bytes)) (\<lambda>res.
     Ok (ok, res)))))"

definition list_from_ssz_rs ::
  "'t rustler \<Rightarrow> ssz_crate \<Rightarrow> bytes \<Rightarrow> 't \<Rightarrow> 't \<Rightarrow> (nif_error, atoms \<times> 't) rust" where
  "list_from_ssz_rs R K bytes schema config =
     and_then (atom_to_string R schema) (\<lambda>schema.
     and_then (ok_or (str_get_from schema SCHEMA_PREFIX_SIZE) BadArg) (\<lambda>schema.
     and_then (atom_to_string R config) (\<lambda>config.
     and_then (schema_match schema config (\<lambda>Elx Ssz. list_decode_ssz R K Elx Ssz bytes)) (\<lambda>res.
     Ok (ok, res)))))"

definition hash_tree_root_rs ::
  "'t rustler \<Rightarrow> ssz_crate \<Rightarrow> 'h tree_hash_crate \<Rightarrow> 't \<Rightarrow> 't \<Rightarrow> 't \<Rightarrow>
     (nif_error, atoms \<times> bytes) rust" where
  "hash_tree_root_rs R K H map' schema config =
     and_then (atom_to_string R schema) (\<lambda>schema.
     and_then (ok_or (str_get_from schema SCHEMA_PREFIX_SIZE) BadArg) (\<lambda>schema.
     and_then (atom_to_string R config) (\<lambda>config.
     let serialized = schema_match schema config (\<lambda>Elx Ssz. hash_tree_root R K H Elx Ssz map')
     in and_then serialized (\<lambda>serialized.
        and_then (bytes_to_binary (NewBinary_new R) serialized) (\<lambda>binary. Ok (ok, binary))))))"

definition hash_tree_root_list_rs ::
  "'t rustler \<Rightarrow> ssz_crate \<Rightarrow> 'h tree_hash_crate \<Rightarrow> 't list \<Rightarrow> usize \<Rightarrow> 't \<Rightarrow> 't \<Rightarrow>
     (nif_error, atoms \<times> bytes) rust" where
  "hash_tree_root_list_rs R K H list max_size schema config =
     and_then (atom_to_string R schema) (\<lambda>schema.
     and_then (ok_or (str_get_from schema SCHEMA_PREFIX_SIZE) BadArg) (\<lambda>schema.
     and_then (atom_to_string R config) (\<lambda>config.
     let serialized = schema_match schema config
           (\<lambda>Elx Ssz. hash_list_tree_root R K H Elx Ssz (list, max_size))
     in and_then serialized (\<lambda>serialized.
        and_then (bytes_to_binary (NewBinary_new R) serialized) (\<lambda>binary. Ok (ok, binary))))))"

definition hash_tree_root_vector_rs ::
  "'t rustler \<Rightarrow> ssz_crate \<Rightarrow> 'h tree_hash_crate \<Rightarrow> 't list \<Rightarrow> usize \<Rightarrow> 't \<Rightarrow> 't \<Rightarrow>
     (nif_error, atoms \<times> bytes) rust" where
  "hash_tree_root_vector_rs R K H list max_size schema config =
     and_then (atom_to_string R schema) (\<lambda>schema.
     and_then (ok_or (str_get_from schema SCHEMA_PREFIX_SIZE) BadArg) (\<lambda>schema.
     and_then (atom_to_string R config) (\<lambda>config.
     let serialized = schema_match schema config
           (\<lambda>Elx Ssz. hash_vector_tree_root R K H Elx Ssz (list, max_size))
     in and_then serialized (\<lambda>serialized.
        and_then (bytes_to_binary (NewBinary_new R) serialized) (\<lambda>binary. Ok (ok, binary))))))"

lemmas nif_defs = to_ssz_rs_def from_ssz_rs_def list_from_ssz_rs_def hash_tree_root_rs_def
  hash_tree_root_list_rs_def hash_tree_root_vector_rs_def

section \<open>Selecting the types\<close>

text \<open>The prologue that the six NIFs share, and what it selects.\<close>

definition nif_types :: "'t rustler \<Rightarrow> 't \<Rightarrow> 't \<Rightarrow> (nif_error, elx_ty \<times> ssz_ty) rust" where
  "nif_types R schema config =
     and_then (atom_to_string R schema) (\<lambda>schema.
     and_then (ok_or (str_get_from schema SCHEMA_PREFIX_SIZE) BadArg) (\<lambda>schema.
     and_then (atom_to_string R config) (\<lambda>config. schema_types schema config)))"

lemma nifs_types:
  "to_ssz_rs R K x schema config = and_then (nif_types R schema config) (\<lambda>(e, t).
     and_then (encode_ssz R K e t x) (\<lambda>b.
     and_then (bytes_to_binary (NewBinary_new R) b) (\<lambda>binary. Ok (ok, binary))))"
  "from_ssz_rs R K b schema config = and_then (nif_types R schema config) (\<lambda>(e, t).
     and_then (decode_ssz R K e t b) (\<lambda>res. Ok (ok, res)))"
  "list_from_ssz_rs R K b schema config = and_then (nif_types R schema config) (\<lambda>(e, t).
     and_then (list_decode_ssz R K e t b) (\<lambda>res. Ok (ok, res)))"
  "hash_tree_root_rs R K H x schema config = and_then (nif_types R schema config) (\<lambda>(e, t).
     and_then (hash_tree_root R K H e t x) (\<lambda>b.
     and_then (bytes_to_binary (NewBinary_new R) b) (\<lambda>binary. Ok (ok, binary))))"
  "hash_tree_root_list_rs R K H xs n schema config = and_then (nif_types R schema config) (\<lambda>(e, t).
     and_then (hash_list_tree_root R K H e t (xs, n)) (\<lambda>b.
     and_then (bytes_to_binary (NewBinary_new R) b) (\<lambda>binary. Ok (ok, binary))))"
  "hash_tree_root_vector_rs R K H xs n schema config = and_then (nif_types R schema config) (\<lambda>(e, t).
     and_then (hash_vector_tree_root R K H e t (xs, n)) (\<lambda>b.
     and_then (bytes_to_binary (NewBinary_new R) b) (\<lambda>binary. Ok (ok, binary))))"
  by (simp_all add: nif_defs nif_types_def and_then_assoc schema_match_types Let_def
        case_prod_unfold)

lemma schema_names_ascii:
  "list_all (\<lambda>en. entry_name en \<noteq> [] \<and> (of_char (hd (entry_name en)) :: nat) < 128) schema_entries"
  by (simp add: schema_entries_def)

lemma schema_types_ascii:
  assumes "schema_types name cfg = Ok r"
  shows "name \<noteq> [] \<and> (of_char (hd name) :: nat) < 128"
  using assms schema_names_ascii by (cases r) (auto elim!: schema_types_entry simp: list_all_iff)

text \<open>Only the length of the prefix matters.\<close>

lemma nif_types_named:
  assumes "atom_to_string R schema = Ok (pre @ name)" and "length pre = SCHEMA_PREFIX_SIZE"
    and "atom_to_string R config = Ok cfg"
  shows "nif_types R schema config = schema_types name cfg"
proof (cases "name = [] \<or> (of_char (hd name) :: nat) < 128")
  case True
  from str_get_from_append [OF this, of pre] assms show ?thesis by (simp add: nif_types_def)
next
  case False
  with schema_types_ascii schema_types_cases [of name cfg]
  have "schema_types name cfg = Err BadArg" by blast
  with assms show ?thesis
    by (simp add: nif_types_def str_get_from_def)
qed

lemma nif_types_Ok:
  assumes "nif_types R schema config = Ok (e, t)"
  shows "convertible t e" "ssz_wf t"
  using assms schema_types_ok by (auto simp: nif_types_def)

lemma nif_types_no_list:
  assumes "nif_types R schema config = Ok (e, t)"
  shows "e \<noteq> EVec e'"
proof -
  have "list_all (\<lambda>en. \<forall>e'. entry_elx en \<noteq> EVec e') schema_entries"
    by (simp add: schema_entries_def elx_defs)
  with assms show ?thesis
    by (auto simp: nif_types_def list_all_iff elim!: schema_types_entry)
qed

end
