(* ===== verification/Container_Agreement.thy ===== *)
theory Container_Agreement
  imports Containers Ssz_Nif
begin

text \<open>
  The containers exist twice: as the schemas of the Elixir modules and as the structs of the SSZ NIF.
  \<open>agrees\<close> compares a schema with the Rust type and the type that \<open>rustler\<close> decodes: the same
  fields in the same order with the same limits. Every container of the NIF agrees with its module
  as soon as the constants of the network are those of the preset.
\<close>

section \<open>Agreement\<close>

fun agree_fields ::
  "(string \<times> (ssz_ty \<Rightarrow> elx_ty \<Rightarrow> bool)) list \<Rightarrow> (string \<times> ssz_ty) list \<Rightarrow> (string \<times> elx_ty) list \<Rightarrow> bool" where
  "agree_fields [] [] [] = True"
| "agree_fields ((k, p) # ps) ((k', t) # ts) ((k'', e) # es) =
     (k' = k \<and> k'' = k \<and> p t e \<and> agree_fields ps ts es)"
| "agree_fields _ _ _ = False"

fun agrees :: "schema \<Rightarrow> ssz_ty \<Rightarrow> elx_ty \<Rightarrow> bool" where
  "agrees SBool t e = (t = TBool \<and> e = EBool)"
| "agrees (SInt n) t e =
     ((n = 8 \<and> t = TU8 \<and> e = EU8) \<or> (n = 16 \<and> t = TU16 \<and> e = EU16) \<or>
      (n = 32 \<and> t = TU32 \<and> e = EU32) \<or> (n = 64 \<and> t = TU64 \<and> e = EU64) \<or>
      (n = 256 \<and> t = TUint256 \<and> e = EBinary))"
| "agrees (SByteList n) t e = (t = TVariableList TU8 n \<and> e = EBinary)"
| "agrees (SByteVector n) t e = ((t = TArray n \<or> t = TFixedVector TU8 n) \<and> e = EBinary)"
| "agrees (SList s n) t e =
     (case (t, e) of (TVariableList t' m, EVec e') \<Rightarrow> m = n \<and> agrees s t' e' | _ \<Rightarrow> False)"
| "agrees (SVector s n) t e =
     (case (t, e) of (TFixedVector t' m, EVec e') \<Rightarrow> m = n \<and> agrees s t' e' | _ \<Rightarrow> False)"
| "agrees (SBitlist n) t e = (t = TBitList n \<and> e = EBinary)"
| "agrees (SBitvector n) t e = (t = TBitVector n \<and> e = EBinary)"
| "agrees (SModule nm fs) t e =
     (case (t, e) of
        (TStruct nm' ts, EStruct m es) \<Rightarrow>
          nm = ''Types.'' @ nm' \<and> m = nm \<and> agree_fields (map (\<lambda>(k, s). (k, agrees s)) fs) ts es
      | _ \<Rightarrow> False)"

section \<open>The constants of a preset\<close>

definition config_values :: "Config \<Rightarrow> (string \<times> nat) list" where
  "config_values C = [
     (''ATTESTATION_SUBNET_COUNT'', AttestationSubnetCount C),
     (''BYTES_PER_LOGS_BLOOM'', BytesPerLogsBloom C),
     (''EPOCHS_PER_HISTORICAL_VECTOR'', EpochsPerHistoricalVector C),
     (''EPOCHS_PER_SLASHINGS_VECTOR'', EpochsPerSlashingsVector C),
     (''HISTORICAL_ROOTS_LIMIT'', HistoricalRootsLimit C),
     (''KZG_COMMITMENT_INCLUSION_PROOF_DEPTH'', KzgCommitmentInclusionProofDepth C),
     (''MAX_ATTESTATIONS_ELECTRA'', MaxAttestationsElectra C),
     (''MAX_ATTESTER_SLASHINGS_ELECTRA'', MaxAttesterSlashingsElectra C),
     (''MAX_BLOB_COMMITMENTS_PER_BLOCK'', MaxBlobCommitmentsPerBlock C),
     (''MAX_BLS_TO_EXECUTION_CHANGES'', MaxBlsToExecutionChanges C),
     (''MAX_BYTES_PER_TRANSACTION'', MaxBytesPerTransaction C),
     (''MAX_COMMITTEES_PER_SLOT'', MaxCommitteesPerSlot C),
     (''MAX_CONSOLIDATION_REQUESTS_PER_PAYLOAD'', MaxConsolidationRequestsPerPayload C),
     (''MAX_DEPOSITS'', MaxDeposits C),
     (''MAX_DEPOSIT_REQUESTS_PER_PAYLOAD'', MaxDepositRequestsPerPayload C),
     (''MAX_EXTRA_DATA_BYTES'', MaxExtraDataBytes C),
     (''MAX_PROPOSER_SLASHINGS'', MaxProposerSlashings C),
     (''MAX_TRANSACTIONS_PER_PAYLOAD'', MaxTransactionsPerPayload C),
     (''MAX_VALIDATORS_PER_COMMITTEE'', MaxValidatorsPerCommittee C),
     (''MAX_VOLUNTARY_EXITS'', MaxVoluntaryExits C),
     (''MAX_WITHDRAWALS_PER_PAYLOAD'', MaxWithdrawalsPerPayload C),
     (''MAX_WITHDRAWAL_REQUESTS_PER_PAYLOAD'', MaxWithdrawalRequestsPerPayload C),
     (''PENDING_CONSOLIDATIONS_LIMIT'', PendingConsolidationsLimit C),
     (''PENDING_DEPOSITS_LIMIT'', PendingDepositsLimit C),
     (''PENDING_PARTIAL_WITHDRAWALS_LIMIT'', PendingPartialWithdrawalsLimit C),
     (''SLOTS_PER_HISTORICAL_ROOT'', SlotsPerHistoricalRoot C),
     (''SYNC_COMMITTEE_SIZE'', SyncCommitteeSize C),
     (''VALIDATOR_REGISTRY_LIMIT'', ValidatorRegistryLimit C)]"

text \<open>The numbers that the structs of the NIF take from other constants of the configuration.\<close>

definition spec_matches :: "chain_spec \<Rightarrow> Config \<Rightarrow> bool" where
  "spec_matches spec C \<longleftrightarrow>
     list_all (\<lambda>(key, n). spec key = n) (config_values C) \<and>
     MaxBytesPerTransaction C = 1073741824 \<and> JustificationBitsLength C = justification_bits_length \<and>
     SyncCommitteeSubnetCount C = sync_committee_subnet_count \<and>
     SyncSubcommitteeSize C = sync_subcommittee_size spec \<and>
     BytesPerBlob C = bytes_per_field_element * spec ''FIELD_ELEMENTS_PER_BLOB'' \<and>
     MaxValidatorsPerSlot C = spec ''MAX_VALIDATORS_PER_COMMITTEE'' * spec ''MAX_COMMITTEES_PER_SLOT'' \<and>
     SlotsPerEth1VotingPeriod C = spec ''EPOCHS_PER_ETH1_VOTING_PERIOD'' * spec ''SLOTS_PER_EPOCH''"

lemma spec_matches_values:
  assumes "spec_matches spec C"
  shows
    "spec ''ATTESTATION_SUBNET_COUNT'' = AttestationSubnetCount C"
    "spec ''BYTES_PER_LOGS_BLOOM'' = BytesPerLogsBloom C"
    "spec ''EPOCHS_PER_HISTORICAL_VECTOR'' = EpochsPerHistoricalVector C"
    "spec ''EPOCHS_PER_SLASHINGS_VECTOR'' = EpochsPerSlashingsVector C"
    "spec ''HISTORICAL_ROOTS_LIMIT'' = HistoricalRootsLimit C"
    "spec ''KZG_COMMITMENT_INCLUSION_PROOF_DEPTH'' = KzgCommitmentInclusionProofDepth C"
    "spec ''MAX_ATTESTATIONS_ELECTRA'' = MaxAttestationsElectra C"
    "spec ''MAX_ATTESTER_SLASHINGS_ELECTRA'' = MaxAttesterSlashingsElectra C"
    "spec ''MAX_BLOB_COMMITMENTS_PER_BLOCK'' = MaxBlobCommitmentsPerBlock C"
    "spec ''MAX_BLS_TO_EXECUTION_CHANGES'' = MaxBlsToExecutionChanges C"
    "spec ''MAX_BYTES_PER_TRANSACTION'' = MaxBytesPerTransaction C"
    "spec ''MAX_COMMITTEES_PER_SLOT'' = MaxCommitteesPerSlot C"
    "spec ''MAX_CONSOLIDATION_REQUESTS_PER_PAYLOAD'' = MaxConsolidationRequestsPerPayload C"
    "spec ''MAX_DEPOSITS'' = MaxDeposits C"
    "spec ''MAX_DEPOSIT_REQUESTS_PER_PAYLOAD'' = MaxDepositRequestsPerPayload C"
    "spec ''MAX_EXTRA_DATA_BYTES'' = MaxExtraDataBytes C"
    "spec ''MAX_PROPOSER_SLASHINGS'' = MaxProposerSlashings C"
    "spec ''MAX_TRANSACTIONS_PER_PAYLOAD'' = MaxTransactionsPerPayload C"
    "spec ''MAX_VALIDATORS_PER_COMMITTEE'' = MaxValidatorsPerCommittee C"
    "spec ''MAX_VOLUNTARY_EXITS'' = MaxVoluntaryExits C"
    "spec ''MAX_WITHDRAWALS_PER_PAYLOAD'' = MaxWithdrawalsPerPayload C"
    "spec ''MAX_WITHDRAWAL_REQUESTS_PER_PAYLOAD'' = MaxWithdrawalRequestsPerPayload C"
    "spec ''PENDING_CONSOLIDATIONS_LIMIT'' = PendingConsolidationsLimit C"
    "spec ''PENDING_DEPOSITS_LIMIT'' = PendingDepositsLimit C"
    "spec ''PENDING_PARTIAL_WITHDRAWALS_LIMIT'' = PendingPartialWithdrawalsLimit C"
    "spec ''SLOTS_PER_HISTORICAL_ROOT'' = SlotsPerHistoricalRoot C"
    "spec ''SYNC_COMMITTEE_SIZE'' = SyncCommitteeSize C"
    "spec ''VALIDATOR_REGISTRY_LIMIT'' = ValidatorRegistryLimit C"
    "spec_matches spec C" "MaxBytesPerTransaction C = 1073741824"
    "JustificationBitsLength C = justification_bits_length"
    "SyncCommitteeSubnetCount C = sync_committee_subnet_count"
    "SyncSubcommitteeSize C = sync_subcommittee_size spec"
    "BytesPerBlob C = bytes_per_field_element * spec ''FIELD_ELEMENTS_PER_BLOB''"
    "MaxValidatorsPerSlot C = spec ''MAX_VALIDATORS_PER_COMMITTEE'' * spec ''MAX_COMMITTEES_PER_SLOT''"
    "SlotsPerEth1VotingPeriod C = spec ''EPOCHS_PER_ETH1_VOTING_PERIOD'' * spec ''SLOTS_PER_EPOCH''"
  using assms by (simp_all add: spec_matches_def config_values_def)

named_theorems agreement \<open>agreement of the containers\<close>

declare alias_defs [agreement] Let_def [agreement]

section \<open>The containers\<close>

lemma Checkpoint_agrees [agreement]: "agrees (Checkpoint_container spec) ssz_Checkpoint elx_Checkpoint"
  by (simp add: agreement Checkpoint_container_def ssz_Checkpoint_def elx_Checkpoint_def)

lemma AttestationData_agrees [agreement]: "agrees (AttestationData_container spec) ssz_AttestationData elx_AttestationData"
  by (simp add: agreement AttestationData_container_def ssz_AttestationData_def elx_AttestationData_def)

lemma Attestation_agrees [agreement]:
  assumes "spec_matches spec C"
  shows "agrees (Attestation_container spec) (ssz_Attestation C) elx_Attestation"
  using assms by (simp add: spec_matches_values [OF assms] agreement
    Attestation_container_def ssz_Attestation_def elx_Attestation_def)

lemma IndexedAttestation_agrees [agreement]:
  assumes "spec_matches spec C"
  shows "agrees (IndexedAttestation_container spec) (ssz_IndexedAttestation C) elx_IndexedAttestation"
  using assms by (simp add: spec_matches_values [OF assms] agreement
    IndexedAttestation_container_def ssz_IndexedAttestation_def elx_IndexedAttestation_def)

lemma AttesterSlashing_agrees [agreement]:
  assumes "spec_matches spec C"
  shows "agrees (AttesterSlashing_container spec) (ssz_AttesterSlashing C) elx_AttesterSlashing"
  using assms by (simp add: spec_matches_values [OF assms] agreement
    AttesterSlashing_container_def ssz_AttesterSlashing_def elx_AttesterSlashing_def)

lemma Eth1Data_agrees [agreement]: "agrees (Eth1Data_container spec) ssz_Eth1Data elx_Eth1Data"
  by (simp add: agreement Eth1Data_container_def ssz_Eth1Data_def elx_Eth1Data_def)

lemma BeaconBlockHeader_agrees [agreement]: "agrees (BeaconBlockHeader_container spec) ssz_BeaconBlockHeader elx_BeaconBlockHeader"
  by (simp add: agreement BeaconBlockHeader_container_def ssz_BeaconBlockHeader_def elx_BeaconBlockHeader_def)

lemma SignedBeaconBlockHeader_agrees [agreement]: "agrees (SignedBeaconBlockHeader_container spec) ssz_SignedBeaconBlockHeader elx_SignedBeaconBlockHeader"
  by (simp add: agreement SignedBeaconBlockHeader_container_def ssz_SignedBeaconBlockHeader_def elx_SignedBeaconBlockHeader_def)

lemma ProposerSlashing_agrees [agreement]: "agrees (ProposerSlashing_container spec) ssz_ProposerSlashing elx_ProposerSlashing"
  by (simp add: agreement ProposerSlashing_container_def ssz_ProposerSlashing_def elx_ProposerSlashing_def)

lemma DepositData_agrees [agreement]: "agrees (DepositData_container spec) ssz_DepositData elx_DepositData"
  by (simp add: agreement DepositData_container_def ssz_DepositData_def elx_DepositData_def DepositData_schema_def)

lemma Deposit_agrees [agreement]: "agrees (Deposit_container spec) ssz_Deposit elx_Deposit"
  by (simp add: agreement Deposit_container_def ssz_Deposit_def elx_Deposit_def)

lemma VoluntaryExit_agrees [agreement]: "agrees (VoluntaryExit_container spec) ssz_VoluntaryExit elx_VoluntaryExit"
  by (simp add: agreement VoluntaryExit_container_def ssz_VoluntaryExit_def elx_VoluntaryExit_def)

lemma SignedVoluntaryExit_agrees [agreement]: "agrees (SignedVoluntaryExit_container spec) ssz_SignedVoluntaryExit elx_SignedVoluntaryExit"
  by (simp add: agreement SignedVoluntaryExit_container_def ssz_SignedVoluntaryExit_def elx_SignedVoluntaryExit_def)

lemma SyncAggregate_agrees [agreement]:
  assumes "spec_matches spec C"
  shows "agrees (SyncAggregate_container spec) (ssz_SyncAggregate C) elx_SyncAggregate"
  using assms by (simp add: spec_matches_values [OF assms] agreement
    SyncAggregate_container_def ssz_SyncAggregate_def elx_SyncAggregate_def)

lemma Withdrawal_agrees [agreement]: "agrees (Withdrawal_container spec) ssz_Withdrawal elx_Withdrawal"
  by (simp add: agreement Withdrawal_container_def ssz_Withdrawal_def elx_Withdrawal_def)

lemma ExecutionPayload_agrees [agreement]:
  assumes "spec_matches spec C"
  shows "agrees (ExecutionPayload_container spec) (ssz_ExecutionPayload C) elx_ExecutionPayload"
  using assms by (simp add: spec_matches_values [OF assms] agreement
    ExecutionPayload_container_def ssz_ExecutionPayload_def elx_ExecutionPayload_def)

lemma BLSToExecutionChange_agrees [agreement]: "agrees (BLSToExecutionChange_container spec) ssz_BLSToExecutionChange elx_BLSToExecutionChange"
  by (simp add: agreement BLSToExecutionChange_container_def ssz_BLSToExecutionChange_def elx_BLSToExecutionChange_def)

lemma SignedBLSToExecutionChange_agrees [agreement]: "agrees (SignedBLSToExecutionChange_container spec) ssz_SignedBLSToExecutionChange elx_SignedBLSToExecutionChange"
  by (simp add: agreement SignedBLSToExecutionChange_container_def ssz_SignedBLSToExecutionChange_def elx_SignedBLSToExecutionChange_def)

lemma DepositRequest_agrees [agreement]: "agrees (DepositRequest_container spec) ssz_DepositRequest elx_DepositRequest"
  by (simp add: agreement DepositRequest_container_def ssz_DepositRequest_def elx_DepositRequest_def)

lemma WithdrawalRequest_agrees [agreement]: "agrees (WithdrawalRequest_container spec) ssz_WithdrawalRequest elx_WithdrawalRequest"
  by (simp add: agreement WithdrawalRequest_container_def ssz_WithdrawalRequest_def elx_WithdrawalRequest_def)

lemma ConsolidationRequest_agrees [agreement]: "agrees (ConsolidationRequest_container spec) ssz_ConsolidationRequest elx_ConsolidationRequest"
  by (simp add: agreement ConsolidationRequest_container_def ssz_ConsolidationRequest_def elx_ConsolidationRequest_def)

lemma ExecutionRequests_agrees [agreement]:
  assumes "spec_matches spec C"
  shows "agrees (ExecutionRequests_container spec) (ssz_ExecutionRequests C) elx_ExecutionRequests"
  using assms by (simp add: spec_matches_values [OF assms] agreement
    ExecutionRequests_container_def ssz_ExecutionRequests_def elx_ExecutionRequests_def)

lemma BeaconBlockBody_agrees [agreement]:
  assumes "spec_matches spec C"
  shows "agrees (BeaconBlockBody_container spec) (ssz_BeaconBlockBody C) elx_BeaconBlockBody"
  using assms by (simp add: spec_matches_values [OF assms] agreement
    BeaconBlockBody_container_def ssz_BeaconBlockBody_def elx_BeaconBlockBody_def)

lemma BeaconBlock_agrees [agreement]:
  assumes "spec_matches spec C"
  shows "agrees (BeaconBlock_container spec) (ssz_BeaconBlock C) elx_BeaconBlock"
  using assms by (simp add: spec_matches_values [OF assms] agreement
    BeaconBlock_container_def ssz_BeaconBlock_def elx_BeaconBlock_def)

lemma Fork_agrees [agreement]: "agrees (Fork_container spec) ssz_Fork elx_Fork"
  by (simp add: agreement Fork_container_def ssz_Fork_def elx_Fork_def)

lemma Validator_agrees [agreement]: "agrees (Validator_container spec) ssz_Validator elx_Validator"
  by (simp add: agreement Validator_container_def ssz_Validator_def elx_Validator_def)

lemma SyncCommittee_agrees [agreement]:
  assumes "spec_matches spec C"
  shows "agrees (SyncCommittee_container spec) (ssz_SyncCommittee C) elx_SyncCommittee"
  using assms by (simp add: spec_matches_values [OF assms] agreement
    SyncCommittee_container_def ssz_SyncCommittee_def elx_SyncCommittee_def)

lemma ExecutionPayloadHeader_agrees [agreement]:
  assumes "spec_matches spec C"
  shows "agrees (ExecutionPayloadHeader_container spec) (ssz_ExecutionPayloadHeader C) elx_ExecutionPayloadHeader"
  using assms by (simp add: spec_matches_values [OF assms] agreement
    ExecutionPayloadHeader_container_def ssz_ExecutionPayloadHeader_def elx_ExecutionPayloadHeader_def)

lemma HistoricalSummary_agrees [agreement]: "agrees (HistoricalSummary_container spec) ssz_HistoricalSummary elx_HistoricalSummary"
  by (simp add: agreement HistoricalSummary_container_def ssz_HistoricalSummary_def elx_HistoricalSummary_def)

lemma PendingDeposit_agrees [agreement]: "agrees (PendingDeposit_container spec) ssz_PendingDeposit elx_PendingDeposit"
  by (simp add: agreement PendingDeposit_container_def ssz_PendingDeposit_def elx_PendingDeposit_def)

lemma PendingPartialWithdrawal_agrees [agreement]: "agrees (PendingPartialWithdrawal_container spec) ssz_PendingPartialWithdrawal elx_PendingPartialWithdrawal"
  by (simp add: agreement PendingPartialWithdrawal_container_def ssz_PendingPartialWithdrawal_def elx_PendingPartialWithdrawal_def)

lemma PendingConsolidation_agrees [agreement]: "agrees (PendingConsolidation_container spec) ssz_PendingConsolidation elx_PendingConsolidation"
  by (simp add: agreement PendingConsolidation_container_def ssz_PendingConsolidation_def elx_PendingConsolidation_def)

lemma BeaconState_agrees [agreement]:
  assumes "spec_matches spec C"
  shows "agrees (BeaconState_container spec) (ssz_BeaconState C) elx_BeaconState"
  using assms by (simp add: spec_matches_values [OF assms] agreement
    BeaconState_container_def ssz_BeaconState_def elx_BeaconState_def)

lemma BlobIdentifier_agrees [agreement]: "agrees (BlobIdentifier_container spec) ssz_BlobIdentifier elx_BlobIdentifier"
  by (simp add: agreement BlobIdentifier_container_def ssz_BlobIdentifier_def elx_BlobIdentifier_def)

lemma BlobSidecar_agrees [agreement]:
  assumes "spec_matches spec C"
  shows "agrees (BlobSidecar_container spec) (ssz_BlobSidecar C) elx_BlobSidecar"
  using assms by (simp add: spec_matches_values [OF assms] agreement
    BlobSidecar_container_def ssz_BlobSidecar_def elx_BlobSidecar_def)

lemma DepositMessage_agrees [agreement]: "agrees (DepositMessage_container spec) ssz_DepositMessage elx_DepositMessage"
  by (simp add: agreement DepositMessage_container_def ssz_DepositMessage_def elx_DepositMessage_def)

lemma ForkData_agrees [agreement]: "agrees (ForkData_container spec) ssz_ForkData elx_ForkData"
  by (simp add: agreement ForkData_container_def ssz_ForkData_def elx_ForkData_def)

lemma HistoricalBatch_agrees [agreement]:
  assumes "spec_matches spec C"
  shows "agrees (HistoricalBatch_container spec) (ssz_HistoricalBatch C) elx_HistoricalBatch"
  using assms by (simp add: spec_matches_values [OF assms] agreement
    HistoricalBatch_container_def ssz_HistoricalBatch_def elx_HistoricalBatch_def)

lemma PendingAttestation_agrees [agreement]:
  assumes "spec_matches spec C"
  shows "agrees (PendingAttestation_container spec) (ssz_PendingAttestation C) elx_PendingAttestation"
  using assms by (simp add: spec_matches_values [OF assms] agreement
    PendingAttestation_container_def ssz_PendingAttestation_def elx_PendingAttestation_def)

lemma SignedBeaconBlock_agrees [agreement]:
  assumes "spec_matches spec C"
  shows "agrees (SignedBeaconBlock_container spec) (ssz_SignedBeaconBlock C) elx_SignedBeaconBlock"
  using assms by (simp add: spec_matches_values [OF assms] agreement
    SignedBeaconBlock_container_def ssz_SignedBeaconBlock_def elx_SignedBeaconBlock_def)

lemma SigningData_agrees [agreement]: "agrees (SigningData_container spec) ssz_SigningData elx_SigningData"
  by (simp add: agreement SigningData_container_def ssz_SigningData_def elx_SigningData_def)

lemma SingleAttestation_agrees [agreement]: "agrees (SingleAttestation_container spec) ssz_SingleAttestation elx_SingleAttestation"
  by (simp add: agreement SingleAttestation_container_def ssz_SingleAttestation_def elx_SingleAttestation_def)

lemma AggregateAndProof_agrees [agreement]:
  assumes "spec_matches spec C"
  shows "agrees (AggregateAndProof_container spec) (ssz_AggregateAndProof C) elx_AggregateAndProof"
  using assms by (simp add: spec_matches_values [OF assms] agreement
    AggregateAndProof_container_def ssz_AggregateAndProof_def elx_AggregateAndProof_def)

lemma SyncCommitteeContribution_agrees [agreement]:
  assumes "spec_matches spec C"
  shows "agrees (SyncCommitteeContribution_container spec) (ssz_SyncCommitteeContribution C) elx_SyncCommitteeContribution"
  using assms by (simp add: spec_matches_values [OF assms] agreement
    SyncCommitteeContribution_container_def ssz_SyncCommitteeContribution_def elx_SyncCommitteeContribution_def)

lemma ContributionAndProof_agrees [agreement]:
  assumes "spec_matches spec C"
  shows "agrees (ContributionAndProof_container spec) (ssz_ContributionAndProof C) elx_ContributionAndProof"
  using assms by (simp add: spec_matches_values [OF assms] agreement
    ContributionAndProof_container_def ssz_ContributionAndProof_def elx_ContributionAndProof_def)

lemma SignedAggregateAndProof_agrees [agreement]:
  assumes "spec_matches spec C"
  shows "agrees (SignedAggregateAndProof_container spec) (ssz_SignedAggregateAndProof C) elx_SignedAggregateAndProof"
  using assms by (simp add: spec_matches_values [OF assms] agreement
    SignedAggregateAndProof_container_def ssz_SignedAggregateAndProof_def elx_SignedAggregateAndProof_def)

lemma SignedContributionAndProof_agrees [agreement]:
  assumes "spec_matches spec C"
  shows "agrees (SignedContributionAndProof_container spec) (ssz_SignedContributionAndProof C) elx_SignedContributionAndProof"
  using assms by (simp add: spec_matches_values [OF assms] agreement
    SignedContributionAndProof_container_def ssz_SignedContributionAndProof_def elx_SignedContributionAndProof_def)

lemma SyncCommitteeMessage_agrees [agreement]: "agrees (SyncCommitteeMessage_container spec) ssz_SyncCommitteeMessage elx_SyncCommitteeMessage"
  by (simp add: agreement SyncCommitteeMessage_container_def ssz_SyncCommitteeMessage_def elx_SyncCommitteeMessage_def)

lemma BeaconBlocksByRangeRequest_agrees [agreement]: "agrees (BeaconBlocksByRangeRequest_container spec) ssz_BeaconBlocksByRangeRequest elx_BeaconBlocksByRangeRequest"
  by (simp add: agreement BeaconBlocksByRangeRequest_container_def ssz_BeaconBlocksByRangeRequest_def elx_BeaconBlocksByRangeRequest_def)

lemma Metadata_agrees [agreement]:
  assumes "spec_matches spec C"
  shows "agrees (Metadata_container spec) (ssz_Metadata C) elx_Metadata"
  using assms by (simp add: spec_matches_values [OF assms] agreement
    Metadata_container_def ssz_Metadata_def elx_Metadata_def)

lemma StatusMessage_agrees [agreement]: "agrees (StatusMessage_container spec) ssz_StatusMessage elx_StatusMessage"
  by (simp add: agreement StatusMessage_container_def ssz_StatusMessage_def elx_StatusMessage_def)

section \<open>The networks\<close>

lemma mainnet_matches: "spec_matches (spec_of (''mainnet'', mainnet_config)) Mainnet"
  using get_mainnet by (simp add: spec_matches_def config_values_def spec_of_def sync_subcommittee_size_def
    Mainnet_def justification_bits_length_def sync_committee_subnet_count_def bytes_per_field_element_def)

lemma sepolia_matches: "spec_matches (spec_of (''mainnet'', sepolia_config)) Mainnet"
  using get_sepolia by (simp add: spec_matches_def config_values_def spec_of_def sync_subcommittee_size_def
    Mainnet_def justification_bits_length_def sync_committee_subnet_count_def bytes_per_field_element_def)

lemma holesky_matches: "spec_matches (spec_of (''mainnet'', holesky_config)) Mainnet"
  using get_holesky by (simp add: spec_matches_def config_values_def spec_of_def sync_subcommittee_size_def
    Mainnet_def justification_bits_length_def sync_committee_subnet_count_def bytes_per_field_element_def)

lemma hoodi_matches: "spec_matches (spec_of (''mainnet'', hoodi_config)) Mainnet"
  using get_hoodi by (simp add: spec_matches_def config_values_def spec_of_def sync_subcommittee_size_def
    Mainnet_def justification_bits_length_def sync_committee_subnet_count_def bytes_per_field_element_def)

lemma minimal_matches: "spec_matches (spec_of (''minimal'', minimal_config)) Minimal"
  using get_minimal by (simp add: spec_matches_def config_values_def spec_of_def sync_subcommittee_size_def
    Mainnet_def Minimal_def justification_bits_length_def sync_committee_subnet_count_def bytes_per_field_element_def)

lemma gnosis_matches: "spec_matches (spec_of (''gnosis'', gnosis_config)) Gnosis"
  using get_gnosis by (simp add: spec_matches_def config_values_def spec_of_def sync_subcommittee_size_def
    Mainnet_def Gnosis_def justification_bits_length_def sync_committee_subnet_count_def bytes_per_field_element_def)

end
