(* ===== verification/Ssz_Ex_Canonical.thy ===== *)
theory Ssz_Ex_Canonical
  imports Ssz_Ex
begin

text \<open>
  The Elixir decoder accepts only serializations: where a schema has no list or vector of elements
  of variable size, a binary that decodes is the serialization of the value it decodes to. The parts
  of a container are described by two relations between its binary and its fields.
\<close>

section \<open>Schemas without nested offsets\<close>

fun plain_schema :: "schema \<Rightarrow> bool" where
  "plain_schema (SList s n) = (\<not> variable_size s \<and> plain_schema s)"
| "plain_schema (SVector s n) = (\<not> variable_size s \<and> plain_schema s)"
| "plain_schema (SModule nm fs) = list_all (\<lambda>(k, s). plain_schema s) fs"
| "plain_schema _ = True"

section \<open>Collections of elements of fixed size\<close>

lemma decode_fixed_collection_loop_Ok:
  assumes "\<And>x v. dec x = Ok v \<Longrightarrow> f v = x"
    and "decode_fixed_collection_loop fuel dec b c rs = Ok (rev (map Ok vs))"
  shows "\<exists>us ws. vs = us @ ws \<and> rs = rev (map Ok us) \<and> concat (map f ws) = b"
  using assms(2)
proof (induction fuel arbitrary: b rs)
  case (Suc fuel)
  consider "b = []" | "b \<noteq> []" "length b < c" | "b \<noteq> []" "\<not> length b < c" by blast
  then show ?case
  proof cases
    case 1
    with Suc.prems show ?thesis by (intro exI [of _ vs] exI [of _ "[]"]) simp
  next
    case 2
    with Suc.prems have "Err (error_of (CollectionLength c (length b))) \<in> set (rev (map Ok vs))"
      by (metis decode_fixed_collection_loop.simps(2) list.set_intros(1) rust.inject(1))
    then show ?thesis by auto
  next
    case 3
    with Suc.prems have "decode_fixed_collection_loop fuel dec (drop c b) c (dec (take c b) # rs) =
        Ok (rev (map Ok vs))"
      by (cases "dec (take c b)") simp_all
    from Suc.IH [OF this] obtain us ws
      where us: "vs = us @ ws" "dec (take c b) # rs = rev (map Ok us)" "concat (map f ws) = drop c b"
      by blast
    then have "us \<noteq> []" by auto
    then obtain us' u where "us = us' @ [u]" by (metis append_butlast_last_id)
    with us have u: "dec (take c b) = Ok u" "rs = rev (map Ok us')" "vs = us' @ u # ws" by simp_all
    from assms(1) [OF u(1)] us(3) have "concat (map f (u # ws)) = b" by simp
    with u show ?thesis by blast
  qed
qed simp

lemma decode_fixed_collection_Ok:
  assumes "\<And>x v. dec x = Ok v \<Longrightarrow> f v = x" and "decode_fixed_collection dec b c = Ok vs"
  shows "concat (map f vs) = b"
proof -
  from assms(2) obtain rs where loop: "decode_fixed_collection_loop (length b + 1) dec b c [] = Ok rs"
    and "rev rs = map Ok vs"
    unfolding decode_fixed_collection_def and_then_eq_Ok flatten_results_eq_Ok by blast
  then have "rs = rev (map Ok vs)" by (simp add: rev_swap)
  from decode_fixed_collection_loop_Ok [OF assms(1) loop [unfolded this]] show ?thesis by auto
qed

section \<open>The parts of a container\<close>

text \<open>
  \<open>laid_out\<close>: the fixed-size part of a container, the values in it and the entries of its offset
  table. \<open>sections\<close>: the bytes behind the entries, each up to the next offset.
\<close>

type_synonym entry = "nat \<times> string \<times> decoder"

inductive laid_out ::
  "hooks \<Rightarrow> (string \<times> schema) list \<Rightarrow> (string \<times> ex_val) list \<Rightarrow> entry list \<Rightarrow> bytes \<Rightarrow> bool"
  for h :: hooks where
  laid_out_Nil: "laid_out h [] [] [] []"
| laid_out_fixed:
    "\<not> variable_size s \<Longrightarrow> decode h s x = Ok v \<Longrightarrow> laid_out h fs ws es b \<Longrightarrow>
       laid_out h ((k, s) # fs) ((k, v) # ws) es (x @ b)"
| laid_out_variable:
    "variable_size s \<Longrightarrow> laid_out h fs ws es b \<Longrightarrow>
       laid_out h ((k, s) # fs) ws ((off, k, decode h s) # es) (offset_bytes off @ b)"

inductive sections :: "entry list \<Rightarrow> (string \<times> ex_val) list \<Rightarrow> bytes \<Rightarrow> bool" where
  sections_Nil: "sections [] [] []"
| sections_last: "dec x = Ok v \<Longrightarrow> sections [(off, k, dec)] [(k, v)] x"
| sections_Cons:
    "dec x = Ok v \<Longrightarrow> sections ((off + length x, k', dec') # es) us b \<Longrightarrow>
       sections ((off, k, dec) # (off + length x, k', dec') # es) ((k, v) # us) (x @ b)"

inductive_cases sections_NilE: "sections [] us b"
inductive_cases sections_ConsE: "sections ((off, k, dec) # es) us b"

lemma sections_step:
  assumes "sections ((off, k, dec) # es) us b"
  shows "\<exists>x v us' b'. dec x = Ok v \<and> us = (k, v) # us' \<and> b = x @ b' \<and> sections es us' b' \<and>
    (es \<noteq> [] \<longrightarrow> fst (hd es) = off + length x)"
  using assms
proof (cases rule: sections.cases)
  case (sections_last v)
  then show ?thesis
    by (intro exI [of _ b] exI [of _ v] exI [of _ "[]"] conjI) (simp_all add: sections_Nil)
next
  case (sections_Cons x v k' dec' es' us' b')
  then show ?thesis
    by (intro exI [of _ x] exI [of _ v] exI [of _ us'] exI [of _ b'] conjI) simp_all
qed

lemma laid_out_keys:
  assumes "laid_out h fs ws es b"
  shows "map fst ws = map fst (filter (\<lambda>(k, s). \<not> variable_size s) fs)"
    and "map (fst \<circ> snd) es = map fst (filter (\<lambda>(k, s). variable_size s) fs)"
  using assms by (induction rule: laid_out.induct) simp_all

lemma sections_keys: "sections es us b \<Longrightarrow> map fst us = map (fst \<circ> snd) es"
  by (induction rule: sections.induct) simp_all

text \<open>What the loops of the decoder return, when no field is an error, is in these relations.\<close>

lemma read_offset_Ok:
  assumes "read_offset b = Ok (off, rest)"
  shows "b = offset_bytes off @ rest"
proof -
  from assms have b: "off = le_nat (take 4 b)" "rest = drop 4 b" "length (take 4 b) = 4"
    by (auto simp: read_offset_def split: if_splits)
  then have "offset_bytes off = take 4 b"
    using le_bytes_le_nat [of "take 4 b"] by (simp add: offset_bytes_def)
  with b show ?thesis by simp
qed

lemma decode_fixed_fields_Ok:
  assumes "decode_fixed_fields (field_decoders h fs) (b, rs, os, i) = Ok (rest, rs', os', i')"
    and "first_error rs' = None"
  shows "\<exists>ws es fb. ok_values rs' = rev ws @ ok_values rs \<and> os' = rev es @ os \<and>
    i' = i + length fb \<and> b = fb @ rest \<and> laid_out h fs ws es fb \<and> first_error rs = None"
  using assms(1)
proof (induction fs arbitrary: b rs os i)
  case Nil
  then show ?case using assms(2) by (auto intro: laid_out_Nil)
next
  case (Cons f fs)
  obtain k s where f: "f = (k, s)" by (cases f)
  show ?case
  proof (cases "variable_size s")
    case True
    with Cons.prems obtain off b' where off: "read_offset b = Ok (off, b')"
      and "decode_fixed_fields (field_decoders h fs) (b', rs, (off, k, decode h s) # os, i + 4) =
        Ok (rest, rs', os', i')"
      by (cases "read_offset b") (auto simp: f)
    from Cons.IH [OF this(2)] obtain ws es fb where IH:
      "ok_values rs' = rev ws @ ok_values rs" "os' = rev es @ (off, k, decode h s) # os"
      "i' = i + 4 + length fb" "b' = fb @ rest" "laid_out h fs ws es fb" "first_error rs = None"
      by blast
    then show ?thesis
      using read_offset_Ok [OF off] laid_out_variable [OF True IH(5), of k off]
      by (intro exI [of _ ws] exI [of _ "(off, k, decode h s) # es"]
          exI [of _ "offset_bytes off @ fb"]) (simp add: f)
  next
    case False
    let ?n = "get_fixed_size s" and ?r = "decode h s (take (get_fixed_size s) b)"
    from False Cons.prems have n: "?n \<le> length b" and
      "decode_fixed_fields (field_decoders h fs)
        (drop ?n b, (k, add_trace ?r k) # rs, os, i + ?n) = Ok (rest, rs', os', i')"
      by (cases ?r; auto simp: f Let_def split: if_splits)+
    from Cons.IH [OF this(2)] obtain ws es fb where IH:
      "ok_values rs' = rev ws @ ok_values ((k, add_trace ?r k) # rs)" "os' = rev es @ os"
      "i' = i + ?n + length fb" "drop ?n b = fb @ rest" "laid_out h fs ws es fb"
      "first_error ((k, add_trace ?r k) # rs) = None"
      by blast
    show ?thesis
    proof (cases ?r)
      case (Ok v)
      from IH(4) have "b = (take ?n b @ fb) @ rest" by (metis append.assoc append_take_drop_id)
      then show ?thesis
        using IH n Ok laid_out_fixed [OF False Ok IH(5), of k]
        by (intro exI [of _ "(k, v) # ws"] exI [of _ es] exI [of _ "take ?n b @ fb"]) (simp add: f)
    next
      case (Err e)
      with IH(6) show ?thesis by (simp add: add_trace_def)
    next
      case (Panic m)
      with False Cons.prems show ?thesis by (simp add: f Let_def split: if_splits)
    qed
  qed
qed

lemma decode_variable_fields_Ok:
  assumes "decode_variable_fields n es b rs = Ok ([], rs')" and "first_error rs' = None"
  shows "\<exists>us. ok_values rs' = rev us @ ok_values rs \<and> sections es us b \<and> first_error rs = None"
  using assms(1)
proof (induction es arbitrary: b rs)
  case Nil
  then show ?case using assms(2) by (auto intro: sections_Nil)
next
  case (Cons e es)
  obtain off k dec where e: "e = (off, k, dec)" by (cases e)
  show ?case
  proof (cases es)
    case Nil
    with Cons.prems assms(2) show ?thesis
      by (cases "dec b") (auto simp: e add_trace_def intro!: sections_last)
  next
    case es: (Cons e' es')
    obtain off' k' dec' where e': "e' = (off', k', dec')" by (cases e')
    show ?thesis
    proof (cases "sanitize_offset off' (Some off) n None")
      case (Ok u)
      then have le: "off \<le> off'" by (auto simp: sanitize_offset_def split: if_splits)
      let ?m = "off' - off"
      from Ok Cons.prems have m: "?m \<le> length b" and rec:
        "decode_variable_fields n es (drop ?m b) ((k, add_trace (dec (take ?m b)) k) # rs) = Ok ([], rs')"
        by (cases "dec (take ?m b)"; auto simp: e es e' Let_def split: if_splits)+
      from Cons.IH [OF rec] obtain us where IH:
        "ok_values rs' = rev us @ ok_values ((k, add_trace (dec (take ?m b)) k) # rs)"
        "sections es us (drop ?m b)" "first_error ((k, add_trace (dec (take ?m b)) k) # rs) = None"
        by blast
      show ?thesis
      proof (cases "dec (take ?m b)")
        case v: (Ok v)
        have "off' = off + length (take ?m b)" using le m by simp
        with IH(2) v have "sections (e # es) ((k, v) # us) (take ?m b @ drop ?m b)"
          using sections_Cons [of dec "take ?m b" v off k' dec' es' us "drop ?m b" k]
          by (simp add: e es e')
        with IH v show ?thesis by (intro exI [of _ "(k, v) # us"]) simp
      qed (use IH(3) Ok Cons.prems in \<open>auto simp: add_trace_def e es e' Let_def split: if_splits\<close>)
    next
      case (Err x)
      with Cons.prems assms(2) show ?thesis by (auto simp: e es e')
    next
      case (Panic m)
      with Cons.prems show ?thesis by (simp add: e es e')
    qed
  qed
qed

lemma map_of_map_key: "k \<in> set ks \<Longrightarrow> map_of (map (\<lambda>k. (k, g k)) ks) k = Some (g k)"
  by (induction ks) auto

text \<open>The bytes of both relations are those of the reference serialization.\<close>

abbreviation value_parts :: "(string \<Rightarrow> ex_val) \<Rightarrow> (string \<times> schema) list \<Rightarrow> part list" where
  "value_parts g fs \<equiv> map (\<lambda>(k, s). (variable_size s, serialize s (g k))) fs"

definition accepts_serialized :: "hooks \<Rightarrow> schema \<Rightarrow> bool" where
  "accepts_serialized h s \<longleftrightarrow> (\<forall>x v. decode h s x = Ok v \<longrightarrow> serialize s v = x)"

lemma laid_out_serialize:
  assumes "laid_out h fs ws es fb" and "sections es us vb"
    and "list_all (\<lambda>(k, v). g k = v) ws" and "list_all (\<lambda>(k, v). g k = v) us"
    and "list_all (\<lambda>(k, s). accepts_serialized h s) fs"
    and "es \<noteq> [] \<longrightarrow> fst (hd es) = off"
  shows "fb = fixed_bytes off (value_parts g fs) \<and> vb = variable_bytes (value_parts g fs)"
  using assms
proof (induction arbitrary: us vb off rule: laid_out.induct)
  case laid_out_Nil
  then show ?case by (auto elim: sections_NilE)
next
  case (laid_out_fixed s x v fs ws es b k)
  have "serialize s v = x"
    using laid_out_fixed.prems(4) laid_out_fixed.hyps(2) by (simp add: accepts_serialized_def)
  moreover have "b = fixed_bytes off (value_parts g fs) \<and> vb = variable_bytes (value_parts g fs)"
    using laid_out_fixed.prems(1) _ laid_out_fixed.prems(3) _ laid_out_fixed.prems(5)
    by (rule laid_out_fixed.IH) (use laid_out_fixed.prems(2,4) in simp_all)
  ultimately show ?case using laid_out_fixed.hyps(1) laid_out_fixed.prems(2) by simp
next
  case (laid_out_variable s fs ws es b k off' us vb off)
  from laid_out_variable.prems(5) have off: "off' = off" by simp
  from laid_out_variable.prems(1) obtain x v us' vb' where x: "decode h s x = Ok v"
    "us = (k, v) # us'" "vb = x @ vb'" "sections es us' vb'"
    "es \<noteq> [] \<longrightarrow> fst (hd es) = off + length x"
    unfolding off using sections_step by blast
  have "serialize s v = x"
    using laid_out_variable.prems(4) x(1) by (simp add: accepts_serialized_def)
  moreover have "b = fixed_bytes (off + length x) (value_parts g fs) \<and>
      vb' = variable_bytes (value_parts g fs)"
    using x(4) laid_out_variable.prems(2) _ _ x(5)
    by (rule laid_out_variable.IH) (use laid_out_variable.prems(3,4) x(2) in simp_all)
  ultimately show ?case using laid_out_variable.hyps(1) laid_out_variable.prems(3) x(2,3) by (simp add: off)
qed

lemma distinct_partition:
  "distinct (map fst fs) \<Longrightarrow> distinct (map fst (filter P fs) @ map fst (filter (\<lambda>x. \<not> P x) fs))"
  by (induction fs) auto

lemma make_struct_serialize:
  assumes "laid_out h fs ws es fb" and "sections es us vb" and "distinct (map fst fs)"
    and "list_all (\<lambda>(k, s). accepts_serialized h s) fs"
    and "es \<noteq> [] \<longrightarrow> fst (hd es) = length fb"
  shows "serialize (SModule nm fs) (make_struct nm (map fst (field_decoders h fs)) (rev ws @ rev us)) =
    fb @ vb"
proof -
  define g where "g k = (case map_of (us @ ws) k of Some v \<Rightarrow> v | None \<Rightarrow> XNil)" for k
  let ?var = "\<lambda>(k :: string, s). variable_size s"
  have "map fst (us @ ws) = map fst (filter ?var fs) @ map fst (filter (\<lambda>x. \<not> ?var x) fs)"
    using laid_out_keys [OF assms(1)] sections_keys [OF assms(2)] by (simp add: case_prod_unfold)
  with distinct_partition [OF assms(3)] have "distinct (map fst (us @ ws))" by simp
  then have "g k = v" if "(k, v) \<in> set (us @ ws)" for k v
    using that by (simp add: g_def del: map_of_append map_append)
  then have "list_all (\<lambda>(k, v). g k = v) ws" "list_all (\<lambda>(k, v). g k = v) us"
    by (auto simp: list_all_iff)
  note bytes = laid_out_serialize [OF assms(1,2) this assms(4,5)]
  then have "length fb = length (fixed_bytes (length fb) (value_parts g fs))" by simp
  then have "fixed_part_length (value_parts g fs) = length fb" unfolding length_fixed_bytes by simp
  with bytes have "serialize_parts (value_parts g fs) = fb @ vb" unfolding serialize_parts_def by simp
  moreover have "map_of (map (\<lambda>k. (k, g k)) (map fst fs)) k = Some (g k)" if "(k, s) \<in> set fs" for k s
    using that by (intro map_of_map_key) force
  then have "field_parts fs (map (\<lambda>k. (k, g k)) (map fst fs)) = value_parts g fs"
    unfolding field_parts_def by (auto simp del: map_map)
  moreover have "make_struct nm (map fst (field_decoders h fs)) (rev ws @ rev us) =
      XStruct nm (map (\<lambda>k. (k, g k)) (map fst fs))"
    by (simp add: make_struct_def g_def comp_def split_beta)
  ultimately show ?thesis by (simp add: serialize_module del: serialize_simps)
qed

section \<open>All schemas\<close>

lemma flatten_container_eq_Ok:
  "flatten_container_results rs = Ok ps \<Longrightarrow> first_error rs = None \<and> ps = ok_values rs"
  by (auto simp: flatten_container_results_def split: if_splits option.splits)

lemma decode_fixed_fields_length:
  "decode_fixed_fields fs (b, rs, os, i) = Ok (rest, rs', os', i') \<Longrightarrow>
     length b = get_fixed_length fs + length rest"
proof (induction fs arbitrary: b rs os i)
  case (Cons f fs)
  obtain k s dec where f: "f = (k, s, dec)" by (cases f)
  have len: "get_fixed_length (f # fs) =
      (if variable_size s then 4 else get_fixed_size s) + get_fixed_length fs"
    by (simp add: get_fixed_length_def f)
  show ?case
  proof (cases "variable_size s")
    case True
    with Cons.prems obtain off b' where off: "read_offset b = Ok (off, b')"
      and rec: "decode_fixed_fields fs (b', rs, (off, k, dec) # os, i + 4) = Ok (rest, rs', os', i')"
      by (cases "read_offset b") (auto simp: f)
    from Cons.IH [OF rec] read_offset_Ok [OF off] True show ?thesis by (simp add: len)
  next
    case False
    let ?n = "get_fixed_size s"
    from False Cons.prems have n: "?n \<le> length b" and
      "decode_fixed_fields fs (drop ?n b, (k, add_trace (dec (take ?n b)) k) # rs, os, i + ?n) =
        Ok (rest, rs', os', i')"
      by (cases "dec (take ?n b)"; auto simp: f Let_def split: if_splits)+
    from Cons.IH [OF this(2)] n False show ?thesis by (simp add: len)
  qed
qed (simp add: get_fixed_length_def)

lemma decode_container_serialized:
  assumes "distinct (map fst fs)" and "list_all (\<lambda>(k, s). accepts_serialized h s) fs"
    and "h nm = None" and "decode h (SModule nm fs) b = Ok v"
  shows "serialize (SModule nm fs) v = b"
proof (cases "variable_size (SModule nm fs)")
  case True
  let ?fs = "field_decoders h fs" and ?F = "get_fixed_length (field_decoders h fs)"
  from True assms(3,4) obtain ps os i us where
    F: "?F \<le> length b"
    and fixed: "decode_fixed_section (take ?F b) ?fs = Ok (ps, os, i)"
    and first: "check_first_offset os i = Ok ()"
    and var: "decode_variable_section b (drop ?F b) os = Ok us"
    and v: "v = make_struct nm (map fst ?fs) (ps @ us)"
    by (auto simp: decode_variable_container_def Let_def sanitize_offset_def simp del: variable_size.simps
        map_map split: if_splits)
  from fixed obtain rest rs where
    fields: "decode_fixed_fields ?fs (take ?F b, [], [], 0) = Ok (rest, rs, rev os, i)"
    and "first_error rs = None" "ps = ok_values rs"
    by (auto simp: decode_fixed_section_eq_Ok dest: flatten_container_eq_Ok simp del: map_map)
  with decode_fixed_fields_Ok [OF fields] obtain ws fb where
    ws: "ps = rev ws" "i = length fb" "take ?F b = fb @ rest" "laid_out h fs ws os fb"
    by auto
  from var obtain rs' where "decode_variable_fields (length b) os (drop ?F b) [] = Ok ([], rs')"
    "first_error rs' = None" "us = ok_values rs'"
    by (auto simp: decode_variable_section_def no_clause_def dest: flatten_container_eq_Ok split: if_splits)
  with decode_variable_fields_Ok [of "length b" os "drop ?F b" "[]" rs'] obtain us' where
    us: "us = rev us'" "sections os us' (drop ?F b)" by auto
  have "rest = []"
    using decode_fixed_fields_length [OF fields] F by simp
  moreover have "os \<noteq> [] \<longrightarrow> fst (hd os) = length fb"
    using first ws(2) by (cases os) (auto simp: check_first_offset_def split: if_splits)
  ultimately have "serialize (SModule nm fs) v = fb @ drop ?F b"
    unfolding v us(1) ws(1) by (intro make_struct_serialize [OF ws(4) us(2) assms(1,2)]) 
  also have "fb @ drop ?F b = b" using ws(3) \<open>rest = []\<close> append_take_drop_id [of ?F b] by simp
  finally show ?thesis .
next
  case False
  let ?fs = "field_decoders h fs"
  from False assms(3,4) obtain ps os i where
    len: "get_fixed_length ?fs = length b"
    and fixed: "decode_fixed_section b ?fs = Ok (ps, os, i)"
    and v: "v = make_struct nm (map fst ?fs) ps"
    by (auto simp: decode_fixed_container_def Let_def check_fixed_container_size_def
        simp del: variable_size.simps map_map split: if_splits)
  from fixed obtain rest rs where
    fields: "decode_fixed_fields ?fs (b, [], [], 0) = Ok (rest, rs, rev os, i)"
    and "first_error rs = None" "ps = ok_values rs"
    by (auto simp: decode_fixed_section_eq_Ok dest: flatten_container_eq_Ok simp del: map_map)
  with decode_fixed_fields_Ok [OF fields] obtain ws es fb where
    ws: "ps = rev ws" "rev os = rev es" "b = fb @ rest" "laid_out h fs ws es fb" by auto
  have "rest = []" using decode_fixed_fields_length [OF fields] len by simp
  have "map (fst \<circ> snd) es = map fst (filter (\<lambda>(k, s). variable_size s) fs)"
    using ws(4) by (rule laid_out_keys(2))
  moreover have "filter (\<lambda>(k, s). variable_size s) fs = []"
    using False by (auto simp: filter_empty_conv list_ex_iff)
  ultimately have "es = []" by simp
  with make_struct_serialize [of h fs ws "[]" fb "[]" "[]" nm] ws \<open>rest = []\<close> assms(1,2)
  show ?thesis by (simp add: v sections_Nil del: serialize_simps map_map)
qed

lemma decode_fixed_collection_serialized:
  assumes "accepts_serialized h s"
    and "decode_fixed_collection (decode h s) b c = Ok vs"
  shows "concat (map (serialize s) vs) = b"
  using assms(1) unfolding accepts_serialized_def
  by (intro decode_fixed_collection_Ok [OF _ assms(2)]) blast

lemma decode_serialized:
  "schema_wf s \<Longrightarrow> unhooked h s \<Longrightarrow> plain_schema s \<Longrightarrow> accepts_serialized h s"
proof (induction s)
  case SBool
  then show ?case
    by (auto simp: accepts_serialized_def decode_bool_def split: if_splits)
next
  case (SInt n)
  then have "n div 8 * 8 = n" by auto
  then show ?case
    by (auto simp: accepts_serialized_def decode_uint_def le_bytes_le_nat split: if_splits)
next
  case (SBitlist n)
  then show ?case by (auto simp: accepts_serialized_def elim: decode_bitlist_Ok)
next
  case (SBitvector n)
  then show ?case by (auto simp: accepts_serialized_def elim!: decode_bitvector_Ok)
next
  case (SList s n)
  then have s: "accepts_serialized h s" "\<not> variable_size s" by simp_all
  then show ?case
    unfolding accepts_serialized_def [of h "SList s n"]
    by (auto simp: decode_fixed_list_def Let_def serialize_fixed_parts
        intro!: decode_fixed_collection_serialized)
next
  case (SVector s n)
  then have s: "accepts_serialized h s" "\<not> variable_size s" by simp_all
  then show ?case
    unfolding accepts_serialized_def [of h "SVector s n"]
    by (auto simp: decode_fixed_vector_def Let_def serialize_fixed_parts
        intro!: decode_fixed_collection_serialized)
next
  case (SModule nm fs)
  have "accepts_serialized h s" if "(k, s) \<in> set fs" for k s
  proof (rule SModule.IH)
    show "(k, s) \<in> set fs" "s \<in> Basic_BNFs.snds (k, s)" using that by simp_all
    show "schema_wf s" "unhooked h s" "plain_schema s"
      using that SModule.prems by (auto simp: list_all_iff)
  qed
  with SModule.prems show ?case
    unfolding accepts_serialized_def [of h "SModule nm fs"]
    by (auto simp: list_all_iff simp del: decode.simps serialize_simps intro!: decode_container_serialized)
qed (simp_all add: accepts_serialized_def)

end
