(* ===== verification/Ssz_Ex_Properties.thy ===== *)
theory Ssz_Ex_Properties
  imports Ssz_Ex_Canonical
begin

text \<open>
  What the Elixir SSZ library promises: encoding computes the reference serialization, decoding
  reads it back and, for the schemas without nested offsets, accepts nothing else.
\<close>

section \<open>A container for the examples\<close>

text \<open>A container with two fields of fixed size around a list whose elements have variable size.\<close>

definition sample_schema :: schema where
  "sample_schema = SModule ''Types.Sample''
     [(''slot'', SInt 16), (''blobs'', SList (SByteList 4) 3), (''flag'', SBool)]"

definition sample_value :: ex_val where
  "sample_value = XStruct ''Types.Sample''
     [(''slot'', XInt 258), (''blobs'', XList [XBin [7, 8], XBin [9]]), (''flag'', XBool True)]"

definition sample_bytes :: bytes where
  "sample_bytes = [2, 1, 7, 0, 0, 0, 1, 8, 0, 0, 0, 10, 0, 0, 0, 7, 8, 9]"

definition flat_schema :: schema where
  "flat_schema = SModule ''Types.Flat'' [(''slot'', SInt 16), (''blob'', SByteList 4), (''bits'', SBitlist 9)]"

definition flat_value :: ex_val where
  "flat_value = XStruct ''Types.Flat''
     [(''slot'', XInt 258), (''blob'', XBin [7, 8]), (''bits'', XBits [False, True])]"

definition flat_bytes :: bytes where
  "flat_bytes = [2, 1, 10, 0, 0, 0, 12, 0, 0, 0, 7, 8, 5]"

lemma sample_wf: "schema_wf sample_schema" "conforms sample_schema sample_value"
  "unhooked (\<lambda>m. None) sample_schema"
  by (simp_all add: sample_schema_def sample_value_def)

lemma sample_serialize: "serialize sample_schema sample_value = sample_bytes"
  unfolding sample_schema_def sample_value_def sample_bytes_def by code_simp

lemma flat_serialize: "serialize flat_schema flat_value = flat_bytes"
  unfolding flat_schema_def flat_value_def flat_bytes_def by code_simp

lemma sample_length: "length (serialize sample_schema sample_value) < 2 ^ 32"
  unfolding sample_serialize by (simp add: sample_bytes_def)

section \<open>Encoding\<close>

lemma encode_fits:
  assumes "schema_wf s" and "conforms s v" and "length (serialize s v) < 2 ^ 32"
  shows "encode s v = Ok (serialize s v)"
  using encode_sized [OF assms(1,2)] assms(3) by (auto simp: sized_def too_big_def)

text \<open>
  C12: Encoding a value of a well-formed schema computes its reference serialization, as long as that
  fits offsets of 32 bits.
\<close>

theorem ssz_ex_encode_reference:
  assumes "schema_wf s" and "conforms s v" and "length (serialize s v) < 2 ^ 32"
  shows "SszEx_encode v s = Ok (serialize s v)"
  using encode_fits [OF assms] by (simp add: SszEx_encode_def)

theorem ssz_ex_encode_reference_witness: "SszEx_encode sample_value sample_schema = Ok sample_bytes"
  using ssz_ex_encode_reference [OF sample_wf(1,2) sample_length] unfolding sample_serialize .

text \<open>
  C35: Encoding a value of a well-formed schema never raises; it fails only when a part of the
  serialization takes four gigabytes or more, and the error gives a size between that bound and the
  length of the serialization.
\<close>

theorem ssz_ex_encode_bound:
  assumes "schema_wf s" and "conforms s v"
  shows "SszEx_encode v s = Ok (serialize s v) \<or>
    (\<exists>m tr. SszEx_encode v s = Err (Error (EncodeSizeOutOfRange m) tr) \<and>
       2 ^ 32 \<le> m \<and> m \<le> length (serialize s v))"
  using encode_sized [OF assms] by (auto simp: SszEx_encode_def sized_def too_big_def)

theorem ssz_ex_encode_bound_witness:
  "\<not> panics (SszEx_encode sample_value sample_schema)"
  using ssz_ex_encode_bound [OF sample_wf(1,2)] by auto

section \<open>Decoding what was encoded\<close>

text \<open>
  C5: Decoding the encoding of a value gives the value back, for every well-formed schema whose
  containers have no \<open>decode_ex\<close> of their own.
\<close>

theorem ssz_ex_decode_encode:
  assumes "schema_wf s" and "unhooked h s" and "conforms s v" and "length (serialize s v) < 2 ^ 32"
  shows "and_then (SszEx_encode v s) (\<lambda>b. SszEx_decode h b s) = Ok v"
  using encode_fits [OF assms(1,3,4)] decode_serialize [OF assms] by (simp add: SszEx_encode_def)

theorem ssz_ex_decode_encode_witness:
  "SszEx_decode (\<lambda>m. None) sample_bytes sample_schema = Ok sample_value"
  using ssz_ex_decode_encode [OF sample_wf(1,3,2) sample_length]
    encode_fits [OF sample_wf(1,2) sample_length]
  unfolding sample_serialize by (simp add: SszEx_encode_def)

text \<open>
  C37: A schema that \<open>validate_schema!\<close> accepts, and whose containers have distinct keys and at least
  one, is well-formed, and \<open>default\<close> raises nothing for it and returns a value of the schema.
\<close>

theorem ssz_ex_default_conforms:
  assumes "structs_ok m" and "validate_schema m s = Ok ()" and "keys_distinct s"
  shows "schema_wf s \<and> (\<exists>v. default_value m s = Ok v \<and> conforms s v)"
  using validate_schema_wf [OF assms(2,3)] default_conforms [OF assms] by blast

definition sample_structs :: structs where
  "sample_structs = \<lparr>struct_fields = (\<lambda>nm. [''blobs'', ''flag'', ''slot'']), enforce_keys = (\<lambda>nm. [''slot'', ''blobs''])\<rparr>"

theorem ssz_ex_default_conforms_witness:
  "conforms sample_schema (XStruct ''Types.Sample''
     [(''slot'', XInt 0), (''blobs'', XList []), (''flag'', XBool False)])"
proof -
  have "structs_ok sample_structs" by (simp add: structs_ok_def sample_structs_def)
  moreover have "validate_schema sample_structs sample_schema = Ok ()"
    by (auto simp: sample_schema_def sample_structs_def)
  moreover have "keys_distinct sample_schema" by (simp add: sample_schema_def)
  ultimately show ?thesis
    using ssz_ex_default_conforms [of sample_structs sample_schema]
    by (auto simp: sample_schema_def sample_structs_def struct_bang_def simp del: conforms.simps)
qed

section \<open>What decoding accepts\<close>

text \<open>
  C18: A binary that decodes under a schema without lists of variable-size elements is the
  serialization of the value it decodes to: there is no second encoding of a value.
\<close>

theorem ssz_ex_decode_canonical:
  assumes "schema_wf s" and "unhooked h s" and "plain_schema s" and "SszEx_decode h b s = Ok v"
  shows "serialize s v = b"
  using decode_serialized [OF assms(1-3)] assms(4) by (simp add: accepts_serialized_def)

theorem ssz_ex_decode_canonical_witness:
  "\<exists>v. SszEx_decode (\<lambda>m. None) flat_bytes flat_schema = Ok v \<and> serialize flat_schema v = flat_bytes"
proof -
  have "SszEx_decode (\<lambda>m. None) flat_bytes flat_schema = Ok flat_value"
    using decode_serialize [of flat_schema "\<lambda>m. None" flat_value] flat_serialize
    by (simp add: flat_schema_def flat_value_def flat_bytes_def)
  moreover from this have "serialize flat_schema flat_value = flat_bytes"
    by (intro ssz_ex_decode_canonical [where h = "\<lambda>m. None"]) (simp_all add: flat_schema_def)
  ultimately show ?thesis by blast
qed

text \<open>
  C36: Decoding ends on every binary: under a well-formed schema it returns a value or an error, or
  raises one of four exceptions; the fuel of its loop is never used up.
\<close>

theorem ssz_ex_decode_ends:
  assumes "schema_wf s"
  shows "(\<exists>v. SszEx_decode h b s = Ok v) \<or> (\<exists>e. SszEx_decode h b s = Err e) \<or>
    SszEx_decode h b s \<in> Panic ` {''MatchError'', ''ArgumentError'', ''FunctionClauseError'',
      ''Protocol.UndefinedError''}"
  using decode_raises [OF assms, of h b]
  by (cases "SszEx_decode h b s") (auto simp: raises_only_def decode_exceptions_def)

theorem ssz_ex_decode_ends_witness:
  "SszEx_decode (\<lambda>m. None) [2, 1, 7] sample_schema \<noteq> Panic ''out of fuel''"
  using ssz_ex_decode_ends [OF sample_wf(1), of "\<lambda>m. None" "[2, 1, 7]"]
  by (auto simp del: SszEx_decode_eq_Ok SszEx_decode_eq_Panic)

text \<open>
  A container of fixed size that fails on one of its fields makes an enclosing container raise
  \<open>FunctionClauseError\<close>: the failure is returned as a tuple of four elements, which the enclosing
  container does not match.
\<close>

theorem ssz_ex_nested_container_raises:
  assumes "decode h (SModule inner fs) b = Err (Section k e)" and "\<not> variable_size (SModule inner fs)"
    and "length b = get_fixed_size (SModule inner fs)"
  shows "SszEx_decode h b (SModule outer [(field, SModule inner fs)]) = Panic ''FunctionClauseError''"
  using assms
  by (simp add: decode_fixed_container_def get_fixed_length_def check_fixed_container_size_def
      decode_fixed_section_def flatten_container_results_def add_trace_def
      del: decode.simps(9) variable_size.simps(9) get_fixed_size.simps add: decode.simps(9) [of h outer] variable_size.simps(9) [of outer])

theorem ssz_ex_nested_container_raises_witness:
  "SszEx_decode (\<lambda>m. None) [2] (SModule ''Types.Outer'' [(''inner'', SModule ''Types.Inner'' [(''flag'', SBool)])]) =
   Panic ''FunctionClauseError''"
proof (rule ssz_ex_nested_container_raises)
  show "decode (\<lambda>m. None) (SModule ''Types.Inner'' [(''flag'', SBool)]) [2] =
      Err (Section ''flag'' (Error (DecodeBoolValue [2]) [''flag'']))"
    by (simp add: decode_fixed_container_def get_fixed_length_def check_fixed_container_size_def
        decode_fixed_section_def flatten_container_results_def add_trace_def error_of_def decode_bool_def)
qed simp_all

lemma decode_variable_list_elements_simps:
  "decode_variable_list_elements 3 = decode_variable_list_elements (Suc (Suc (Suc 0)))"
  by (simp add: numeral_3_eq_3)

lemma read_offset_Cons:
  "read_offset (a # b # c # d # rest) =
     Ok (unat a + 256 * (unat b + 256 * (unat c + 256 * unat d)), rest)"
  by (simp add: read_offset_def)

text \<open>
  In a list of elements of variable size an offset may point before the previous one: the
  decoder then reads the bytes in front of it, so that a binary that is not a serialization decodes.
\<close>

theorem ssz_ex_backward_offset_accepted:
  "\<exists>v. SszEx_decode h [12, 0, 0, 0, 14, 0, 0, 0, 13, 0, 0, 0, 7, 8, 9] (SList (SByteList 4) 3) = Ok v \<and>
     conforms (SList (SByteList 4) 3) v \<and>
     serialize (SList (SByteList 4) 3) v \<noteq> [12, 0, 0, 0, 14, 0, 0, 0, 13, 0, 0, 0, 7, 8, 9]"
proof (intro exI conjI)
  show "SszEx_decode h [12, 0, 0, 0, 14, 0, 0, 0, 13, 0, 0, 0, 7, 8, 9] (SList (SByteList 4) 3) =
      Ok (XList [XBin [7, 8], XBin [8], XBin [8, 9]])"
    by (simp add: SszEx_decode_def decode_variable_list_def read_offset_Cons sanitize_offset_def
        binary_part_def flatten_results_def decode_variable_list_elements_simps)
  show "serialize (SList (SByteList 4) 3) (XList [XBin [7, 8], XBin [8], XBin [8, 9]]) \<noteq>
      [12, 0, 0, 0, 14, 0, 0, 0, 13, 0, 0, 0, 7, 8, 9]"
    by code_simp
qed simp

end
