(* ===== verification/Ssz_Instance.thy ===== *)
theory Ssz_Instance
  imports Ssz_Nif Ssz_Ex_Properties
begin

text \<open>
  The contracts that the SSZ NIF relies on, met by the Elixir library. \<open>ssz_ex_crate\<close> puts the
  encoder and decoder of \<open>lib/ssz_ex\<close> in the place of the Rust crates, and \<open>terms\<close> is a model of the
  Elixir terms with the decoders that \<open>rustler\<close> derives. The locales of \<open>Ssz_Crates\<close>, \<open>Conversions\<close>
  and \<open>Helpers\<close> are interpreted on them.
\<close>

section \<open>The schema of a Rust type\<close>

fun schema_of :: "ssz_ty \<Rightarrow> schema" where
  "schema_of TBool = SBool"
| "schema_of TU8 = SInt 8"
| "schema_of TU16 = SInt 16"
| "schema_of TU32 = SInt 32"
| "schema_of TU64 = SInt 64"
| "schema_of (TArray n) = SByteVector n"
| "schema_of (TFixedVector t n) = SVector (schema_of t) n"
| "schema_of (TVariableList t n) = SList (schema_of t) n"
| "schema_of (TVec t) = SList (schema_of t) max_ssz_length"
| "schema_of (TBitList n) = SBitlist n"
| "schema_of (TBitVector n) = SBitvector n"
| "schema_of TUint256 = SByteVector 32"
| "schema_of (TStruct nm fs) = SModule nm (map (\<lambda>(k, t). (k, schema_of t)) fs)"

text \<open>The bits of a bitstring are listed from the highest index.\<close>

fun ex_of :: "ssz_val \<Rightarrow> ex_val" where
  "ex_of (VBool b) = XBool b"
| "ex_of (VU8 x) = XInt (uint x)"
| "ex_of (VU16 x) = XInt (uint x)"
| "ex_of (VU32 x) = XInt (uint x)"
| "ex_of (VU64 x) = XInt (uint x)"
| "ex_of (VArray b) = XBin b"
| "ex_of (VFixedVector vs) = XList (map ex_of vs)"
| "ex_of (VVariableList vs) = XList (map ex_of vs)"
| "ex_of (VVec vs) = XList (map ex_of vs)"
| "ex_of (VBitList bs) = XBits (rev bs)"
| "ex_of (VBitVector bs) = XBits (rev bs)"
| "ex_of (VUint256 b) = XBin b"
| "ex_of (VStruct nm vs) = XStruct nm (map (\<lambda>(k, v). (k, ex_of v)) vs)"

fun bool_of :: "ex_val \<Rightarrow> bool" where
  "bool_of (XBool b) = b" | "bool_of _ = False"

fun int_of :: "ex_val \<Rightarrow> int" where
  "int_of (XInt i) = i" | "int_of _ = 0"

fun bin_of :: "ex_val \<Rightarrow> bytes" where
  "bin_of (XBin b) = b" | "bin_of _ = []"

fun bits_of :: "ex_val \<Rightarrow> bitstring" where
  "bits_of (XBits bs) = bs" | "bits_of _ = []"

fun list_of :: "ex_val \<Rightarrow> ex_val list" where
  "list_of (XList vs) = vs" | "list_of _ = []"

fun field_of :: "ex_val \<Rightarrow> string \<Rightarrow> ex_val" where
  "field_of (XStruct nm vs) k = (case map_of vs k of Some v \<Rightarrow> v | None \<Rightarrow> XNil)"
| "field_of _ k = XNil"

fun val_of :: "ssz_ty \<Rightarrow> ex_val \<Rightarrow> ssz_val" where
  "val_of TBool x = VBool (bool_of x)"
| "val_of TU8 x = VU8 (word_of_int (int_of x))"
| "val_of TU16 x = VU16 (word_of_int (int_of x))"
| "val_of TU32 x = VU32 (word_of_int (int_of x))"
| "val_of TU64 x = VU64 (word_of_int (int_of x))"
| "val_of (TArray n) x = VArray (bin_of x)"
| "val_of (TFixedVector t n) x = VFixedVector (map (val_of t) (list_of x))"
| "val_of (TVariableList t n) x = VVariableList (map (val_of t) (list_of x))"
| "val_of (TVec t) x = VVec (map (val_of t) (list_of x))"
| "val_of (TBitList n) x = VBitList (rev (bits_of x))"
| "val_of (TBitVector n) x = VBitVector (rev (bits_of x))"
| "val_of TUint256 x = VUint256 (bin_of x)"
| "val_of (TStruct nm fs) x = VStruct nm (map (\<lambda>(k, t). (k, val_of t (field_of x k))) fs)"

lemma schema_of_wf: "ssz_wf t \<Longrightarrow> schema_wf (schema_of t)"
proof (induction t)
  case (TStruct nm fs)
  then show ?case by (fastforce simp: list_all_iff comp_def case_prod_beta)
qed (simp_all add: max_ssz_length_def)

lemma schema_of_unhooked: "unhooked (\<lambda>m. None) (schema_of t)"
proof (induction t)
  case (TStruct nm fs)
  then show ?case by (fastforce simp: list_all_iff)
qed simp_all

lemma val_of_typed: "ssz_wf t \<Longrightarrow> conforms (schema_of t) x \<Longrightarrow> ssz_typed t (val_of t x)"
proof (induction t arbitrary: x)
  case (TStruct nm fs)
  then obtain vs where x: "x = XStruct nm vs" by (auto simp: conforms_iff simp del: conforms.simps)
  have "ssz_typed t (val_of t (field_of x k))" if kt: "(k, t) \<in> set fs" for k t
  proof -
    have "(k, schema_of t) \<in> set (map (\<lambda>(k, t). (k, schema_of t)) fs)" using kt by force
    from conforms_field [OF TStruct.prems(2) [unfolded x schema_of.simps] this] obtain w
      where "map_of vs k = Some w" "conforms (schema_of t) w" by blast
    moreover have "ssz_wf t" using TStruct.prems(1) kt by (auto simp: list_all_iff)
    ultimately show ?thesis using TStruct.IH [of "(k, t)" t w] kt by (simp add: x)
  qed
  then show ?case by (auto simp: ssz_typed_fields_iff list_all2_map2 list_all2_same)
qed (auto simp: conforms_iff list_all_iff simp del: conforms.simps)

lemma val_of_ex_of: "ssz_wf t \<Longrightarrow> ssz_typed t v \<Longrightarrow> val_of t (ex_of v) = v"
proof (induction t arbitrary: v)
  case (TStruct nm fs)
  then obtain vs where v: "v = VStruct nm vs" and typed: "ssz_typed_fields fs vs" by auto
  have dist: "distinct (map fst vs)" using ssz_typed_fields_names [OF typed] TStruct.prems(1) by simp
  have "map (\<lambda>(k, t). (k, val_of t (field_of (ex_of v) k))) fs = vs"
  proof (rule nth_equalityI)
    show len: "length (map (\<lambda>(k, t). (k, val_of t (field_of (ex_of v) k))) fs) = length vs"
      using typed by (simp add: ssz_typed_fields_iff list_all2_lengthD)
    fix i
    assume "i < length (map (\<lambda>(k, t). (k, val_of t (field_of (ex_of v) k))) fs)"
    then have i: "i < length fs" "i < length vs" using len by simp_all
    obtain k t w where kt: "fs ! i = (k, t)" "vs ! i = (k, w)" "ssz_typed t w"
      using list_all2_nthD [OF typed [unfolded ssz_typed_fields_iff] i(1)]
      by (cases "fs ! i"; cases "vs ! i") auto
    have mem: "(k, t) \<in> set fs" "(k, w) \<in> set vs" using i kt(1,2) by (metis nth_mem)+
    have "map_of (map (\<lambda>(k, v). (k, ex_of v)) vs) k = Some (ex_of w)"
      using map_of_schemas [OF dist mem(2), of ex_of] .
    moreover have "ssz_wf t" using TStruct.prems(1) mem(1) by (auto simp: list_all_iff)
    ultimately show "map (\<lambda>(k, t). (k, val_of t (field_of (ex_of v) k))) fs ! i = vs ! i"
      using TStruct.IH [of "(k, t)" t w] mem(1) kt i by (simp add: v)
  qed
  then show ?case by (simp add: v)
qed (auto simp: list_all_iff map_idI)

section \<open>The Elixir library in the place of the crates\<close>

text \<open>
  A value that is no value of its schema has more elements than any encoding has room for; it gets
  an encoding that is too long.
\<close>

definition ssz_ex_encode_value :: "ssz_ty \<Rightarrow> ssz_val \<Rightarrow> bytes" where
  "ssz_ex_encode_value t v =
     (case t of
        TBitList n \<Rightarrow> BitList_to_bytes (bits_of (ex_of v))
      | TBitVector n \<Rightarrow> BitVector_to_bytes (bits_of (ex_of v))
      | _ \<Rightarrow> if conforms (schema_of t) (ex_of v) then serialize (schema_of t) (ex_of v)
            else replicate max_ssz_length 0)"

definition ssz_ex_decode_value :: "ssz_ty \<Rightarrow> bytes \<Rightarrow> (string, ssz_val) rust" where
  "ssz_ex_decode_value t b =
     (case t of
        TBitList n \<Rightarrow>
          (case BitList_new b of
             Ok bs \<Rightarrow>
               if last b = 0 then Err ''no sentinel''
               else if length bs \<le> n then Ok (val_of t (XBits bs)) else Err ''too many bits''
           | _ \<Rightarrow> Err ''empty'')
      | TBitVector n \<Rightarrow>
          if length b = (n + 7) div 8 \<and> le_nat b < 2 ^ n then Ok (val_of t (XBits (BitVector_new b n)))
          else Err ''wrong length''
      | _ \<Rightarrow>
          (case SszEx_decode (\<lambda>m. None) b (schema_of t) of
             Ok x \<Rightarrow> if conforms (schema_of t) x then Ok (val_of t x) else Err ''no value''
           | _ \<Rightarrow> Err ''malformed''))"

definition ssz_ex_crate :: ssz_crate where
  "ssz_ex_crate =
     \<lparr>FixedVector_new = (\<lambda>n vs. if length vs = n then Ok vs else Err ''out of bounds''),
      VariableList_new = (\<lambda>n vs. if length vs \<le> n then Ok vs else Err ''out of bounds''),
      as_ssz_bytes = ssz_ex_encode_value,
      from_ssz_bytes = ssz_ex_decode_value\<rparr>"

lemma ssz_ex_crate_simps [simp]:
  "FixedVector_new ssz_ex_crate n vs = (if length vs = n then Ok vs else Err ''out of bounds'')"
  "VariableList_new ssz_ex_crate n vs = (if length vs \<le> n then Ok vs else Err ''out of bounds'')"
  "as_ssz_bytes ssz_ex_crate = ssz_ex_encode_value"
  "from_ssz_bytes ssz_ex_crate = ssz_ex_decode_value"
  by (simp_all add: ssz_ex_crate_def)

lemma ssz_ex_decode_no_panic: "\<not> panics (ssz_ex_decode_value t b)"
  unfolding ssz_ex_decode_value_def
  by (cases t)
     (simp_all split: rust.split del: SszEx_decode_eq_Ok SszEx_decode_eq_Panic conforms.simps schema_of.simps)

lemma ssz_ex_bitlist:
  "ssz_ex_decode_value (TBitList n) b = Ok v \<longleftrightarrow>
     (\<exists>bs. v = VBitList bs \<and> length bs \<le> n \<and> b = BitList_to_bytes (rev bs))"
proof
  assume "ssz_ex_decode_value (TBitList n) b = Ok v"
  then obtain bs where "BitList_new b = Ok bs" "last b \<noteq> 0" "length bs \<le> n" "v = VBitList (rev bs)"
    by (auto simp: ssz_ex_decode_value_def split: rust.splits if_splits)
  then show "\<exists>bs. v = VBitList bs \<and> length bs \<le> n \<and> b = BitList_to_bytes (rev bs)"
    by (intro exI [of _ "rev bs"]) (simp add: BitList_to_bytes_new)
next
  assume "\<exists>bs. v = VBitList bs \<and> length bs \<le> n \<and> b = BitList_to_bytes (rev bs)"
  then show "ssz_ex_decode_value (TBitList n) b = Ok v"
    by (auto simp: ssz_ex_decode_value_def BitList_new_to_bytes last_BitList_to_bytes)
qed

lemma ssz_ex_bitvector:
  "ssz_ex_decode_value (TBitVector n) b = Ok v \<longleftrightarrow>
     (\<exists>bs. v = VBitVector bs \<and> length bs = n \<and> b = BitVector_to_bytes (rev bs))"
proof
  assume "ssz_ex_decode_value (TBitVector n) b = Ok v"
  then have "length b = (n + 7) div 8" "le_nat b < 2 ^ n" "v = VBitVector (rev (BitVector_new b n))"
    by (auto simp: ssz_ex_decode_value_def split: if_splits)
  moreover have "length (BitVector_new b n) = n" by (simp add: BitVector_new_def)
  ultimately show "\<exists>bs. v = VBitVector bs \<and> length bs = n \<and> b = BitVector_to_bytes (rev bs)"
    by (intro exI [of _ "rev (BitVector_new b n)"]) (simp add: BitVector_to_bytes_new)
next
  assume "\<exists>bs. v = VBitVector bs \<and> length bs = n \<and> b = BitVector_to_bytes (rev bs)"
  then obtain bs where bs: "v = VBitVector bs" "length bs = n" "b = BitVector_to_bytes (rev bs)" by blast
  then show "ssz_ex_decode_value (TBitVector n) b = Ok v"
    using bits_int_less [of "rev bs"] BitVector_new_to_bytes [of "rev bs"]
    by (simp add: ssz_ex_decode_value_def BitVector_number byte_size_def)
qed

lemma ssz_ex_codec_typed:
  assumes "ssz_wf t" and "ssz_ex_decode_value t b = Ok v"
  shows "ssz_typed t v"
proof (cases "\<exists>n. t = TBitList n \<or> t = TBitVector n")
  case True
  with assms(2) show ?thesis by (auto simp: ssz_ex_bitlist ssz_ex_bitvector)
next
  case False
  then obtain x where "conforms (schema_of t) x" "v = val_of t x"
    using assms(2) unfolding ssz_ex_decode_value_def
    by (cases t) (auto split: rust.splits if_splits simp del: conforms.simps)
  with val_of_typed [OF assms(1)] show ?thesis by simp
qed

lemma ssz_ex_codec_round_trip:
  assumes "ssz_wf t" and "ssz_typed t v" and "length (ssz_ex_encode_value t v) < max_ssz_length"
  shows "ssz_ex_decode_value t (ssz_ex_encode_value t v) = Ok v"
proof (cases "\<exists>n. t = TBitList n \<or> t = TBitVector n")
  case True
  with assms(2) show ?thesis
    by (auto simp: ssz_ex_bitlist ssz_ex_bitvector ssz_ex_encode_value_def)
next
  case False
  then have enc: "ssz_ex_encode_value t v = (if conforms (schema_of t) (ex_of v)
      then serialize (schema_of t) (ex_of v) else replicate max_ssz_length 0)"
    by (cases t) (simp_all add: ssz_ex_encode_value_def del: conforms.simps)
  with assms(3) have conf: "conforms (schema_of t) (ex_of v)" by (auto split: if_splits)
  with assms(3) enc have "decode (\<lambda>m. None) (schema_of t) (serialize (schema_of t) (ex_of v)) = Ok (ex_of v)"
    by (intro decode_serialize schema_of_wf [OF assms(1)] schema_of_unhooked) (simp_all add: max_ssz_length_def)
  then have "SszEx_decode (\<lambda>m. None) (serialize (schema_of t) (ex_of v)) (schema_of t) = Ok (ex_of v)" by simp
  with False conf enc val_of_ex_of [OF assms(1,2)] show ?thesis
    unfolding ssz_ex_decode_value_def by (cases t) (simp_all del: conforms.simps SszEx_decode_eq_Ok)
qed

interpretation sszex: ssz_codec ssz_ex_crate
proof unfold_locales
  fix t b v
  show "ssz_wf t \<Longrightarrow> from_ssz_bytes ssz_ex_crate t b = Ok v \<Longrightarrow> ssz_typed t v"
    using ssz_ex_codec_typed by simp
  show "ssz_wf t \<Longrightarrow> ssz_typed t v \<Longrightarrow> length (as_ssz_bytes ssz_ex_crate t v) < max_ssz_length \<Longrightarrow>
      from_ssz_bytes ssz_ex_crate t (as_ssz_bytes ssz_ex_crate t v) = Ok v"
    using ssz_ex_codec_round_trip by simp
  show "\<not> panics (from_ssz_bytes ssz_ex_crate t b)" using ssz_ex_decode_no_panic by simp
qed (auto simp: ssz_ex_bitlist ssz_ex_bitvector ssz_ex_encode_value_def)

section \<open>Elixir terms\<close>

text \<open>
  The terms that the NIFs exchange are the values of the Elixir library: atoms, booleans, integers,
  binaries, lists, and structs with their fields in the order of the definition.
\<close>

fun encode_term :: "elx_val \<Rightarrow> ex_val" where
  "encode_term (LBool b) = XBool b"
| "encode_term (LU8 x) = XInt (uint x)"
| "encode_term (LU16 x) = XInt (uint x)"
| "encode_term (LU32 x) = XInt (uint x)"
| "encode_term (LU64 x) = XInt (uint x)"
| "encode_term (LBinary b) = XBin b"
| "encode_term (LVec ws) = XList (map encode_term ws)"
| "encode_term (LStruct m ws) = XStruct m (map (\<lambda>(n, w). (n, encode_term w)) ws)"

text \<open>An unsigned integer that fits the width.\<close>

definition decode_word :: "ex_val \<Rightarrow> (nif_error, 'w::len word) rust" where
  "decode_word x =
     (case x of
        XInt i \<Rightarrow> if 0 \<le> i \<and> i < 2 ^ LENGTH('w) then Ok (word_of_int i) else Err BadArg
      | _ \<Rightarrow> Err BadArg)"

fun decode_fields ::
  "(string \<times> (ex_val \<Rightarrow> (nif_error, elx_val) rust)) list \<Rightarrow> (string \<times> ex_val) list \<Rightarrow>
     (nif_error, (string \<times> elx_val) list) rust" where
  "decode_fields [] [] = Ok []"
| "decode_fields ((n, d) # ds) ((n', x) # xs) =
     (if n' = n
      then and_then (d x) (\<lambda>w. and_then (decode_fields ds xs) (\<lambda>ws. Ok ((n, w) # ws)))
      else Err BadArg)"
| "decode_fields _ _ = Err BadArg"

fun decode_term :: "elx_ty \<Rightarrow> ex_val \<Rightarrow> (nif_error, elx_val) rust" where
  "decode_term EBool x =
     (case x of
        XBool b \<Rightarrow> Ok (LBool b)
      | _ \<Rightarrow> Err BadArg)"
| "decode_term EU8 x = map_ok LU8 (decode_word x)"
| "decode_term EU16 x = map_ok LU16 (decode_word x)"
| "decode_term EU32 x = map_ok LU32 (decode_word x)"
| "decode_term EU64 x = map_ok LU64 (decode_word x)"
| "decode_term EBinary x = (case x of XBin b \<Rightarrow> Ok (LBinary b) | _ \<Rightarrow> Err BadArg)"
| "decode_term (EVec e) x =
     (case x of XList xs \<Rightarrow> map_ok LVec (collect (map (decode_term e) xs)) | _ \<Rightarrow> Err BadArg)"
| "decode_term (EStruct m es) x =
     (case x of
        XStruct m' xs \<Rightarrow>
          if m' = m then map_ok (LStruct m) (decode_fields (map (\<lambda>(n, e). (n, decode_term e)) es) xs)
          else Err BadArg
      | _ \<Rightarrow> Err BadArg)"

definition terms :: "ex_val rustler" where
  "terms =
     \<lparr>NewBinary_new = (\<lambda>n. replicate n 0),
      atom_to_string = (\<lambda>x. case x of XAtom a \<Rightarrow> Ok a | _ \<Rightarrow> Err BadArg),
      is_list = (\<lambda>x. case x of XList xs \<Rightarrow> True | _ \<Rightarrow> False),
      term_decode = decode_term,
      term_encode = encode_term\<rparr>"

lemma terms_simps [simp]:
  "NewBinary_new terms n = replicate n 0"
  "atom_to_string terms x = (case x of XAtom a \<Rightarrow> Ok a | _ \<Rightarrow> Err BadArg)"
  "is_list terms x = (case x of XList xs \<Rightarrow> True | _ \<Rightarrow> False)"
  "term_decode terms = decode_term" "term_encode terms = encode_term"
  by (simp_all add: terms_def)

lemma decode_word_uint [simp]: "decode_word (XInt (uint (x :: 'w::len word))) = Ok x"
  by (simp add: decode_word_def uint_lt2p [simplified])

lemma decode_word_no_panic [simp]: "\<not> panics (decode_word x)"
  by (simp add: decode_word_def split: ex_val.split)

lemma decode_fields_typed:
  assumes "\<And>n e x w. (n, e) \<in> set es \<Longrightarrow> decode_term e x = Ok w \<Longrightarrow> elx_typed e w"
  shows "decode_fields (map (\<lambda>(n, e). (n, decode_term e)) es) xs = Ok ws \<Longrightarrow> elx_typed_fields es ws"
  using assms
proof (induction es arbitrary: xs ws)
  case Nil
  then show ?case by (cases xs) simp_all
next
  case (Cons p es)
  obtain n e where p: "p = (n, e)" by (cases p)
  from Cons.prems(1) obtain n' x xs' where "xs = (n', x) # xs'" by (cases xs) (auto simp: p)
  with Cons show ?case by (fastforce simp: p split: if_splits)
qed

lemma decode_fields_encode:
  assumes "\<And>n e w. (n, e) \<in> set es \<Longrightarrow> elx_typed e w \<Longrightarrow> decode_term e (encode_term w) = Ok w"
  shows "elx_typed_fields es ws \<Longrightarrow>
    decode_fields (map (\<lambda>(n, e). (n, decode_term e)) es) (map (\<lambda>(n, w). (n, encode_term w)) ws) = Ok ws"
  using assms
proof (induction es arbitrary: ws)
  case (Cons p es)
  obtain n e where p: "p = (n, e)" by (cases p)
  from Cons.prems(1) obtain w ws' where "ws = (n, w) # ws'" "elx_typed e w" "elx_typed_fields es ws'"
    by (auto simp: p)
  with Cons show ?case by (auto simp: p)
qed simp

lemma decode_fields_no_panic:
  "(\<And>n d x. (n, d) \<in> set ds \<Longrightarrow> \<not> panics (d x)) \<Longrightarrow> \<not> panics (decode_fields ds xs)"
proof (induction ds xs rule: decode_fields.induct)
  case (2 n d ds n' x xs)
  then show ?case by auto
qed simp_all

lemma decode_term_typed: "decode_term e x = Ok w \<Longrightarrow> elx_typed e w"
proof (induction e arbitrary: x w)
  case (EVec e)
  then obtain xs ws where "x = XList xs" "w = LVec ws" "collect (map (decode_term e) xs) = Ok ws"
    by (auto split: ex_val.splits)
  with EVec.IH show ?case
    by (auto simp: collect_map_eq_Ok list_all2_conv_all_nth list_all_length)
next
  case (EStruct m es)
  then obtain xs ws where "w = LStruct m ws"
    and ws: "decode_fields (map (\<lambda>(n, e). (n, decode_term e)) es) xs = Ok ws"
    by (auto split: ex_val.splits if_splits)
  moreover have "elx_typed_fields es ws"
    using ws by (rule decode_fields_typed [rotated]) (use EStruct.IH in force)
  ultimately show ?case by simp
qed (auto split: ex_val.splits if_splits)

lemma decode_encode_term: "elx_typed e w \<Longrightarrow> decode_term e (encode_term w) = Ok w"
proof (induction e arbitrary: w)
  case (EVec e)
  then show ?case by (auto simp: collect_map_eq_Ok list_all2_conv_all_nth list_all_length)
next
  case (EStruct m es)
  then obtain ws where "w = LStruct m ws" and ws: "elx_typed_fields es ws" by auto
  moreover have "decode_fields (map (\<lambda>(n, e). (n, decode_term e)) es)
      (map (\<lambda>(n, w). (n, encode_term w)) ws) = Ok ws"
    using ws by (rule decode_fields_encode [rotated]) (use EStruct.IH in force)
  ultimately show ?case by simp
qed auto

lemma decode_term_no_panic: "\<not> panics (decode_term e x)"
proof (induction e arbitrary: x)
  case (EVec e)
  have "\<not> panics (collect (map (decode_term e) xs))" for xs
    using EVec.IH by (intro collect_map_not_panics)
  then show ?case by (auto split: ex_val.splits)
next
  case (EStruct m es)
  have "\<not> panics (decode_fields (map (\<lambda>(n, e). (n, decode_term e)) es) xs)" for xs
    using EStruct.IH by (intro decode_fields_no_panic) force
  then show ?case by (auto split: ex_val.splits)
qed (auto split: ex_val.splits)

lemma is_list_encode_term: "is_list terms (encode_term w) \<longleftrightarrow> (\<exists>ws. w = LVec ws)"
  by (cases w) simp_all

interpretation nif: ssz_nif terms ssz_ex_crate
  by unfold_locales
     (simp_all add: decode_term_typed decode_encode_term decode_term_no_panic is_list_encode_term
        del: terms_simps(3) split: ex_val.split)

end
