(* ===== verification/Ssz_Representation.thy ===== *)
theory Ssz_Representation
  imports Container_Agreement Ssz_Instance
begin

text \<open>
  The three representations of a value of a container: the Elixir value that conforms to the schema
  of the module, the value that \<open>rustler\<close> decodes (\<open>elx_of\<close>) and the value of the Rust type
  (\<open>rust_of\<close>). For a schema that agrees with the types the conversions of the NIF lead from one to
  the other, and the encodings of the two SSZ libraries are the same bytes.
\<close>

section \<open>Fields\<close>

lemma agree_fields_nth:
  "agree_fields (map (\<lambda>(k, s). (k, agrees s)) fs) ts es \<longleftrightarrow>
     length ts = length fs \<and> length es = length fs \<and>
     (\<forall>i < length fs. fst (ts ! i) = fst (fs ! i) \<and> fst (es ! i) = fst (fs ! i) \<and>
        agrees (snd (fs ! i)) (snd (ts ! i)) (snd (es ! i)))"
proof (induction fs arbitrary: ts es)
  case Nil
  then show ?case by (cases ts; cases es) simp_all
next
  case (Cons f fs)
  then show ?case
    by (cases f; cases ts; cases es) (auto simp: All_less_Suc2)
qed

lemma agree_fields_names:
  assumes "agree_fields (map (\<lambda>(k, s). (k, agrees s)) fs) ts es"
  shows "map fst ts = map fst fs" "map fst es = map fst fs"
  using assms by (auto simp: agree_fields_nth intro: nth_equalityI)

lemma map_of_nth:
  "distinct (map fst xs) \<Longrightarrow> i < length xs \<Longrightarrow> map_of xs (fst (xs ! i)) = Some (snd (xs ! i))"
  by (metis map_of_eq_Some_iff nth_mem prod.collapse)

lemma nth_snd_snds: "i < length fs \<Longrightarrow> snd (fs ! i) \<in> Basic_BNFs.snds (fs ! i)"
  by (simp add: Basic_BNFs.snds.simps)

text \<open>The field of a struct that belongs to a field of its schema.\<close>

lemma conforms_nth:
  assumes "conforms (SModule nm fs) x" and "i < length fs"
  shows "conforms (snd (fs ! i)) (field_of x (fst (fs ! i)))"
proof -
  obtain vs where x: "x = XStruct nm vs" using assms(1) by (auto simp: conforms_iff simp del: conforms.simps)
  have "(fst (fs ! i), snd (fs ! i)) \<in> set fs" using assms(2) by simp
  from conforms_field [OF assms(1) [unfolded x] this] show ?thesis by (auto simp: x)
qed

section \<open>The value that \<open>rustler\<close> decodes\<close>

fun elx_of :: "schema \<Rightarrow> ex_val \<Rightarrow> elx_val" where
  "elx_of SBool x = LBool (bool_of x)"
| "elx_of (SInt n) x =
     (if n = 8 then LU8 (word_of_int (int_of x))
      else if n = 16 then LU16 (word_of_int (int_of x))
      else if n = 32 then LU32 (word_of_int (int_of x))
      else if n = 64 then LU64 (word_of_int (int_of x))
      else LBinary (le_bytes 32 (int_of x)))"
| "elx_of (SByteList n) x = LBinary (bin_of x)"
| "elx_of (SByteVector n) x = LBinary (bin_of x)"
| "elx_of (SList s n) x = LVec (map (elx_of s) (list_of x))"
| "elx_of (SVector s n) x = LVec (map (elx_of s) (list_of x))"
| "elx_of (SBitlist n) x = LBinary (BitList_to_bytes (bits_of x))"
| "elx_of (SBitvector n) x = LBinary (BitVector_to_bytes (bits_of x))"
| "elx_of (SModule nm fs) x = LStruct nm (map (\<lambda>(k, s). (k, elx_of s (field_of x k))) fs)"

lemma elx_of_typed: "agrees s t e \<Longrightarrow> conforms s x \<Longrightarrow> elx_typed e (elx_of s x)"
proof (induction s arbitrary: t e x)
  case (SModule nm fs)
  then obtain nm' ts es where e: "t = TStruct nm' ts" "e = EStruct nm es"
    and agree: "agree_fields (map (\<lambda>(k, s). (k, agrees s)) fs) ts es"
    by (auto split: ssz_ty.splits elx_ty.splits)
  have "elx_typed (snd (es ! i)) (elx_of (snd (fs ! i)) (field_of x (fst (fs ! i))))" if "i < length fs" for i
    using SModule.IH [OF nth_mem [OF that] nth_snd_snds [OF that]] agree that
      conforms_nth [OF SModule.prems(2) that] by (auto simp: agree_fields_nth)
  with agree show ?case
    by (auto simp: e elx_typed_fields_iff list_all2_conv_all_nth agree_fields_nth case_prod_beta)
next
  case (SList s n)
  then show ?case
    by (auto simp: conforms_iff list_all_iff simp del: conforms.simps split: ssz_ty.splits elx_ty.splits)
next
  case (SVector s n)
  then show ?case
    by (auto simp: conforms_iff list_all_iff simp del: conforms.simps split: ssz_ty.splits elx_ty.splits)
qed (auto simp: conforms_iff simp del: conforms.simps)

section \<open>The value of the Rust type\<close>

fun rust_of :: "ssz_ty \<Rightarrow> ex_val \<Rightarrow> ssz_val" where
  "rust_of TBool x = VBool (bool_of x)"
| "rust_of TU8 x = VU8 (word_of_int (int_of x))"
| "rust_of TU16 x = VU16 (word_of_int (int_of x))"
| "rust_of TU32 x = VU32 (word_of_int (int_of x))"
| "rust_of TU64 x = VU64 (word_of_int (int_of x))"
| "rust_of (TArray n) x = VArray (bin_of x)"
| "rust_of (TFixedVector t n) x =
     VFixedVector (case x of XBin b \<Rightarrow> map VU8 b | _ \<Rightarrow> map (rust_of t) (list_of x))"
| "rust_of (TVariableList t n) x =
     VVariableList (case x of XBin b \<Rightarrow> map VU8 b | _ \<Rightarrow> map (rust_of t) (list_of x))"
| "rust_of (TVec t) x = VVec (map (rust_of t) (list_of x))"
| "rust_of (TBitList n) x = VBitList (rev (bits_of x))"
| "rust_of (TBitVector n) x = VBitVector (rev (bits_of x))"
| "rust_of TUint256 x = VUint256 (le_bytes 32 (int_of x))"
| "rust_of (TStruct nm fs) x = VStruct nm (map (\<lambda>(k, t). (k, rust_of t (field_of x k))) fs)"

lemma agrees_wf: "agrees s t e \<Longrightarrow> schema_wf s \<Longrightarrow> ssz_wf t"
proof (induction s arbitrary: t e)
  case (SModule nm fs)
  then obtain nm' ts es where e: "t = TStruct nm' ts"
    and agree: "agree_fields (map (\<lambda>(k, s). (k, agrees s)) fs) ts es"
    by (auto split: ssz_ty.splits elx_ty.splits)
  have "ssz_wf (snd (ts ! i))" if "i < length fs" for i
    using SModule.IH [OF nth_mem [OF that] nth_snd_snds [OF that]] agree that SModule.prems(2)
    by (fastforce simp: agree_fields_nth list_all_length case_prod_beta)
  with agree agree_fields_names [OF agree] SModule.prems(2) show ?case
    by (auto simp: e list_all_length agree_fields_nth)
next
  case (SList s n)
  then show ?case by (auto split: ssz_ty.splits elx_ty.splits)
next
  case (SVector s n)
  then show ?case by (auto split: ssz_ty.splits elx_ty.splits)
qed auto

lemma agrees_variable_size: "agrees s t e \<Longrightarrow> variable_size (schema_of t) = variable_size s"
proof (induction s arbitrary: t e)
  case (SModule nm fs)
  then obtain nm' ts es where e: "t = TStruct nm' ts"
    and agree: "agree_fields (map (\<lambda>(k, s). (k, agrees s)) fs) ts es"
    by (auto split: ssz_ty.splits elx_ty.splits)
  have "variable_size (schema_of (snd (ts ! i))) = variable_size (snd (fs ! i))" if "i < length fs" for i
    using SModule.IH [OF nth_mem [OF that] nth_snd_snds [OF that]] agree that
    by (auto simp: agree_fields_nth)
  with agree show ?case
    by (auto simp: e list_ex_length agree_fields_nth case_prod_beta)
next
  case (SList s n)
  then show ?case by (auto split: ssz_ty.splits elx_ty.splits)
next
  case (SVector s n)
  then show ?case by (auto split: ssz_ty.splits elx_ty.splits)
qed auto

text \<open>A list of bytes is written as the bytes.\<close>

lemma serialize_bytes: "serialize_parts (map (\<lambda>b. (False, [b])) bs) = bs"
  using serialize_fixed_parts [of False "\<lambda>b. [b]" bs] by simp

lemma uint_of_int_small:
  "0 \<le> i \<Longrightarrow> i < 2 ^ LENGTH('w) \<Longrightarrow> uint (word_of_int i :: 'w::len word) = i"
  by (simp add: uint_word_of_int_eq take_bit_int_eq_self)

lemmas int_words =
  uint_of_int_small [where 'w = 8, simplified] uint_of_int_small [where 'w = 16, simplified]
  uint_of_int_small [where 'w = 32, simplified] uint_of_int_small [where 'w = 64, simplified]

lemma uint_byte_less: "uint (b :: u8) < 256"
  using uint_lt2p [of b] by simp

lemma ex_of_rust_struct:
  "ex_of (rust_of (TStruct nm ts) x) = XStruct nm (map (\<lambda>(k, t). (k, ex_of (rust_of t (field_of x k)))) ts)"
  by (simp add: comp_def case_prod_beta)

text \<open>Values of the Rust type conform to its schema, and are written as the Elixir value is.\<close>

lemma rust_of_conforms: "agrees s t e \<Longrightarrow> conforms s x \<Longrightarrow> schema_wf s \<Longrightarrow> conforms (schema_of t) (ex_of (rust_of t x))"
proof (induction s arbitrary: t e x)
  case (SModule nm fs)
  then obtain nm' ts es where e: "t = TStruct nm' ts"
    and agree: "agree_fields (map (\<lambda>(k, s). (k, agrees s)) fs) ts es"
    by (auto split: ssz_ty.splits elx_ty.splits)
  define vs where "vs = map (\<lambda>(k, t). (k, ex_of (rust_of t (field_of x k)))) ts"
  have "conforms (schema_of (snd (ts ! i))) (ex_of (rust_of (snd (ts ! i)) (field_of x (fst (ts ! i)))))"
    if "i < length ts" for i
    using SModule.IH [of "fs ! i" "snd (fs ! i)"] nth_snd_snds [of i fs] agree that SModule.prems(3)
      conforms_nth [OF SModule.prems(2), of i] by (auto simp: agree_fields_nth list_all_length case_prod_beta)
  moreover have "map_of vs (fst (ts ! i)) = Some (ex_of (rust_of (snd (ts ! i)) (field_of x (fst (ts ! i)))))"
    if "i < length ts" for i
    using map_of_nth [of vs i] that agree_fields_names(1) [OF agree] SModule.prems(3)
    by (simp add: vs_def comp_def case_prod_beta)
  moreover have "map fst vs = map fst ts" by (simp add: vs_def comp_def case_prod_beta)
  ultimately show ?case
    unfolding e ex_of_rust_struct vs_def [symmetric]
    by (auto simp: conforms_iff comp_def case_prod_beta list_all_length simp del: conforms.simps)
next
  case (SList s n)
  then show ?case
    by (auto simp: conforms_iff list_all_iff simp del: conforms.simps split: ssz_ty.splits elx_ty.splits)
next
  case (SVector s n)
  then show ?case
    by (auto simp: conforms_iff list_all_iff simp del: conforms.simps split: ssz_ty.splits elx_ty.splits)
qed (auto simp: conforms_iff list_all_iff int_words uint_byte_less simp del: conforms.simps)

lemma rust_of_serialize:
  "agrees s t e \<Longrightarrow> conforms s x \<Longrightarrow> schema_wf s \<Longrightarrow> serialize (schema_of t) (ex_of (rust_of t x)) = serialize s x"
proof (induction s arbitrary: t e x)
  case (SModule nm fs)
  then obtain nm' ts es where e: "t = TStruct nm' ts"
    and agree: "agree_fields (map (\<lambda>(k, s). (k, agrees s)) fs) ts es"
    by (auto split: ssz_ty.splits elx_ty.splits)
  obtain vs where x: "x = XStruct nm vs" and vs: "map fst vs = map fst fs"
    using SModule.prems(2) by (auto simp: conforms_iff simp del: conforms.simps)
  let ?ws = "map (\<lambda>(k, t). (k, ex_of (rust_of t (field_of x k)))) ts"
  have dist: "distinct (map fst fs)" using SModule.prems(3) by simp
  have "field_parts (map (\<lambda>(k, t). (k, schema_of t)) ts) ?ws = field_parts fs vs"
  proof (rule nth_equalityI)
    show "length (field_parts (map (\<lambda>(k, t). (k, schema_of t)) ts) ?ws) = length (field_parts fs vs)"
      using agree by (simp add: field_parts_def agree_fields_nth)
    fix i
    assume "i < length (field_parts (map (\<lambda>(k, t). (k, schema_of t)) ts) ?ws)"
    then have i: "i < length ts" "i < length fs" using agree by (simp_all add: field_parts_def agree_fields_nth)
    have field: "field_of x (fst (fs ! i)) = the (map_of vs (fst (fs ! i)))"
      using conforms_field [of nm fs nm vs "fst (fs ! i)" "snd (fs ! i)"] SModule.prems(2) i(2) by (auto simp: x)
    have "map_of ?ws (fst (ts ! i)) = Some (snd (?ws ! i))"
      using map_of_nth [of ?ws i] i agree_fields_names(1) [OF agree] dist by (simp add: comp_def case_prod_beta)
    then show "field_parts (map (\<lambda>(k, t). (k, schema_of t)) ts) ?ws ! i = field_parts fs vs ! i"
      using i agree SModule.IH [of "fs ! i" "snd (fs ! i)"] nth_snd_snds [of i fs] SModule.prems(3) conforms_nth [OF SModule.prems(2), of i]
      by (auto simp: field_parts_def agree_fields_nth case_prod_beta list_all_length agrees_variable_size field)
  qed
  then show ?case
    unfolding e ex_of_rust_struct schema_of.simps serialize_module using x
    by (simp add: serialize_module del: serialize_simps)
next
  case (SList s n)
  then show ?case
    by (auto simp: conforms_iff list_all_iff agrees_variable_size comp_def simp del: conforms.simps
        split: ssz_ty.splits elx_ty.splits intro!: arg_cong [of _ _ serialize_parts])
next
  case (SVector s n)
  then show ?case
    by (auto simp: conforms_iff list_all_iff agrees_variable_size comp_def simp del: conforms.simps
        split: ssz_ty.splits elx_ty.splits intro!: arg_cong [of _ _ serialize_parts])
qed (auto simp: conforms_iff serialize_bytes int_words comp_def simp del: conforms.simps)

lemma agrees_convertible: "agrees s t e \<Longrightarrow> schema_wf s \<Longrightarrow> convertible t e"
proof (induction s arbitrary: t e)
  case (SModule nm fs)
  then obtain nm' ts es where e: "t = TStruct nm' ts" "e = EStruct nm es"
    and agree: "agree_fields (map (\<lambda>(k, s). (k, agrees s)) fs) ts es"
    by (auto split: ssz_ty.splits elx_ty.splits)
  have dist: "distinct (map fst ts)" using agree_fields_names(1) [OF agree] SModule.prems(2) by simp
  have "convertible (snd (ts ! i)) (snd (es ! i))" if "i < length es" for i
    using SModule.IH [of "fs ! i" "snd (fs ! i)"] nth_snd_snds [of i fs] agree that SModule.prems(2)
    by (auto simp: agree_fields_nth list_all_length case_prod_beta)
  moreover have "map_of ts (fst (es ! i)) = Some (snd (ts ! i))" if "i < length es" for i
    using map_of_nth [OF dist, of i] agree that by (simp add: agree_fields_nth)
  ultimately have "list_all (\<lambda>(n, e). case map_of ts n of Some t' \<Rightarrow> convertible t' e | None \<Rightarrow> False) es"
    by (simp add: list_all_length case_prod_beta)
  moreover have "set (map fst ts) = set (map fst es)" "distinct (map fst es)"
    using agree_fields_names [OF agree] dist by metis+
  ultimately show ?case using dist by (simp add: e)
next
  case (SList s n)
  then show ?case by (auto split: ssz_ty.splits elx_ty.splits)
next
  case (SVector s n)
  then show ?case by (auto split: ssz_ty.splits elx_ty.splits)
qed auto

lemma elx_of_exact: "agrees s t e \<Longrightarrow> schema_wf s \<Longrightarrow> conforms s x \<Longrightarrow> uint256_exact t (elx_of s x)"
proof (induction s arbitrary: t e x)
  case (SModule nm fs)
  then obtain nm' ts es where e: "t = TStruct nm' ts"
    and agree: "agree_fields (map (\<lambda>(k, s). (k, agrees s)) fs) ts es"
    by (auto split: ssz_ty.splits elx_ty.splits)
  have dist: "distinct (map fst ts)" using agree_fields_names(1) [OF agree] SModule.prems(2) by simp
  have "uint256_exact (snd (ts ! i)) (elx_of (snd (fs ! i)) (field_of x (fst (fs ! i))))" if "i < length fs" for i
    using SModule.IH [of "fs ! i" "snd (fs ! i)"] nth_snd_snds [of i fs] agree that SModule.prems(2)
      conforms_nth [OF SModule.prems(3) that] by (auto simp: agree_fields_nth list_all_length case_prod_beta)
  moreover have "map_of ts (fst (fs ! i)) = Some (snd (ts ! i))" if "i < length fs" for i
    using map_of_nth [OF dist, of i] agree that by (simp add: agree_fields_nth)
  ultimately show ?case by (simp add: e list_all_length case_prod_beta)
next
  case (SList s n)
  then show ?case
    by (auto simp: conforms_iff list_all_iff simp del: conforms.simps split: ssz_ty.splits elx_ty.splits)
next
  case (SVector s n)
  then show ?case
    by (auto simp: conforms_iff list_all_iff simp del: conforms.simps split: ssz_ty.splits elx_ty.splits)
qed auto

section \<open>The conversions of the NIF\<close>

text \<open>The crates write what the SSZ specification says.\<close>

locale ssz_reference = ssz_codec +
  assumes as_ssz_bytes_reference:
    "ssz_wf t \<Longrightarrow> conforms (schema_of t) (ex_of v) \<Longrightarrow> as_ssz_bytes K t v = serialize (schema_of t) (ex_of v)"
begin

lemma bitlist_from_bytes:
  "length bs \<le> n \<Longrightarrow> 0 < n \<Longrightarrow> from_ssz_bytes K (TBitList n) (BitList_to_bytes bs) = Ok (VBitList (rev bs))"
  using bitlist_decode_encode [of n "VBitList (rev bs)"] as_ssz_bytes_reference [of "TBitList n" "VBitList (rev bs)"]
  by simp

lemma bitvector_from_bytes:
  "length bs = n \<Longrightarrow> 0 < n \<Longrightarrow> from_ssz_bytes K (TBitVector n) (BitVector_to_bytes bs) = Ok (VBitVector (rev bs))"
  using bitvector_decode_encode [of n "VBitVector (rev bs)"] as_ssz_bytes_reference [of "TBitVector n" "VBitVector (rev bs)"]
  by simp

lemma from_elx_items:
  assumes "\<And>x. x \<in> set xs \<Longrightarrow> from_elx K t (f x) = Ok (g x)"
  shows "collect (map (from_elx K t) (map f xs)) = Ok (map g xs)"
  using assms by (simp add: collect_map_eq_Ok list_all2_conv_all_nth del: map_map)

lemma from_elx_of:
  "agrees s t e \<Longrightarrow> schema_wf s \<Longrightarrow> conforms s x \<Longrightarrow> from_elx K t (elx_of s x) = Ok (rust_of t x)"
proof (induction s arbitrary: t e x)
  case (SModule nm fs)
  then obtain nm' ts es where e: "t = TStruct nm' ts"
    and agree: "agree_fields (map (\<lambda>(k, s). (k, agrees s)) fs) ts es"
    by (auto split: ssz_ty.splits elx_ty.splits)
  have dist: "distinct (map fst ts)" using agree_fields_names(1) [OF agree] SModule.prems(2) by simp
  define ws where "ws = map (\<lambda>(k, s). (k, elx_of s (field_of x k))) fs"
  define vs where "vs = map (\<lambda>(k, t). (k, rust_of t (field_of x k))) ts"
  have "from_elx K (snd (ts ! i)) (elx_of (snd (fs ! i)) (field_of x (fst (fs ! i)))) =
      Ok (rust_of (snd (ts ! i)) (field_of x (fst (fs ! i))))" if "i < length fs" for i
    using SModule.IH [of "fs ! i" "snd (fs ! i)"] nth_snd_snds [of i fs] agree that SModule.prems(2)
      conforms_nth [OF SModule.prems(3) that] by (auto simp: agree_fields_nth list_all_length case_prod_beta)
  moreover have "map_of ts (fst (fs ! i)) = Some (snd (ts ! i))" if "i < length fs" for i
    using map_of_nth [OF dist, of i] agree that by (simp add: agree_fields_nth)
  ultimately have fields: "list_all2 (\<lambda>(n, w) (n', v). n' = n \<and>
      (\<exists>t. map_of ts n = Some t \<and> from_elx K t w = Ok v)) ws vs"
    using agree by (auto simp: ws_def vs_def list_all2_conv_all_nth agree_fields_nth case_prod_beta)
  have "map_of vs (fst (ts ! i)) = Some (snd (vs ! i))" if "i < length ts" for i
    using map_of_nth [of vs i] dist that by (simp add: vs_def comp_def case_prod_beta)
  then have "list_all2 (\<lambda>(n, t) (n', v). n' = n \<and> map_of vs n = Some v) ts vs"
    by (simp add: list_all2_conv_all_nth vs_def case_prod_beta)
  with fields show ?case
    unfolding e elx_of.simps rust_of.simps ws_def [symmetric] vs_def [symmetric] from_elx_struct_eq_Ok by blast
next
  case (SList s n)
  then obtain t' e' vs where t: "t = TVariableList t' n" "e = EVec e'" "agrees s t' e'" "x = XList vs"
    "length vs \<le> n" "list_all (conforms s) vs" "schema_wf s"
    by (auto simp: conforms_iff simp del: conforms.simps split: ssz_ty.splits elx_ty.splits)
  then have "collect (map (from_elx K t') (map (elx_of s) vs)) = Ok (map (rust_of t') vs)"
    by (intro from_elx_items SList.IH) (auto simp: list_all_iff)
  with t show ?case by (simp add: variable_list_from_elx_def variable_list_ok del: map_map)
next
  case (SVector s n)
  then obtain t' e' vs where t: "t = TFixedVector t' n" "e = EVec e'" "agrees s t' e'" "x = XList vs"
    "length vs = n" "list_all (conforms s) vs" "schema_wf s"
    by (auto simp: conforms_iff simp del: conforms.simps split: ssz_ty.splits elx_ty.splits)
  then have "collect (map (from_elx K t') (map (elx_of s) vs)) = Ok (map (rust_of t') vs)"
    by (intro from_elx_items SVector.IH) (auto simp: list_all_iff)
  with t show ?case by (simp add: fixed_vector_from_elx_def fixed_vector_ok del: map_map)
qed (auto simp: conforms_iff array_from_elx_def array_try_from_def fixed_vector_u8_from_elx_def
      variable_list_u8_from_elx_def bitlist_from_elx_def bitvector_from_elx_def bitlist_from_bytes
      bitvector_from_bytes uint256_from_elx_exact fixed_vector_ok variable_list_ok simp del: conforms.simps)

lemma as_ssz_bytes_of:
  "agrees s t e \<Longrightarrow> schema_wf s \<Longrightarrow> conforms s x \<Longrightarrow> as_ssz_bytes K t (rust_of t x) = serialize s x"
  by (simp add: as_ssz_bytes_reference agrees_wf rust_of_conforms rust_of_serialize)

end

interpretation sszex: ssz_reference ssz_ex_crate
proof
  fix t v
  assume "ssz_wf t" and conf: "conforms (schema_of t) (ex_of v)"
  then show "as_ssz_bytes ssz_ex_crate t v = serialize (schema_of t) (ex_of v)"
    by (cases t) (auto simp: ssz_ex_encode_value_def conforms_iff simp del: conforms.simps)
qed

end
