(* ===== verification/Ssz_Module.thy ===== *)
theory Ssz_Module
  imports Ssz_Representation
begin

text \<open>
  \<open>lib/ssz.ex\<close>: the Elixir module around the SSZ NIF. Before a value is handed to the NIF, \<open>encode\<close>
  replaces what the NIF cannot read (bit fields and 256-bit integers), by the rules that some of the
  container modules define; \<open>decode\<close> puts it back. A value of type \<open>XList\<close> stands for a list or for
  an \<open>Aja.Vector\<close> with the same elements, so that the conversions between the two change nothing. An
  exception is \<open>Panic\<close>.
\<close>

section \<open>Values of fields\<close>

type_synonym 'a nif = "(nif_error, 'a) rust"

fun raises :: "'a elixir \<Rightarrow> 'a nif" where
  "raises (Ok x) = Ok x"
| "raises (Err e) = Panic ''FunctionClauseError''"
| "raises (Panic m) = Panic m"

definition encode_u256 :: "ex_val \<Rightarrow> ex_val nif" where
  "encode_u256 num =
     (case num of
        XInt i \<Rightarrow> if i \<le> 2 ^ 256 - 1 then Ok (XBin (le_bytes 32 i)) else Panic ''FunctionClauseError''
      | _ \<Rightarrow> Panic ''FunctionClauseError'')"

definition decode_u256 :: "ex_val \<Rightarrow> ex_val nif" where
  "decode_u256 x =
     (case x of
        XBin b \<Rightarrow> if length b = 32 then Ok (XInt (int (le_nat b))) else Panic ''FunctionClauseError''
      | _ \<Rightarrow> Panic ''FunctionClauseError'')"

definition bitlist_bytes :: "ex_val \<Rightarrow> ex_val nif" where
  "bitlist_bytes x =
     (case x of XBits bs \<Rightarrow> Ok (XBin (BitList_to_bytes bs)) | _ \<Rightarrow> Panic ''FunctionClauseError'')"

definition bitvector_bytes :: "ex_val \<Rightarrow> ex_val nif" where
  "bitvector_bytes x =
     (case x of XBits bs \<Rightarrow> Ok (XBin (BitVector_to_bytes bs)) | _ \<Rightarrow> Panic ''FunctionClauseError'')"

definition new_bitlist :: "ex_val \<Rightarrow> ex_val nif" where
  "new_bitlist x =
     (case x of XBin b \<Rightarrow> map_ok XBits (raises (BitList_new b)) | _ \<Rightarrow> Panic ''FunctionClauseError'')"

definition new_bitvector :: "nat \<Rightarrow> ex_val \<Rightarrow> ex_val nif" where
  "new_bitvector n x =
     (case x of XBin b \<Rightarrow> Ok (XBits (BitVector_new b n)) | _ \<Rightarrow> Panic ''FunctionClauseError'')"

definition vector_list :: "ex_val \<Rightarrow> ex_val nif" where
  "vector_list x = (case x of XList vs \<Rightarrow> Ok (XList vs) | _ \<Rightarrow> Panic ''FunctionClauseError'')"

text \<open>\<open>Map.update!\<close>, and a pipeline of updates.\<close>

definition map_update :: "string \<Rightarrow> (ex_val \<Rightarrow> ex_val nif) \<Rightarrow> ex_val \<Rightarrow> ex_val nif" where
  "map_update key f x =
     (case x of
        XStruct nm vs \<Rightarrow>
          (case map_of vs key of
             Some v \<Rightarrow> map_ok (\<lambda>w. XStruct nm (map (\<lambda>(k, u). (k, if k = key then w else u)) vs)) (f v)
           | None \<Rightarrow> Panic ''KeyError'')
      | _ \<Rightarrow> Panic ''BadMapError'')"

fun update_fields :: "(string \<times> (ex_val \<Rightarrow> ex_val nif)) list \<Rightarrow> ex_val \<Rightarrow> ex_val nif" where
  "update_fields [] x = Ok x"
| "update_fields ((key, f) # us) x = and_then (map_update key f x) (update_fields us)"

text \<open>A function with the pattern \<open>%__MODULE__{} = map\<close>.\<close>

definition struct_clause :: "string \<Rightarrow> (ex_val \<Rightarrow> ex_val nif) \<Rightarrow> ex_val \<Rightarrow> ex_val nif" where
  "struct_clause module f x =
     (case x of
        XStruct nm vs \<Rightarrow> if nm = module then f x else Panic ''FunctionClauseError''
      | _ \<Rightarrow> Panic ''FunctionClauseError'')"

section \<open>The rules of the containers\<close>

definition Attestation_encode :: "ex_val \<Rightarrow> ex_val nif" where
  "Attestation_encode = struct_clause ''Types.Attestation'' (update_fields [
     (''aggregation_bits'', bitlist_bytes),
     (''committee_bits'', bitvector_bytes)])"

definition Attestation_decode :: "chain_spec \<Rightarrow> ex_val \<Rightarrow> ex_val nif" where
  "Attestation_decode spec = struct_clause ''Types.Attestation'' (update_fields [
     (''aggregation_bits'', new_bitlist),
     (''committee_bits'', new_bitvector (spec ''MAX_COMMITTEES_PER_SLOT''))])"

definition PendingAttestation_encode :: "ex_val \<Rightarrow> ex_val nif" where
  "PendingAttestation_encode = struct_clause ''Types.PendingAttestation'' (update_fields [
     (''aggregation_bits'', bitlist_bytes)])"

definition PendingAttestation_decode :: "ex_val \<Rightarrow> ex_val nif" where
  "PendingAttestation_decode = struct_clause ''Types.PendingAttestation'' (update_fields [
     (''aggregation_bits'', new_bitlist)])"

definition SyncAggregate_encode :: "ex_val \<Rightarrow> ex_val nif" where
  "SyncAggregate_encode = struct_clause ''Types.SyncAggregate'' (update_fields [
     (''sync_committee_bits'', bitvector_bytes)])"

definition SyncAggregate_decode :: "chain_spec \<Rightarrow> ex_val \<Rightarrow> ex_val nif" where
  "SyncAggregate_decode spec = struct_clause ''Types.SyncAggregate'' (update_fields [
     (''sync_committee_bits'', new_bitvector (spec ''SYNC_COMMITTEE_SIZE''))])"

definition ExecutionPayload_encode :: "ex_val \<Rightarrow> ex_val nif" where
  "ExecutionPayload_encode = struct_clause ''Types.ExecutionPayload'' (update_fields [
     (''base_fee_per_gas'', encode_u256)])"

definition ExecutionPayload_decode :: "ex_val \<Rightarrow> ex_val nif" where
  "ExecutionPayload_decode = struct_clause ''Types.ExecutionPayload'' (update_fields [
     (''base_fee_per_gas'', decode_u256)])"

definition ExecutionPayloadHeader_encode :: "ex_val \<Rightarrow> ex_val nif" where
  "ExecutionPayloadHeader_encode = struct_clause ''Types.ExecutionPayloadHeader'' (update_fields [
     (''base_fee_per_gas'', encode_u256)])"

definition ExecutionPayloadHeader_decode :: "ex_val \<Rightarrow> ex_val nif" where
  "ExecutionPayloadHeader_decode = struct_clause ''Types.ExecutionPayloadHeader'' (update_fields [
     (''base_fee_per_gas'', decode_u256)])"

definition BeaconState_encode :: "ex_val \<Rightarrow> ex_val nif" where
  "BeaconState_encode = struct_clause ''Types.BeaconState'' (update_fields [
     (''validators'', vector_list),
     (''balances'', vector_list),
     (''randao_mixes'', vector_list),
     (''previous_epoch_participation'', vector_list),
     (''current_epoch_participation'', vector_list),
     (''latest_execution_payload_header'', ExecutionPayloadHeader_encode),
     (''justification_bits'', bitvector_bytes)])"

definition BeaconState_decode :: "ex_val \<Rightarrow> ex_val nif" where
  "BeaconState_decode = struct_clause ''Types.BeaconState'' (update_fields [
     (''validators'', vector_list),
     (''balances'', vector_list),
     (''randao_mixes'', vector_list),
     (''previous_epoch_participation'', vector_list),
     (''current_epoch_participation'', vector_list),
     (''latest_execution_payload_header'', ExecutionPayloadHeader_decode),
     (''justification_bits'', new_bitvector justification_bits_length)])"

definition SyncCommitteeContribution_encode :: "ex_val \<Rightarrow> ex_val nif" where
  "SyncCommitteeContribution_encode = struct_clause ''Types.SyncCommitteeContribution'' (update_fields [
     (''aggregation_bits'', bitvector_bytes)])"

definition SyncCommitteeContribution_decode :: "chain_spec \<Rightarrow> ex_val \<Rightarrow> ex_val nif" where
  "SyncCommitteeContribution_decode spec = struct_clause ''Types.SyncCommitteeContribution'' (update_fields [
     (''aggregation_bits'', new_bitvector (sync_subcommittee_size spec))])"

definition Metadata_encode :: "ex_val \<Rightarrow> ex_val nif" where
  "Metadata_encode = struct_clause ''Types.Metadata'' (update_fields [
     (''attnets'', bitvector_bytes),
     (''syncnets'', bitvector_bytes)])"

definition Metadata_decode :: "chain_spec \<Rightarrow> ex_val \<Rightarrow> ex_val nif" where
  "Metadata_decode spec = struct_clause ''Types.Metadata'' (update_fields [
     (''attnets'', new_bitvector (spec ''ATTESTATION_SUBNET_COUNT'')),
     (''syncnets'', new_bitvector sync_committee_subnet_count)])"

text \<open>The modules that export \<open>encode/1\<close> and \<open>decode/1\<close>.\<close>

definition exported_encode :: "string \<Rightarrow> (ex_val \<Rightarrow> ex_val nif) option" where
  "exported_encode = map_of [
     (''Types.Attestation'', Attestation_encode),
     (''Types.PendingAttestation'', PendingAttestation_encode),
     (''Types.SyncAggregate'', SyncAggregate_encode),
     (''Types.ExecutionPayload'', ExecutionPayload_encode),
     (''Types.ExecutionPayloadHeader'', ExecutionPayloadHeader_encode),
     (''Types.BeaconState'', BeaconState_encode),
     (''Types.SyncCommitteeContribution'', SyncCommitteeContribution_encode),
     (''Types.Metadata'', Metadata_encode)]"

definition exported_decode :: "chain_spec \<Rightarrow> string \<Rightarrow> (ex_val \<Rightarrow> ex_val nif) option" where
  "exported_decode spec = map_of [
     (''Types.Attestation'', Attestation_decode spec),
     (''Types.PendingAttestation'', PendingAttestation_decode),
     (''Types.SyncAggregate'', SyncAggregate_decode spec),
     (''Types.ExecutionPayload'', ExecutionPayload_decode),
     (''Types.ExecutionPayloadHeader'', ExecutionPayloadHeader_decode),
     (''Types.BeaconState'', BeaconState_decode),
     (''Types.SyncCommitteeContribution'', SyncCommitteeContribution_decode spec),
     (''Types.Metadata'', Metadata_decode spec)]"

section \<open>Encoding and decoding of values\<close>

lemma size_struct_field [termination_simp]:
  "(k, v) \<in> set vs \<Longrightarrow> size (v :: ex_val) < Suc (size_list (size_prod (\<lambda>x. 0) size) vs)"
  by (induction vs) auto

fun Ssz_encode :: "ex_val \<Rightarrow> ex_val nif" where
  "Ssz_encode (XStruct name vs) =
     (case exported_encode name of
        Some f \<Rightarrow> f (XStruct name vs)
      | None \<Rightarrow> map_ok (XStruct name) (collect (map (\<lambda>(k, v). map_ok (Pair k) (Ssz_encode v)) vs)))"
| "Ssz_encode (XList vs) = map_ok XList (collect (map Ssz_encode vs))"
| "Ssz_encode non_struct = Ok non_struct"

fun Ssz_decode :: "chain_spec \<Rightarrow> ex_val \<Rightarrow> ex_val nif" where
  "Ssz_decode spec (XStruct name vs) =
     (case exported_decode spec name of
        Some f \<Rightarrow> f (XStruct name vs)
      | None \<Rightarrow> map_ok (XStruct name) (collect (map (\<lambda>(k, v). map_ok (Pair k) (Ssz_decode spec v)) vs)))"
| "Ssz_decode spec (XList vs) = map_ok XList (collect (map (Ssz_decode spec) vs))"
| "Ssz_decode spec non_struct = Ok non_struct"

section \<open>The functions of the module\<close>

text \<open>A module is an atom whose name begins with \<open>Elixir\<close>; the last argument of the NIFs is the preset.\<close>

definition module_atom :: "string \<Rightarrow> ex_val" where
  "module_atom module = XAtom (''Elixir.'' @ module)"

definition preset_atom :: "network \<Rightarrow> ex_val" where
  "preset_atom network = XAtom (get_preset network)"

definition to_ssz_typed ::
  "ex_val rustler \<Rightarrow> ssz_crate \<Rightarrow> network \<Rightarrow> ex_val \<Rightarrow> string \<Rightarrow> (atoms \<times> bytes) nif" where
  "to_ssz_typed R K network x schema =
     and_then (Ssz_encode x) (\<lambda>x. to_ssz_rs R K x (module_atom schema) (preset_atom network))"

fun to_ssz :: "ex_val rustler \<Rightarrow> ssz_crate \<Rightarrow> network \<Rightarrow> ex_val \<Rightarrow> (atoms \<times> bytes) nif" where
  "to_ssz R K network (XStruct name vs) = to_ssz_typed R K network (XStruct name vs) name"
| "to_ssz R K network (XList []) =
     to_ssz_rs R K (XList []) (module_atom ''Types.ForkData'') (preset_atom network)"
| "to_ssz R K network (XList (XStruct name vs # tail)) =
     to_ssz_typed R K network (XList (XStruct name vs # tail)) name"
| "to_ssz R K network _ = Panic ''FunctionClauseError''"

definition from_ssz_ex ::
  "ex_val rustler \<Rightarrow> ssz_crate \<Rightarrow> network \<Rightarrow> bytes \<Rightarrow> string \<Rightarrow> (atoms \<times> ex_val) nif" where
  "from_ssz_ex R K network bin schema =
     and_then (from_ssz_rs R K bin (module_atom schema) (preset_atom network)) (\<lambda>(_, x).
     map_ok (Pair ok) (Ssz_decode (spec_of network) x))"

fun match_ok :: "(atoms \<times> 'a) nif \<Rightarrow> 'a nif" where
  "match_ok (Ok (ok, x)) = Ok x"
| "match_ok (Err e) = Panic ''MatchError''"
| "match_ok (Panic m) = Panic m"

definition from_ssz_bang ::
  "ex_val rustler \<Rightarrow> ssz_crate \<Rightarrow> network \<Rightarrow> bytes \<Rightarrow> string \<Rightarrow> ex_val nif" where
  "from_ssz_bang R K network bin schema = match_ok (from_ssz_ex R K network bin schema)"

definition list_from_ssz ::
  "ex_val rustler \<Rightarrow> ssz_crate \<Rightarrow> network \<Rightarrow> bytes \<Rightarrow> string \<Rightarrow> (atoms \<times> ex_val) nif" where
  "list_from_ssz R K network bin schema =
     and_then (list_from_ssz_rs R K bin (module_atom schema) (preset_atom network)) (\<lambda>(_, xs).
     map_ok (Pair ok) (Ssz_decode (spec_of network) xs))"

definition Ssz_hash_tree_root ::
  "ex_val rustler \<Rightarrow> ssz_crate \<Rightarrow> 'h tree_hash_crate \<Rightarrow> network \<Rightarrow> ex_val \<Rightarrow> string \<Rightarrow> (atoms \<times> bytes) nif" where
  "Ssz_hash_tree_root R K H network x schema =
     and_then (Ssz_encode x) (\<lambda>x. hash_tree_root_rs R K H x (module_atom schema) (preset_atom network))"

fun Ssz_hash_tree_root_struct ::
  "ex_val rustler \<Rightarrow> ssz_crate \<Rightarrow> 'h tree_hash_crate \<Rightarrow> network \<Rightarrow> ex_val \<Rightarrow> (atoms \<times> bytes) nif" where
  "Ssz_hash_tree_root_struct R K H network (XStruct name vs) =
     Ssz_hash_tree_root R K H network (XStruct name vs) name"
| "Ssz_hash_tree_root_struct R K H network _ = Panic ''FunctionClauseError''"

definition Ssz_hash_tree_root_bang ::
  "ex_val rustler \<Rightarrow> ssz_crate \<Rightarrow> 'h tree_hash_crate \<Rightarrow> network \<Rightarrow> ex_val \<Rightarrow> bytes nif" where
  "Ssz_hash_tree_root_bang R K H network x = match_ok (Ssz_hash_tree_root_struct R K H network x)"

fun Ssz_list_items :: "ex_val \<Rightarrow> ex_val list nif" where
  "Ssz_list_items (XList xs) = Ok xs"
| "Ssz_list_items _ = Err BadArg"

definition hash_list_tree_root_typed ::
  "ex_val rustler \<Rightarrow> ssz_crate \<Rightarrow> 'h tree_hash_crate \<Rightarrow> network \<Rightarrow> ex_val \<Rightarrow> usize \<Rightarrow> string \<Rightarrow>
     (atoms \<times> bytes) nif" where
  "hash_list_tree_root_typed R K H network xs max_size schema =
     and_then (Ssz_encode xs) (\<lambda>xs.
     and_then (Ssz_list_items xs) (\<lambda>xs.
     hash_tree_root_list_rs R K H xs max_size (module_atom schema) (preset_atom network)))"

fun Ssz_hash_list_tree_root ::
  "ex_val rustler \<Rightarrow> ssz_crate \<Rightarrow> 'h tree_hash_crate \<Rightarrow> network \<Rightarrow> ex_val \<Rightarrow> usize \<Rightarrow> (atoms \<times> bytes) nif" where
  "Ssz_hash_list_tree_root R K H network (XList []) max_size =
     hash_tree_root_list_rs R K H [] max_size (module_atom ''Types.ForkData'') (preset_atom network)"
| "Ssz_hash_list_tree_root R K H network (XList (XStruct name vs # tail)) max_size =
     hash_list_tree_root_typed R K H network (XList (XStruct name vs # tail)) max_size name"
| "Ssz_hash_list_tree_root R K H network _ max_size = Panic ''FunctionClauseError''"

definition hash_vector_tree_root_typed ::
  "ex_val rustler \<Rightarrow> ssz_crate \<Rightarrow> 'h tree_hash_crate \<Rightarrow> network \<Rightarrow> ex_val \<Rightarrow> usize \<Rightarrow> string \<Rightarrow>
     (atoms \<times> bytes) nif" where
  "hash_vector_tree_root_typed R K H network xs max_size schema =
     and_then (Ssz_encode xs) (\<lambda>xs.
     and_then (Ssz_list_items xs) (\<lambda>xs.
     hash_tree_root_vector_rs R K H xs max_size (module_atom schema) (preset_atom network)))"

end
