(* ===== verification/Ssz_Exchange.thy ===== *)
theory Ssz_Exchange
  imports Ssz_Module
begin

text \<open>
  What the NIF sees of a value: \<open>encode\<close> turns every value of a container into the form that
  \<open>rustler\<close> decodes, and \<open>decode\<close> turns it back. \<open>writes\<close> and \<open>reads\<close> state this for a function on
  the values of a schema; they hold of the rules of the container modules and, container by
  container, of \<open>encode\<close> and \<open>decode\<close>.
\<close>

section \<open>The form of a value that the NIF exchanges\<close>

definition nif_form :: "schema \<Rightarrow> ex_val \<Rightarrow> ex_val" where
  "nif_form s x = encode_term (elx_of s x)"

definition writes :: "(ex_val \<Rightarrow> ex_val nif) \<Rightarrow> schema \<Rightarrow> bool" where
  "writes f s \<longleftrightarrow> (\<forall>x. conforms s x \<longrightarrow> f x = Ok (nif_form s x))"

definition reads :: "(ex_val \<Rightarrow> ex_val nif) \<Rightarrow> schema \<Rightarrow> bool" where
  "reads f s \<longleftrightarrow> (\<forall>x. conforms s x \<longrightarrow> f (nif_form s x) = Ok x)"

text \<open>The schemas whose values the NIF takes as they are.\<close>

fun native :: "schema \<Rightarrow> bool" where
  "native SBool = True"
| "native (SInt n) = (n \<in> {8, 16, 32, 64})"
| "native (SByteList n) = True"
| "native (SByteVector n) = True"
| "native (SList s n) = native s"
| "native (SVector s n) = native s"
| "native (SBitlist n) = False"
| "native (SBitvector n) = False"
| "native (SModule nm fs) = (distinct (map fst fs) \<and> list_all (\<lambda>(k, s). native s) fs)"

text \<open>A struct is made of its fields.\<close>

lemma conforms_struct:
  assumes "conforms (SModule nm fs) x" and "distinct (map fst fs)"
  shows "x = XStruct nm (map (\<lambda>(k, s). (k, field_of x k)) fs)"
proof -
  obtain vs where x: "x = XStruct nm vs" and vs: "map fst vs = map fst fs"
    using assms(1) by (auto simp: conforms_iff simp del: conforms.simps)
  have len: "length vs = length fs" using vs by (metis length_map)
  have "vs ! i = (fst (fs ! i), field_of x (fst (fs ! i)))" if "i < length vs" for i
  proof -
    have "fst (vs ! i) = fst (fs ! i)" using vs that len by (metis nth_map)
    moreover have "map_of vs (fst (vs ! i)) = Some (snd (vs ! i))"
      using assms(2) vs that by (intro map_of_nth) simp_all
    ultimately show ?thesis by (simp add: x prod_eq_iff)
  qed
  then show ?thesis using len by (auto simp: x case_prod_beta intro!: nth_equalityI)
qed

lemma conforms_field_of:
  assumes "conforms (SModule nm fs) x" and "(k, s) \<in> set fs"
  shows "conforms s (field_of x k)"
proof -
  obtain vs where x: "x = XStruct nm vs" using assms(1) by (auto simp: conforms_iff simp del: conforms.simps)
  from conforms_field [OF assms(1) [unfolded x] assms(2)] show ?thesis by (auto simp: x)
qed

lemma nif_form_simps [simp]:
  "nif_form (SBitlist n) (XBits bs) = XBin (BitList_to_bytes bs)"
  "nif_form (SBitvector n) (XBits bs) = XBin (BitVector_to_bytes bs)"
  "nif_form (SInt 256) (XInt i) = XBin (le_bytes 32 i)"
  "nif_form (SList s n) (XList xs) = XList (map (nif_form s) xs)"
  "nif_form (SVector s n) (XList xs) = XList (map (nif_form s) xs)"
  "nif_form (SModule nm fs) x = XStruct nm (map (\<lambda>(k, s). (k, nif_form s (field_of x k))) fs)"
  by (simp_all add: nif_form_def comp_def case_prod_beta)

lemma native_form: "native s \<Longrightarrow> conforms s x \<Longrightarrow> nif_form s x = x"
proof (induction s arbitrary: x)
  case (SModule nm fs)
  have "nif_form s (field_of x k) = field_of x k" if "(k, s) \<in> set fs" for k s
  proof (rule SModule.IH [OF that])
    show "s \<in> Basic_BNFs.snds (k, s)" by simp
    show "native s" using SModule.prems(1) that by (auto simp: list_all_iff)
    show "conforms s (field_of x k)" using SModule.prems(2) that by (rule conforms_field_of)
  qed
  then have "nif_form (SModule nm fs) x = XStruct nm (map (\<lambda>(k, s). (k, field_of x k)) fs)" by auto
  also have "\<dots> = x" using conforms_struct [OF SModule.prems(2)] SModule.prems(1) by simp
  finally show ?case .
next
  case (SList s n)
  then show ?case by (auto simp: conforms_iff list_all_iff map_idI simp del: conforms.simps)
next
  case (SVector s n)
  then show ?case by (auto simp: conforms_iff list_all_iff map_idI simp del: conforms.simps)
qed (auto simp: nif_form_def conforms_iff int_words simp del: conforms.simps)

section \<open>Updates of fields\<close>

lemma update_fields_Ok:
  assumes "distinct (map fst vs)" and "distinct (map fst us)"
    and "\<And>k f. (k, f) \<in> set us \<Longrightarrow> \<exists>v. map_of vs k = Some v \<and> f v = Ok (g k v)"
  shows "update_fields us (XStruct nm vs) =
    Ok (XStruct nm (map (\<lambda>(k, v). (k, if k \<in> fst ` set us then g k v else v)) vs))"
  using assms
proof (induction us arbitrary: vs)
  case (Cons u us)
  obtain k f where u: "u = (k, f)" by (cases u)
  from Cons.prems(3) [of k f] u obtain v where v: "map_of vs k = Some v" "f v = Ok (g k v)" by auto
  define vs' where "vs' = map (\<lambda>(k', v'). (k', if k' = k then g k v' else v')) vs"
  have same: "v' = v" if "(k, v') \<in> set vs" for v' using that v(1) Cons.prems(1) by simp
  have update: "map_update k f (XStruct nm vs) = Ok (XStruct nm vs')"
    using v same by (auto simp: map_update_def vs'_def)
  have names: "map fst vs' = map fst vs" by (simp add: vs'_def comp_def case_prod_beta)
  have "\<exists>w. map_of vs' k' = Some w \<and> f' w = Ok (g k' w)" if "(k', f') \<in> set us" for k' f'
  proof -
    have "k' \<noteq> k" using that Cons.prems(2) u by force
    moreover have "map_of (map (\<lambda>(k', v'). (k', if k' = k then g k v' else v')) vs) k' = map_of vs k'"
      if "k' \<noteq> k" for vs :: "(string \<times> ex_val) list"
      using that by (induction vs) auto
    ultimately show ?thesis using Cons.prems(3) [of k' f'] that by (simp add: vs'_def)
  qed
  then have "update_fields us (XStruct nm vs') =
      Ok (XStruct nm (map (\<lambda>(k, v). (k, if k \<in> fst ` set us then g k v else v)) vs'))"
    using Cons.prems(1,2) names u by (intro Cons.IH) simp_all
  moreover have "k \<notin> fst ` set us" using Cons.prems(2) u by force
  ultimately show ?case using u update by (auto simp: vs'_def)
qed simp

lemma update_fields_writes:
  assumes "distinct (map fst fs)" and "distinct (map fst us)"
    and "list_all (\<lambda>(k, f). case map_of fs k of Some s \<Rightarrow> writes f s | None \<Rightarrow> False) us"
    and "list_all (\<lambda>(k, s). k \<in> set (map fst us) \<or> native s) fs"
  shows "writes (struct_clause nm (update_fields us)) (SModule nm fs)"
  unfolding writes_def
proof (intro allI impI)
  fix x
  assume conf: "conforms (SModule nm fs) x"
  note x = conforms_struct [OF conf assms(1)]
  note field = conforms_field_of [OF conf]
  let ?vs = "map (\<lambda>(k, s). (k, field_of x k)) fs"
  have "\<exists>v. map_of ?vs k = Some v \<and> f v = Ok (nif_form (the (map_of fs k)) v)" if "(k, f) \<in> set us" for k f
  proof -
    from assms(3) that obtain s where s: "map_of fs k = Some s" "writes f s"
      by (fastforce simp: list_all_iff split: option.splits)
    moreover have "map_of ?vs k = Some (field_of x k)"
      using s(1) by (induction fs) (auto split: if_splits)
    ultimately show ?thesis using field [OF map_of_SomeD [OF s(1)]] by (simp add: writes_def)
  qed
  then have "update_fields us (XStruct nm ?vs) =
      Ok (XStruct nm (map (\<lambda>(k, v). (k, if k \<in> fst ` set us then nif_form (the (map_of fs k)) v else v)) ?vs))"
    using assms(1,2) by (intro update_fields_Ok) (simp_all add: comp_def case_prod_beta)
  moreover have "map (\<lambda>(k, v). (k, if k \<in> fst ` set us then nif_form (the (map_of fs k)) v else v)) ?vs =
      map (\<lambda>(k, s). (k, nif_form s (field_of x k))) fs"
    using assms(1,4) field by (fastforce simp: list_all_iff native_form)
  ultimately have "struct_clause nm (update_fields us) (XStruct nm ?vs) = Ok (nif_form (SModule nm fs) x)"
    by (simp only: struct_clause_def ex_val.case simp_thms if_True nif_form_simps)
  then show "struct_clause nm (update_fields us) x = Ok (nif_form (SModule nm fs) x)"
    by (simp only: x [symmetric])
qed

lemma update_fields_reads:
  assumes "distinct (map fst fs)" and "distinct (map fst us)"
    and "list_all (\<lambda>(k, f). case map_of fs k of Some s \<Rightarrow> reads f s | None \<Rightarrow> False) us"
    and "list_all (\<lambda>(k, s). k \<in> set (map fst us) \<or> native s) fs"
  shows "reads (struct_clause nm (update_fields us)) (SModule nm fs)"
  unfolding reads_def
proof (intro allI impI)
  fix x
  assume conf: "conforms (SModule nm fs) x"
  note x = conforms_struct [OF conf assms(1)] and field = conforms_field_of [OF conf]
  let ?vs = "map (\<lambda>(k, s). (k, nif_form s (field_of x k))) fs"
  have "\<exists>v. map_of ?vs k = Some v \<and> f v = Ok (field_of x k)" if "(k, f) \<in> set us" for k f
  proof -
    from assms(3) that obtain s where s: "map_of fs k = Some s" "reads f s"
      by (fastforce simp: list_all_iff split: option.splits)
    moreover have "map_of ?vs k = Some (nif_form s (field_of x k))"
      using s(1) by (induction fs) (auto split: if_splits)
    ultimately show ?thesis using field [OF map_of_SomeD [OF s(1)]] by (simp add: reads_def)
  qed
  then have "update_fields us (XStruct nm ?vs) =
      Ok (XStruct nm (map (\<lambda>(k, v). (k, if k \<in> fst ` set us then field_of x k else v)) ?vs))"
    using assms(1,2) by (intro update_fields_Ok) (simp_all add: comp_def case_prod_beta)
  moreover have "map (\<lambda>(k, v). (k, if k \<in> fst ` set us then field_of x k else v)) ?vs =
      map (\<lambda>(k, s). (k, field_of x k)) fs"
    using assms(1,4) field by (fastforce simp: list_all_iff native_form)
  ultimately have "struct_clause nm (update_fields us) (nif_form (SModule nm fs) x) =
      Ok (XStruct nm (map (\<lambda>(k, s). (k, field_of x k)) fs))"
    by (simp only: struct_clause_def ex_val.case simp_thms if_True nif_form_simps)
  then show "struct_clause nm (update_fields us) (nif_form (SModule nm fs) x) = Ok x"
    by (simp only: x [symmetric])
qed

section \<open>The functions on fields\<close>

named_theorems exchange \<open>what is written and read\<close>

lemma field_writes [exchange]:
  "writes bitlist_bytes (SBitlist n)" "writes bitvector_bytes (SBitvector n)" "writes encode_u256 (SInt 256)"
  "native s \<Longrightarrow> writes vector_list (SList s n)" "native s \<Longrightarrow> writes vector_list (SVector s n)"
  by (auto simp: writes_def bitlist_bytes_def bitvector_bytes_def encode_u256_def vector_list_def conforms_iff
      list_all_iff native_form map_idI simp del: conforms.simps)

lemma field_reads [exchange]:
  "reads new_bitlist (SBitlist n)" "reads (new_bitvector n) (SBitvector n)" "reads decode_u256 (SInt 256)"
  "native s \<Longrightarrow> reads vector_list (SList s n)" "native s \<Longrightarrow> reads vector_list (SVector s n)"
proof -
  have "BitVector_new (BitVector_to_bytes bs) n = bs" if "length bs = n" for bs :: bitstring and n
    using BitVector_new_to_bytes [of bs] that by simp
  then show "reads (new_bitvector n) (SBitvector n)"
    by (auto simp: reads_def new_bitvector_def conforms_iff simp del: conforms.simps)
  have "int (le_nat (le_bytes 32 i)) = i" if "0 \<le> i" "i < 2 ^ 256" for i
    using le_nat_le_bytes [of 32 i] that by simp
  then show "reads decode_u256 (SInt 256)"
    by (auto simp: reads_def decode_u256_def conforms_iff simp del: conforms.simps)
qed (auto simp: reads_def new_bitlist_def vector_list_def conforms_iff BitList_new_to_bytes
      list_all_iff native_form map_idI simp del: conforms.simps)

section \<open>\<open>encode\<close> and \<open>decode\<close>\<close>

lemma encode_scalar [exchange]:
  "writes Ssz_encode SBool" "writes Ssz_encode (SInt 8)" "writes Ssz_encode (SInt 64)"
  "writes Ssz_encode (SByteList n)" "writes Ssz_encode (SByteVector n)"
  by (auto simp: writes_def nif_form_def conforms_iff int_words simp del: conforms.simps)

lemma decode_scalar [exchange]:
  "reads (Ssz_decode spec) SBool" "reads (Ssz_decode spec) (SInt 8)" "reads (Ssz_decode spec) (SInt 64)"
  "reads (Ssz_decode spec) (SByteList n)" "reads (Ssz_decode spec) (SByteVector n)"
  by (auto simp: reads_def nif_form_def conforms_iff int_words simp del: conforms.simps)

lemma collect_map_each: "(\<And>x. x \<in> set xs \<Longrightarrow> f x = Ok (g x)) \<Longrightarrow> collect (map f xs) = Ok (map g xs)"
  by (simp add: collect_map_eq_Ok list_all2_conv_all_nth)

lemma encode_list [exchange]:
  "writes Ssz_encode s \<Longrightarrow> writes Ssz_encode (SList s n)"
  "writes Ssz_encode s \<Longrightarrow> writes Ssz_encode (SVector s n)"
  by (auto simp: writes_def conforms_iff list_all_iff collect_map_each simp del: conforms.simps)

lemma decode_list [exchange]:
  assumes "reads (Ssz_decode spec) s"
  shows "reads (Ssz_decode spec) (SList s n)" "reads (Ssz_decode spec) (SVector s n)"
proof -
  have "collect (map (Ssz_decode spec) (map (nif_form s) xs)) = Ok xs" if "\<forall>x \<in> set xs. conforms s x" for xs
    using assms that collect_map_each [of xs "Ssz_decode spec \<circ> nif_form s" "\<lambda>x. x"] by (simp add: reads_def)
  then show "reads (Ssz_decode spec) (SList s n)" "reads (Ssz_decode spec) (SVector s n)"
    by (auto simp: reads_def conforms_iff list_all_iff simp del: conforms.simps map_map)
qed

lemma encode_module [exchange]:
  assumes "exported_encode nm = None" and "distinct (map fst fs)" and "list_all (\<lambda>(k, s). writes Ssz_encode s) fs"
  shows "writes Ssz_encode (SModule nm fs)"
  unfolding writes_def
proof (intro allI impI)
  fix x
  assume conf: "conforms (SModule nm fs) x"
  have "collect (map (\<lambda>(k, v). map_ok (Pair k) (Ssz_encode v)) (map (\<lambda>(k, s). (k, field_of x k)) fs)) =
      Ok (map (\<lambda>(k, s). (k, nif_form s (field_of x k))) fs)"
    unfolding map_map
    by (rule collect_map_each) (use assms(3) conforms_field_of [OF conf] in \<open>auto simp: writes_def list_all_iff\<close>)
  then have "Ssz_encode (XStruct nm (map (\<lambda>(k, s). (k, field_of x k)) fs)) = Ok (nif_form (SModule nm fs) x)"
    using assms(1) by simp
  with conforms_struct [OF conf assms(2)] show "Ssz_encode x = Ok (nif_form (SModule nm fs) x)" by simp
qed

lemma decode_module [exchange]:
  assumes "exported_decode spec nm = None" and "distinct (map fst fs)"
    and "list_all (\<lambda>(k, s). reads (Ssz_decode spec) s) fs"
  shows "reads (Ssz_decode spec) (SModule nm fs)"
  unfolding reads_def
proof (intro allI impI)
  fix x
  assume conf: "conforms (SModule nm fs) x"
  have "collect (map (\<lambda>(k, v). map_ok (Pair k) (Ssz_decode spec v)) (map (\<lambda>(k, s). (k, nif_form s (field_of x k))) fs)) =
      Ok (map (\<lambda>(k, s). (k, field_of x k)) fs)"
    unfolding map_map
    by (rule collect_map_each) (use assms(3) conforms_field_of [OF conf] in \<open>auto simp: reads_def list_all_iff\<close>)
  then have "Ssz_decode spec (nif_form (SModule nm fs) x) = Ok (XStruct nm (map (\<lambda>(k, s). (k, field_of x k)) fs))"
    using assms(1) by simp
  with conforms_struct [OF conf assms(2)] show "Ssz_decode spec (nif_form (SModule nm fs) x) = Ok x" by simp
qed

lemma encode_exported:
  "exported_encode nm = Some f \<Longrightarrow> writes f (SModule nm fs) \<Longrightarrow> writes Ssz_encode (SModule nm fs)"
  by (auto simp: writes_def conforms_iff simp del: conforms.simps nif_form_simps(6))

lemma decode_exported:
  "exported_decode spec nm = Some f \<Longrightarrow> reads f (SModule nm fs) \<Longrightarrow> reads (Ssz_decode spec) (SModule nm fs)"
  by (auto simp: reads_def)

section \<open>The containers\<close>

declare alias_defs [exchange] Let_def [exchange]

text \<open>The modules with rules of their own.\<close>

lemma native_containers:
  "native (Checkpoint_container spec)"
  "native (AttestationData_container spec)"
  "native (Withdrawal_container spec)"
  "native (Fork_container spec)"
  "native (BeaconBlockHeader_container spec)"
  "native (Eth1Data_container spec)"
  "native (Validator_container spec)"
  "native (SyncCommittee_container spec)"
  "native (HistoricalSummary_container spec)"
  "native (PendingDeposit_container spec)"
  "native (PendingPartialWithdrawal_container spec)"
  "native (PendingConsolidation_container spec)"
  by (simp_all add: container_defs alias_defs)

lemma Checkpoint_exchange [exchange]:
  "writes Ssz_encode (Checkpoint_container spec)" "reads (Ssz_decode spec) (Checkpoint_container spec)"
  by (simp_all add: Checkpoint_container_def exported_encode_def exported_decode_def exchange)

lemma AttestationData_exchange [exchange]:
  "writes Ssz_encode (AttestationData_container spec)" "reads (Ssz_decode spec) (AttestationData_container spec)"
  by (simp_all add: AttestationData_container_def exported_encode_def exported_decode_def exchange)

lemma Attestation_rules:
  "writes Attestation_encode (Attestation_container spec)" "reads (Attestation_decode spec) (Attestation_container spec)"
  unfolding Attestation_container_def Attestation_encode_def Attestation_decode_def
  by (rule update_fields_writes update_fields_reads;
      simp add: exchange native_containers map_of_Cons_code del: map_of.simps)+

lemma Attestation_exchange [exchange]:
  "writes Ssz_encode (Attestation_container spec)" "reads (Ssz_decode spec) (Attestation_container spec)"
  unfolding Attestation_container_def
  by (rule encode_exported [OF _ Attestation_rules(1) [unfolded Attestation_container_def]]
        decode_exported [OF _ Attestation_rules(2) [unfolded Attestation_container_def]];
      simp add: exported_encode_def exported_decode_def)+

lemma IndexedAttestation_exchange [exchange]:
  "writes Ssz_encode (IndexedAttestation_container spec)" "reads (Ssz_decode spec) (IndexedAttestation_container spec)"
  by (simp_all add: IndexedAttestation_container_def exported_encode_def exported_decode_def exchange)

lemma AttesterSlashing_exchange [exchange]:
  "writes Ssz_encode (AttesterSlashing_container spec)" "reads (Ssz_decode spec) (AttesterSlashing_container spec)"
  by (simp_all add: AttesterSlashing_container_def exported_encode_def exported_decode_def exchange)

lemma Eth1Data_exchange [exchange]:
  "writes Ssz_encode (Eth1Data_container spec)" "reads (Ssz_decode spec) (Eth1Data_container spec)"
  by (simp_all add: Eth1Data_container_def exported_encode_def exported_decode_def exchange)

lemma BeaconBlockHeader_exchange [exchange]:
  "writes Ssz_encode (BeaconBlockHeader_container spec)" "reads (Ssz_decode spec) (BeaconBlockHeader_container spec)"
  by (simp_all add: BeaconBlockHeader_container_def exported_encode_def exported_decode_def exchange)

lemma SignedBeaconBlockHeader_exchange [exchange]:
  "writes Ssz_encode (SignedBeaconBlockHeader_container spec)" "reads (Ssz_decode spec) (SignedBeaconBlockHeader_container spec)"
  by (simp_all add: SignedBeaconBlockHeader_container_def exported_encode_def exported_decode_def exchange)

lemma ProposerSlashing_exchange [exchange]:
  "writes Ssz_encode (ProposerSlashing_container spec)" "reads (Ssz_decode spec) (ProposerSlashing_container spec)"
  by (simp_all add: ProposerSlashing_container_def exported_encode_def exported_decode_def exchange)

lemma DepositData_exchange [exchange]:
  "writes Ssz_encode (DepositData_container spec)" "reads (Ssz_decode spec) (DepositData_container spec)"
  by (simp_all add: DepositData_container_def exported_encode_def exported_decode_def exchange DepositData_schema_def)

lemma Deposit_exchange [exchange]:
  "writes Ssz_encode (Deposit_container spec)" "reads (Ssz_decode spec) (Deposit_container spec)"
  by (simp_all add: Deposit_container_def exported_encode_def exported_decode_def exchange)

lemma VoluntaryExit_exchange [exchange]:
  "writes Ssz_encode (VoluntaryExit_container spec)" "reads (Ssz_decode spec) (VoluntaryExit_container spec)"
  by (simp_all add: VoluntaryExit_container_def exported_encode_def exported_decode_def exchange)

lemma SignedVoluntaryExit_exchange [exchange]:
  "writes Ssz_encode (SignedVoluntaryExit_container spec)" "reads (Ssz_decode spec) (SignedVoluntaryExit_container spec)"
  by (simp_all add: SignedVoluntaryExit_container_def exported_encode_def exported_decode_def exchange)

lemma SyncAggregate_rules:
  "writes SyncAggregate_encode (SyncAggregate_container spec)" "reads (SyncAggregate_decode spec) (SyncAggregate_container spec)"
  unfolding SyncAggregate_container_def SyncAggregate_encode_def SyncAggregate_decode_def
  by (rule update_fields_writes update_fields_reads;
      simp add: exchange native_containers map_of_Cons_code del: map_of.simps)+

lemma SyncAggregate_exchange [exchange]:
  "writes Ssz_encode (SyncAggregate_container spec)" "reads (Ssz_decode spec) (SyncAggregate_container spec)"
  unfolding SyncAggregate_container_def
  by (rule encode_exported [OF _ SyncAggregate_rules(1) [unfolded SyncAggregate_container_def]]
        decode_exported [OF _ SyncAggregate_rules(2) [unfolded SyncAggregate_container_def]];
      simp add: exported_encode_def exported_decode_def)+

lemma Withdrawal_exchange [exchange]:
  "writes Ssz_encode (Withdrawal_container spec)" "reads (Ssz_decode spec) (Withdrawal_container spec)"
  by (simp_all add: Withdrawal_container_def exported_encode_def exported_decode_def exchange)

lemma ExecutionPayload_rules:
  "writes ExecutionPayload_encode (ExecutionPayload_container spec)" "reads (ExecutionPayload_decode) (ExecutionPayload_container spec)"
  unfolding ExecutionPayload_container_def ExecutionPayload_encode_def ExecutionPayload_decode_def
  by (rule update_fields_writes update_fields_reads;
      simp add: exchange native_containers map_of_Cons_code del: map_of.simps)+

lemma ExecutionPayload_exchange [exchange]:
  "writes Ssz_encode (ExecutionPayload_container spec)" "reads (Ssz_decode spec) (ExecutionPayload_container spec)"
  unfolding ExecutionPayload_container_def
  by (rule encode_exported [OF _ ExecutionPayload_rules(1) [unfolded ExecutionPayload_container_def]]
        decode_exported [OF _ ExecutionPayload_rules(2) [unfolded ExecutionPayload_container_def]];
      simp add: exported_encode_def exported_decode_def)+

lemma BLSToExecutionChange_exchange [exchange]:
  "writes Ssz_encode (BLSToExecutionChange_container spec)" "reads (Ssz_decode spec) (BLSToExecutionChange_container spec)"
  by (simp_all add: BLSToExecutionChange_container_def exported_encode_def exported_decode_def exchange)

lemma SignedBLSToExecutionChange_exchange [exchange]:
  "writes Ssz_encode (SignedBLSToExecutionChange_container spec)" "reads (Ssz_decode spec) (SignedBLSToExecutionChange_container spec)"
  by (simp_all add: SignedBLSToExecutionChange_container_def exported_encode_def exported_decode_def exchange)

lemma DepositRequest_exchange [exchange]:
  "writes Ssz_encode (DepositRequest_container spec)" "reads (Ssz_decode spec) (DepositRequest_container spec)"
  by (simp_all add: DepositRequest_container_def exported_encode_def exported_decode_def exchange)

lemma WithdrawalRequest_exchange [exchange]:
  "writes Ssz_encode (WithdrawalRequest_container spec)" "reads (Ssz_decode spec) (WithdrawalRequest_container spec)"
  by (simp_all add: WithdrawalRequest_container_def exported_encode_def exported_decode_def exchange)

lemma ConsolidationRequest_exchange [exchange]:
  "writes Ssz_encode (ConsolidationRequest_container spec)" "reads (Ssz_decode spec) (ConsolidationRequest_container spec)"
  by (simp_all add: ConsolidationRequest_container_def exported_encode_def exported_decode_def exchange)

lemma ExecutionRequests_exchange [exchange]:
  "writes Ssz_encode (ExecutionRequests_container spec)" "reads (Ssz_decode spec) (ExecutionRequests_container spec)"
  by (simp_all add: ExecutionRequests_container_def exported_encode_def exported_decode_def exchange)

lemma BeaconBlockBody_exchange [exchange]:
  "writes Ssz_encode (BeaconBlockBody_container spec)" "reads (Ssz_decode spec) (BeaconBlockBody_container spec)"
  by (simp_all add: BeaconBlockBody_container_def exported_encode_def exported_decode_def exchange)

lemma BeaconBlock_exchange [exchange]:
  "writes Ssz_encode (BeaconBlock_container spec)" "reads (Ssz_decode spec) (BeaconBlock_container spec)"
  by (simp_all add: BeaconBlock_container_def exported_encode_def exported_decode_def exchange)

lemma Fork_exchange [exchange]:
  "writes Ssz_encode (Fork_container spec)" "reads (Ssz_decode spec) (Fork_container spec)"
  by (simp_all add: Fork_container_def exported_encode_def exported_decode_def exchange)

lemma Validator_exchange [exchange]:
  "writes Ssz_encode (Validator_container spec)" "reads (Ssz_decode spec) (Validator_container spec)"
  by (simp_all add: Validator_container_def exported_encode_def exported_decode_def exchange)

lemma SyncCommittee_exchange [exchange]:
  "writes Ssz_encode (SyncCommittee_container spec)" "reads (Ssz_decode spec) (SyncCommittee_container spec)"
  by (simp_all add: SyncCommittee_container_def exported_encode_def exported_decode_def exchange)

lemma ExecutionPayloadHeader_rules:
  "writes ExecutionPayloadHeader_encode (ExecutionPayloadHeader_container spec)" "reads (ExecutionPayloadHeader_decode) (ExecutionPayloadHeader_container spec)"
  unfolding ExecutionPayloadHeader_container_def ExecutionPayloadHeader_encode_def ExecutionPayloadHeader_decode_def
  by (rule update_fields_writes update_fields_reads;
      simp add: exchange native_containers map_of_Cons_code del: map_of.simps)+

lemma ExecutionPayloadHeader_exchange [exchange]:
  "writes Ssz_encode (ExecutionPayloadHeader_container spec)" "reads (Ssz_decode spec) (ExecutionPayloadHeader_container spec)"
  unfolding ExecutionPayloadHeader_container_def
  by (rule encode_exported [OF _ ExecutionPayloadHeader_rules(1) [unfolded ExecutionPayloadHeader_container_def]]
        decode_exported [OF _ ExecutionPayloadHeader_rules(2) [unfolded ExecutionPayloadHeader_container_def]];
      simp add: exported_encode_def exported_decode_def)+

lemma HistoricalSummary_exchange [exchange]:
  "writes Ssz_encode (HistoricalSummary_container spec)" "reads (Ssz_decode spec) (HistoricalSummary_container spec)"
  by (simp_all add: HistoricalSummary_container_def exported_encode_def exported_decode_def exchange)

lemma PendingDeposit_exchange [exchange]:
  "writes Ssz_encode (PendingDeposit_container spec)" "reads (Ssz_decode spec) (PendingDeposit_container spec)"
  by (simp_all add: PendingDeposit_container_def exported_encode_def exported_decode_def exchange)

lemma PendingPartialWithdrawal_exchange [exchange]:
  "writes Ssz_encode (PendingPartialWithdrawal_container spec)" "reads (Ssz_decode spec) (PendingPartialWithdrawal_container spec)"
  by (simp_all add: PendingPartialWithdrawal_container_def exported_encode_def exported_decode_def exchange)

lemma PendingConsolidation_exchange [exchange]:
  "writes Ssz_encode (PendingConsolidation_container spec)" "reads (Ssz_decode spec) (PendingConsolidation_container spec)"
  by (simp_all add: PendingConsolidation_container_def exported_encode_def exported_decode_def exchange)

lemma BeaconState_rules:
  "writes BeaconState_encode (BeaconState_container spec)" "reads (BeaconState_decode) (BeaconState_container spec)"
  unfolding BeaconState_container_def BeaconState_encode_def BeaconState_decode_def
  by (rule update_fields_writes update_fields_reads;
      simp add: exchange native_containers ExecutionPayloadHeader_rules map_of_Cons_code del: map_of.simps)+

lemma BeaconState_exchange [exchange]:
  "writes Ssz_encode (BeaconState_container spec)" "reads (Ssz_decode spec) (BeaconState_container spec)"
  unfolding BeaconState_container_def
  by (rule encode_exported [OF _ BeaconState_rules(1) [unfolded BeaconState_container_def]]
        decode_exported [OF _ BeaconState_rules(2) [unfolded BeaconState_container_def]];
      simp add: exported_encode_def exported_decode_def)+

lemma BlobIdentifier_exchange [exchange]:
  "writes Ssz_encode (BlobIdentifier_container spec)" "reads (Ssz_decode spec) (BlobIdentifier_container spec)"
  by (simp_all add: BlobIdentifier_container_def exported_encode_def exported_decode_def exchange)

lemma BlobSidecar_exchange [exchange]:
  "writes Ssz_encode (BlobSidecar_container spec)" "reads (Ssz_decode spec) (BlobSidecar_container spec)"
  by (simp_all add: BlobSidecar_container_def exported_encode_def exported_decode_def exchange)

lemma DepositMessage_exchange [exchange]:
  "writes Ssz_encode (DepositMessage_container spec)" "reads (Ssz_decode spec) (DepositMessage_container spec)"
  by (simp_all add: DepositMessage_container_def exported_encode_def exported_decode_def exchange)

lemma Eth1Block_exchange [exchange]:
  "writes Ssz_encode (Eth1Block_container spec)" "reads (Ssz_decode spec) (Eth1Block_container spec)"
  by (simp_all add: Eth1Block_container_def exported_encode_def exported_decode_def exchange)

lemma ForkData_exchange [exchange]:
  "writes Ssz_encode (ForkData_container spec)" "reads (Ssz_decode spec) (ForkData_container spec)"
  by (simp_all add: ForkData_container_def exported_encode_def exported_decode_def exchange)

lemma HistoricalBatch_exchange [exchange]:
  "writes Ssz_encode (HistoricalBatch_container spec)" "reads (Ssz_decode spec) (HistoricalBatch_container spec)"
  by (simp_all add: HistoricalBatch_container_def exported_encode_def exported_decode_def exchange)

lemma PendingAttestation_rules:
  "writes PendingAttestation_encode (PendingAttestation_container spec)" "reads (PendingAttestation_decode) (PendingAttestation_container spec)"
  unfolding PendingAttestation_container_def PendingAttestation_encode_def PendingAttestation_decode_def
  by (rule update_fields_writes update_fields_reads;
      simp add: exchange native_containers map_of_Cons_code del: map_of.simps)+

lemma PendingAttestation_exchange [exchange]:
  "writes Ssz_encode (PendingAttestation_container spec)" "reads (Ssz_decode spec) (PendingAttestation_container spec)"
  unfolding PendingAttestation_container_def
  by (rule encode_exported [OF _ PendingAttestation_rules(1) [unfolded PendingAttestation_container_def]]
        decode_exported [OF _ PendingAttestation_rules(2) [unfolded PendingAttestation_container_def]];
      simp add: exported_encode_def exported_decode_def)+

lemma SignedBeaconBlock_exchange [exchange]:
  "writes Ssz_encode (SignedBeaconBlock_container spec)" "reads (Ssz_decode spec) (SignedBeaconBlock_container spec)"
  by (simp_all add: SignedBeaconBlock_container_def exported_encode_def exported_decode_def exchange)

lemma SigningData_exchange [exchange]:
  "writes Ssz_encode (SigningData_container spec)" "reads (Ssz_decode spec) (SigningData_container spec)"
  by (simp_all add: SigningData_container_def exported_encode_def exported_decode_def exchange)

lemma SingleAttestation_exchange [exchange]:
  "writes Ssz_encode (SingleAttestation_container spec)" "reads (Ssz_decode spec) (SingleAttestation_container spec)"
  by (simp_all add: SingleAttestation_container_def exported_encode_def exported_decode_def exchange)

lemma SyncAggregatorSelectionData_exchange [exchange]:
  "writes Ssz_encode (SyncAggregatorSelectionData_container spec)" "reads (Ssz_decode spec) (SyncAggregatorSelectionData_container spec)"
  by (simp_all add: SyncAggregatorSelectionData_container_def exported_encode_def exported_decode_def exchange)

lemma AggregateAndProof_exchange [exchange]:
  "writes Ssz_encode (AggregateAndProof_container spec)" "reads (Ssz_decode spec) (AggregateAndProof_container spec)"
  by (simp_all add: AggregateAndProof_container_def exported_encode_def exported_decode_def exchange)

lemma SyncCommitteeContribution_rules:
  "writes SyncCommitteeContribution_encode (SyncCommitteeContribution_container spec)" "reads (SyncCommitteeContribution_decode spec) (SyncCommitteeContribution_container spec)"
  unfolding SyncCommitteeContribution_container_def SyncCommitteeContribution_encode_def SyncCommitteeContribution_decode_def
  by (rule update_fields_writes update_fields_reads;
      simp add: exchange native_containers map_of_Cons_code del: map_of.simps)+

lemma SyncCommitteeContribution_exchange [exchange]:
  "writes Ssz_encode (SyncCommitteeContribution_container spec)" "reads (Ssz_decode spec) (SyncCommitteeContribution_container spec)"
  unfolding SyncCommitteeContribution_container_def
  by (rule encode_exported [OF _ SyncCommitteeContribution_rules(1) [unfolded SyncCommitteeContribution_container_def]]
        decode_exported [OF _ SyncCommitteeContribution_rules(2) [unfolded SyncCommitteeContribution_container_def]];
      simp add: exported_encode_def exported_decode_def)+

lemma ContributionAndProof_exchange [exchange]:
  "writes Ssz_encode (ContributionAndProof_container spec)" "reads (Ssz_decode spec) (ContributionAndProof_container spec)"
  by (simp_all add: ContributionAndProof_container_def exported_encode_def exported_decode_def exchange)

lemma SignedAggregateAndProof_exchange [exchange]:
  "writes Ssz_encode (SignedAggregateAndProof_container spec)" "reads (Ssz_decode spec) (SignedAggregateAndProof_container spec)"
  by (simp_all add: SignedAggregateAndProof_container_def exported_encode_def exported_decode_def exchange)

lemma SignedContributionAndProof_exchange [exchange]:
  "writes Ssz_encode (SignedContributionAndProof_container spec)" "reads (Ssz_decode spec) (SignedContributionAndProof_container spec)"
  by (simp_all add: SignedContributionAndProof_container_def exported_encode_def exported_decode_def exchange)

lemma SyncCommitteeMessage_exchange [exchange]:
  "writes Ssz_encode (SyncCommitteeMessage_container spec)" "reads (Ssz_decode spec) (SyncCommitteeMessage_container spec)"
  by (simp_all add: SyncCommitteeMessage_container_def exported_encode_def exported_decode_def exchange)

lemma BeaconBlocksByRangeRequest_exchange [exchange]:
  "writes Ssz_encode (BeaconBlocksByRangeRequest_container spec)" "reads (Ssz_decode spec) (BeaconBlocksByRangeRequest_container spec)"
  by (simp_all add: BeaconBlocksByRangeRequest_container_def exported_encode_def exported_decode_def exchange)

lemma EnrForkId_exchange [exchange]:
  "writes Ssz_encode (EnrForkId_container spec)" "reads (Ssz_decode spec) (EnrForkId_container spec)"
  by (simp_all add: EnrForkId_container_def exported_encode_def exported_decode_def exchange)

lemma Metadata_rules:
  "writes Metadata_encode (Metadata_container spec)" "reads (Metadata_decode spec) (Metadata_container spec)"
  unfolding Metadata_container_def Metadata_encode_def Metadata_decode_def
  by (rule update_fields_writes update_fields_reads;
      simp add: exchange native_containers map_of_Cons_code del: map_of.simps)+

lemma Metadata_exchange [exchange]:
  "writes Ssz_encode (Metadata_container spec)" "reads (Ssz_decode spec) (Metadata_container spec)"
  unfolding Metadata_container_def
  by (rule encode_exported [OF _ Metadata_rules(1) [unfolded Metadata_container_def]]
        decode_exported [OF _ Metadata_rules(2) [unfolded Metadata_container_def]];
      simp add: exported_encode_def exported_decode_def)+

lemma StatusMessage_exchange [exchange]:
  "writes Ssz_encode (StatusMessage_container spec)" "reads (Ssz_decode spec) (StatusMessage_container spec)"
  by (simp_all add: StatusMessage_container_def exported_encode_def exported_decode_def exchange)

lemma Blobdata_exchange [exchange]:
  "writes Ssz_encode (Blobdata_container spec)" "reads (Ssz_decode spec) (Blobdata_container spec)"
  by (simp_all add: Blobdata_container_def exported_encode_def exported_decode_def exchange)

end
