(* ===== verification/Ssz_Module_Properties.thy ===== *)
theory Ssz_Module_Properties
  imports Ssz_Exchange
begin

text \<open>
  The two SSZ libraries of the client on its containers. For every container of the NIF and every
  network, \<open>Ssz\<close> (the Rust crates behind the NIF) and \<open>SszEx\<close> (the Elixir library) write a value as
  the same bytes and read the same value back.
\<close>

section \<open>The tables\<close>

lemma unhooked_None: "unhooked (\<lambda>m. None) s"
proof (induction s)
  case (SModule nm fs)
  then show ?case by (fastforce simp: list_all_iff)
qed simp_all

lemma agrees_schema_wf: "agrees s t e \<Longrightarrow> ssz_wf t \<Longrightarrow> schema_wf s"
proof (induction s arbitrary: t e)
  case (SModule nm fs)
  then obtain nm' ts es where e: "t = TStruct nm' ts"
    and agree: "agree_fields (map (\<lambda>(k, s). (k, agrees s)) fs) ts es"
    by (auto split: ssz_ty.splits elx_ty.splits)
  have "schema_wf (snd (fs ! i))" if "i < length fs" for i
    using SModule.IH [of "fs ! i" "snd (fs ! i)"] nth_snd_snds [of i fs] agree that SModule.prems(2)
    by (auto simp: e agree_fields_nth list_all_length)
  moreover have "fs \<noteq> []" using agree SModule.prems(2) by (auto simp: e agree_fields_nth)
  ultimately show ?case
    using agree_fields_names(1) [OF agree] SModule.prems(2) by (simp add: e list_all_length case_prod_beta)
next
  case (SList s n)
  then show ?case by (auto split: ssz_ty.splits elx_ty.splits)
next
  case (SVector s n)
  then show ?case by (auto split: ssz_ty.splits elx_ty.splits)
qed auto

lemma containers_exchange:
  "list_all (\<lambda>(nm, c). writes Ssz_encode (c spec) \<and> reads (Ssz_decode spec) (c spec)) containers"
  by (simp add: containers_def exchange)

lemma containers_distinct: "distinct (map fst containers)"
  by (simp add: containers_def)

lemma containers_named: "list_all (\<lambda>(nm, c). \<exists>fs. c spec = SModule (''Types.'' @ nm) fs) containers"
  by (simp add: containers_def container_names)

text \<open>The schemas of the NIF that are containers, side by side with the modules.\<close>

definition no_containers :: "string list" where
  "no_containers = [''Transaction'', ''Root'', ''Epoch'']"

lemma entries_agree:
  assumes "spec_matches spec C"
  shows "list_all2 (\<lambda>(nm, c) en. entry_name en = nm \<and> agrees (c spec) (entry_ssz C en) (entry_elx en))
    (take 51 containers) (filter (\<lambda>en. entry_name en \<notin> set no_containers) schema_entries)"
  using assms by (simp add: schema_entries_def containers_def no_containers_def agreement)

lemma no_containers_lookup: "list_all (\<lambda>nm. map_of containers nm = None) no_containers"
  by (simp add: containers_def no_containers_def)

lemma network_matches:
  assumes "parse_config net = Some network" and "config_named (get_preset network) = Some C"
  shows "spec_matches (spec_of network) C"
  using assms mainnet_matches sepolia_matches holesky_matches hoodi_matches minimal_matches gnosis_matches
  by (auto simp: parse_config_def get_preset_def config_named_def split: if_splits)

lemma container_agrees:
  assumes "parse_config net = Some network" and "map_of containers nm = Some c"
    and "schema_types nm (get_preset network) = Ok (e, t)"
  shows "agrees (c (spec_of network)) t e"
proof -
  from assms(3) obtain en C where en: "en \<in> set schema_entries" "config_named (get_preset network) = Some C"
    "entry_name en = nm" "e = entry_elx en" "t = entry_ssz C en"
    by (rule schema_types_entry)
  have "nm \<notin> set no_containers" using assms(2) no_containers_lookup by (auto simp: list_all_iff)
  define ens where "ens = filter (\<lambda>en. entry_name en \<notin> set no_containers) schema_entries"
  from en \<open>nm \<notin> set no_containers\<close> have "en \<in> set ens" by (simp add: ens_def)
  then obtain i where i: "i < length ens" "ens ! i = en" by (auto simp: in_set_conv_nth)
  note pairs = entries_agree [OF network_matches [OF assms(1) en(2)], folded ens_def]
  have len: "i < length containers" using list_all2_lengthD [OF pairs] i(1) by simp
  from list_all2_nthD2 [OF pairs i(1)] have "fst (containers ! i) = nm"
    and agree: "agrees (snd (containers ! i) (spec_of network)) t e"
    using len i list_all2_lengthD [OF pairs] by (auto simp: en case_prod_beta)
  with map_of_nth [OF containers_distinct len] assms(2) have "snd (containers ! i) = c" by simp
  with agree show ?thesis by simp
qed

lemma container_facts:
  assumes "map_of containers nm = Some c"
  shows "writes Ssz_encode (c spec)" "reads (Ssz_decode spec) (c spec)" "\<exists>fs. c spec = SModule (''Types.'' @ nm) fs"
  using containers_exchange [of spec] containers_named [of spec] map_of_SomeD [OF assms] by (auto simp: list_all_iff)

section \<open>The module over the NIF\<close>

text \<open>
  What the module relies on: the contract of the NIF, with the Elixir values as terms. \<open>rustler\<close>
  encodes integers, binaries, lists and structs as such, and gives the name of an atom.
\<close>

locale elixir_nif = ssz_nif R K + ssz_reference K for R :: "ex_val rustler" and K :: ssz_crate +
  assumes term_encode_values: "term_encode R = encode_term"
    and atom_name: "atom_to_string R (XAtom a) = Ok a"
begin

lemma module_types:
  "nif_types R (module_atom (''Types.'' @ nm)) (preset_atom network) = schema_types nm (get_preset network)"
  by (rule nif_types_named [where pre = "''Elixir.Types.''"])
     (simp_all add: module_atom_def preset_atom_def atom_name SCHEMA_PREFIX_SIZE_def)

lemma encode_ssz_form:
  assumes "agrees s t e" and "schema_wf s" and "conforms s x" and "s = SModule nm fs"
  shows "encode_ssz R K e t (nif_form s x) = Ok (serialize s x)"
proof -
  have "term_decode R e (nif_form s x) = Ok (elx_of s x)"
    using term_decode_encode [OF elx_of_typed [OF assms(1,3)]] by (simp add: term_encode_values nif_form_def)
  moreover have "\<not> is_list R (nif_form s x)"
    using is_list_encode [of "elx_of s x"] assms(4) by (simp add: term_encode_values nif_form_def)
  ultimately show ?thesis
    using from_elx_of [OF assms(1-3)] as_ssz_bytes_of [OF assms(1-3)] by (simp add: encode_ssz_def)
qed

lemma decode_ssz_form:
  assumes "agrees s t e" and "schema_wf s" and "conforms s x" and "length (serialize s x) < max_ssz_length"
  shows "decode_ssz R K e t (serialize s x) = Ok (nif_form s x)"
proof -
  have "decode_ssz R K e t (as_ssz_bytes K t (rust_of t x)) = Ok (term_encode R (elx_of s x))"
    using assms by (intro decode_after_encode)
      (simp_all add: agrees_convertible agrees_wf elx_of_typed elx_of_exact from_elx_of as_ssz_bytes_of)
  with assms show ?thesis by (simp add: as_ssz_bytes_of term_encode_values nif_form_def)
qed

lemma container_to_ssz:
  assumes "agrees s t e" and "schema_wf s" and "conforms s x" and "s = SModule (''Types.'' @ nm) fs"
    and "schema_types nm (get_preset network) = Ok (e, t)" and "writes Ssz_encode s"
  shows "to_ssz R K network x = Ok (ok, serialize s x)"
proof -
  obtain vs where x: "x = XStruct (''Types.'' @ nm) vs"
    using assms(3,4) by (auto simp: conforms_iff simp del: conforms.simps)
  have "Ssz_encode x = Ok (nif_form s x)" using assms(3,6) by (simp add: writes_def)
  then have "to_ssz_typed R K network x (''Types.'' @ nm) = Ok (ok, serialize s x)"
    using encode_ssz_form [OF assms(1-4)] assms(5)
    by (simp add: to_ssz_typed_def nifs_types module_types [simplified])
  then show ?thesis by (simp add: x)
qed

lemma container_from_ssz:
  assumes "agrees s t e" and "schema_wf s" and "conforms s x" and "length (serialize s x) < max_ssz_length"
    and "schema_types nm (get_preset network) = Ok (e, t)" and "reads (Ssz_decode (spec_of network)) s"
  shows "from_ssz_ex R K network (serialize s x) (''Types.'' @ nm) = Ok (ok, x)"
proof -
  have "Ssz_decode (spec_of network) (nif_form s x) = Ok x" using assms(3,6) by (simp add: reads_def)
  with decode_ssz_form [OF assms(1-4)] assms(5) show ?thesis
    by (simp add: from_ssz_ex_def nifs_types module_types [simplified])
qed

end

interpretation elixir: elixir_nif terms ssz_ex_crate
  by unfold_locales simp_all

section \<open>A value\<close>

abbreviation minimal_network :: network where
  "minimal_network \<equiv> (''minimal'', minimal_config)"

definition sample_aggregate :: ex_val where
  "sample_aggregate = XStruct ''Types.SyncAggregate''
     [(''sync_committee_bits'', XBits (replicate 32 True)), (''sync_committee_signature'', XBin (replicate 96 7))]"

lemma sample_network: "parse_config ''minimal'' = Some minimal_network"
  by (simp add: parse_config_def)

lemma sample_container: "map_of containers ''SyncAggregate'' = Some SyncAggregate_container"
  by (simp add: containers_def map_of_Cons_code del: map_of.simps)

lemma sample_types:
  "schema_types ''SyncAggregate'' (get_preset minimal_network) = Ok (elx_SyncAggregate, ssz_SyncAggregate Minimal)"
  by (simp add: schema_types_def schema_match_def schema_entries_def get_preset_def)

lemma sample_schema_eq:
  "SyncAggregate_container (spec_of minimal_network) = SModule ''Types.SyncAggregate''
     [(''sync_committee_bits'', SBitvector 32), (''sync_committee_signature'', SByteVector 96)]"
  using get_minimal by (simp add: SyncAggregate_container_def alias_defs spec_of_def)

lemma sample_conforms: "conforms (SyncAggregate_container (spec_of minimal_network)) sample_aggregate"
  by (simp add: sample_schema_eq sample_aggregate_def)

lemma sample_bytes_length:
  "length (serialize (SyncAggregate_container (spec_of minimal_network)) sample_aggregate) = 100"
  using length_serialize_fixed [OF _ sample_conforms] by (simp add: sample_schema_eq)

section \<open>Properties\<close>

text \<open>
  C3: On every network and for every container of the NIF, the schema of the Elixir module and the
  Rust type have the same fields in the same order with the same limits.
\<close>

theorem containers_agree:
  assumes "parse_config net = Some network" and "map_of containers nm = Some container"
    and "schema_types nm (get_preset network) = Ok (e, t)"
  shows "agrees (container (spec_of network)) t e \<and> schema_wf (container (spec_of network))"
  using container_agrees [OF assms] schema_types_ok(2) [OF assms(3)] agrees_schema_wf by blast

theorem containers_agree_witness:
  "agrees (SyncAggregate_container (spec_of minimal_network)) (ssz_SyncAggregate Minimal) elx_SyncAggregate"
  using containers_agree [OF sample_network sample_container sample_types] by simp

text \<open>
  C1: On every network the two SSZ libraries write a value of a container as the same bytes, those of
  the reference serialization, and each reads the value back from them, when there are fewer than
  \<open>2 ^ 32\<close> of them.
\<close>

theorem ssz_libraries_agree:
  assumes "elixir_nif R K" and "parse_config net = Some network" and "map_of containers nm = Some container"
    and "schema_types nm (get_preset network) = Ok (e, t)" and "conforms (container (spec_of network)) x"
    and "length (serialize (container (spec_of network)) x) < 2 ^ 32"
  shows "\<exists>b. b = serialize (container (spec_of network)) x \<and>
    to_ssz R K network x = Ok (ok, b) \<and> SszEx_encode x (container (spec_of network)) = Ok b \<and>
    from_ssz_ex R K network b (''Types.'' @ nm) = Ok (ok, x) \<and>
    SszEx_decode (\<lambda>m. None) b (container (spec_of network)) = Ok x"
proof -
  let ?s = "container (spec_of network)"
  obtain fs where s: "?s = SModule (''Types.'' @ nm) fs" using container_facts(3) [OF assms(3)] by blast
  have agree: "agrees ?s t e" by (rule container_agrees [OF assms(2-4)])
  then have wf: "schema_wf ?s" using schema_types_ok(2) [OF assms(4)] by (rule agrees_schema_wf)
  have "to_ssz R K network x = Ok (ok, serialize ?s x)"
    by (rule elixir_nif.container_to_ssz [OF assms(1) agree wf assms(5) s assms(4) container_facts(1) [OF assms(3)]])
  moreover have "from_ssz_ex R K network (serialize ?s x) (''Types.'' @ nm) = Ok (ok, x)"
    using assms(6) by (intro elixir_nif.container_from_ssz [OF assms(1) agree wf assms(5) _ assms(4)]
        container_facts(2) [OF assms(3)]) (simp add: max_ssz_length_def)
  moreover have "SszEx_encode x ?s = Ok (serialize ?s x)"
    using encode_fits [OF wf assms(5,6)] by (simp add: SszEx_encode_def)
  moreover have "SszEx_decode (\<lambda>m. None) (serialize ?s x) ?s = Ok x"
    using decode_serialize [OF wf unhooked_None assms(5,6)] by simp
  ultimately show ?thesis by blast
qed

theorem ssz_libraries_agree_witness:
  "\<exists>b. to_ssz terms ssz_ex_crate minimal_network sample_aggregate = Ok (ok, b) \<and>
     SszEx_encode sample_aggregate (SyncAggregate_container (spec_of minimal_network)) = Ok b \<and>
     from_ssz_ex terms ssz_ex_crate minimal_network b ''Types.SyncAggregate'' = Ok (ok, sample_aggregate)"
  using ssz_libraries_agree [OF elixir.elixir_nif_axioms sample_network sample_container sample_types sample_conforms]
    sample_bytes_length by auto

end
