(* ===== verification/Ssz_Ex_Roots.thy ===== *)
theory Ssz_Ex_Roots
  imports Ssz_Ex_Merkleization
begin

text \<open>
  The roots that \<open>merkleization.ex\<close> computes are those of \<open>Merkle_Trees\<close>. What the lemmas need of
  the hash function is that it returns 32 bytes.
\<close>

definition hash32 :: "hasher \<Rightarrow> bool" where
  "hash32 H \<longleftrightarrow> (\<forall>b. length (H b) = 32)"

section \<open>Lemmas on chunks\<close>

lemma chunk_of_concat:
  assumes "\<And>c. c \<in> set cs \<Longrightarrow> length c = n" and "i < length cs"
  shows "take n (drop (i * n) (concat cs)) = cs ! i"
  using assms
proof (induction cs arbitrary: i)
  case (Cons c cs)
  then show ?case by (cases i) simp_all
qed simp

lemma concat_length: "(\<And>c. c \<in> set cs \<Longrightarrow> length c = n) \<Longrightarrow> length (concat cs) = n * length cs"
  by (induction cs) simp_all

text \<open>A layer: a list of chunks.\<close>

definition chunks32 :: "bytes list \<Rightarrow> bool" where
  "chunks32 cs \<longleftrightarrow> list_all (\<lambda>c. length c = 32) cs"

lemma chunks32_simps [simp]: "chunks32 []" "chunks32 (c # cs) \<longleftrightarrow> length c = 32 \<and> chunks32 cs"
  "chunks32 (cs @ ds) \<longleftrightarrow> chunks32 cs \<and> chunks32 ds"
  by (simp_all add: chunks32_def)

lemma chunks32_lengths:
  assumes "chunks32 cs"
  shows "length (concat cs) = 32 * length cs" and "get_chunks_len (concat cs) = length cs"
    and "i < length cs \<Longrightarrow> take 32 (drop (i * 32) (concat cs)) = cs ! i"
    and "i < length cs \<Longrightarrow> length (cs ! i) = 32"
  using assms concat_length [of cs 32] chunk_of_concat [of cs 32 i]
  by (auto simp: chunks32_def list_all_iff get_chunks_len_def)

section \<open>Hashes of empty trees\<close>

lemma zero_root_funpow: "((\<lambda>z. hash_nodes H z z) ^^ i) zero_chunk = zero_root H i"
  by (induction i) simp_all

lemma get_zero_hash_root:
  assumes "hash32 H" and "d \<le> 64"
  shows "get_zero_hash H (int d) = Ok (zero_root H d)"
proof -
  let ?cs = "map (zero_root H) [0..<65]"
  have z: "compute_zero_hashes H = concat ?cs"
    by (simp add: compute_zero_hashes_def zero_root_funpow)
  have cs: "chunks32 ?cs" using assms(1) by (auto simp: chunks32_def list_all_iff hash32_def)
  have "d * 32 + 32 \<le> 32 * 65" using assms(2) by simp
  with chunks32_lengths(1) [OF cs] chunks32_lengths(3) [OF cs, of d] assms(2) show ?thesis
    by (simp add: get_zero_hash_def Hash_get_zero_hash_def z Let_def nth_map_upt del: upt_Suc)
qed

section \<open>Powers of two\<close>

lemma log2_floor_bounds: "0 < n \<Longrightarrow> 2 ^ log2_floor n \<le> n \<and> n < 2 ^ Suc (log2_floor n)"
proof (induction n rule: log2_floor.induct)
  case (1 n)
  show ?case
  proof (cases "n < 2")
    case True
    with 1 show ?thesis by (simp add: log2_floor.simps [of n])
  next
    case False
    with 1 have IH: "2 ^ log2_floor (n div 2) \<le> n div 2" "n div 2 < 2 ^ Suc (log2_floor (n div 2))"
      by auto
    have "log2_floor n = Suc (log2_floor (n div 2))" using False by (simp add: log2_floor.simps [of n])
    then show ?thesis unfolding power_Suc using IH [unfolded power_Suc] by auto
  qed
qed

lemma log2_floor_unique: "2 ^ k \<le> n \<Longrightarrow> n < 2 ^ Suc k \<Longrightarrow> log2_floor n = k"
proof -
  assume n: "2 ^ k \<le> n" "n < 2 ^ Suc k"
  then have "0 < n" using power_eq_0_iff [of 2 k] by (metis gr0I le_zero_eq zero_neq_numeral)
  note b = log2_floor_bounds [OF this]
  have "(2::nat) ^ k < 2 ^ Suc (log2_floor n)" "(2::nat) ^ log2_floor n < 2 ^ Suc k" using n b by linarith+
  then have "k < Suc (log2_floor n)" "log2_floor n < Suc k" by (simp_all only: power_strict_increasing_iff)
  then show ?thesis by simp
qed

lemma log2_floor_power [simp]: "log2_floor (2 ^ k) = k"
  by (rule log2_floor_unique) simp_all

lemma log2_exact_power [simp]: "k < 1024 \<Longrightarrow> log2_exact (2 ^ k)"
  by (simp add: log2_exact_def)

lemma log2_exact_small: "n < 2 ^ 48 \<Longrightarrow> log2_exact n"
  by (simp add: log2_exact_def)

section \<open>Layers\<close>

lemma next_layer_index:
  "next_layer H z cs =
     map (\<lambda>j. hash_nodes H (leaf_at z cs j) (leaf_at z cs (j + 1))) [j \<leftarrow> [0..<length cs]. j mod 2 = 0]"
proof (induction H z cs rule: next_layer.induct)
  case (1 H z a b cs)
  have "[j \<leftarrow> [0..<Suc (Suc n)]. j mod 2 = 0] = 0 # map (\<lambda>j. j + 2) [j \<leftarrow> [0..<n]. j mod 2 = 0]" for n :: nat
  proof -
    have "[0..<Suc (Suc n)] = 0 # 1 # map (\<lambda>j. j + 2) [0..<n]"
      by (induction n) simp_all
    then show ?thesis by (simp add: filter_map comp_def del: upt_Suc)
  qed
  with "1.IH" show ?case by (simp add: comp_def del: upt_Suc)
qed simp_all

lemma next_layer_chunks32: "hash32 H \<Longrightarrow> chunks32 (next_layer H z cs)"
  by (induction H z cs rule: next_layer.induct) (simp_all add: hash32_def hash_nodes_def)

lemma foldl_nodes:
  assumes "\<And>j. j \<in> set js \<Longrightarrow> f j = Ok (l j, r j)"
  shows "foldl (\<lambda>acc j. and_then acc (\<lambda>a. and_then (f j) (\<lambda>(left, right). Ok (a @ hash_nodes H left right))))
      (Ok a) js = Ok (a @ concat (map (\<lambda>j. hash_nodes H (l j) (r j)) js))"
  using assms by (induction js arbitrary: a) simp_all

lemma binary_part_nat:
  "binary_part b p (int n) = (if p + n \<le> length b then Ok (take n (drop p b)) else Panic ''ArgumentError'')"
  by (auto simp: binary_part_def Let_def)

lemma extract_chunks_eq:
  "extract_chunks i b n =
     (if i * 32 + n * 32 \<le> length b then Ok (take (n * 32) (drop (i * 32) b)) else Panic ''ArgumentError'')"
proof -
  have "int ((i + n) * 32) - int (i * 32) = int (n * 32)" by simp
  then show ?thesis unfolding extract_chunks_def Let_def by (simp only: binary_part_nat)
qed

lemma extract_chunk:
  assumes "chunks32 cs" and "i < length cs"
  shows "extract_chunks i (concat cs) 1 = Ok (cs ! i)"
  using chunks32_lengths [OF assms(1)] assms(2) by (simp add: extract_chunks_eq)

lemma get_node_pair_concat:
  assumes "chunks32 cs" and "Suc i < length cs"
  shows "get_node_pair i (concat cs) = Ok (cs ! i, cs ! Suc i)"
proof -
  have len: "length (concat cs) = 32 * length cs" using assms by (simp add: chunks32_lengths)
  have "take 64 (drop (i * 32) (concat cs)) = cs ! i @ cs ! Suc i"
    using chunks32_lengths(3) [OF assms(1), of i] chunks32_lengths(3) [OF assms(1), of "Suc i"] assms(2)
      take_add [of 32 32 "drop (i * 32) (concat cs)"]
    by (simp add: add.commute)
  then show ?thesis
    using len assms(2) chunks32_lengths(4) [OF assms(1), of i] chunks32_lengths(4) [OF assms(1), of "Suc i"]
    by (simp add: get_node_pair_def extract_chunks_eq)
qed

lemma get_parent_layer_concat:
  assumes "hash32 H" and "chunks32 cs" and "cs \<noteq> []" and "height = l + i + 1" and "l \<le> 64"
  shows "get_parent_layer H i height (concat cs) (length cs - 1) =
    Ok (concat (next_layer H (zero_root H l) cs))"
proof -
  let ?z = "zero_root H l"
  have "get_nodes H i j height (concat cs) (length cs - 1) = Ok (leaf_at ?z cs j, leaf_at ?z cs (j + 1))"
    if "j < length cs" for j
  proof (cases "Suc j < length cs")
    case True
    then have "j < length cs - 1" by simp
    with get_node_pair_concat [OF assms(2) True] that True show ?thesis by (simp add: get_nodes_def leaf_at_def)
  next
    case False
    with that have "j = length cs - 1" by simp
    moreover have "int height - int i - 1 = int l" using assms(4) by simp
    ultimately show ?thesis
      using extract_chunk [OF assms(2) that] get_zero_hash_root [OF assms(1,5)] that False
      by (simp add: get_nodes_def leaf_at_def)
  qed
  then have "get_parent_layer H i height (concat cs) (length cs - 1) =
      Ok ([] @ concat (map (\<lambda>j. hash_nodes H (leaf_at ?z cs j) (leaf_at ?z cs (j + 1)))
        [j \<leftarrow> [0..<Suc (length cs - 1)]. j mod 2 = 0]))"
    unfolding get_parent_layer_def using assms(3) by (intro foldl_nodes) auto
  then show ?thesis using assms(3) by (simp add: next_layer_index del: upt_Suc)
qed

lemma layers_foldl:
  assumes "hash32 H" and "chunks32 cs" and "cs \<noteq> []" and "height = l + d + 1" and "l + d \<le> 65"
  shows "\<exists>x. foldl (\<lambda>acc i. and_then acc (\<lambda>(current_last_index, current_layer).
        and_then (get_parent_layer H i height current_layer current_last_index) (\<lambda>parent_layers.
        Ok (current_last_index div 2, parent_layers))))
      (Ok (length cs - 1, concat cs)) (rev [1..<Suc d]) = Ok (x, concat (layers_root H l d cs))"
  using assms(2-5)
proof (induction d arbitrary: l cs)
  case (Suc d)
  let ?next = "next_layer H (zero_root H l) cs"
  have "get_parent_layer H (Suc d) height (concat cs) (length cs - 1) = Ok (concat ?next)"
    using Suc.prems by (intro get_parent_layer_concat [OF assms(1)]) simp_all
  moreover have "(length cs - 1) div 2 = length ?next - 1" using Suc.prems(2) by (cases cs) auto
  moreover have "?next \<noteq> []" using Suc.prems(2) by (cases "(H, zero_root H l, cs)" rule: next_layer.cases) simp_all
  moreover have "rev [1..<Suc (Suc d)] = Suc d # rev [1..<Suc d]" by simp
  ultimately show ?case
    using Suc.IH [of ?next "Suc l"] Suc.prems next_layer_chunks32 [OF assms(1), of "zero_root H l" cs]
    by (simp del: upt_Suc)
qed simp

lemma layers_root_chunks32: "hash32 H \<Longrightarrow> chunks32 cs \<Longrightarrow> chunks32 (layers_root H i d cs)"
  by (induction d arbitrary: i cs) (simp_all add: next_layer_chunks32)

text \<open>
  The root of a layer of chunks: the tree has the depth that the logarithm of the leaf count gives,
  and the chunks beyond its width do not count.
\<close>

lemma merkleize_root:
  assumes "hash32 H" and "chunks32 cs" and "0 < leaf_count" and "log2_floor leaf_count \<le> 64"
    and "length cs \<le> 1 \<or> 1 < leaf_count" and "log2_exact leaf_count"
  shows "merkleize_chunks_with_virtual_padding H (concat cs) leaf_count =
    Ok (merkle_root H zero_chunk (log2_floor leaf_count) cs)"
proof -
  let ?p = "log2_floor leaf_count"
  have len: "get_chunks_len (concat cs) = length cs" by (rule chunks32_lengths(2) [OF assms(2)])
  consider "cs = []" | c where "cs = [c]" "leaf_count = 1" | "cs \<noteq> []" "1 < leaf_count"
    using assms(3,5) by (cases cs; cases "tl cs"; cases "leaf_count = 1") auto
  then show ?thesis
  proof cases
    case 1
    then show ?thesis
      using assms get_zero_hash_root [OF assms(1,4)] merkle_root_Nil [of H 0 ?p] len
      by (simp add: merkleize_chunks_with_virtual_padding_def compute_pow_def)
  next
    case 2
    then show ?thesis
      using len assms(6) by (simp add: merkleize_chunks_with_virtual_padding_def compute_pow_def log2_floor.simps)
  next
    case 3
    then have "0 < ?p" by (simp add: log2_floor.simps [of leaf_count])
    then have range: "ex_range (Suc 0) ?p = [Suc 0..<Suc ?p]" by (simp add: ex_range_def)
    obtain x where loop: "foldl (\<lambda>acc i. and_then acc (\<lambda>(current_last_index, current_layer).
        and_then (get_parent_layer H i (?p + 1) current_layer current_last_index) (\<lambda>parent_layers.
        Ok (current_last_index div 2, parent_layers))))
      (Ok (length cs - 1, concat cs)) (rev [1..<Suc ?p]) = Ok (x, concat (layers_root H 0 ?p cs))"
      using layers_foldl [OF assms(1,2) 3(1), of "?p + 1" 0 ?p] assms(4) by auto
    let ?l = "layers_root H 0 ?p cs"
    have l: "chunks32 ?l" "?l \<noteq> []" using assms(1,2) 3(1) by (simp_all add: layers_root_chunks32 layers_root_nonempty)
    then have "32 \<le> length (concat ?l)" "take 32 (concat ?l) = hd ?l" by (cases ?l; simp)+
    moreover have "hd ?l = merkle_root H zero_chunk ?p cs" using hd_layers_root [OF 3(1), of H 0 ?p] by simp
    ultimately show ?thesis
      using 3 loop assms(3,6)
      by (simp add: merkleize_chunks_with_virtual_padding_def compute_pow_def len range Let_def
          del: upt_Suc layers_root.simps)
  qed
qed

end
