(* ===== verification/Ssz_Ex_Hash_Tree.thy ===== *)
theory Ssz_Ex_Hash_Tree
  imports Ssz_Ex_Roots
begin

text \<open>
  Hash tree roots as the SSZ specification defines them, and the schemas for which the Elixir library
  computes them.
\<close>

section \<open>Depths\<close>

text \<open>The depth of the smallest tree with at least \<open>n\<close> leaves.\<close>

definition log2_ceil :: "nat \<Rightarrow> nat" where
  "log2_ceil n = (if n \<le> 1 then 0 else Suc (log2_floor (n - 1)))"

lemma log2_ceil_bounds: "0 < n \<Longrightarrow> n \<le> 2 ^ log2_ceil n \<and> 2 ^ log2_ceil n < 2 * n"
  using log2_floor_bounds [of "n - 1"] by (auto simp: log2_ceil_def)

text \<open>\<open>next_pow_of_two\<close> is the least power of two that is not below the number.\<close>

lemma next_pow_of_two_ceil: "0 < n \<Longrightarrow> n \<le> 2 ^ 47 \<Longrightarrow> next_pow_of_two n = Ok (2 ^ log2_ceil n)"
proof -
  assume n: "0 < n" "n \<le> 2 ^ 47"
  then have "log2_exact (2 * n - 1)" by (intro log2_exact_small) simp
  moreover from n(1) log2_ceil_bounds [OF n(1)] have "2 ^ log2_ceil n \<le> 2 * n - 1" "2 * n - 1 < 2 ^ Suc (log2_ceil n)"
    by auto
  note log2_floor_unique [OF this]
  ultimately show ?thesis using n by (simp add: next_pow_of_two_def compute_pow_def)
qed

lemma log2_ceil_power: "n = 2 ^ k \<Longrightarrow> log2_ceil n = k"
proof -
  assume n: "n = 2 ^ k"
  have "(2::nat) ^ k \<le> 2 ^ log2_ceil n" "(2::nat) ^ log2_ceil n < 2 ^ Suc k"
    using log2_ceil_bounds [of n] n by auto
  then have "k \<le> log2_ceil n" "log2_ceil n < Suc k"
    by (simp_all only: power_increasing_iff power_strict_increasing_iff one_less_numeral_iff semiring_norm)
  then show ?thesis by simp
qed

section \<open>Chunks\<close>

fun chunks_of :: "bytes \<Rightarrow> bytes list" where
  "chunks_of b =
     (if b = [] then []
      else if length b < 32 then [b @ replicate (32 - length b) 0]
      else take 32 b # chunks_of (drop 32 b))"

declare chunks_of.simps [simp del]

lemma chunks_of_chunks32 [simp]: "chunks32 (chunks_of b)"
proof (induction b rule: chunks_of.induct)
  case (1 b)
  then show ?case by (subst chunks_of.simps) simp
qed

lemma length_chunks_of: "length (chunks_of b) = (length b + 31) div 32"
proof (induction b rule: chunks_of.induct)
  case (1 b)
  show ?case
  proof (cases "b = [] \<or> length b < 32")
    case True
    then show ?thesis by (subst chunks_of.simps) (cases b; auto)
  next
    case False
    then have "length (chunks_of b) = Suc ((length b - 32 + 31) div 32)"
      using 1 by (subst chunks_of.simps) simp
    moreover have "length b + 31 = (length b - 32 + 31) + 32" using False by simp
    ultimately show ?thesis by (metis div_add_self2 Suc_eq_plus1 zero_neq_numeral)
  qed
qed

lemma pack_bytes_chunks: "pack_bytes b = concat (chunks_of b)"
proof (induction b rule: chunks_of.induct)
  case (1 b)
  have pad: "pack_bytes x = (if length x mod 32 = 0 then x else x @ replicate (32 - length x mod 32) 0)" for x
  proof -
    have "length x * 8 mod 256 = 8 * (length x mod 32)" 
      using mult_mod_right [of 8 "length x" 32] by (simp add: mult.commute)
    then show ?thesis by (auto simp: pack_bytes_def Let_def)
  qed
  show ?case
  proof (cases "b = [] \<or> length b < 32")
    case True
    then show ?thesis by (subst chunks_of.simps) (auto simp: pad)
  next
    case False
    then have "pack_bytes b = take 32 b @ pack_bytes (drop 32 b)"
      unfolding pad by (simp add: le_mod_geq)
    with 1 False show ?thesis by (subst chunks_of.simps) simp
  qed
qed

section \<open>The reference\<close>

definition mix_length :: "hasher \<Rightarrow> bytes \<Rightarrow> nat \<Rightarrow> bytes" where
  "mix_length H root n = hash_nodes H root (le_bytes 32 (int n))"

definition merkleize :: "hasher \<Rightarrow> bytes list \<Rightarrow> nat \<Rightarrow> bytes" where
  "merkleize H cs limit = merkle_root H zero_chunk (log2_ceil limit) cs"

fun hash_root :: "hasher \<Rightarrow> schema \<Rightarrow> ex_val \<Rightarrow> bytes" where
  "hash_root H SBool v = merkleize H (chunks_of (serialize SBool v)) 1"
| "hash_root H (SInt n) v = merkleize H (chunks_of (serialize (SInt n) v)) 1"
| "hash_root H (SByteList n) v =
     mix_length H (merkleize H (chunks_of (serialize (SByteList n) v)) ((n + 31) div 32))
       (length (serialize (SByteList n) v))"
| "hash_root H (SByteVector n) v = merkleize H (chunks_of (serialize (SByteVector n) v)) ((n + 31) div 32)"
| "hash_root H (SBitlist n) v =
     (case v of
        XBits bs \<Rightarrow>
          mix_length H (merkleize H (chunks_of (serialize (SBitvector (length bs)) v)) ((n + 255) div 256))
            (length bs)
      | _ \<Rightarrow> [])"
| "hash_root H (SBitvector n) v = merkleize H (chunks_of (serialize (SBitvector n) v)) ((n + 255) div 256)"
| "hash_root H (SList s n) v =
     (case v of
        XList vs \<Rightarrow>
          mix_length H
            (if basic_type s
             then merkleize H (chunks_of (concat (map (serialize s) vs))) ((n * get_fixed_size s + 31) div 32)
             else merkleize H (map (hash_root H s) vs) n)
            (length vs)
      | _ \<Rightarrow> [])"
| "hash_root H (SVector s n) v =
     (case v of
        XList vs \<Rightarrow>
          if basic_type s
          then merkleize H (chunks_of (concat (map (serialize s) vs))) ((n * get_fixed_size s + 31) div 32)
          else merkleize H (map (hash_root H s) vs) n
      | _ \<Rightarrow> [])"
| "hash_root H (SModule nm fs) v =
     (case v of
        XStruct nm' vs \<Rightarrow> merkleize H (map (\<lambda>(k, s). hash_root H s (the (map_of vs k))) fs) (length fs)
      | _ \<Rightarrow> [])"

text \<open>
  The schemas whose roots the library computes: the limit of every list is a power of two chunks,
  no list has booleans as elements, no bit list has the limit of 256 bits, no tree of a list is deeper
  than the table of zero hashes, and the sizes of the other schemas are at most \<open>2 ^ 47\<close>, so that the
  logarithm of \<open>next_pow_of_two\<close> is exact. Outside them the library does not compute the roots of the
  specification: it rounds the limit of a list down to a power of two, \<open>chunk_count\<close> takes four bytes
  for a boolean, and the packed bytes of a full bit list of 256 bits have a second chunk, which its
  tree has no place for.
\<close>

definition power_of_two :: "nat \<Rightarrow> bool" where
  "power_of_two n \<longleftrightarrow> 0 < n \<and> n = 2 ^ log2_floor n"

fun exact_limits :: "schema \<Rightarrow> bool" where
  "exact_limits (SByteList n) \<longleftrightarrow> power_of_two ((n + 31) div 32) \<and> n \<le> 2 ^ 64"
| "exact_limits (SList s n) \<longleftrightarrow>
     s \<noteq> SBool \<and> power_of_two (if basic_type s then (n * get_fixed_size s + 31) div 32 else n) \<and>
     n \<le> 2 ^ 59 \<and> exact_limits s"
| "exact_limits (SVector s n) \<longleftrightarrow> n \<le> 2 ^ 47 \<and> exact_limits s"
| "exact_limits (SByteVector n) \<longleftrightarrow> n \<le> 2 ^ 47"
| "exact_limits (SBitlist n) \<longleftrightarrow> n \<noteq> 256 \<and> n \<le> 2 ^ 47"
| "exact_limits (SBitvector n) \<longleftrightarrow> n \<le> 2 ^ 47"
| "exact_limits (SModule nm fs) \<longleftrightarrow> length fs \<le> 2 ^ 47 \<and> list_all (\<lambda>(k, s). exact_limits s) fs"
| "exact_limits _ \<longleftrightarrow> True"

section \<open>The library computes the reference\<close>

lemma log2_ceil_le: "n \<le> 2 ^ k \<Longrightarrow> log2_ceil n \<le> k"
proof (cases "n = 0")
  case False
  assume "n \<le> 2 ^ k"
  with False log2_ceil_bounds [of n] have "(2::nat) ^ log2_ceil n < 2 ^ Suc k" by simp
  then show ?thesis by (simp only: power_strict_increasing_iff one_less_numeral_iff semiring_norm)
qed (simp add: log2_ceil_def)

lemma power_of_two_ceil:
  assumes "power_of_two n"
  shows "0 < n" "n = 2 ^ log2_ceil n"
proof -
  from assms have n: "0 < n" "n = 2 ^ log2_floor n" by (simp_all add: power_of_two_def)
  then show "0 < n" by simp
  from log2_ceil_power [OF n(2)] n(2) show "n = 2 ^ log2_ceil n" by simp
qed

lemma merkle_root_length:
  "hash32 H \<Longrightarrow> chunks32 cs \<Longrightarrow> length (merkle_root H zero_chunk d cs) = 32"
  by (cases d; cases cs) (simp_all add: hash_nodes_def hash32_def)

lemma merkleize_length [simp]: "hash32 H \<Longrightarrow> chunks32 cs \<Longrightarrow> length (merkleize H cs n) = 32"
  by (simp add: merkleize_def merkle_root_length)

lemma mix_length_length [simp]: "hash32 H \<Longrightarrow> length (mix_length H r n) = 32"
  by (simp add: mix_length_def hash_nodes_def hash32_def)

lemma merkleize_padded:
  assumes "hash32 H" and "chunks32 cs" and "log2_ceil n \<le> 64" and "length cs \<le> 2 ^ log2_ceil n"
  shows "merkleize_chunks_with_virtual_padding H (concat cs) (2 ^ log2_ceil n) = Ok (merkleize H cs n)"
proof -
  have "length cs \<le> 1 \<or> 1 < (2::nat) ^ log2_ceil n" using assms(4) by (cases "log2_ceil n") auto
  with assms show ?thesis using merkleize_root [of H cs "2 ^ log2_ceil n"] by (simp add: merkleize_def)
qed

lemma hash_tree_root_vector_concat:
  assumes "hash32 H" and "chunks32 cs" and "cs \<noteq> []" and "length cs \<le> 2 ^ 47"
  shows "hash_tree_root_vector H (concat cs) = Ok (merkleize H cs (length cs))"
proof -
  have "log2_ceil (length cs) \<le> 47" using assms(4) by (rule log2_ceil_le)
  then have "log2_ceil (length cs) \<le> 64" by simp
  moreover have "length cs \<le> 2 ^ log2_ceil (length cs)" using log2_ceil_bounds [of "length cs"] assms(3) by simp
  ultimately show ?thesis
    using merkleize_padded [OF assms(1,2), of "length cs"] chunks32_lengths(2) [OF assms(2)] assms(3,4)
    by (simp add: hash_tree_root_vector_def next_pow_of_two_ceil)
qed

lemma mix_in_length_ex_eq [simp]: "mix_in_length_ex H r n = Ok (mix_length H r n)"
  by (simp add: mix_in_length_ex_def mix_length_def encode_int_def)

lemma hash_tree_root_list_concat:
  assumes "hash32 H" and "chunks32 cs" and "power_of_two limit" and "limit \<le> 2 ^ 64" and "length cs \<le> limit"
  shows "hash_tree_root_list H (concat cs) limit n = Ok (mix_length H (merkleize H cs limit) n)"
proof -
  note limit = power_of_two_ceil [OF assms(3)]
  have "log2_ceil limit \<le> 64" using assms(4) by (rule log2_ceil_le)
  with merkleize_padded [OF assms(1,2), of limit] assms(5) limit(2)
  have "merkleize_chunks_with_virtual_padding H (concat cs) limit = Ok (merkleize H cs limit)" by simp
  then show ?thesis by (simp add: hash_tree_root_list_def)
qed

lemma encode_basic:
  "basic_type s \<Longrightarrow> conforms s v \<Longrightarrow> encode s v = Ok (serialize s v)"
  by (cases s) (auto simp: conforms_iff encode_int_def encode_bool_def simp del: conforms.simps split: bool.split)

lemma pack_list_serialize:
  assumes "basic_type s" and "list_all (conforms s) vs"
  shows "pack_list s vs = Ok (concat (chunks_of (concat (map (serialize s) vs))))"
proof -
  have "foldl (\<lambda>r x. and_then r (\<lambda>acc. case encode s x of
            Ok encoded \<Rightarrow> Ok (acc @ encoded) | Err e \<Rightarrow> Panic ''MatchError'' | Panic m \<Rightarrow> Panic m))
      (Ok a :: bytes ex) vs = Ok (a @ concat (map (serialize s) vs))" for a
    using assms(2) by (induction vs arbitrary: a) (simp_all add: encode_basic [OF assms(1)])
  then show ?thesis by (simp add: pack_list_def pack_bytes_chunks)
qed

lemma list_hash_tree_root_concat:
  "(\<And>v. v \<in> set vs \<Longrightarrow> f v = Ok (g v)) \<Longrightarrow> list_hash_tree_root f vs acc = Ok (acc @ concat (map g vs))"
  by (induction vs arbitrary: acc) simp_all

lemma container_hash_tree_root_concat:
  "(\<And>k s. (k, s) \<in> set fs \<Longrightarrow> \<exists>w. map_of vs k = Some w \<and> f s w = Ok (g s w)) \<Longrightarrow>
     container_hash_tree_root vs (map (\<lambda>(k, s). (k, f s)) fs) acc =
       Ok (acc @ concat (map (\<lambda>(k, s). g s (the (map_of vs k))) fs))"
proof (induction fs arbitrary: acc)
  case (Cons p fs)
  obtain k s where p: "p = (k, s)" by (cases p)
  from Cons.prems [of k s] obtain w where "map_of vs k = Some w" "f s w = Ok (g s w)" by (auto simp: p)
  with Cons show ?case by (simp add: p)
qed simp

lemma basic_fixed_size: "schema_wf s \<Longrightarrow> basic_type s \<Longrightarrow> get_fixed_size s \<le> 32 \<and> \<not> variable_size s"
  by (cases s) auto

lemma length_basic_elements:
  assumes "schema_wf s" and "basic_type s" and "list_all (conforms s) vs"
  shows "length (concat (map (serialize s) vs)) = length vs * get_fixed_size s"
  using assms(3)
  by (induction vs) (simp_all add: length_serialize_fixed [OF assms(1)] basic_fixed_size [OF assms(1,2)])

lemma byte_limit: "n \<le> (2::nat) ^ m \<Longrightarrow> k \<le> 32 \<Longrightarrow> (n * k + 31) div 32 \<le> 2 ^ m"
proof -
  assume "n \<le> 2 ^ m" "k \<le> 32"
  then have "n * k \<le> 2 ^ m * 32" by (intro mult_le_mono)
  then have "(n * k + 31) div 32 \<le> (2 ^ m * 32 + 31) div 32" by (intro div_le_mono) simp
  then show ?thesis by simp
qed

lemma chunk_limit: "n \<le> (2::nat) ^ m \<Longrightarrow> (n + 31) div 32 \<le> 2 ^ m \<and> (n + 255) div 256 \<le> 2 ^ m"
proof -
  assume "n \<le> 2 ^ m"
  moreover have "(n + 31) div 32 \<le> n" "(n + 255) div 256 \<le> n" by (cases n; simp)+
  ultimately show ?thesis by linarith
qed

lemma chunks_of_snoc_zero: "\<exists>k. chunks_of (b @ [0]) = chunks_of b @ replicate k zero_chunk"
proof (induction b rule: chunks_of.induct)
  case (1 b)
  consider "b = []" | "b \<noteq> []" "length b < 31" | "length b = 31" | "32 \<le> length b" by fastforce
  then show ?case
  proof cases
    case 1
    have "chunks_of [0] = [zero_chunk]" by (subst chunks_of.simps) (simp add: zero_chunk_def eval_nat_numeral)
    with 1 show ?thesis by (intro exI [of _ 1]) (simp add: chunks_of.simps [of "[]"])
  next
    case 2
    then have "32 - length b = Suc (31 - length b)" by simp
    then have "replicate (32 - length b) (0 :: byte) = 0 # replicate (31 - length b) 0" by simp
    with 2 show ?thesis by (intro exI [of _ 0]) (simp add: chunks_of.simps [of b] chunks_of.simps [of "b @ [0]"])
  next
    case 3
    then show ?thesis
      by (intro exI [of _ 0]) (auto simp: chunks_of.simps [of b] chunks_of.simps [of "b @ [0]"] chunks_of.simps [of "[]"])
  next
    case 4
    then have "b \<noteq> []" "\<not> length b < 32" by auto
    with 1 obtain k where "chunks_of (drop 32 b @ [0]) = chunks_of (drop 32 b) @ replicate k zero_chunk" by blast
    with 4 \<open>b \<noteq> []\<close> show ?thesis
      by (intro exI [of _ k]) (simp add: chunks_of.simps [of b] chunks_of.simps [of "b @ [0]"])
  qed
qed

lemma chunks_of_packed_bits:
  "\<exists>k. chunks_of (BitList_to_packed_bytes bs) = chunks_of (BitVector_to_bytes bs) @ replicate k zero_chunk"
  using chunks_of_snoc_zero [of "BitVector_to_bytes bs"] exI [of _ 0] by (simp add: BitList_packed_vector)

subsection \<open>Byte lists and bit fields\<close>

lemma root_byte_list:
  assumes "hash32 H" and "exact_limits (SByteList n)" and "length b \<le> n"
  shows "ex_hash_tree_root H (SByteList n) (XBin b) = Ok (hash_root H (SByteList n) (XBin b))"
proof -
  have "(n + 31) div 32 \<le> 2 ^ 64" using chunk_limit [of n 64] assms(2) by simp
  moreover have "length (chunks_of b) \<le> (n + 31) div 32" using assms(3) by (simp add: length_chunks_of div_le_mono)
  ultimately show ?thesis
    using assms(2) hash_tree_root_list_concat [OF assms(1), of "chunks_of b" "(n + 31) div 32" "length b"]
    by (simp add: pack_bytes_chunks)
qed

lemma root_byte_vector:
  assumes "hash32 H" and "schema_wf (SByteVector n)" and "exact_limits (SByteVector n)" and "length b = n"
  shows "ex_hash_tree_root H (SByteVector n) (XBin b) = Ok (hash_root H (SByteVector n) (XBin b))"
proof -
  have n: "length (chunks_of b) = (n + 31) div 32" using assms(4) by (simp add: length_chunks_of)
  moreover have "0 < (n + 31) div 32" using assms(2) by (simp add: div_greater_zero_iff)
  ultimately have "chunks_of b \<noteq> []" by auto
  then show ?thesis
    using assms hash_tree_root_vector_concat [OF assms(1), of "chunks_of b"] n chunk_limit [of n 47]
    by (simp add: pack_bytes_chunks)
qed

lemma merkleize_bits:
  assumes "hash32 H" and "chunks32 cs" and "0 < n" and "n \<le> 2 ^ 47"
    and "length cs \<le> (n + 255) div 256 \<or> 256 < n"
  shows "and_then (next_pow_of_two ((n + 255) div 256))
           (merkleize_chunks_with_virtual_padding H (concat cs)) = Ok (merkleize H cs ((n + 255) div 256))"
proof -
  let ?l = "(n + 255) div 256"
  have l: "0 < ?l" using assms(3) by (simp add: div_greater_zero_iff)
  note depth = log2_ceil_bounds [OF l]
  have small: "?l \<le> 2 ^ 47" using chunk_limit [OF assms(4)] by simp
  then have "log2_ceil ?l \<le> 47" by (rule log2_ceil_le)
  then have "log2_ceil ?l \<le> 64" by simp
  moreover have "length cs \<le> 1 \<or> 1 < (2::nat) ^ log2_ceil ?l"
  proof (cases "256 < n")
    case True
    then have "(257 + 255) div 256 \<le> ?l" by (intro div_le_mono) simp
    with depth show ?thesis by simp
  next
    case False
    with assms(5) depth show ?thesis by (cases "log2_ceil ?l") auto
  qed
  ultimately show ?thesis
    using merkleize_root [OF assms(1,2), of "2 ^ log2_ceil ?l"] l small by (simp add: next_pow_of_two_ceil merkleize_def)
qed

lemma chunk_count_bits:
  "chunk_count (SBitlist n) = (n + 255) div 256" "chunk_count (SBitvector n) = (n + 255) div 256"
  by (simp_all add: add.commute)

lemma root_bitvector:
  assumes "hash32 H" and "schema_wf (SBitvector n)" and "exact_limits (SBitvector n)" and "length bs = n"
  shows "ex_hash_tree_root H (SBitvector n) (XBits bs) = Ok (hash_root H (SBitvector n) (XBits bs))"
proof -
  let ?cs = "chunks_of (BitVector_to_bytes bs)"
  have "((n + 7) div 8 + 31) div 32 = (n + 255) div 256"
  proof -
    have "(n + 7) div 8 + 31 = (n + 255) div 8" using div_add_self1 [of 8 "n + 7"] by simp
    then show ?thesis by (simp add: div_mult2_eq [symmetric])
  qed
  then have "length ?cs \<le> (n + 255) div 256" using assms(4) by (simp add: length_chunks_of byte_size_def)
  then show ?thesis
    using merkleize_bits [OF assms(1), of ?cs n] assms(2-4)
    by (simp add: pack_bytes_chunks chunk_count_bits del: chunk_count.simps)
qed

lemma root_bitlist:
  assumes "hash32 H" and "schema_wf (SBitlist n)" and "exact_limits (SBitlist n)" and "length bs \<le> n"
  shows "ex_hash_tree_root H (SBitlist n) (XBits bs) = Ok (hash_root H (SBitlist n) (XBits bs))"
proof -
  let ?cs = "chunks_of (BitList_to_packed_bytes bs)"
  obtain k where k: "?cs = chunks_of (BitVector_to_bytes bs) @ replicate k zero_chunk"
    using chunks_of_packed_bits by blast
  have "length ?cs \<le> (n + 255) div 256 \<or> 256 < n"
  proof (cases "256 < n")
    case False
    with assms have n: "n \<le> 255" "0 < n" by auto
    then have "length ?cs \<le> (255 div 8 + 1 + 31) div 32" using assms(4)
      unfolding length_chunks_of length_BitList_to_packed_bytes by (intro div_le_mono add_le_mono) simp_all
    moreover have "1 \<le> (n + 255) div 256" using n by (simp add: div_greater_zero_iff Suc_le_eq)
    ultimately show ?thesis by simp
  qed simp
  moreover have "merkleize H ?cs l = merkleize H (chunks_of (BitVector_to_bytes bs)) l" for l
    by (simp add: k merkleize_def merkle_root_padded)
  ultimately show ?thesis
    using merkleize_bits [OF assms(1), of ?cs n] assms(2-4)
    by (auto simp: pack_bytes_chunks chunk_count_bits simp del: chunk_count.simps)
qed

subsection \<open>Lists, vectors and containers\<close>

text \<open>A schema whose values have the reference's roots.\<close>

definition rooted :: "hasher \<Rightarrow> schema \<Rightarrow> bool" where
  "rooted H s \<longleftrightarrow> (\<forall>v. conforms s v \<longrightarrow>
     ex_hash_tree_root H s v = Ok (hash_root H s v) \<and> length (hash_root H s v) = 32)"

lemma rootedD:
  assumes "rooted H s" and "conforms s v"
  shows "ex_hash_tree_root H s v = Ok (hash_root H s v)" "length (hash_root H s v) = 32"
  using assms by (simp_all add: rooted_def)

lemma rooted_elements:
  assumes "rooted H s" and "list_all (conforms s) vs"
  shows "list_hash_tree_root (ex_hash_tree_root H s) vs [] = Ok (concat (map (hash_root H s) vs))"
    and "chunks32 (map (hash_root H s) vs)"
  using assms list_hash_tree_root_concat [of vs "ex_hash_tree_root H s" "hash_root H s" "[]"]
  by (simp_all add: rooted_def chunks32_def list_all_iff)

lemma rooted_list:
  assumes H: "hash32 H" and "schema_wf (SList s n)" and "exact_limits (SList s n)" and "rooted H s"
  shows "rooted H (SList s n)"
  unfolding rooted_def
proof (intro allI impI)
  fix v
  assume "conforms (SList s n) v"
  then obtain vs where vs: "v = XList vs" "length vs \<le> n" "list_all (conforms s) vs"
    by (auto simp: conforms_iff simp del: conforms.simps)
  show "ex_hash_tree_root H (SList s n) v = Ok (hash_root H (SList s n) v) \<and>
      length (hash_root H (SList s n) v) = 32"
  proof (cases "basic_type s")
    case True
    let ?cs = "chunks_of (concat (map (serialize s) vs))" and ?l = "(n * get_fixed_size s + 31) div 32"
    have "length ?cs \<le> ?l"
      using vs(2) assms(2) True by (simp add: length_chunks_of length_basic_elements vs(3) div_le_mono)
    moreover have "?l \<le> 2 ^ 64"
      using byte_limit [of n 59 "get_fixed_size s"] assms(2,3) basic_fixed_size [of s] True by simp
    moreover have "chunk_count (SList s n) = ?l" using True assms(3) by (cases s) simp_all
    ultimately show ?thesis
      using hash_tree_root_list_concat [OF H, of ?cs ?l "length vs"] assms(3) True
        pack_list_serialize [OF True vs(3)] vs
      by (simp add: H del: chunk_count.simps)
  next
    case False
    let ?cs = "map (hash_root H s) vs"
    show ?thesis
      using hash_tree_root_list_concat [OF H, of ?cs n "length vs"] assms(3) False vs
        rooted_elements [OF assms(4) vs(3)]
      by (simp add: H)
  qed
qed

lemma rooted_vector:
  assumes H: "hash32 H" and "schema_wf (SVector s n)" and "exact_limits (SVector s n)" and "rooted H s"
  shows "rooted H (SVector s n)"
  unfolding rooted_def
proof (intro allI impI)
  fix v
  assume "conforms (SVector s n) v"
  then obtain vs where vs: "v = XList vs" "length vs = n" "list_all (conforms s) vs"
    by (auto simp: conforms_iff simp del: conforms.simps)
  have "0 < n" using assms(2) by simp
  show "ex_hash_tree_root H (SVector s n) v = Ok (hash_root H (SVector s n) v) \<and>
      length (hash_root H (SVector s n) v) = 32"
  proof (cases "basic_type s")
    case True
    let ?cs = "chunks_of (concat (map (serialize s) vs))" and ?l = "(n * get_fixed_size s + 31) div 32"
    have len: "length ?cs = ?l"
      using vs(2) assms(2) True by (simp add: length_chunks_of length_basic_elements vs(3))
    have "0 < get_fixed_size s" using fixed_size_pos [of s] basic_fixed_size [of s] assms(2) True by simp
    then have "0 < ?l" using \<open>0 < n\<close> by (simp add: div_greater_zero_iff Suc_le_eq)
    moreover have "?l \<le> 2 ^ 47"
      using byte_limit [of n 47 "get_fixed_size s"] assms(2,3) basic_fixed_size [of s] True by simp
    ultimately show ?thesis
      using hash_tree_root_vector_concat [OF H chunks_of_chunks32, of "concat (map (serialize s) vs)"]
        len True pack_list_serialize [OF True vs(3)] vs
      by (cases "?cs = []") (simp_all add: H)
  next
    case False
    let ?cs = "map (hash_root H s) vs"
    have "length vs \<le> 2 ^ 47" using assms(3) vs(2) by simp
    then show ?thesis
      using hash_tree_root_vector_concat [OF H, of ?cs] False vs \<open>0 < n\<close> rooted_elements [OF assms(4) vs(3)]
      by (cases "vs = []") (simp_all add: H)
  qed
qed

lemma rooted_container:
  assumes H: "hash32 H" and wf: "schema_wf (SModule nm fs)" and limits: "exact_limits (SModule nm fs)"
    and fields: "\<And>k s. (k, s) \<in> set fs \<Longrightarrow> rooted H s"
  shows "rooted H (SModule nm fs)"
  unfolding rooted_def
proof (intro allI impI)
  fix v
  assume v: "conforms (SModule nm fs) v"
  then obtain vs where vs: "v = XStruct nm vs" by (auto simp: conforms_iff simp del: conforms.simps)
  let ?cs = "map (\<lambda>(k, s). hash_root H s (the (map_of vs k))) fs"
  have each: "\<exists>w. map_of vs k = Some w \<and> ex_hash_tree_root H s w = Ok (hash_root H s w) \<and>
      length (hash_root H s w) = 32" if ks: "(k, s) \<in> set fs" for k s
    using conforms_field [OF v [unfolded vs] ks] fields [OF ks] rootedD by blast
  then have "chunks32 ?cs" by (fastforce simp: chunks32_def list_all_iff)
  moreover have "container_hash_tree_root vs (map (\<lambda>(k, s). (k, ex_hash_tree_root H s)) fs) [] = Ok ([] @ concat ?cs)"
    using each by (intro container_hash_tree_root_concat) blast
  moreover have "?cs \<noteq> []" "length ?cs = length fs" "length fs \<le> 2 ^ 47" using wf limits by auto
  ultimately show "ex_hash_tree_root H (SModule nm fs) v = Ok (hash_root H (SModule nm fs) v) \<and>
      length (hash_root H (SModule nm fs) v) = 32"
    using hash_tree_root_vector_concat [OF H, of ?cs]
    by (simp add: vs H hash_tree_root_vector_def)
qed

subsection \<open>Every schema\<close>

lemma rooted_bool: "rooted H SBool"
  unfolding rooted_def
proof (intro allI impI)
  fix v
  assume "conforms SBool v"
  then obtain b where v: "v = XBool b" by (auto simp: conforms_iff simp del: conforms.simps)
  have "chunks_of [if b then 1 else 0] = [[if b then 1 else 0] @ replicate 31 0]"
    by (subst chunks_of.simps) simp
  moreover have "le_bytes 32 1 = [1] @ replicate 31 0" "zero_chunk = [0] @ replicate 31 0"
    by code_simp+
  ultimately show "ex_hash_tree_root H SBool v = Ok (hash_root H SBool v) \<and> length (hash_root H SBool v) = 32"
    by (simp add: v pack_bool_def merkleize_def log2_ceil_def split: bool.split)
qed

lemma rooted_int:
  assumes "schema_wf (SInt n)"
  shows "rooted H (SInt n)"
  unfolding rooted_def
proof (intro allI impI)
  fix v
  assume "conforms (SInt n) v"
  then obtain i where v: "v = XInt i" by (auto simp: conforms_iff simp del: conforms.simps)
  have "length (chunks_of (le_bytes (n div 8) i)) = 1" using assms by (auto simp: length_chunks_of)
  then obtain c where c: "chunks_of (le_bytes (n div 8) i) = [c]" by (metis length_0_conv length_Suc_conv One_nat_def)
  moreover have "length c = 32" using c chunks_of_chunks32 [of "le_bytes (n div 8) i"] by simp
  ultimately show "ex_hash_tree_root H (SInt n) v = Ok (hash_root H (SInt n) v) \<and> length (hash_root H (SInt n) v) = 32"
    by (simp add: v pack_int_def pack_bytes_chunks merkleize_def log2_ceil_def)
qed

lemma rooted_leaf:
  assumes "hash32 H"
  shows "exact_limits (SByteList n) \<Longrightarrow> rooted H (SByteList n)"
    and "schema_wf (SByteVector n) \<Longrightarrow> exact_limits (SByteVector n) \<Longrightarrow> rooted H (SByteVector n)"
    and "schema_wf (SBitlist n) \<Longrightarrow> exact_limits (SBitlist n) \<Longrightarrow> rooted H (SBitlist n)"
    and "schema_wf (SBitvector n) \<Longrightarrow> exact_limits (SBitvector n) \<Longrightarrow> rooted H (SBitvector n)"
  unfolding rooted_def
  by (auto simp: conforms_iff root_byte_list root_byte_vector root_bitlist root_bitvector assms
      simp del: conforms.simps ex_hash_tree_root.simps exact_limits.simps schema_wf.simps)

lemma hash_tree_root_rooted:
  assumes "hash32 H"
  shows "schema_wf s \<Longrightarrow> exact_limits s \<Longrightarrow> rooted H s"
proof (induction s)
  case (SModule nm fs)
  have "rooted H s" if "(k, s) \<in> set fs" for k s
    using SModule.IH [of "(k, s)" s] SModule.prems that by (auto simp: list_all_iff)
  then show ?case by (rule rooted_container [OF assms SModule.prems])
qed (auto intro!: rooted_list rooted_vector rooted_leaf rooted_bool rooted_int assms simp: assms)

end
