(* ===== verification/Ssz_Ex_Proofs.thy ===== *)
theory Ssz_Ex_Proofs
  imports Ssz_Ex_Hash_Tree
begin

text \<open>
  Merkle proofs: the proof that \<open>compute_merkle_proof\<close> builds is the branch of \<open>Merkle_Trees\<close>, the
  root that \<open>generate_merkle_proof\<close> folds it to is the root of that branch, and
  \<open>merkleize_chunks\<close>, with its padding written out, computes the root of the virtual padding.
\<close>

section \<open>Building a proof\<close>

lemma hash_pairs_next_layer: "hash_pairs H z cs = next_layer H z cs"
  by (induction H z cs rule: next_layer.induct) simp_all

lemma sibling_arith: "k + 1 - k mod 2 * 2 = sibling k"
  by (cases "even k") (auto simp: sibling_def elim!: oddE)

lemma compute_merkle_proof_loop_branch:
  assumes "hash32 H"
  shows "leaves \<noteq> [] \<Longrightarrow> length leaves \<le> 2 ^ d \<Longrightarrow> i + d \<le> 65 \<Longrightarrow>
    compute_merkle_proof_loop H leaves k i (i + d) proof = Ok (rev proof @ merkle_branch H i d leaves k)"
proof (induction d arbitrary: i leaves k "proof")
  case 0
  then have "length leaves = 1" by (cases leaves) auto
  then show ?case by (simp add: compute_merkle_proof_loop.simps [of H leaves k i])
next
  case (Suc d)
  let ?z = "zero_root H i"
  have "next_layer H ?z leaves \<noteq> []"
    using Suc.prems(1) by (cases "(H, ?z, leaves)" rule: next_layer.cases) simp_all
  moreover have "length (next_layer H ?z leaves) \<le> 2 ^ d"
    using Suc.prems(2) by (simp add: less_mult_imp_div_less mult.commute flip: less_Suc_eq_le)
  ultimately have "compute_merkle_proof_loop H (next_layer H ?z leaves) (k div 2) (Suc i) (Suc i + d) p =
      Ok (rev p @ merkle_branch H (Suc i) d (next_layer H ?z leaves) (k div 2))" for p
    using Suc.prems(3) by (intro Suc.IH) simp_all
  with Suc.prems(3) get_zero_hash_root [OF assms, of i] show ?case
    by (subst compute_merkle_proof_loop.simps)
       (simp add: Let_def sibling_arith [simplified] hash_pairs_next_layer flip: leaf_at_def)
qed

lemma compute_merkle_proof_branch:
  assumes "hash32 H" and "leaves \<noteq> []" and "length leaves \<le> 2 ^ d" and "d \<le> 65"
  shows "compute_merkle_proof H leaves k d = Ok (merkle_branch H 0 d leaves k)"
  using compute_merkle_proof_loop_branch [OF assms(1-3), of 0] assms(4)
  by (simp add: compute_merkle_proof_def)

section \<open>Checking a proof\<close>

lemma fold_merkle_nodes:
  "foldl (\<lambda>value (i, v). hash_merkle_node H v value k i) leaf (enumerate n ss) =
     branch_root H leaf ss (k div 2 ^ n)"
proof (induction ss arbitrary: leaf n)
  case (Cons s ss)
  have "hash_merkle_node H s leaf k n =
      (if odd (k div 2 ^ n) then hash_nodes H s leaf else hash_nodes H leaf s)"
    by (simp add: hash_merkle_node_def hash_nodes_def odd_iff_mod_2_eq_one)
  moreover have "k div 2 ^ Suc n = k div 2 ^ n div 2" by (metis div_mult2_eq power_Suc2)
  ultimately show ?case using Cons [of _ "Suc n"] by (simp del: power_Suc)
qed simp

lemma generate_merkle_proof_root:
  "generate_merkle_proof H leaf ss depth k = branch_root H leaf (take depth ss) k"
  using fold_merkle_nodes [of H k leaf 0] by (simp add: generate_merkle_proof_def)

text \<open>Two branches to the same root from different leaves contain a collision of the hash function.\<close>

text \<open>The inputs that are hashed from a leaf up to the root, from the lowest level on.\<close>

fun branch_inputs :: "hasher \<Rightarrow> bytes \<Rightarrow> bytes list \<Rightarrow> nat \<Rightarrow> bytes list" where
  "branch_inputs H v [] k = []"
| "branch_inputs H v (s # ss) k =
     (let input = (if odd k then s @ v else v @ s) in input # branch_inputs H (H input) ss (k div 2))"

lemma branch_root_binding:
  assumes "hash32 H"
  shows "length ss = length ts \<Longrightarrow> chunks32 ss \<Longrightarrow> chunks32 ts \<Longrightarrow> length v = 32 \<Longrightarrow> length w = 32 \<Longrightarrow>
    branch_root H v ss k = branch_root H w ts k \<Longrightarrow> v \<noteq> w \<Longrightarrow>
    \<exists>i < length ss. branch_inputs H v ss k ! i \<noteq> branch_inputs H w ts k ! i \<and>
      H (branch_inputs H v ss k ! i) = H (branch_inputs H w ts k ! i)"
proof (induction ss ts arbitrary: v w k rule: list_induct2)
  case (Cons s ss t ts)
  let ?v = "if odd k then s @ v else v @ s" and ?w = "if odd k then t @ w else w @ t"
  have "?v \<noteq> ?w" using Cons.prems by auto
  moreover have "length (H ?v) = 32" "length (H ?w) = 32" using assms by (simp_all add: hash32_def)
  moreover have "branch_root H (H ?v) ss (k div 2) = branch_root H (H ?w) ts (k div 2)"
    using Cons.prems(5) by (simp add: hash_nodes_def split: if_splits)
  ultimately show ?case
    using Cons.IH [of "H ?v" "H ?w" "k div 2"] Cons.prems(1,2)
    by (cases "H ?v = H ?w") (auto simp: Ex_less_Suc2 Let_def)
qed simp

section \<open>Padding written out\<close>

lemma get_full_parent_layer_concat:
  assumes "hash32 H" and "chunks32 cs" and "cs \<noteq> []" and "even (length cs)"
  shows "get_full_parent_layer H (concat cs) = Ok (concat (next_layer H z cs))"
proof -
  have "get_node_pair j (concat cs) = Ok (leaf_at z cs j, leaf_at z cs (j + 1))"
    if "j < length cs" "j mod 2 = 0" for j
  proof -
    have "even j" using that by (simp add: even_iff_mod_2_eq_zero)
    with that assms(4) have "Suc j < length cs" by (metis Suc_lessI even_Suc)
    with get_node_pair_concat [OF assms(2) this] show ?thesis by (simp add: leaf_at_def)
  qed
  then have "foldl (\<lambda>acc j. and_then acc (\<lambda>acc_parent_layer.
      and_then (get_node_pair j (concat cs)) (\<lambda>(left, right). Ok (acc_parent_layer @ hash_nodes H left right))))
      (Ok []) [j \<leftarrow> [0..<length cs]. j mod 2 = 0] =
      Ok ([] @ concat (map (\<lambda>j. hash_nodes H (leaf_at z cs j) (leaf_at z cs (j + 1)))
        [j \<leftarrow> [0..<length cs]. j mod 2 = 0]))"
    by (intro foldl_nodes) auto
  then show ?thesis
    using assms(3) chunks32_lengths(2) [OF assms(2)] by (simp add: get_full_parent_layer_def next_layer_index)
qed

lemma full_layers_foldl:
  assumes "hash32 H"
  shows "chunks32 cs \<Longrightarrow> length cs = 2 ^ length js \<Longrightarrow>
    foldl (\<lambda>acc i. and_then acc (get_full_parent_layer H)) (Ok (concat cs)) js =
      Ok (merkle_root H (zero_root H l) (length js) cs)"
proof (induction js arbitrary: l cs)
  case Nil
  then show ?case by (cases cs) auto
next
  case (Cons j js)
  let ?next = "next_layer H (zero_root H l) cs"
  have "cs \<noteq> []" "even (length cs)" using Cons.prems(2) by auto
  then have "get_full_parent_layer H (concat cs) = Ok (concat ?next)"
    using Cons.prems(1) by (intro get_full_parent_layer_concat [OF assms])
  moreover have "length ?next = 2 ^ length js" using Cons.prems(2) by simp
  ultimately show ?case
    using Cons.IH [of ?next "Suc l"] next_layer_chunks32 [OF assms, of "zero_root H l" cs]
      merkle_root_next_layer [of H "zero_root H l" "length js" cs]
    by (simp del: merkle_root.simps)
qed

lemma merkleize_chunks_root:
  assumes "hash32 H" and "chunks32 cs" and "length cs \<le> 2 ^ p" and "0 < p" and "p \<le> 47"
  shows "merkleize_chunks H (concat cs) (Some (2 ^ p)) = Ok (merkle_root H zero_chunk p cs)"
proof -
  let ?first = "cs @ replicate (2 ^ p - length cs) zero_chunk"
  have "(2::nat) ^ p \<le> 2 ^ 47" using assms(5) by (rule power_increasing) simp
  then have "next_pow_of_two (2 ^ p) = Ok (2 ^ p)"
    using next_pow_of_two_ceil [of "2 ^ p"] log2_ceil_power [of "2 ^ p" p] by simp
  then have "convert_to_next_pow_of_two (concat cs) (2 ^ p) = Ok (concat ?first)"
    using assms(3) chunks32_lengths(1) [OF assms(2)] by (auto simp: convert_to_next_pow_of_two_def Let_def)
  moreover have "length (ex_range p 1) = p" using assms(4) by (auto simp: ex_range_def)
  moreover have "chunks32 ?first" using assms(2) by (auto simp: chunks32_def list_all_iff)
  ultimately show ?thesis
    using full_layers_foldl [OF assms(1), of ?first "ex_range p 1" 0] assms(3,5)
    by (simp add: merkleize_chunks_def compute_pow_def merkle_root_padded)
qed

end
