(* ===== verification/Ssz_Ex_Merkle_Properties.thy ===== *)
theory Ssz_Ex_Merkle_Properties
  imports Ssz_Ex_Proofs Ssz_Ex_Properties
begin

text \<open>
  What \<open>merkleization.ex\<close> and the branch check of \<open>predicates.ex\<close> promise, over any hash function
  that returns 32 bytes.
\<close>

section \<open>A hash function for the examples\<close>

text \<open>The first 32 bytes of the input, which is no hash function but returns 32 bytes.\<close>

definition prefix_hash :: hasher where
  "prefix_hash b = take 32 (b @ replicate 32 0)"

lemma prefix_hash32 [simp]: "hash32 prefix_hash"
  by (auto simp: hash32_def prefix_hash_def)

lemma prefix_hash_zero: "prefix_hash (zero_chunk @ b) = zero_chunk"
  by (simp add: prefix_hash_def)

section \<open>Roots\<close>

text \<open>
  C6: The hash tree root of a value is the one the SSZ specification defines, for the well-formed
  schemas of \<open>exact_limits\<close>: the limit of every list, counted in chunks, is a power of two, there is no
  list of booleans and no bit list with a limit of 256 bits, lists of bytes have at most \<open>2 ^ 64\<close> bytes
  and other lists at most \<open>2 ^ 59\<close> elements, and vectors, bit fields and containers at most \<open>2 ^ 47\<close> of their parts.
\<close>

theorem ssz_ex_root_reference:
  assumes "hash32 H" and "schema_wf s" and "exact_limits s" and "conforms s v"
  shows "ex_hash_tree_root H s v = Ok (hash_root H s v)"
  using hash_tree_root_rooted [OF assms(1-3)] assms(4) by (rule rootedD)

theorem ssz_ex_root_reference_witness:
  "ex_hash_tree_root prefix_hash flat_schema flat_value = Ok (hash_root prefix_hash flat_schema flat_value)"
  by (rule ssz_ex_root_reference)
     (simp_all add: flat_schema_def flat_value_def power_of_two_def log2_floor.simps)

text \<open>
  C38: A limit that is not a power of two is rounded down: two lists of composite elements of the same length
  that agree up to that power of two have the same root, although both are within the limit. The limit
  is below \<open>2 ^ 48\<close>.
\<close>

theorem ssz_ex_list_limit_rounded_down:
  assumes "hash32 H" and "schema_wf s" and "exact_limits s" and "\<not> basic_type s"
    and "1 < n" and "n < 2 ^ 48"
    and "conforms (SList s n) (XList vs)" and "conforms (SList s n) (XList ws)"
    and "length vs = length ws" and "take (2 ^ log2_floor n) vs = take (2 ^ log2_floor n) ws"
  shows "ex_hash_tree_root H (SList s n) (XList vs) = ex_hash_tree_root H (SList s n) (XList ws)"
proof -
  note rooted = hash_tree_root_rooted [OF assms(1-3)]
  have "(2::nat) ^ log2_floor n < 2 ^ 65" using log2_floor_bounds [of n] assms(5,6) by simp
  then have depth: "log2_floor n \<le> 64"
    by (simp only: power_strict_increasing_iff one_less_numeral_iff semiring_norm)
  have root: "ex_hash_tree_root H (SList s n) (XList us) =
      Ok (mix_length H (merkle_root H zero_chunk (log2_floor n)
        (map (hash_root H s) (take (2 ^ log2_floor n) us))) (length us))"
    if "conforms (SList s n) (XList us)" for us
  proof -
    have us: "length us \<le> n" "list_all (conforms s) us" using that by simp_all
    from merkleize_root [OF assms(1) rooted_elements(2) [OF rooted us(2)], of n] assms(5) depth log2_exact_small [OF assms(6)]
    have "merkleize_chunks_with_virtual_padding H (concat (map (hash_root H s) us)) n =
        Ok (merkle_root H zero_chunk (log2_floor n) (map (hash_root H s) us))" by simp
    then show ?thesis
      using us assms(4) rooted_elements(1) [OF rooted us(2)]
      by (simp add: hash_tree_root_list_def merkle_root_take flip: take_map)
  qed
  show ?thesis unfolding root [OF assms(7)] root [OF assms(8)] assms(9,10) ..
qed

theorem ssz_ex_list_limit_rounded_down_witness:
  "ex_hash_tree_root prefix_hash (SList (SByteVector 1) 3) (XList [XBin [1], XBin [2], XBin [3]]) =
   ex_hash_tree_root prefix_hash (SList (SByteVector 1) 3) (XList [XBin [1], XBin [2], XBin [4]])"
  by (rule ssz_ex_list_limit_rounded_down) (simp_all add: log2_floor.simps)

text \<open>
  Padding the chunks with zero chunks up to a power of two above one and hashing layer by layer
  gives the same root as the virtual padding.
\<close>

theorem ssz_ex_padding_equivalence:
  assumes "hash32 H" and "chunks32 cs" and "length cs \<le> 2 ^ p" and "0 < p" and "p \<le> 47"
  shows "merkleize_chunks H (concat cs) (Some (2 ^ p)) =
           merkleize_chunks_with_virtual_padding H (concat cs) (2 ^ p)"
proof -
  have "1 < (2::nat) ^ p" using assms(4) by (intro one_less_power) simp_all
  then show ?thesis
    using merkleize_chunks_root [OF assms] merkleize_root [OF assms(1,2), of "2 ^ p"] assms(5) by simp
qed

theorem ssz_ex_padding_equivalence_witness:
  "merkleize_chunks prefix_hash (concat [zero_chunk, replicate 32 7, replicate 32 8]) (Some (2 ^ 2)) =
   merkleize_chunks_with_virtual_padding prefix_hash (concat [zero_chunk, replicate 32 7, replicate 32 8]) (2 ^ 2)"
  by (rule ssz_ex_padding_equivalence) simp_all

section \<open>Proofs\<close>

text \<open>
  C13: The proof computed for an index of a tree is accepted against the root computed for the same
  leaves. It has one node for each level of the tree.
\<close>

theorem merkle_proof_accepted:
  assumes "hash32 H" and "chunks32 leaves" and "leaves \<noteq> []" and "length leaves \<le> 2 ^ d" and "d \<le> 64"
    and "k < 2 ^ d"
  shows "\<exists>branch root. compute_merkle_proof H leaves k d = Ok branch \<and> length branch = d \<and>
    merkleize_chunks_with_virtual_padding H (concat leaves) (2 ^ d) = Ok root \<and>
    valid_merkle_branch H (leaf_at zero_chunk leaves k) branch d k root"
proof -
  have "length leaves \<le> 1 \<or> 1 < (2::nat) ^ d" using assms(4) by (cases d) auto
  then have "merkleize_chunks_with_virtual_padding H (concat leaves) (2 ^ d) = Ok (merkle_root H zero_chunk d leaves)"
    using merkleize_root [OF assms(1,2), of "2 ^ d"] assms(5) by simp
  moreover have "compute_merkle_proof H leaves k d = Ok (merkle_branch H 0 d leaves k)"
    using compute_merkle_proof_branch [OF assms(1,3,4)] assms(5) by simp
  ultimately show ?thesis
    using branch_root_branch [OF assms(6), of H 0 leaves]
    by (simp add: valid_merkle_branch_def generate_merkle_proof_root)
qed

theorem merkle_proof_accepted_witness:
  "\<exists>branch root. compute_merkle_proof prefix_hash [zero_chunk, replicate 32 7, replicate 32 8] 1 2 = Ok branch \<and>
    length branch = 2 \<and>
    merkleize_chunks_with_virtual_padding prefix_hash (concat [zero_chunk, replicate 32 7, replicate 32 8]) (2 ^ 2) =
      Ok root \<and>
    valid_merkle_branch prefix_hash (leaf_at zero_chunk [zero_chunk, replicate 32 7, replicate 32 8] 1) branch 2 1 root"
  by (rule merkle_proof_accepted) simp_all

text \<open>
  C14: A branch check is binding: when two different leaves of 32 bytes are accepted for the same index
  and root, with branches of as many nodes of 32 bytes as the tree is deep, the two computations of the
  root hash, at some level, two different inputs to the same hash.
\<close>

theorem merkle_proof_binding:
  assumes "hash32 H" and "valid_merkle_branch H v ss d k root" and "valid_merkle_branch H w ts d k root"
    and "v \<noteq> w" and "length v = 32" and "length w = 32" and "chunks32 ss" and "chunks32 ts"
    and "length ss = d" and "length ts = d"
  shows "\<exists>i < d. branch_inputs H v ss k ! i \<noteq> branch_inputs H w ts k ! i \<and>
    H (branch_inputs H v ss k ! i) = H (branch_inputs H w ts k ! i)"
  using branch_root_binding [OF assms(1) _ assms(7,8,5,6) _ assms(4), of k] assms(2,3,9,10)
  by (simp add: valid_merkle_branch_def generate_merkle_proof_root)

theorem merkle_proof_binding_witness:
  "zero_chunk @ replicate 32 1 \<noteq> zero_chunk @ replicate 32 2 \<and>
   prefix_hash (zero_chunk @ replicate 32 1) = prefix_hash (zero_chunk @ replicate 32 2)"
  using merkle_proof_binding [of prefix_hash "replicate 32 1" "[zero_chunk]" 1 1 zero_chunk "replicate 32 2" "[zero_chunk]"]
  by (simp add: valid_merkle_branch_def generate_merkle_proof_root hash_nodes_def prefix_hash_zero)

end
