(* ===== verification/Ssz_Nif_Properties.thy ===== *)
theory Ssz_Nif_Properties
  imports Ssz_Instance Ssz_Ex_Merkle_Properties
begin

text \<open>
  What the NIFs of the module \<open>Ssz\<close> promise, for any \<open>rustler\<close> and any SSZ crates that meet the
  contract \<open>ssz_nif\<close>. The examples run them on the Elixir library in the place of the crates.
\<close>

section \<open>The NIFs inside the contract\<close>

lemma elx_typed_LVec: "elx_typed e (LVec ws) \<Longrightarrow> \<exists>e'. e = EVec e'"
  by (cases e) auto

context ssz_nif
begin

lemma to_binary [simp]: "bytes_to_binary (NewBinary_new R) b = Ok b"
  by (rule bytes_to_binary_Ok) (rule new_binary)

lemma nif_types_no_panic: "\<not> panics (nif_types R schema config)"
proof -
  have "\<not> panics (schema_types s c)" for s c using schema_types_cases [of s c] by auto
  moreover have "\<not> panics (ok_or x e)" for x :: "string option" and e :: nif_error by (cases x) simp_all
  ultimately show ?thesis by (auto simp: nif_types_def atom_to_string_no_panic)
qed

lemma scalar_term:
  assumes "nif_types R schema config = Ok (e, t)" and "elx_typed e w"
  shows "\<not> is_list R (term_encode R w)"
  using assms(2) nif_types_no_list [OF assms(1)] elx_typed_LVec by (auto simp: is_list_encode)

lemma nif_round_trip:
  assumes "nif_types R schema config = Ok (e, t)" and "elx_typed e w" and "uint256_exact t w"
    and "to_ssz_rs R K (term_encode R w) schema config = Ok (ok, b)" and "length b < max_ssz_length"
  shows "from_ssz_rs R K b schema config = Ok (ok, term_encode R w)"
proof -
  note types = nif_types_Ok [OF assms(1)]
  from assms(1,4) have "encode_ssz R K e t (term_encode R w) = Ok b" by (simp add: nifs_types)
  then obtain v where v: "from_elx K t w = Ok v" "b = as_ssz_bytes K t v"
    using encode_ssz_Ok [OF _ types(1) scalar_term [OF assms(1,2)]] term_decode_encode [OF assms(2)] by force
  from decode_after_encode [OF types assms(2,3) v(1)] v(2) assms(1,5) show ?thesis by (simp add: nifs_types)
qed

lemma nif_list_round_trip:
  assumes "nif_types R schema config = Ok (e, t)" and "list_all (elx_typed e) ws"
    and "list_all (uint256_exact t) ws"
    and "to_ssz_rs R K (term_encode R (LVec ws)) schema config = Ok (ok, b)" and "length b < max_ssz_length"
  shows "list_from_ssz_rs R K b schema config = Ok (ok, term_encode R (LVec ws))"
proof -
  note types = nif_types_Ok [OF assms(1)]
  have list: "is_list R (term_encode R (LVec ws))" by (simp add: is_list_encode)
  have typed: "elx_typed (EVec e) (LVec ws)" using assms(2) by simp
  from assms(1,4) have "encode_ssz R K e t (term_encode R (LVec ws)) = Ok b" by (simp add: nifs_types)
  then obtain v where v: "from_elx K (TVec t) (LVec ws) = Ok v" "b = as_ssz_bytes K (TVec t) v"
    using encode_ssz_list_Ok [OF _ types(1) list] term_decode_encode [OF typed] by force
  from decode_after_encode [OF _ _ typed _ v(1)] v(2) types assms(1,3,5) show ?thesis
    by (simp add: nifs_types list_decode_ssz_def)
qed

lemma nif_reencode:
  assumes "from_ssz_rs R K b schema config = Ok (ok, x)"
  obtains b' where "to_ssz_rs R K x schema config = Ok (ok, b')"
    and "length b' < max_ssz_length \<Longrightarrow> from_ssz_rs R K b' schema config = Ok (ok, x)"
proof -
  from assms obtain e t where types: "nif_types R schema config = Ok (e, t)" and dec: "decode_ssz R K e t b = Ok x"
    by (auto simp: nifs_types)
  note ok = nif_types_Ok [OF types]
  from dec obtain v w where v: "from_ssz_bytes K t b = Ok v" "from_ssz (NewBinary_new R) K t e v = Ok w"
    "x = term_encode R w" by (auto simp: decode_ssz_def)
  have "elx_typed e w" using conv.from_ssz_total [OF ok(1) decode_typed [OF ok(2) v(1)]] v(2) by auto
  then have "\<not> is_list R x" using scalar_term [OF types] v(3) by simp
  from encode_after_decode [OF ok dec this] obtain v' where
    "encode_ssz R K e t x = Ok (as_ssz_bytes K t v')"
    "length (as_ssz_bytes K t v') < max_ssz_length \<Longrightarrow> decode_ssz R K e t (as_ssz_bytes K t v') = Ok x" by blast
  with types show ?thesis by (intro that [of "as_ssz_bytes K t v'"]) (simp_all add: nifs_types)
qed

lemma nif_no_panic:
  "\<not> panics (to_ssz_rs R K x schema config) \<and> \<not> panics (from_ssz_rs R K b schema config) \<and>
   \<not> panics (list_from_ssz_rs R K b schema config)"
proof -
  have "\<not> panics (encode_ssz R K e t x)" "\<not> panics (decode_ssz R K e t b)" "\<not> panics (list_decode_ssz R K e t b)"
    if "nif_types R schema config = Ok (e, t)" for e t
    using nif_types_Ok [OF that] encode_ssz_no_panic [of t e x] decode_ssz_no_panic [of t e b]
      decode_ssz_no_panic [of "TVec t" "EVec e" b] by (simp_all add: list_decode_ssz_def)
  then show ?thesis using nif_types_no_panic by (auto simp: nifs_types)
qed

end

section \<open>A checkpoint for the examples\<close>

definition sample_checkpoint :: elx_val where
  "sample_checkpoint = LStruct ''Types.Checkpoint'' [(''epoch'', LU64 5), (''root'', LBinary (replicate 32 9))]"

definition checkpoint_atom :: ex_val where
  "checkpoint_atom = XAtom ''Elixir.Types.Checkpoint''"

definition sample_checkpoint_bytes :: bytes where
  "sample_checkpoint_bytes = [5, 0, 0, 0, 0, 0, 0, 0] @ replicate 32 9"

lemma checkpoint_types: "nif_types terms checkpoint_atom (XAtom ''minimal'') = Ok (elx_Checkpoint, ssz_Checkpoint)"
proof -
  have "nif_types terms checkpoint_atom (XAtom ''minimal'') = schema_types ''Checkpoint'' ''minimal''"
    by (rule nif_types_named [of terms checkpoint_atom "''Elixir.Types.''"])
       (simp_all add: checkpoint_atom_def SCHEMA_PREFIX_SIZE_def)
  also have "\<dots> = Ok (elx_Checkpoint, ssz_Checkpoint)"
    by (simp add: schema_types_def schema_match_def schema_entries_def)
  finally show ?thesis .
qed

lemma sample_checkpoint_typed: "elx_typed elx_Checkpoint sample_checkpoint"
  by (simp add: elx_Checkpoint_def sample_checkpoint_def)

lemma sample_checkpoint_exact: "uint256_exact ssz_Checkpoint sample_checkpoint"
  by (simp add: ssz_Checkpoint_def sample_checkpoint_def)

lemma sample_checkpoint_value:
  "from_elx ssz_ex_crate ssz_Checkpoint sample_checkpoint =
     Ok (VStruct ''Checkpoint'' [(''epoch'', VU64 5), (''root'', VArray (replicate 32 9))])"
  by (simp add: ssz_Checkpoint_def sample_checkpoint_def array_from_elx_def array_try_from_def
      build_struct_def )

lemma sample_checkpoint_encoding:
  "ssz_ex_encode_value ssz_Checkpoint
     (VStruct ''Checkpoint'' [(''epoch'', VU64 5), (''root'', VArray (replicate 32 9))]) = sample_checkpoint_bytes"
proof -
  have "le_bytes 8 5 = [5, 0, 0, 0, 0, 0, 0, 0]" by code_simp
  then show ?thesis
    by (simp add: ssz_ex_encode_value_def ssz_Checkpoint_def  sample_checkpoint_bytes_def
        serialize_parts_def)
qed

lemma sample_to_ssz:
  "to_ssz_rs terms ssz_ex_crate (term_encode terms sample_checkpoint) checkpoint_atom (XAtom ''minimal'') =
     Ok (ok, sample_checkpoint_bytes)"
proof -
  have "\<not> is_list terms (term_encode terms sample_checkpoint)"
    unfolding nif.is_list_encode by (simp add: sample_checkpoint_def)
  moreover have "term_decode terms elx_Checkpoint (term_encode terms sample_checkpoint) = Ok sample_checkpoint"
    by (rule nif.term_decode_encode [OF sample_checkpoint_typed])
  ultimately show ?thesis
    by (simp add: nifs_types checkpoint_types encode_ssz_def sample_checkpoint_value sample_checkpoint_encoding
        nif.to_binary del: terms_simps)
qed

section \<open>Round trips\<close>

text \<open>
  C4: What \<open>to_ssz\<close> writes for the term of a value of the schema's Elixir type, \<open>from_ssz\<close> reads back as the
  same term, when the encoding fits the offsets and every binary that stands for a 256-bit integer has
  exactly 32 bytes. A shorter or longer binary is padded or cut by \<open>to_ssz\<close>.
\<close>

theorem ssz_nif_round_trip:
  assumes "ssz_nif R K" and "nif_types R schema config = Ok (e, t)" and "elx_typed e w" and "uint256_exact t w"
    and "to_ssz_rs R K (term_encode R w) schema config = Ok (ok, b)" and "length b < max_ssz_length"
  shows "from_ssz_rs R K b schema config = Ok (ok, term_encode R w)"
  using assms by (rule ssz_nif.nif_round_trip)

theorem ssz_nif_round_trip_witness:
  "from_ssz_rs terms ssz_ex_crate sample_checkpoint_bytes checkpoint_atom (XAtom ''minimal'') =
     Ok (ok, term_encode terms sample_checkpoint)"
  by (rule ssz_nif_round_trip [OF nif.ssz_nif_axioms checkpoint_types sample_checkpoint_typed
        sample_checkpoint_exact sample_to_ssz])
     (simp add: sample_checkpoint_bytes_def max_ssz_length_def)

text \<open>
  A list of terms that \<open>to_ssz\<close> writes is read back by \<open>list_from_ssz\<close>, under the same conditions for each
  element.
\<close>

theorem ssz_nif_list_round_trip:
  assumes "ssz_nif R K" and "nif_types R schema config = Ok (e, t)" and "list_all (elx_typed e) ws"
    and "list_all (uint256_exact t) ws"
    and "to_ssz_rs R K (term_encode R (LVec ws)) schema config = Ok (ok, b)" and "length b < max_ssz_length"
  shows "list_from_ssz_rs R K b schema config = Ok (ok, term_encode R (LVec ws))"
  using assms by (rule ssz_nif.nif_list_round_trip)

lemma sample_list_encoding:
  "ssz_ex_encode_value (TVec ssz_Checkpoint)
     (VVec [VStruct ''Checkpoint'' [(''epoch'', VU64 5), (''root'', VArray (replicate 32 9))]]) =
   sample_checkpoint_bytes"
proof -
  have "le_bytes 8 5 = [5, 0, 0, 0, 0, 0, 0, 0]" by code_simp
  then show ?thesis
    by (simp add: ssz_ex_encode_value_def ssz_Checkpoint_def sample_checkpoint_bytes_def serialize_parts_def
        max_ssz_length_def)
qed

lemma sample_list_to_ssz:
  "to_ssz_rs terms ssz_ex_crate (term_encode terms (LVec [sample_checkpoint])) checkpoint_atom (XAtom ''minimal'') =
     Ok (ok, sample_checkpoint_bytes)"
proof -
  have "is_list terms (term_encode terms (LVec [sample_checkpoint]))" unfolding nif.is_list_encode by simp
  moreover have "term_decode terms (EVec elx_Checkpoint) (term_encode terms (LVec [sample_checkpoint])) =
      Ok (LVec [sample_checkpoint])"
    by (rule nif.term_decode_encode) (simp add: sample_checkpoint_typed)
  ultimately show ?thesis
    by (simp add: nifs_types checkpoint_types encode_ssz_def sample_checkpoint_value sample_list_encoding
        nif.to_binary del: terms_simps)
qed

theorem ssz_nif_list_round_trip_witness:
  "list_from_ssz_rs terms ssz_ex_crate sample_checkpoint_bytes checkpoint_atom (XAtom ''minimal'') =
     Ok (ok, term_encode terms (LVec [sample_checkpoint]))"
  by (rule ssz_nif_list_round_trip [OF nif.ssz_nif_axioms checkpoint_types _ _ sample_list_to_ssz])
     (simp_all add: sample_checkpoint_bytes_def max_ssz_length_def sample_checkpoint_typed sample_checkpoint_exact)

text \<open>
  A term that \<open>from_ssz\<close> returns is accepted by \<open>to_ssz\<close>, and reading the new encoding gives the same term
  again, as long as it fits the offsets.
\<close>

theorem ssz_nif_reencode:
  assumes "ssz_nif R K" and "from_ssz_rs R K b schema config = Ok (ok, x)"
  shows "\<exists>b'. to_ssz_rs R K x schema config = Ok (ok, b') \<and>
    (length b' < max_ssz_length \<longrightarrow> from_ssz_rs R K b' schema config = Ok (ok, x))"
  using ssz_nif.nif_reencode [OF assms] by metis

lemma sample_from_ssz:
  "from_ssz_rs terms ssz_ex_crate sample_checkpoint_bytes checkpoint_atom (XAtom ''minimal'') =
     Ok (ok, term_encode terms sample_checkpoint)"
  by (rule nif.nif_round_trip [OF checkpoint_types sample_checkpoint_typed sample_checkpoint_exact sample_to_ssz])
     (simp add: sample_checkpoint_bytes_def max_ssz_length_def)

theorem ssz_nif_reencode_witness:
  "\<exists>b'. to_ssz_rs terms ssz_ex_crate (term_encode terms sample_checkpoint) checkpoint_atom (XAtom ''minimal'') =
      Ok (ok, b') \<and>
    (length b' < max_ssz_length \<longrightarrow> from_ssz_rs terms ssz_ex_crate b' checkpoint_atom (XAtom ''minimal'') =
      Ok (ok, term_encode terms sample_checkpoint))"
  by (rule ssz_nif_reencode [OF nif.ssz_nif_axioms sample_from_ssz])

section \<open>The hasher\<close>

text \<open>
  The contract of \<open>MerkleHasher\<close>: a hasher for a number of leaves takes at least that many leaves of 32 bytes.
  A write beyond that is refused, at once or when the hasher is finished.
\<close>

locale merkle_hasher =
  fixes H :: "'h tree_hash_crate" and written :: "'h \<Rightarrow> usize \<Rightarrow> bytes \<Rightarrow> bool"
    and capacity :: "usize \<Rightarrow> nat" and root :: "usize \<Rightarrow> bytes \<Rightarrow> bytes"
  assumes hasher_new: "written (MerkleHasher_with_leaves H n) n []"
    and hasher_capacity_le: "unat n \<le> capacity n"
    and hasher_write: "written h n bs \<Longrightarrow>
      (\<exists>e. MerkleHasher_write H h b = Err e \<and> 32 * capacity n < length (bs @ b)) \<or>
      (\<exists>h'. MerkleHasher_write H h b = Ok h' \<and> written h' n (bs @ b))"
    and hasher_finish: "written h n bs \<Longrightarrow> length bs \<le> 32 * capacity n \<Longrightarrow>
      MerkleHasher_finish H h = Ok (root n bs)"
    and hasher_overflow: "written h n bs \<Longrightarrow> 32 * capacity n < length bs \<Longrightarrow>
      \<exists>e. MerkleHasher_finish H h = Err e"
    and basic_packs: "tree_hash_type H T = Basic \<Longrightarrow> tree_hash_packing_factor H T \<noteq> 0"

text \<open>The leaves that \<open>vec_tree_hash_root\<close> asks for, and what it writes.\<close>

definition leaves_of :: "'h tree_hash_crate \<Rightarrow> ssz_ty \<Rightarrow> usize \<Rightarrow> usize" where
  "leaves_of H T n =
     (if hash_type_of H T = Basic then (n + packing_factor_of H T - 1) div packing_factor_of H T else n)"

definition pieces_of :: "'h tree_hash_crate \<Rightarrow> ssz_ty \<Rightarrow> ssz_val list \<Rightarrow> bytes list" where
  "pieces_of H T vs = map (if hash_type_of H T = Basic then packed_encoding_of H T else hash_root_of H T) vs"

lemma vec_tree_hash_root_eq:
  "hash_type_of H T = Basic \<Longrightarrow> packing_factor_of H T \<noteq> 0 \<Longrightarrow>
   \<exists>m m'. vec_tree_hash_root H T vs n =
     and_then (write_each H m (MerkleHasher_with_leaves H (leaves_of H T n)) (pieces_of H T vs))
       (\<lambda>h. expect m' (MerkleHasher_finish H h))"
  "hash_type_of H T \<noteq> Basic \<Longrightarrow>
   \<exists>m m'. vec_tree_hash_root H T vs n =
     and_then (write_each H m (MerkleHasher_with_leaves H (leaves_of H T n)) (pieces_of H T vs))
       (\<lambda>h. expect m' (MerkleHasher_finish H h))"
  unfolding vec_tree_hash_root_def leaves_of_def pieces_of_def Let_def
  by (cases "hash_type_of H T"; auto)+

context merkle_hasher
begin

lemma basic_packing: "hash_type_of H T = Basic \<Longrightarrow> packing_factor_of H T \<noteq> 0"
  using basic_packs [of T] basic_packs [of "TArray 32"]
  by (simp add: hash_type_of_def packing_factor_of_def Uint256_tree_hash_type_def
      Uint256_tree_hash_packing_factor_def split: if_splits)

lemma write_each_total:
  "written h n bs \<Longrightarrow>
     (panics (write_each H m h ps) \<and> 32 * capacity n < length (bs @ concat ps)) \<or>
     (\<exists>h'. write_each H m h ps = Ok h' \<and> written h' n (bs @ concat ps))"
proof (induction ps arbitrary: h bs)
  case (Cons p ps)
  from hasher_write [OF Cons.prems, of p] show ?case
  proof (elim disjE exE conjE)
    fix e
    assume "MerkleHasher_write H h p = Err e" "32 * capacity n < length (bs @ p)"
    then show ?thesis by simp
  next
    fix h'
    assume "MerkleHasher_write H h p = Ok h'" "written h' n (bs @ p)"
    with Cons.IH [of h' "bs @ p"] show ?thesis by simp
  qed
qed simp

lemma vec_root:
  "if length (concat (pieces_of H T vs)) \<le> 32 * capacity (leaves_of H T n)
   then vec_tree_hash_root H T vs n = Ok (root (leaves_of H T n) (concat (pieces_of H T vs)))
   else panics (vec_tree_hash_root H T vs n)"
proof -
  let ?n = "leaves_of H T n" and ?ps = "pieces_of H T vs"
  obtain m m' where vec: "vec_tree_hash_root H T vs n =
      and_then (write_each H m (MerkleHasher_with_leaves H ?n) ?ps) (\<lambda>h. expect m' (MerkleHasher_finish H h))"
    using vec_tree_hash_root_eq [of H T vs n] basic_packing [of T] by blast
  from write_each_total [OF hasher_new [of ?n], of m ?ps] show ?thesis
  proof (elim disjE exE conjE)
    assume "panics (write_each H m (MerkleHasher_with_leaves H ?n) ?ps)"
      "32 * capacity ?n < length ([] @ concat ?ps)"
    then show ?thesis by (simp add: vec)
  next
    fix h
    assume "write_each H m (MerkleHasher_with_leaves H ?n) ?ps = Ok h" and "written h ?n ([] @ concat ?ps)"
    with hasher_finish [of h ?n "concat ?ps"] hasher_overflow [of h ?n "concat ?ps"] show ?thesis
      by (cases "length (concat ?ps) \<le> 32 * capacity ?n") (auto simp: vec)
  qed
qed

end

text \<open>A hasher that keeps the bytes written, and the tree hashes of the reference.\<close>

definition hasher_capacity :: "usize \<Rightarrow> nat" where
  "hasher_capacity n = 2 ^ log2_ceil (unat n)"

definition tree_hash_of :: "hasher \<Rightarrow> (usize \<times> bytes) tree_hash_crate" where
  "tree_hash_of H =
     \<lparr>tree_hash_type = (\<lambda>t. if basic_type (schema_of t) then Basic else Container),
      tree_hash_packing_factor = (\<lambda>t. if basic_type (schema_of t) then of_nat (32 div get_fixed_size (schema_of t)) else 1),
      tree_hash_packed_encoding = (\<lambda>t v. serialize (schema_of t) (ex_of v)),
      tree_hash_root = (\<lambda>t v. take 32 (hash_root H (schema_of t) (ex_of v) @ zero_chunk)),
      MerkleHasher_with_leaves = (\<lambda>n. (n, [])),
      MerkleHasher_write = (\<lambda>(n, bs) b.
        if 32 * hasher_capacity n < length (bs @ b) then Err ''MaximumLeavesExceeded'' else Ok (n, bs @ b)),
      MerkleHasher_finish = (\<lambda>(n, bs). Ok (merkleize H (chunks_of bs) (unat n))),
      mix_in_length = (\<lambda>root n. mix_length H root (unat n))\<rparr>"

lemma tree_hash_of_simps [simp]:
  "tree_hash_type (tree_hash_of H) t = (if basic_type (schema_of t) then Basic else Container)"
  "tree_hash_packing_factor (tree_hash_of H) t =
     (if basic_type (schema_of t) then of_nat (32 div get_fixed_size (schema_of t)) else 1)"
  "tree_hash_root (tree_hash_of H) t v = take 32 (hash_root H (schema_of t) (ex_of v) @ zero_chunk)"
  "MerkleHasher_with_leaves (tree_hash_of H) n = (n, [])"
  "MerkleHasher_write (tree_hash_of H) (n, bs) b =
     (if 32 * hasher_capacity n < length (bs @ b) then Err ''MaximumLeavesExceeded'' else Ok (n, bs @ b))"
  "MerkleHasher_finish (tree_hash_of H) (n, bs) = Ok (merkleize H (chunks_of bs) (unat n))"
  by (simp_all add: tree_hash_of_def)

interpretation hasher: merkle_hasher "tree_hash_of H" "\<lambda>(n, bs) n' bs'. n = n' \<and> bs = bs' \<and> length bs \<le> 32 * hasher_capacity n"
  hasher_capacity "\<lambda>n bs. merkleize H (chunks_of bs) (unat n)" for H
proof unfold_locales
  fix n :: usize and T
  show "unat n \<le> hasher_capacity n"
    using log2_ceil_bounds [of "unat n"] by (cases "unat n = 0") (simp_all add: hasher_capacity_def)
  show "tree_hash_type (tree_hash_of H) T = Basic \<Longrightarrow> tree_hash_packing_factor (tree_hash_of H) T \<noteq> 0"
    by (cases T) simp_all
qed (auto split: if_splits)

section \<open>Errors\<close>

text \<open>
  C25: The NIFs that encode and decode never panic, whatever terms and bytes they are given.
\<close>

theorem ssz_nif_no_panic:
  assumes "ssz_nif R K"
  shows "\<not> panics (to_ssz_rs R K x schema config) \<and> \<not> panics (from_ssz_rs R K b schema config) \<and>
    \<not> panics (list_from_ssz_rs R K b schema config)"
  using assms by (rule ssz_nif.nif_no_panic)

theorem ssz_nif_no_panic_witness:
  "\<not> panics (to_ssz_rs terms ssz_ex_crate (XInt 1) checkpoint_atom (XAtom ''minimal'')) \<and>
   \<not> panics (from_ssz_rs terms ssz_ex_crate [1, 2, 3] checkpoint_atom (XAtom ''minimal'')) \<and>
   \<not> panics (list_from_ssz_rs terms ssz_ex_crate [1, 2, 3] checkpoint_atom (XAtom ''minimal''))"
  by (rule ssz_nif_no_panic) (rule nif.ssz_nif_axioms)

text \<open>
  A schema whose name is not in the table, or a configuration that is none of the three presets, is refused
  as a bad argument by all six NIFs. Only the length of the module prefix is looked at.
\<close>

theorem ssz_nif_unknown_schema:
  assumes "atom_to_string R schema = Ok (pre @ name)" and "length pre = SCHEMA_PREFIX_SIZE"
    and "atom_to_string R config = Ok cfg"
    and "name \<notin> set (map entry_name schema_entries) \<or> cfg \<notin> {''mainnet'', ''minimal'', ''gnosis''}"
  shows "to_ssz_rs R K x schema config = Err BadArg \<and> from_ssz_rs R K b schema config = Err BadArg \<and>
    list_from_ssz_rs R K b schema config = Err BadArg \<and> hash_tree_root_rs R K H x schema config = Err BadArg \<and>
    hash_tree_root_list_rs R K H xs n schema config = Err BadArg \<and>
    hash_tree_root_vector_rs R K H xs n schema config = Err BadArg"
proof -
  have "schema_match_impl name cfg (\<lambda>e t. Ok (e, t)) ens = Err BadArg"
    if "name \<notin> set (map entry_name ens) \<or> cfg \<notin> {''mainnet'', ''minimal'', ''gnosis''}" for ens
    using that
  proof (induction ens)
    case (Cons en ens)
    then show ?case by (cases en) auto
  qed simp
  with assms(4) have "schema_types name cfg = Err BadArg" by (simp only: schema_types_def schema_match_def)
  with nif_types_named [OF assms(1-3)] show ?thesis by (simp add: nifs_types)
qed

theorem ssz_nif_unknown_schema_witness:
  "to_ssz_rs terms ssz_ex_crate (XInt 1) (XAtom ''Elixir.Types.Nothing'') (XAtom ''minimal'') = Err BadArg \<and>
   from_ssz_rs terms ssz_ex_crate [1] (XAtom ''Elixir.Types.Nothing'') (XAtom ''minimal'') = Err BadArg \<and>
   list_from_ssz_rs terms ssz_ex_crate [1] (XAtom ''Elixir.Types.Nothing'') (XAtom ''minimal'') = Err BadArg \<and>
   hash_tree_root_rs terms ssz_ex_crate (tree_hash_of prefix_hash) (XInt 1) (XAtom ''Elixir.Types.Nothing'')
     (XAtom ''minimal'') = Err BadArg \<and>
   hash_tree_root_list_rs terms ssz_ex_crate (tree_hash_of prefix_hash) [XInt 1] 4 (XAtom ''Elixir.Types.Nothing'')
     (XAtom ''minimal'') = Err BadArg \<and>
   hash_tree_root_vector_rs terms ssz_ex_crate (tree_hash_of prefix_hash) [XInt 1] 4 (XAtom ''Elixir.Types.Nothing'')
     (XAtom ''minimal'') = Err BadArg"
  by (rule ssz_nif_unknown_schema [where pre = "''Elixir.Types.''" and name = "''Nothing''" and cfg = "''minimal''"])
     (simp_all add: SCHEMA_PREFIX_SIZE_def schema_entries_def)

section \<open>Hash tree roots of lists\<close>

text \<open>
  C26: The hash tree root of a list is the root of the packed elements, or of their roots, with the length of the
  list mixed in, as long as they fit the leaves that the size limit allows for; a list that is too long makes
  the NIF panic.
\<close>

theorem ssz_nif_list_root:
  assumes "ssz_nif R K" and "merkle_hasher H written capacity root"
    and "nif_types R schema config = Ok (e, t)"
    and "collect (map (term_decode R e) xs) = Ok ws" and "collect (map (from_elx K t) ws) = Ok vs"
  shows "if length (concat (pieces_of H t vs)) \<le> 32 * capacity (leaves_of H t n)
    then hash_tree_root_list_rs R K H xs n schema config =
      Ok (ok, mix_in_length H (root (leaves_of H t n) (concat (pieces_of H t vs))) (of_nat (length xs)))
    else panics (hash_tree_root_list_rs R K H xs n schema config)"
  using merkle_hasher.vec_root [OF assms(2), of t vs n] assms(3-5) ssz_nif.to_binary [OF assms(1)]
  by (auto simp: nifs_types hash_list_tree_root_def hash_vector_tree_root_def)

lemma checkpoint_leaves:
  "leaves_of (tree_hash_of prefix_hash) ssz_Checkpoint n = n"
  "length (pieces_of (tree_hash_of prefix_hash) ssz_Checkpoint [v]) = 1"
  by (simp_all add: leaves_of_def pieces_of_def hash_type_of_def ssz_Checkpoint_def)

theorem ssz_nif_list_root_witness:
  "\<exists>r. hash_tree_root_list_rs terms ssz_ex_crate (tree_hash_of prefix_hash)
      [term_encode terms sample_checkpoint] 2 checkpoint_atom (XAtom ''minimal'') = Ok (ok, r)"
proof -
  let ?H = "tree_hash_of prefix_hash" and ?x = "term_encode terms sample_checkpoint"
  let ?v = "VStruct ''Checkpoint'' [(''epoch'', VU64 5), (''root'', VArray (replicate 32 9))]"
  have dec: "collect (map (term_decode terms elx_Checkpoint) [?x]) = Ok [sample_checkpoint]"
    using nif.term_decode_encode [OF sample_checkpoint_typed] by simp
  have conv: "collect (map (from_elx ssz_ex_crate ssz_Checkpoint) [sample_checkpoint]) = Ok [?v]"
    by (simp add: sample_checkpoint_value)
  have "length (concat (pieces_of ?H ssz_Checkpoint [?v])) \<le> 32 * hasher_capacity (leaves_of ?H ssz_Checkpoint 2)"
    by (simp add: checkpoint_leaves pieces_of_def hash_type_of_def ssz_Checkpoint_def hash_root_of_def
        hasher_capacity_def)
  with ssz_nif_list_root [OF nif.ssz_nif_axioms hasher.merkle_hasher_axioms [where H = prefix_hash] checkpoint_types dec conv,
      of 2] show ?thesis
    by (simp only: if_True) blast
qed

end
