(* ===== verification/Ssz_Module_Roots.thy ===== *)
theory Ssz_Module_Roots
  imports Ssz_Module_Properties Ssz_Nif_Properties
begin

text \<open>
  The hash tree roots of the containers. The Rust type of a container gives the same tree as the
  schema of its module, the limits of every container on every network are ones for which \<open>SszEx\<close>
  computes the root of the specification, and so the two libraries compute the same roots.
\<close>

section \<open>Roots of the two representations\<close>

lemma chunks_of_concat: "chunks32 cs \<Longrightarrow> chunks_of (concat cs) = cs"
proof (induction cs)
  case (Cons c cs)
  then have c: "length c = 32" "chunks_of (concat cs) = cs" by (simp_all add: chunks32_def)
  then have "c \<noteq> []" by auto
  with c show ?case by (subst chunks_of.simps) simp
qed (simp add: chunks_of.simps)

lemma root_word32: "length b = 32 \<Longrightarrow> hash_root H (SByteVector 32) (XBin b) = b"
  using chunks_of_concat [of "[b]"] by (simp add: merkleize_def log2_ceil_def chunks32_def)

lemma agrees_basic:
  assumes "agrees s t e" and "s \<noteq> SInt 256"
  shows "basic_type (schema_of t) = basic_type s" "basic_type s \<Longrightarrow> get_fixed_size (schema_of t) = get_fixed_size s"
    "basic_type s \<Longrightarrow> schema_of t = s"
  using assms by (cases s; auto split: ssz_ty.splits elx_ty.splits)+

text \<open>The tree of the elements of a list or vector.\<close>

definition elements_root :: "hasher \<Rightarrow> schema \<Rightarrow> nat \<Rightarrow> ex_val list \<Rightarrow> bytes" where
  "elements_root H s n vs =
     (if basic_type s
      then merkleize H (chunks_of (concat (map (serialize s) vs))) ((n * get_fixed_size s + 31) div 32)
      else merkleize H (map (hash_root H s) vs) n)"

lemma hash_root_elements:
  "hash_root H (SList s n) (XList vs) = mix_length H (elements_root H s n vs) (length vs)"
  "hash_root H (SVector s n) (XList vs) = elements_root H s n vs"
  by (simp_all add: elements_root_def)

lemma rust_of_elements:
  assumes "agrees s t e" and "schema_wf s" and "list_all (conforms s) xs"
    and "\<And>x. x \<in> set xs \<Longrightarrow> hash_root H (schema_of t) (ex_of (rust_of t x)) = hash_root H s x"
  shows "elements_root H (schema_of t) n (map (\<lambda>x. ex_of (rust_of t x)) xs) = elements_root H s n xs"
proof (cases "s = SInt 256")
  case True
  then have t: "t = TUint256" using assms(1) by auto
  have chunks: "map (\<lambda>x. hash_root H (SByteVector 32) (ex_of (rust_of t x))) xs = map (serialize s) xs"
    using assms(3) root_word32 by (auto simp: True t list_all_iff conforms_iff simp del: conforms.simps hash_root.simps)
  have "chunks_of (concat (map (serialize s) xs)) = map (serialize s) xs"
    using assms(3) by (intro chunks_of_concat)
      (auto simp: True chunks32_def list_all_iff conforms_iff simp del: conforms.simps)
  with arg_cong [OF chunks, of "\<lambda>cs. merkleize H cs n"] show ?thesis
    by (simp add: elements_root_def True t comp_def del: hash_root.simps serialize_simps map_eq_conv)
next
  case False
  have "map (serialize s) (map (\<lambda>x. ex_of (rust_of t x)) xs) = map (serialize s) xs" if "basic_type s"
    using rust_of_serialize [OF assms(1) _ assms(2)] assms(3) agrees_basic(3) [OF assms(1) False that]
    by (auto simp: list_all_iff)
  moreover have "map (hash_root H (schema_of t)) (map (\<lambda>x. ex_of (rust_of t x)) xs) = map (hash_root H s) xs"
    using assms(4) by auto
  ultimately show ?thesis
    using agrees_basic [OF assms(1) False] by (auto simp: elements_root_def simp del: map_map)
qed

lemma rust_of_hash_root:
  "agrees s t e \<Longrightarrow> conforms s x \<Longrightarrow> schema_wf s \<Longrightarrow>
     hash_root H (schema_of t) (ex_of (rust_of t x)) = hash_root H s x"
proof (induction s arbitrary: t e x)
  case (SModule nm fs)
  then obtain nm' ts es where e: "t = TStruct nm' ts"
    and agree: "agree_fields (map (\<lambda>(k, s). (k, agrees s)) fs) ts es"
    by (auto split: ssz_ty.splits elx_ty.splits)
  obtain vs where x: "x = XStruct nm vs" and vs: "map fst vs = map fst fs"
    using SModule.prems(2) by (auto simp: conforms_iff simp del: conforms.simps)
  define ws where "ws = map (\<lambda>(k, t). (k, ex_of (rust_of t (field_of x k)))) ts"
  have dist: "distinct (map fst fs)" using SModule.prems(3) by simp
  have "map (\<lambda>(k, s). hash_root H s (the (map_of ws k))) (map (\<lambda>(k, t). (k, schema_of t)) ts) =
      map (\<lambda>(k, s). hash_root H s (the (map_of vs k))) fs" (is "?l = ?r")
  proof (rule nth_equalityI)
    show "length ?l = length ?r" using agree by (simp add: agree_fields_nth)
    fix i
    assume "i < length ?l"
    then have i: "i < length ts" "i < length fs" using agree by (simp_all add: agree_fields_nth)
    have field: "field_of x (fst (fs ! i)) = the (map_of vs (fst (fs ! i)))"
      using conforms_field [of nm fs nm vs "fst (fs ! i)" "snd (fs ! i)"] SModule.prems(2) i(2) by (auto simp: x)
    have "map_of ws (fst (ts ! i)) = Some (snd (ws ! i))"
      using map_of_nth [of ws i] i agree_fields_names(1) [OF agree] dist by (simp add: ws_def comp_def case_prod_beta)
    moreover have "hash_root H (schema_of (snd (ts ! i))) (ex_of (rust_of (snd (ts ! i)) (field_of x (fst (fs ! i))))) =
        hash_root H (snd (fs ! i)) (field_of x (fst (fs ! i)))"
      using SModule.IH [OF nth_mem [OF i(2)] nth_snd_snds [OF i(2)], of "snd (ts ! i)" "snd (es ! i)"] agree i
        SModule.prems(3) conforms_nth [OF SModule.prems(2) i(2)]
      by (simp add: agree_fields_nth list_all_length case_prod_beta)
    ultimately show "?l ! i = ?r ! i"
      using i agree by (simp add: ws_def agree_fields_nth case_prod_beta field [symmetric] del: hash_root.simps)
  qed
  moreover have "length ts = length fs" using agree by (simp add: agree_fields_nth)
  ultimately show ?case
    unfolding e ex_of_rust_struct ws_def [symmetric] using x by simp
next
  case (SList s n)
  then obtain t' e' vs where t: "t = TVariableList t' n" "agrees s t' e'" "x = XList vs"
    "list_all (conforms s) vs" "schema_wf s"
    by (auto simp: conforms_iff simp del: conforms.simps split: ssz_ty.splits elx_ty.splits)
  then show ?case
    using rust_of_elements [OF t(2,5,4), of H n] SList.IH [OF t(2)]
    by (simp add: list_all_iff hash_root_elements comp_def del: hash_root.simps)
next
  case (SVector s n)
  then obtain t' e' vs where t: "t = TFixedVector t' n" "agrees s t' e'" "x = XList vs"
    "list_all (conforms s) vs" "schema_wf s"
    by (auto simp: conforms_iff simp del: conforms.simps split: ssz_ty.splits elx_ty.splits)
  then show ?case
    using rust_of_elements [OF t(2,5,4), of H n] SVector.IH [OF t(2)]
    by (simp add: list_all_iff hash_root_elements comp_def del: hash_root.simps)
qed (auto simp: conforms_iff int_words comp_def simp del: conforms.simps)

section \<open>Limits\<close>

definition list_limits :: "string list" where
  "list_limits = [
     ''MAX_ATTESTATIONS_ELECTRA'',
     ''MAX_ATTESTER_SLASHINGS_ELECTRA'',
     ''MAX_CONSOLIDATION_REQUESTS_PER_PAYLOAD'',
     ''MAX_DEPOSIT_REQUESTS_PER_PAYLOAD'',
     ''MAX_DEPOSITS'',
     ''HISTORICAL_ROOTS_LIMIT'',
     ''PENDING_CONSOLIDATIONS_LIMIT'',
     ''PENDING_DEPOSITS_LIMIT'',
     ''PENDING_PARTIAL_WITHDRAWALS_LIMIT'',
     ''MAX_PROPOSER_SLASHINGS'',
     ''MAX_BLS_TO_EXECUTION_CHANGES'',
     ''MAX_VOLUNTARY_EXITS'',
     ''VALIDATOR_REGISTRY_LIMIT'',
     ''MAX_WITHDRAWAL_REQUESTS_PER_PAYLOAD'',
     ''MAX_WITHDRAWALS_PER_PAYLOAD'',
     ''MAX_BLOB_COMMITMENTS_PER_BLOCK'',
     ''MAX_TRANSACTIONS_PER_PAYLOAD'']"

definition other_limits :: "string list" where
  "other_limits = [
     ''ATTESTATION_SUBNET_COUNT'',
     ''MAX_COMMITTEES_PER_SLOT'',
     ''SYNC_COMMITTEE_SIZE'',
     ''MAX_BYTES_PER_TRANSACTION'',
     ''MAX_EXTRA_DATA_BYTES'',
     ''FIELD_ELEMENTS_PER_BLOB'',
     ''BYTES_PER_LOGS_BLOOM'',
     ''EPOCHS_PER_HISTORICAL_VECTOR'',
     ''KZG_COMMITMENT_INCLUSION_PROOF_DEPTH'',
     ''EPOCHS_PER_SLASHINGS_VECTOR'',
     ''SLOTS_PER_HISTORICAL_ROOT'',
     ''MAX_VALIDATORS_PER_COMMITTEE'']"

text \<open>
  The conditions on the constants of a network under which \<open>SszEx\<close> computes the roots of all
  containers.
\<close>

definition exact_spec :: "chain_spec \<Rightarrow> bool" where
  "exact_spec spec \<longleftrightarrow>
     list_all (\<lambda>key. power_of_two (spec key) \<and> spec key \<le> 2 ^ 59) list_limits \<and>
     list_all (\<lambda>key. spec key \<le> 2 ^ 32) other_limits \<and>
     (let validators = spec ''VALIDATOR_REGISTRY_LIMIT'';
          per_slot = spec ''MAX_VALIDATORS_PER_COMMITTEE'' * spec ''MAX_COMMITTEES_PER_SLOT'';
          votes = spec ''EPOCHS_PER_ETH1_VOTING_PERIOD'' * spec ''SLOTS_PER_EPOCH''
      in list_all (\<lambda>bytes. power_of_two ((bytes + 31) div 32))
           [validators * 8, validators, per_slot * 8, spec ''MAX_BYTES_PER_TRANSACTION'', spec ''MAX_EXTRA_DATA_BYTES''] \<and>
         power_of_two votes \<and> votes \<le> 2 ^ 59 \<and> per_slot \<le> 2 ^ 47 \<and> per_slot \<noteq> 256 \<and>
         spec ''MAX_VALIDATORS_PER_COMMITTEE'' \<noteq> 256)"

lemma exact_spec_values:
  assumes "exact_spec spec"
  shows
    "power_of_two (spec ''MAX_ATTESTATIONS_ELECTRA'')"
    "spec ''MAX_ATTESTATIONS_ELECTRA'' \<le> 576460752303423488"
    "power_of_two (spec ''MAX_ATTESTER_SLASHINGS_ELECTRA'')"
    "spec ''MAX_ATTESTER_SLASHINGS_ELECTRA'' \<le> 576460752303423488"
    "power_of_two (spec ''MAX_CONSOLIDATION_REQUESTS_PER_PAYLOAD'')"
    "spec ''MAX_CONSOLIDATION_REQUESTS_PER_PAYLOAD'' \<le> 576460752303423488"
    "power_of_two (spec ''MAX_DEPOSIT_REQUESTS_PER_PAYLOAD'')"
    "spec ''MAX_DEPOSIT_REQUESTS_PER_PAYLOAD'' \<le> 576460752303423488"
    "power_of_two (spec ''MAX_DEPOSITS'')"
    "spec ''MAX_DEPOSITS'' \<le> 576460752303423488"
    "power_of_two (spec ''HISTORICAL_ROOTS_LIMIT'')"
    "spec ''HISTORICAL_ROOTS_LIMIT'' \<le> 576460752303423488"
    "power_of_two (spec ''PENDING_CONSOLIDATIONS_LIMIT'')"
    "spec ''PENDING_CONSOLIDATIONS_LIMIT'' \<le> 576460752303423488"
    "power_of_two (spec ''PENDING_DEPOSITS_LIMIT'')"
    "spec ''PENDING_DEPOSITS_LIMIT'' \<le> 576460752303423488"
    "power_of_two (spec ''PENDING_PARTIAL_WITHDRAWALS_LIMIT'')"
    "spec ''PENDING_PARTIAL_WITHDRAWALS_LIMIT'' \<le> 576460752303423488"
    "power_of_two (spec ''MAX_PROPOSER_SLASHINGS'')"
    "spec ''MAX_PROPOSER_SLASHINGS'' \<le> 576460752303423488"
    "power_of_two (spec ''MAX_BLS_TO_EXECUTION_CHANGES'')"
    "spec ''MAX_BLS_TO_EXECUTION_CHANGES'' \<le> 576460752303423488"
    "power_of_two (spec ''MAX_VOLUNTARY_EXITS'')"
    "spec ''MAX_VOLUNTARY_EXITS'' \<le> 576460752303423488"
    "power_of_two (spec ''VALIDATOR_REGISTRY_LIMIT'')"
    "spec ''VALIDATOR_REGISTRY_LIMIT'' \<le> 576460752303423488"
    "power_of_two (spec ''MAX_WITHDRAWAL_REQUESTS_PER_PAYLOAD'')"
    "spec ''MAX_WITHDRAWAL_REQUESTS_PER_PAYLOAD'' \<le> 576460752303423488"
    "power_of_two (spec ''MAX_WITHDRAWALS_PER_PAYLOAD'')"
    "spec ''MAX_WITHDRAWALS_PER_PAYLOAD'' \<le> 576460752303423488"
    "power_of_two (spec ''MAX_BLOB_COMMITMENTS_PER_BLOCK'')"
    "spec ''MAX_BLOB_COMMITMENTS_PER_BLOCK'' \<le> 576460752303423488"
    "power_of_two (spec ''MAX_TRANSACTIONS_PER_PAYLOAD'')"
    "spec ''MAX_TRANSACTIONS_PER_PAYLOAD'' \<le> 576460752303423488"
    "spec ''ATTESTATION_SUBNET_COUNT'' \<le> 140737488355328"
    "spec ''ATTESTATION_SUBNET_COUNT'' \<le> 18446744073709551616"
    "spec ''MAX_COMMITTEES_PER_SLOT'' \<le> 140737488355328"
    "spec ''MAX_COMMITTEES_PER_SLOT'' \<le> 18446744073709551616"
    "spec ''SYNC_COMMITTEE_SIZE'' \<le> 140737488355328"
    "spec ''SYNC_COMMITTEE_SIZE'' \<le> 18446744073709551616"
    "spec ''MAX_BYTES_PER_TRANSACTION'' \<le> 140737488355328"
    "spec ''MAX_BYTES_PER_TRANSACTION'' \<le> 18446744073709551616"
    "spec ''MAX_EXTRA_DATA_BYTES'' \<le> 140737488355328"
    "spec ''MAX_EXTRA_DATA_BYTES'' \<le> 18446744073709551616"
    "spec ''FIELD_ELEMENTS_PER_BLOB'' \<le> 140737488355328"
    "spec ''FIELD_ELEMENTS_PER_BLOB'' \<le> 18446744073709551616"
    "spec ''BYTES_PER_LOGS_BLOOM'' \<le> 140737488355328"
    "spec ''BYTES_PER_LOGS_BLOOM'' \<le> 18446744073709551616"
    "spec ''EPOCHS_PER_HISTORICAL_VECTOR'' \<le> 140737488355328"
    "spec ''EPOCHS_PER_HISTORICAL_VECTOR'' \<le> 18446744073709551616"
    "spec ''KZG_COMMITMENT_INCLUSION_PROOF_DEPTH'' \<le> 140737488355328"
    "spec ''KZG_COMMITMENT_INCLUSION_PROOF_DEPTH'' \<le> 18446744073709551616"
    "spec ''EPOCHS_PER_SLASHINGS_VECTOR'' \<le> 140737488355328"
    "spec ''EPOCHS_PER_SLASHINGS_VECTOR'' \<le> 18446744073709551616"
    "spec ''SLOTS_PER_HISTORICAL_ROOT'' \<le> 140737488355328"
    "spec ''SLOTS_PER_HISTORICAL_ROOT'' \<le> 18446744073709551616"
    "spec ''MAX_VALIDATORS_PER_COMMITTEE'' \<le> 140737488355328"
    "spec ''MAX_VALIDATORS_PER_COMMITTEE'' \<le> 18446744073709551616"
    "power_of_two ((spec ''VALIDATOR_REGISTRY_LIMIT'' * 8 + 31) div 32)"
    "power_of_two ((spec ''VALIDATOR_REGISTRY_LIMIT'' + 31) div 32)"
    "power_of_two ((spec ''MAX_VALIDATORS_PER_COMMITTEE'' * spec ''MAX_COMMITTEES_PER_SLOT'' * 8 + 31) div 32)"
    "power_of_two ((spec ''MAX_BYTES_PER_TRANSACTION'' + 31) div 32)"
    "power_of_two ((spec ''MAX_EXTRA_DATA_BYTES'' + 31) div 32)"
    "power_of_two (spec ''EPOCHS_PER_ETH1_VOTING_PERIOD'' * spec ''SLOTS_PER_EPOCH'')"
    "spec ''EPOCHS_PER_ETH1_VOTING_PERIOD'' * spec ''SLOTS_PER_EPOCH'' \<le> 576460752303423488"
    "spec ''MAX_VALIDATORS_PER_COMMITTEE'' * spec ''MAX_COMMITTEES_PER_SLOT'' \<le> 140737488355328"
    "spec ''MAX_VALIDATORS_PER_COMMITTEE'' * spec ''MAX_COMMITTEES_PER_SLOT'' \<le> 576460752303423488"
    "spec ''MAX_VALIDATORS_PER_COMMITTEE'' * spec ''MAX_COMMITTEES_PER_SLOT'' \<noteq> 256"
    "spec ''MAX_VALIDATORS_PER_COMMITTEE'' \<noteq> 256"
  using assms by (simp_all add: exact_spec_def list_limits_def other_limits_def Let_def mult.commute mult.left_commute)

lemma exact_spec_sizes:
  assumes "exact_spec spec"
  shows "bytes_per_field_element * spec ''FIELD_ELEMENTS_PER_BLOB'' \<le> 140737488355328"
    "sync_subcommittee_size spec \<le> 140737488355328"
proof -
  have "spec ''FIELD_ELEMENTS_PER_BLOB'' \<le> 2 ^ 32" "spec ''SYNC_COMMITTEE_SIZE'' \<le> 2 ^ 32"
    using assms by (simp_all add: exact_spec_def other_limits_def)
  moreover have "spec ''SYNC_COMMITTEE_SIZE'' div 4 \<le> spec ''SYNC_COMMITTEE_SIZE''" by (rule div_le_dividend)
  ultimately show "bytes_per_field_element * spec ''FIELD_ELEMENTS_PER_BLOB'' \<le> 140737488355328"
    "sync_subcommittee_size spec \<le> 140737488355328"
    by (simp_all add: bytes_per_field_element_def sync_subcommittee_size_def sync_committee_subnet_count_def)
qed

lemma module_not_basic: "\<exists>fs. s = SModule nm fs \<Longrightarrow> \<not> basic_type s \<and> s \<noteq> SBool"
  by auto

named_theorems limits \<open>exact limits of the containers\<close>

lemmas container_not_basic [limits] = container_names [THEN module_not_basic]

declare alias_defs [limits] Let_def [limits] justification_bits_length_def [limits]
  sync_committee_subnet_count_def [limits]

lemma Checkpoint_limits [limits]: "exact_limits (Checkpoint_container spec)"
  by (simp add: Checkpoint_container_def limits)

lemma AttestationData_limits [limits]: "exact_limits (AttestationData_container spec)"
  by (simp add: AttestationData_container_def limits)

lemma Attestation_limits [limits]:
  assumes "exact_spec spec"
  shows "exact_limits (Attestation_container spec)"
  by (simp add: Attestation_container_def limits exact_spec_values [OF assms] exact_spec_sizes [OF assms] assms)

lemma IndexedAttestation_limits [limits]:
  assumes "exact_spec spec"
  shows "exact_limits (IndexedAttestation_container spec)"
  by (simp add: IndexedAttestation_container_def limits exact_spec_values [OF assms] exact_spec_sizes [OF assms] assms)

lemma AttesterSlashing_limits [limits]:
  assumes "exact_spec spec"
  shows "exact_limits (AttesterSlashing_container spec)"
  by (simp add: AttesterSlashing_container_def limits exact_spec_values [OF assms] exact_spec_sizes [OF assms] assms)

lemma Eth1Data_limits [limits]: "exact_limits (Eth1Data_container spec)"
  by (simp add: Eth1Data_container_def limits)

lemma BeaconBlockHeader_limits [limits]: "exact_limits (BeaconBlockHeader_container spec)"
  by (simp add: BeaconBlockHeader_container_def limits)

lemma SignedBeaconBlockHeader_limits [limits]: "exact_limits (SignedBeaconBlockHeader_container spec)"
  by (simp add: SignedBeaconBlockHeader_container_def limits)

lemma ProposerSlashing_limits [limits]: "exact_limits (ProposerSlashing_container spec)"
  by (simp add: ProposerSlashing_container_def limits)

lemma DepositData_limits [limits]: "exact_limits (DepositData_container spec)"
  by (simp add: DepositData_container_def limits DepositData_schema_def)

lemma Deposit_limits [limits]: "exact_limits (Deposit_container spec)"
  by (simp add: Deposit_container_def limits)

lemma VoluntaryExit_limits [limits]: "exact_limits (VoluntaryExit_container spec)"
  by (simp add: VoluntaryExit_container_def limits)

lemma SignedVoluntaryExit_limits [limits]: "exact_limits (SignedVoluntaryExit_container spec)"
  by (simp add: SignedVoluntaryExit_container_def limits)

lemma SyncAggregate_limits [limits]:
  assumes "exact_spec spec"
  shows "exact_limits (SyncAggregate_container spec)"
  by (simp add: SyncAggregate_container_def limits exact_spec_values [OF assms] exact_spec_sizes [OF assms] assms)

lemma Withdrawal_limits [limits]: "exact_limits (Withdrawal_container spec)"
  by (simp add: Withdrawal_container_def limits)

lemma ExecutionPayload_limits [limits]:
  assumes "exact_spec spec"
  shows "exact_limits (ExecutionPayload_container spec)"
  by (simp add: ExecutionPayload_container_def limits exact_spec_values [OF assms] exact_spec_sizes [OF assms] assms)

lemma BLSToExecutionChange_limits [limits]: "exact_limits (BLSToExecutionChange_container spec)"
  by (simp add: BLSToExecutionChange_container_def limits)

lemma SignedBLSToExecutionChange_limits [limits]: "exact_limits (SignedBLSToExecutionChange_container spec)"
  by (simp add: SignedBLSToExecutionChange_container_def limits)

lemma DepositRequest_limits [limits]: "exact_limits (DepositRequest_container spec)"
  by (simp add: DepositRequest_container_def limits)

lemma WithdrawalRequest_limits [limits]: "exact_limits (WithdrawalRequest_container spec)"
  by (simp add: WithdrawalRequest_container_def limits)

lemma ConsolidationRequest_limits [limits]: "exact_limits (ConsolidationRequest_container spec)"
  by (simp add: ConsolidationRequest_container_def limits)

lemma ExecutionRequests_limits [limits]:
  assumes "exact_spec spec"
  shows "exact_limits (ExecutionRequests_container spec)"
  by (simp add: ExecutionRequests_container_def limits exact_spec_values [OF assms] exact_spec_sizes [OF assms] assms)

lemma BeaconBlockBody_limits [limits]:
  assumes "exact_spec spec"
  shows "exact_limits (BeaconBlockBody_container spec)"
  by (simp add: BeaconBlockBody_container_def limits exact_spec_values [OF assms] exact_spec_sizes [OF assms] assms)

lemma BeaconBlock_limits [limits]:
  assumes "exact_spec spec"
  shows "exact_limits (BeaconBlock_container spec)"
  by (simp add: BeaconBlock_container_def limits exact_spec_values [OF assms] exact_spec_sizes [OF assms] assms)

lemma Fork_limits [limits]: "exact_limits (Fork_container spec)"
  by (simp add: Fork_container_def limits)

lemma Validator_limits [limits]: "exact_limits (Validator_container spec)"
  by (simp add: Validator_container_def limits)

lemma SyncCommittee_limits [limits]:
  assumes "exact_spec spec"
  shows "exact_limits (SyncCommittee_container spec)"
  by (simp add: SyncCommittee_container_def limits exact_spec_values [OF assms] exact_spec_sizes [OF assms] assms)

lemma ExecutionPayloadHeader_limits [limits]:
  assumes "exact_spec spec"
  shows "exact_limits (ExecutionPayloadHeader_container spec)"
  by (simp add: ExecutionPayloadHeader_container_def limits exact_spec_values [OF assms] exact_spec_sizes [OF assms] assms)

lemma HistoricalSummary_limits [limits]: "exact_limits (HistoricalSummary_container spec)"
  by (simp add: HistoricalSummary_container_def limits)

lemma PendingDeposit_limits [limits]: "exact_limits (PendingDeposit_container spec)"
  by (simp add: PendingDeposit_container_def limits)

lemma PendingPartialWithdrawal_limits [limits]: "exact_limits (PendingPartialWithdrawal_container spec)"
  by (simp add: PendingPartialWithdrawal_container_def limits)

lemma PendingConsolidation_limits [limits]: "exact_limits (PendingConsolidation_container spec)"
  by (simp add: PendingConsolidation_container_def limits)

lemma BeaconState_limits [limits]:
  assumes "exact_spec spec"
  shows "exact_limits (BeaconState_container spec)"
  by (simp add: BeaconState_container_def limits exact_spec_values [OF assms] exact_spec_sizes [OF assms] assms)

lemma BlobIdentifier_limits [limits]: "exact_limits (BlobIdentifier_container spec)"
  by (simp add: BlobIdentifier_container_def limits)

lemma BlobSidecar_limits [limits]:
  assumes "exact_spec spec"
  shows "exact_limits (BlobSidecar_container spec)"
  by (simp add: BlobSidecar_container_def limits exact_spec_values [OF assms] exact_spec_sizes [OF assms] assms)

lemma DepositMessage_limits [limits]: "exact_limits (DepositMessage_container spec)"
  by (simp add: DepositMessage_container_def limits)

lemma Eth1Block_limits [limits]: "exact_limits (Eth1Block_container spec)"
  by (simp add: Eth1Block_container_def limits)

lemma ForkData_limits [limits]: "exact_limits (ForkData_container spec)"
  by (simp add: ForkData_container_def limits)

lemma HistoricalBatch_limits [limits]:
  assumes "exact_spec spec"
  shows "exact_limits (HistoricalBatch_container spec)"
  by (simp add: HistoricalBatch_container_def limits exact_spec_values [OF assms] exact_spec_sizes [OF assms] assms)

lemma PendingAttestation_limits [limits]:
  assumes "exact_spec spec"
  shows "exact_limits (PendingAttestation_container spec)"
  by (simp add: PendingAttestation_container_def limits exact_spec_values [OF assms] exact_spec_sizes [OF assms] assms)

lemma SignedBeaconBlock_limits [limits]:
  assumes "exact_spec spec"
  shows "exact_limits (SignedBeaconBlock_container spec)"
  by (simp add: SignedBeaconBlock_container_def limits exact_spec_values [OF assms] exact_spec_sizes [OF assms] assms)

lemma SigningData_limits [limits]: "exact_limits (SigningData_container spec)"
  by (simp add: SigningData_container_def limits)

lemma SingleAttestation_limits [limits]: "exact_limits (SingleAttestation_container spec)"
  by (simp add: SingleAttestation_container_def limits)

lemma SyncAggregatorSelectionData_limits [limits]: "exact_limits (SyncAggregatorSelectionData_container spec)"
  by (simp add: SyncAggregatorSelectionData_container_def limits)

lemma AggregateAndProof_limits [limits]:
  assumes "exact_spec spec"
  shows "exact_limits (AggregateAndProof_container spec)"
  by (simp add: AggregateAndProof_container_def limits exact_spec_values [OF assms] exact_spec_sizes [OF assms] assms)

lemma SyncCommitteeContribution_limits [limits]:
  assumes "exact_spec spec"
  shows "exact_limits (SyncCommitteeContribution_container spec)"
  by (simp add: SyncCommitteeContribution_container_def limits exact_spec_values [OF assms] exact_spec_sizes [OF assms] assms)

lemma ContributionAndProof_limits [limits]:
  assumes "exact_spec spec"
  shows "exact_limits (ContributionAndProof_container spec)"
  by (simp add: ContributionAndProof_container_def limits exact_spec_values [OF assms] exact_spec_sizes [OF assms] assms)

lemma SignedAggregateAndProof_limits [limits]:
  assumes "exact_spec spec"
  shows "exact_limits (SignedAggregateAndProof_container spec)"
  by (simp add: SignedAggregateAndProof_container_def limits exact_spec_values [OF assms] exact_spec_sizes [OF assms] assms)

lemma SignedContributionAndProof_limits [limits]:
  assumes "exact_spec spec"
  shows "exact_limits (SignedContributionAndProof_container spec)"
  by (simp add: SignedContributionAndProof_container_def limits exact_spec_values [OF assms] exact_spec_sizes [OF assms] assms)

lemma SyncCommitteeMessage_limits [limits]: "exact_limits (SyncCommitteeMessage_container spec)"
  by (simp add: SyncCommitteeMessage_container_def limits)

lemma BeaconBlocksByRangeRequest_limits [limits]: "exact_limits (BeaconBlocksByRangeRequest_container spec)"
  by (simp add: BeaconBlocksByRangeRequest_container_def limits)

lemma EnrForkId_limits [limits]: "exact_limits (EnrForkId_container spec)"
  by (simp add: EnrForkId_container_def limits)

lemma Metadata_limits [limits]:
  assumes "exact_spec spec"
  shows "exact_limits (Metadata_container spec)"
  by (simp add: Metadata_container_def limits exact_spec_values [OF assms] exact_spec_sizes [OF assms] assms)

lemma StatusMessage_limits [limits]: "exact_limits (StatusMessage_container spec)"
  by (simp add: StatusMessage_container_def limits)

lemma Blobdata_limits [limits]:
  assumes "exact_spec spec"
  shows "exact_limits (Blobdata_container spec)"
  by (simp add: Blobdata_container_def limits exact_spec_values [OF assms] exact_spec_sizes [OF assms] assms)

lemma containers_limits: "exact_spec spec \<Longrightarrow> list_all (\<lambda>(nm, c). exact_limits (c spec)) containers"
  by (simp add: containers_def limits)

text \<open>The networks.\<close>

lemma power_of_two_power: "n = 2 ^ k \<Longrightarrow> power_of_two n"
  using log2_floor_unique [of k n] by (simp add: power_of_two_def)

lemma power_of_two_numerals:
  "power_of_two 1" "power_of_two (Suc 0)" "power_of_two 2" "power_of_two 4" "power_of_two 8" "power_of_two 16" "power_of_two 32"
  "power_of_two 64" "power_of_two 1024" "power_of_two 2048" "power_of_two 4096" "power_of_two 8192" "power_of_two 32768"
  "power_of_two 262144" "power_of_two 1048576" "power_of_two 16777216" "power_of_two 33554432"
  "power_of_two 134217728" "power_of_two 34359738368" "power_of_two 274877906944" "power_of_two 1099511627776"
  by (rule power_of_two_power [of _ 0] power_of_two_power [of _ 1] power_of_two_power [of _ 2] power_of_two_power [of _ 3]
        power_of_two_power [of _ 4] power_of_two_power [of _ 5] power_of_two_power [of _ 6] power_of_two_power [of _ 10]
        power_of_two_power [of _ 11] power_of_two_power [of _ 12] power_of_two_power [of _ 13] power_of_two_power [of _ 15]
        power_of_two_power [of _ 18] power_of_two_power [of _ 20] power_of_two_power [of _ 24] power_of_two_power [of _ 25]
        power_of_two_power [of _ 27] power_of_two_power [of _ 35] power_of_two_power [of _ 38] power_of_two_power [of _ 40],
      simp; fail)+

lemmas exact_spec_eval = exact_spec_def list_limits_def other_limits_def spec_of_def power_of_two_numerals

lemma mainnet_exact: "exact_spec (spec_of (''mainnet'', mainnet_config))"
  using get_mainnet by (simp add: exact_spec_eval)

lemma sepolia_exact: "exact_spec (spec_of (''mainnet'', sepolia_config))"
  using get_sepolia by (simp add: exact_spec_eval)

lemma holesky_exact: "exact_spec (spec_of (''mainnet'', holesky_config))"
  using get_holesky by (simp add: exact_spec_eval)

lemma hoodi_exact: "exact_spec (spec_of (''mainnet'', hoodi_config))"
  using get_hoodi by (simp add: exact_spec_eval)

lemma minimal_exact: "exact_spec (spec_of (''minimal'', minimal_config))"
  using get_minimal by (simp add: exact_spec_eval)

lemma gnosis_exact: "exact_spec (spec_of (''gnosis'', gnosis_config))"
  using get_gnosis by (simp add: exact_spec_eval)

lemma network_exact: "parse_config net = Some network \<Longrightarrow> exact_spec (spec_of network)"
  using mainnet_exact sepolia_exact holesky_exact hoodi_exact minimal_exact gnosis_exact
  by (auto simp: parse_config_def split: if_splits)

section \<open>The roots\<close>

text \<open>What \<open>tree_hash\<close> promises: the root of a value is the one of the SSZ specification.\<close>

locale root_reference =
  fixes H :: hasher and T :: "'h tree_hash_crate"
  assumes tree_hash_root_reference:
    "hash32 H \<Longrightarrow> ssz_wf t \<Longrightarrow> conforms (schema_of t) (ex_of v) \<Longrightarrow>
       tree_hash_root T t v = hash_root H (schema_of t) (ex_of v)"

lemma hash_root_length: "hash32 H \<Longrightarrow> schema_wf s \<Longrightarrow> conforms s v \<Longrightarrow> length (hash_root H s v) = 32"
proof (induction s arbitrary: v)
  case (SModule nm fs)
  then obtain vs where v: "v = XStruct nm vs" by (auto simp: conforms_iff simp del: conforms.simps)
  have "length (hash_root H s (the (map_of vs k))) = 32" if "(k, s) \<in> set fs" for k s
  proof -
    from conforms_field [OF SModule.prems(3) [unfolded v] that] obtain w
      where "map_of vs k = Some w" "conforms s w" by blast
    with SModule.IH [OF that, of s w] SModule.prems that show ?thesis by (auto simp: list_all_iff)
  qed
  then have "chunks32 (map (\<lambda>(k, s). hash_root H s (the (map_of vs k))) fs)"
    by (auto simp: chunks32_def list_all_iff)
  with SModule.prems(1) show ?case by (simp add: v)
next
  case (SVector s n)
  then obtain vs where v: "v = XList vs" "list_all (conforms s) vs" by (auto simp: conforms_iff simp del: conforms.simps)
  with SVector have "chunks32 (map (hash_root H s) vs)" by (auto simp: chunks32_def list_all_iff)
  with SVector.prems(1) v(1) show ?case by simp
qed (auto simp: conforms_iff simp del: conforms.simps)

interpretation roots: root_reference H "tree_hash_of H" for H
proof
  fix t v
  assume "hash32 H" "ssz_wf t" "conforms (schema_of t) (ex_of v)"
  with hash_root_length [OF _ schema_of_wf] show "tree_hash_root (tree_hash_of H) t v = hash_root H (schema_of t) (ex_of v)"
    by simp
qed

context elixir_nif
begin

lemma container_root:
  assumes "root_reference H T" and "hash32 H"
    and "agrees s t e" and "schema_wf s" and "conforms s x" and "s = SModule (''Types.'' @ nm) fs"
    and "schema_types nm (get_preset network) = Ok (e, t)" and "writes Ssz_encode s"
  shows "Ssz_hash_tree_root_struct R K T network x = Ok (ok, hash_root H s x)"
proof -
  obtain vs where x: "x = XStruct (''Types.'' @ nm) vs"
    using assms(5,6) by (auto simp: conforms_iff simp del: conforms.simps)
  obtain ts where t: "t = TStruct nm ts" using assms(3,6) by (auto split: ssz_ty.splits elx_ty.splits)
  have "tree_hash_root T t (rust_of t x) = hash_root H s x"
    using root_reference.tree_hash_root_reference [OF assms(1,2) agrees_wf [OF assms(3,4)]
        rust_of_conforms [OF assms(3,5,4)]] rust_of_hash_root [OF assms(3,5,4)] by simp
  then have "hash_root_of T t (rust_of t x) = hash_root H s x" by (simp add: t hash_root_of_def)
  moreover have "term_decode R e (nif_form s x) = Ok (elx_of s x)"
    using term_decode_encode [OF elx_of_typed [OF assms(3,5)]] by (simp add: term_encode_values nif_form_def)
  ultimately have "hash_tree_root R K T e t (nif_form s x) = Ok (hash_root H s x)"
    using from_elx_of [OF assms(3-5)] by (simp add: hash_tree_root_def)
  moreover have "Ssz_encode x = Ok (nif_form s x)" using assms(5,8) by (simp add: writes_def)
  ultimately have "Ssz_hash_tree_root R K T network x (''Types.'' @ nm) = Ok (ok, hash_root H s x)"
    using assms(7) by (simp add: Ssz_hash_tree_root_def nifs_types module_types [simplified])
  then show ?thesis by (simp add: x)
qed

end

text \<open>
  C2: On every network the two libraries compute the same hash tree root for every container, the one
  of the SSZ specification.
\<close>

theorem ssz_roots_agree:
  assumes "elixir_nif R K" and "root_reference H T" and "hash32 H" and "parse_config net = Some network"
    and "map_of containers nm = Some container" and "schema_types nm (get_preset network) = Ok (e, t)"
    and "conforms (container (spec_of network)) x"
  shows "Ssz_hash_tree_root_struct R K T network x = Ok (ok, hash_root H (container (spec_of network)) x) \<and>
    ex_hash_tree_root H (container (spec_of network)) x = Ok (hash_root H (container (spec_of network)) x)"
proof
  let ?s = "container (spec_of network)"
  obtain fs where s: "?s = SModule (''Types.'' @ nm) fs" using container_facts(3) [OF assms(5)] by blast
  have agree: "agrees ?s t e" by (rule container_agrees [OF assms(4-6)])
  then have wf: "schema_wf ?s" using schema_types_ok(2) [OF assms(6)] by (rule agrees_schema_wf)
  show "Ssz_hash_tree_root_struct R K T network x = Ok (ok, hash_root H ?s x)"
    by (rule elixir_nif.container_root [OF assms(1-3) agree wf assms(7) s assms(6) container_facts(1) [OF assms(5)]])
  have "exact_limits ?s"
    using containers_limits [OF network_exact [OF assms(4)]] map_of_SomeD [OF assms(5)] by (auto simp: list_all_iff)
  from rootedD(1) [OF hash_tree_root_rooted [OF assms(3) wf this] assms(7)]
  show "ex_hash_tree_root H ?s x = Ok (hash_root H ?s x)" .
qed

theorem ssz_roots_agree_witness:
  "Ssz_hash_tree_root_struct terms ssz_ex_crate (tree_hash_of prefix_hash) minimal_network sample_aggregate =
     Ok (ok, hash_root prefix_hash (SyncAggregate_container (spec_of minimal_network)) sample_aggregate)"
  using ssz_roots_agree [OF elixir.elixir_nif_axioms roots.root_reference_axioms prefix_hash32 sample_network
      sample_container sample_types sample_conforms] by blast

end
