(* ===== verification/Bls_Nif.thy ===== *)
theory Bls_Nif
  imports Nif_Types "HOL-Library.Multiset"
begin

text \<open>
  \<open>native/bls_nif/src/lib.rs\<close>: the NIFs of the module \<open>Bls\<close> over Lighthouse's crate \<open>bls\<close>. The
  crate is a record of functions, an error the text of its \<open>Debug\<close> rendering. What the crate
  documents is stated by the predicates \<open>hash256_from_slice\<close>, \<open>total_crate\<close>, \<open>serialization\<close> and
  \<open>signature_scheme\<close>, which appear as hypotheses of the properties.
\<close>

section \<open>The crate\<close>

record ('sk, 'bpk, 'pk, 'sig, 'agg, 'apk) bls_crate =
  Hash256_from_slice :: "bytes \<Rightarrow> (string, bytes) rust"
  INFINITY_PUBLIC_KEY :: bytes
  SecretKey_deserialize :: "bytes \<Rightarrow> (string, 'sk) rust"
  SecretKey_sign :: "'sk \<Rightarrow> bytes \<Rightarrow> 'sig"
  SecretKey_public_key :: "'sk \<Rightarrow> 'pk"
  blst_PublicKey_from_bytes :: "bytes \<Rightarrow> (string, 'bpk) rust"
  blst_PublicKey_serialize :: "'bpk \<Rightarrow> bytes"
  PublicKey_deserialize_uncompressed :: "bytes \<Rightarrow> (string, 'pk) rust"
  PublicKey_serialize :: "'pk \<Rightarrow> bytes"
  Signature_deserialize :: "bytes \<Rightarrow> (string, 'sig) rust"
  Signature_serialize :: "'sig \<Rightarrow> bytes"
  Signature_verify :: "'sig \<Rightarrow> 'pk \<Rightarrow> bytes \<Rightarrow> bool"
  AggregateSignature_infinity :: 'agg
  AggregateSignature_add_assign :: "'agg \<Rightarrow> 'sig \<Rightarrow> 'agg"
  AggregateSignature_serialize :: "'agg \<Rightarrow> bytes"
  AggregateSignature_deserialize :: "bytes \<Rightarrow> (string, 'agg) rust"
  AggregateSignature_aggregate_verify :: "'agg \<Rightarrow> bytes list \<Rightarrow> 'pk list \<Rightarrow> bool"
  AggregateSignature_fast_aggregate_verify :: "'agg \<Rightarrow> bytes \<Rightarrow> 'pk list \<Rightarrow> bool"
  AggregateSignature_eth_fast_aggregate_verify :: "'agg \<Rightarrow> bytes \<Rightarrow> 'pk list \<Rightarrow> bool"
  AggregatePublicKey_aggregate :: "'pk list \<Rightarrow> (string, 'apk) rust"
  AggregatePublicKey_to_public_key :: "'apk \<Rightarrow> 'pk"

text \<open>\<open>Hash256::from_slice\<close> copies a slice of 32 bytes and panics on any other length.\<close>

definition hash256_from_slice :: "('sk, 'bpk, 'pk, 'sig, 'agg, 'apk) bls_crate \<Rightarrow> bool" where
  "hash256_from_slice B \<longleftrightarrow>
     (\<forall>b. (length b = 32 \<longrightarrow> Hash256_from_slice B b = Ok b) \<and>
          (length b \<noteq> 32 \<longrightarrow> panics (Hash256_from_slice B b)))"

text \<open>Deserializing reports errors and does not panic; only the empty list has no aggregate key.\<close>

definition total_crate :: "('sk, 'bpk, 'pk, 'sig, 'agg, 'apk) bls_crate \<Rightarrow> bool" where
  "total_crate B \<longleftrightarrow>
     (\<forall>b. \<not> panics (SecretKey_deserialize B b)) \<and>
     (\<forall>b. \<not> panics (blst_PublicKey_from_bytes B b)) \<and>
     (\<forall>b. \<not> panics (PublicKey_deserialize_uncompressed B b)) \<and>
     (\<forall>b. \<not> panics (Signature_deserialize B b)) \<and>
     (\<forall>b. \<not> panics (AggregateSignature_deserialize B b)) \<and>
     (\<forall>pks. pks \<noteq> [] \<longrightarrow> (\<exists>a. AggregatePublicKey_aggregate B pks = Ok a))"

text \<open>
  What is serialized can be read back. A public key is read through the uncompressed form of its
  point; the key of a valid secret key is not the point at infinity.
\<close>

definition serialization :: "('sk, 'bpk, 'pk, 'sig, 'agg, 'apk) bls_crate \<Rightarrow> bool" where
  "serialization B \<longleftrightarrow>
     (\<forall>s. Signature_deserialize B (Signature_serialize B s) = Ok s) \<and>
     (\<forall>a. AggregateSignature_deserialize B (AggregateSignature_serialize B a) = Ok a) \<and>
     (\<forall>pk. PublicKey_serialize B pk \<noteq> INFINITY_PUBLIC_KEY B \<longrightarrow>
        (\<exists>p. blst_PublicKey_from_bytes B (PublicKey_serialize B pk) = Ok p \<and>
             PublicKey_deserialize_uncompressed B (blst_PublicKey_serialize B p) = Ok pk)) \<and>
     (\<forall>b sk. SecretKey_deserialize B b = Ok sk \<longrightarrow>
        PublicKey_serialize B (SecretKey_public_key B sk) \<noteq> INFINITY_PUBLIC_KEY B)"

text \<open>Keys that cancel each other out: their aggregate is the point at infinity, which no signature verifies under.\<close>

definition keys_cancel :: "('sk, 'bpk, 'pk, 'sig, 'agg, 'apk) bls_crate \<Rightarrow> 'pk list \<Rightarrow> bool" where
  "keys_cancel B pks \<longleftrightarrow>
     (\<exists>a. AggregatePublicKey_aggregate B pks = Ok a \<and>
          PublicKey_serialize B (AggregatePublicKey_to_public_key B a) = INFINITY_PUBLIC_KEY B)"

text \<open>
  Correctness of the scheme on its own types: a signature verifies under the signer's key, the sum
  of signatures of one message under the signers' keys unless they cancel each other out, the sum of
  signatures of several messages under the keys in the same order.
\<close>

definition signature_scheme :: "('sk, 'bpk, 'pk, 'sig, 'agg, 'apk) bls_crate \<Rightarrow> bool" where
  "signature_scheme B \<longleftrightarrow>
     (\<forall>sk h. Signature_verify B (SecretKey_sign B sk h) (SecretKey_public_key B sk) h) \<and>
     (\<forall>sks h. sks \<noteq> [] \<and> \<not> keys_cancel B (map (SecretKey_public_key B) sks) \<longrightarrow>
        AggregateSignature_fast_aggregate_verify B
          (foldl (AggregateSignature_add_assign B) (AggregateSignature_infinity B)
             (map (\<lambda>sk. SecretKey_sign B sk h) sks))
          h (map (SecretKey_public_key B) sks)) \<and>
     (\<forall>ps. ps \<noteq> [] \<longrightarrow>
        AggregateSignature_aggregate_verify B
          (foldl (AggregateSignature_add_assign B) (AggregateSignature_infinity B)
             (map (\<lambda>(sk, h). SecretKey_sign B sk h) ps))
          (map snd ps) (map (\<lambda>(sk, h). SecretKey_public_key B sk) ps))"

section \<open>The NIFs\<close>

definition bls_bytes_to_binary :: "(nat \<Rightarrow> bytes) \<Rightarrow> bytes \<Rightarrow> (string, bytes) rust" where
  "bls_bytes_to_binary new_binary bytes =
     expect ''called `Result::unwrap()` on an `Err` value''
       (write_all (new_binary (length bytes)) bytes)"

definition fast_public_key_deserialize ::
  "('sk, 'bpk, 'pk, 'sig, 'agg, 'apk) bls_crate \<Rightarrow> bytes \<Rightarrow> (string, 'pk) rust" where
  "fast_public_key_deserialize B pk =
     (if pk = INFINITY_PUBLIC_KEY B then Err ''Infinity public Key''
      else and_then
        (map_err (\<lambda>err. ''BlstError('' @ err @ '')'') (blst_PublicKey_from_bytes B pk)) (\<lambda>pk.
         map_err (\<lambda>e. ''Deserialization error: '' @ e)
           (PublicKey_deserialize_uncompressed B (blst_PublicKey_serialize B pk))))"

definition sign ::
  "(nat \<Rightarrow> bytes) \<Rightarrow> ('sk, 'bpk, 'pk, 'sig, 'agg, 'apk) bls_crate \<Rightarrow> bytes \<Rightarrow> bytes \<Rightarrow>
     (string, bytes) rust" where
  "sign env B private_key message =
     (if length message \<noteq> 32 then Err ''Message must be 32 bytes long''
      else and_then (SecretKey_deserialize B private_key) (\<lambda>sk.
           and_then (Hash256_from_slice B message) (\<lambda>h.
           bls_bytes_to_binary env (Signature_serialize B (SecretKey_sign B sk h)))))"

definition aggregate ::
  "(nat \<Rightarrow> bytes) \<Rightarrow> ('sk, 'bpk, 'pk, 'sig, 'agg, 'apk) bls_crate \<Rightarrow> bytes list \<Rightarrow>
     (string, bytes) rust" where
  "aggregate env B signatures =
     (case length signatures of
        0 \<Rightarrow> Err ''Empty signature vector''
      | _ \<Rightarrow>
          and_then (collect (map (Signature_deserialize B) signatures)) (\<lambda>sigs.
          let aggr_sig = foldl (AggregateSignature_add_assign B) (AggregateSignature_infinity B) sigs
          in bls_bytes_to_binary env (AggregateSignature_serialize B aggr_sig)))"

definition verify ::
  "('sk, 'bpk, 'pk, 'sig, 'agg, 'apk) bls_crate \<Rightarrow> bytes \<Rightarrow> bytes \<Rightarrow> bytes \<Rightarrow> (string, bool) rust" where
  "verify B public_key message signature =
     (if length message \<noteq> 32 then Err ''Message must be 32 bytes long''
      else and_then (Signature_deserialize B signature) (\<lambda>sig.
           and_then (map_err debug_string (fast_public_key_deserialize B public_key)) (\<lambda>pubkey.
           and_then (Hash256_from_slice B message) (\<lambda>h.
           Ok (Signature_verify B sig pubkey h)))))"

definition aggregate_verify ::
  "('sk, 'bpk, 'pk, 'sig, 'agg, 'apk) bls_crate \<Rightarrow> bytes list \<Rightarrow> bytes list \<Rightarrow> bytes \<Rightarrow>
     (string, bool) rust" where
  "aggregate_verify B public_keys messages signature =
     and_then (AggregateSignature_deserialize B signature) (\<lambda>aggregate_sig.
     and_then (map_err debug_string
                 (collect (map (fast_public_key_deserialize B) public_keys))) (\<lambda>pubkeys.
     and_then (collect (map (Hash256_from_slice B) messages)) (\<lambda>msgs.
     Ok (AggregateSignature_aggregate_verify B aggregate_sig msgs pubkeys))))"

definition fast_aggregate_verify ::
  "('sk, 'bpk, 'pk, 'sig, 'agg, 'apk) bls_crate \<Rightarrow> bytes list \<Rightarrow> bytes \<Rightarrow> bytes \<Rightarrow>
     (string, bool) rust" where
  "fast_aggregate_verify B public_keys message signature =
     (if length message \<noteq> 32 then Err ''Message must be 32 bytes long''
      else and_then (AggregateSignature_deserialize B signature) (\<lambda>aggregate_sig.
           and_then (map_err debug_string
                       (collect (map (fast_public_key_deserialize B) public_keys))) (\<lambda>pubkeys.
           and_then (Hash256_from_slice B message) (\<lambda>h.
           Ok (AggregateSignature_fast_aggregate_verify B aggregate_sig h pubkeys)))))"

definition eth_fast_aggregate_verify ::
  "('sk, 'bpk, 'pk, 'sig, 'agg, 'apk) bls_crate \<Rightarrow> bytes list \<Rightarrow> bytes \<Rightarrow> bytes \<Rightarrow>
     (string, bool) rust" where
  "eth_fast_aggregate_verify B public_keys message signature =
     (if length message \<noteq> 32 then Err ''Message must be 32 bytes long''
      else and_then (AggregateSignature_deserialize B signature) (\<lambda>aggregate_sig.
           and_then (map_err debug_string
                       (collect (map (fast_public_key_deserialize B) public_keys))) (\<lambda>pubkeys.
           and_then (Hash256_from_slice B message) (\<lambda>h.
           Ok (AggregateSignature_eth_fast_aggregate_verify B aggregate_sig h pubkeys)))))"

definition eth_aggregate_pubkeys ::
  "(nat \<Rightarrow> bytes) \<Rightarrow> ('sk, 'bpk, 'pk, 'sig, 'agg, 'apk) bls_crate \<Rightarrow> bytes list \<Rightarrow>
     (string, bytes) rust" where
  "eth_aggregate_pubkeys env B public_keys =
     (case length public_keys of
        0 \<Rightarrow> Err ''Empty public key vector''
      | _ \<Rightarrow>
          and_then (map_err debug_string
                      (collect (map (fast_public_key_deserialize B) public_keys))) (\<lambda>pubkeys.
          and_then (expect ''error in aggregate'' (AggregatePublicKey_aggregate B pubkeys)) (\<lambda>agg.
          bls_bytes_to_binary env
            (PublicKey_serialize B (AggregatePublicKey_to_public_key B agg)))))"

definition key_validate ::
  "('sk, 'bpk, 'pk, 'sig, 'agg, 'apk) bls_crate \<Rightarrow> bytes \<Rightarrow> (string, bool) rust" where
  "key_validate B public_key =
     and_then (fast_public_key_deserialize B public_key) (\<lambda>_. Ok True)"

definition derive_pubkey ::
  "(nat \<Rightarrow> bytes) \<Rightarrow> ('sk, 'bpk, 'pk, 'sig, 'agg, 'apk) bls_crate \<Rightarrow> bytes \<Rightarrow>
     (string, bytes) rust" where
  "derive_pubkey env B private_key =
     and_then (SecretKey_deserialize B private_key) (\<lambda>sk.
     bls_bytes_to_binary env (PublicKey_serialize B (SecretKey_public_key B sk)))"

lemmas bls_defs = sign_def aggregate_def verify_def aggregate_verify_def fast_aggregate_verify_def
  eth_fast_aggregate_verify_def eth_aggregate_pubkeys_def key_validate_def derive_pubkey_def

section \<open>Lemmas\<close>

lemma bls_bytes_to_binary_Ok:
  "\<forall>n. length (env n) = n \<Longrightarrow> bls_bytes_to_binary env bs = Ok bs"
  by (simp add: bls_bytes_to_binary_def write_all_same_length)

lemma fast_public_key_deserialize_no_panic:
  "total_crate B \<Longrightarrow> \<not> panics (fast_public_key_deserialize B pk)"
  by (auto simp: total_crate_def fast_public_key_deserialize_def)

lemma collect_public_keys_no_panic:
  "total_crate B \<Longrightarrow> \<not> panics (collect (map (fast_public_key_deserialize B) pks))"
  by (intro collect_map_not_panics fast_public_key_deserialize_no_panic)

lemma infinity_rejected_in_list:
  assumes "INFINITY_PUBLIC_KEY B \<in> set pks"
  shows "collect (map (fast_public_key_deserialize B) pks) \<noteq> Ok ks"
proof
  assume "collect (map (fast_public_key_deserialize B) pks) = Ok ks"
  then have "map (fast_public_key_deserialize B) pks = map Ok ks" by (simp add: collect_eq_Ok)
  with assms have "fast_public_key_deserialize B (INFINITY_PUBLIC_KEY B) \<in> Ok ` set ks"
    by (metis image_eqI image_set)
  then show False by (auto simp: fast_public_key_deserialize_def)
qed

text \<open>The public key derived from a secret key is accepted, and is the key of the secret key.\<close>

lemma derived_key_reads:
  assumes "serialization B" and "SecretKey_deserialize B b = Ok sk"
  shows "fast_public_key_deserialize B (PublicKey_serialize B (SecretKey_public_key B sk)) =
    Ok (SecretKey_public_key B sk)"
proof -
  let ?pk = "SecretKey_public_key B sk"
  from assms have "PublicKey_serialize B ?pk \<noteq> INFINITY_PUBLIC_KEY B"
    by (auto simp: serialization_def)
  moreover from this assms(1) obtain p where
    "blst_PublicKey_from_bytes B (PublicKey_serialize B ?pk) = Ok p"
    "PublicKey_deserialize_uncompressed B (blst_PublicKey_serialize B p) = Ok ?pk"
    unfolding serialization_def by blast
  ultimately show ?thesis by (simp add: fast_public_key_deserialize_def)
qed

text \<open>The NIFs that use a list of secret keys, one call per key.\<close>

lemma derive_pubkeys:
  assumes "\<forall>n. length (env n) = n" and "collect (map (SecretKey_deserialize B) sks) = Ok ks"
  shows "collect (map (derive_pubkey env B) sks) =
    Ok (map (\<lambda>k. PublicKey_serialize B (SecretKey_public_key B k)) ks)"
  using assms(2)
  by (auto simp: collect_map_eq_Ok derive_pubkey_def bls_bytes_to_binary_Ok [OF assms(1)]
      list_all2_map2 elim: list_all2_mono)

lemma derived_keys_read:
  assumes "serialization B" and "collect (map (SecretKey_deserialize B) sks) = Ok ks"
  shows "collect (map (fast_public_key_deserialize B)
      (map (\<lambda>k. PublicKey_serialize B (SecretKey_public_key B k)) ks)) =
    Ok (map (SecretKey_public_key B) ks)"
proof -
  from assms(2) have "\<forall>k \<in> set ks. \<exists>b. SecretKey_deserialize B b = Ok k"
    by (auto simp: collect_map_eq_Ok list_all2_conv_all_nth in_set_conv_nth) blast
  then have "\<forall>k \<in> set ks. fast_public_key_deserialize B
      (PublicKey_serialize B (SecretKey_public_key B k)) = Ok (SecretKey_public_key B k)"
    using derived_key_reads [OF assms(1)] by blast
  then show ?thesis by (simp add: collect_eq_Ok)
qed

lemma sign_Ok:
  assumes "\<forall>n. length (env n) = n" and "hash256_from_slice B" and "length msg = 32"
    and "SecretKey_deserialize B b = Ok sk"
  shows "sign env B b msg = Ok (Signature_serialize B (SecretKey_sign B sk msg))"
  using assms by (simp add: sign_def hash256_from_slice_def bls_bytes_to_binary_Ok)

lemma aggregate_serialized:
  assumes "\<forall>n. length (env n) = n" and "serialization B" and "sigs \<noteq> []"
  shows "aggregate env B (map (Signature_serialize B) sigs) =
    Ok (AggregateSignature_serialize B
      (foldl (AggregateSignature_add_assign B) (AggregateSignature_infinity B) sigs))"
proof -
  have "collect (map (Signature_deserialize B) (map (Signature_serialize B) sigs)) = Ok sigs"
    using assms(2) by (simp add: serialization_def collect_eq_Ok)
  with assms(3) show ?thesis
    by (cases sigs) (simp_all add: aggregate_def bls_bytes_to_binary_Ok [OF assms(1)])
qed

lemma foldl_permuted:
  assumes "mset xs = mset ys" and "\<And>a x y. f (f a x) y = f (f a y) x"
  shows "foldl f a xs = foldl f a ys"
proof -
  have "fold (\<lambda>x a. f a x) xs = fold (\<lambda>x a. f a x) ys"
    using assms by (intro fold_multiset_equiv) auto
  then show ?thesis by (simp add: foldl_conv_fold)
qed

section \<open>A linear scheme\<close>

text \<open>
  An instance that satisfies what is asked of the crate: a key is a non-zero residue modulo 256, a
  signature the product of the key and a digest of the message, an aggregate a sum.
\<close>

definition digest :: "bytes \<Rightarrow> byte" where
  "digest h = foldl (\<lambda>a b. 3 * a + b) 1 h"

fun residue_from :: "bytes \<Rightarrow> (string, byte) rust" where
  "residue_from [w] = Ok w"
| "residue_from _ = Err ''InvalidByteLength''"

fun nonzero_residue_from :: "bytes \<Rightarrow> (string, byte) rust" where
  "nonzero_residue_from [w] = (if w = 0 then Err ''InvalidZeroSecretKey'' else Ok w)"
| "nonzero_residue_from _ = Err ''InvalidByteLength''"

definition linear_bls :: "(byte, byte, byte, byte, byte, byte) bls_crate" where
  "linear_bls = \<lparr>
     Hash256_from_slice = (\<lambda>b. if length b = 32 then Ok b else Panic ''assertion failed''),
     INFINITY_PUBLIC_KEY = [0],
     SecretKey_deserialize = nonzero_residue_from,
     SecretKey_sign = (\<lambda>sk h. sk * digest h),
     SecretKey_public_key = (\<lambda>sk. sk),
     blst_PublicKey_from_bytes = residue_from,
     blst_PublicKey_serialize = (\<lambda>p. [p]),
     PublicKey_deserialize_uncompressed = residue_from,
     PublicKey_serialize = (\<lambda>p. [p]),
     Signature_deserialize = residue_from,
     Signature_serialize = (\<lambda>s. [s]),
     Signature_verify = (\<lambda>s p h. s = p * digest h),
     AggregateSignature_infinity = 0,
     AggregateSignature_add_assign = (\<lambda>a s. a + s),
     AggregateSignature_serialize = (\<lambda>a. [a]),
     AggregateSignature_deserialize = residue_from,
     AggregateSignature_aggregate_verify =
       (\<lambda>a hs ps. length hs = length ps \<and> a = sum_list (map2 (\<lambda>p h. p * digest h) ps hs)),
     AggregateSignature_fast_aggregate_verify = (\<lambda>a h ps. sum_list ps \<noteq> 0 \<and> a = sum_list ps * digest h),
     AggregateSignature_eth_fast_aggregate_verify =
       (\<lambda>a h ps. ps = [] \<and> a = 0 \<or> sum_list ps \<noteq> 0 \<and> a = sum_list ps * digest h),
     AggregatePublicKey_aggregate =
       (\<lambda>ps. if ps = [] then Err ''BlstError(AGGR_TYPE_MISMATCH)'' else Ok (sum_list ps)),
     AggregatePublicKey_to_public_key = (\<lambda>a. a)\<rparr>"

lemma residue_from_no_panic [simp]: "\<not> panics (residue_from b)" "\<not> panics (nonzero_residue_from b)"
  by (cases b rule: residue_from.cases; simp)+

lemma nonzero_residue_from_Ok [simp]: "nonzero_residue_from b = Ok w \<longleftrightarrow> b = [w] \<and> w \<noteq> 0"
  by (cases b rule: nonzero_residue_from.cases) auto

lemma linear_bls_hash256: "hash256_from_slice linear_bls"
  by (simp add: hash256_from_slice_def linear_bls_def)

lemma linear_bls_total: "total_crate linear_bls"
  by (simp add: total_crate_def linear_bls_def)

lemma linear_bls_serialization: "serialization linear_bls"
  by (simp add: serialization_def linear_bls_def)

lemma foldl_plus_sum_list: "foldl (+) (a :: 'a :: comm_monoid_add) xs = a + sum_list xs"
  by (induction xs arbitrary: a) (simp_all add: add.assoc)

lemma linear_bls_scheme: "signature_scheme linear_bls"
proof -
  have sum: "sum_list (map (\<lambda>sk. sk * digest h) sks) = sum_list sks * digest h" for sks h
    by (simp add: sum_list_mult_const)
  have "map2 (\<lambda>p h. p * digest h) (map (\<lambda>(sk, h). sk) ps) (map snd ps) =
      map (\<lambda>(sk, h). sk * digest h) ps" for ps
    by (induction ps) auto
  then show ?thesis
    by (auto simp: signature_scheme_def keys_cancel_def linear_bls_def foldl_plus_sum_list sum)
qed

section \<open>Properties\<close>

text \<open>
  C19: signing and verifying compose. For a secret key the crate accepts and a message of 32 bytes,
  \<open>derive_pubkey\<close> and \<open>sign\<close> return a public key and a signature, and \<open>verify\<close> accepts them.
\<close>

theorem sign_verify:
  assumes "\<forall>n. length (env n) = n" and "hash256_from_slice B" and "serialization B"
    and "signature_scheme B" and "SecretKey_deserialize B private_key = Ok sk"
    and "length message = 32"
  shows "\<exists>public_key signature. derive_pubkey env B private_key = Ok public_key \<and>
    sign env B private_key message = Ok signature \<and>
    verify B public_key message signature = Ok True"
proof -
  let ?pk = "PublicKey_serialize B (SecretKey_public_key B sk)"
  let ?sig = "Signature_serialize B (SecretKey_sign B sk message)"
  have "derive_pubkey env B private_key = Ok ?pk"
    using assms by (simp add: derive_pubkey_def bls_bytes_to_binary_Ok)
  moreover have "sign env B private_key message = Ok ?sig"
    using assms by (intro sign_Ok)
  moreover have "verify B ?pk message ?sig = Ok True"
    using assms derived_key_reads [OF assms(3,5)]
    by (simp add: verify_def serialization_def signature_scheme_def hash256_from_slice_def)
  ultimately show ?thesis by blast
qed

theorem sign_verify_witness:
  "\<exists>public_key signature. derive_pubkey (\<lambda>n. replicate n 0) linear_bls [7] = Ok public_key \<and>
     sign (\<lambda>n. replicate n 0) linear_bls [7] (replicate 32 5) = Ok signature \<and>
     verify linear_bls public_key (replicate 32 5) signature = Ok True"
  by (rule sign_verify [of _ _ _ 7])
     (simp_all add: linear_bls_hash256 linear_bls_serialization linear_bls_scheme,
      simp add: linear_bls_def)

text \<open>
  C20: signatures of one message by a non-empty list of signers aggregate to a signature that
  \<open>fast_aggregate_verify\<close> accepts for the list of their derived public keys, unless the public keys
  cancel each other out, that is add up to the point at infinity.
\<close>

theorem aggregate_fast_verify:
  assumes "\<forall>n. length (env n) = n" and "hash256_from_slice B" and "serialization B"
    and "signature_scheme B" and "collect (map (SecretKey_deserialize B) private_keys) = Ok sks"
    and "private_keys \<noteq> []" and "length message = 32"
    and "\<not> keys_cancel B (map (SecretKey_public_key B) sks)"
  shows "\<exists>public_keys signatures signature.
    collect (map (derive_pubkey env B) private_keys) = Ok public_keys \<and>
    collect (map (\<lambda>k. sign env B k message) private_keys) = Ok signatures \<and>
    aggregate env B signatures = Ok signature \<and>
    fast_aggregate_verify B public_keys message signature = Ok True"
proof -
  let ?sigs = "map (\<lambda>k. SecretKey_sign B k message) sks"
  have ne: "sks \<noteq> []" using assms(5,6) by (auto simp: collect_eq_Ok)
  have "collect (map (\<lambda>k. sign env B k message) private_keys) = Ok (map (Signature_serialize B) ?sigs)"
    using assms(5) sign_Ok [OF assms(1,2,7)]
    by (auto simp: collect_map_eq_Ok list_all2_map2 elim: list_all2_mono)
  moreover note derive_pubkeys [OF assms(1,5)]
  moreover note aggregate_serialized [OF assms(1,3), of ?sigs]
  moreover note derived_keys_read [OF assms(3,5)]
  ultimately show ?thesis
    using assms ne
    by (auto simp: fast_aggregate_verify_def serialization_def hash256_from_slice_def
        signature_scheme_def simp del: map_map)
qed

theorem aggregate_fast_verify_witness:
  "\<exists>public_keys signatures signature.
    collect (map (derive_pubkey (\<lambda>n. replicate n 0) linear_bls) [[7], [9]]) = Ok public_keys \<and>
    collect (map (\<lambda>k. sign (\<lambda>n. replicate n 0) linear_bls k (replicate 32 5)) [[7], [9]]) =
      Ok signatures \<and>
    aggregate (\<lambda>n. replicate n 0) linear_bls signatures = Ok signature \<and>
    fast_aggregate_verify linear_bls public_keys (replicate 32 5) signature = Ok True"
  by (rule aggregate_fast_verify [where sks = "[7, 9]"])
     (simp_all add: linear_bls_hash256 linear_bls_serialization linear_bls_scheme,
      simp_all add: linear_bls_def keys_cancel_def)

text \<open>
  Signatures of several messages of 32 bytes, one signer each, aggregate to a signature that
  \<open>aggregate_verify\<close> accepts for the signers' public keys and the messages in the same order.
\<close>

theorem aggregate_messages_verify:
  assumes "\<forall>n. length (env n) = n" and "hash256_from_slice B" and "serialization B"
    and "signature_scheme B" and "collect (map (SecretKey_deserialize B) (map fst ps)) = Ok sks"
    and "ps \<noteq> []" and "list_all (\<lambda>p. length (snd p) = 32) ps"
  shows "\<exists>public_keys signatures signature.
    collect (map (derive_pubkey env B) (map fst ps)) = Ok public_keys \<and>
    collect (map (\<lambda>(k, message). sign env B k message) ps) = Ok signatures \<and>
    aggregate env B signatures = Ok signature \<and>
    aggregate_verify B public_keys (map snd ps) signature = Ok True"
proof -
  let ?qs = "zip sks (map snd ps)"
  let ?sigs = "map (\<lambda>(k, message). SecretKey_sign B k message) ?qs"
  have len: "length sks = length ps" using assms(5) by (auto dest: collect_length)
  have keys: "map (\<lambda>(k, h). SecretKey_public_key B k) ?qs = map (SecretKey_public_key B) sks"
    using len by (auto intro: nth_equalityI)
  have "collect (map (\<lambda>(k, message). sign env B k message) ps) = Ok (map (Signature_serialize B) ?sigs)"
  proof -
    have "sign env B (fst (ps ! i)) (snd (ps ! i)) =
        Ok (Signature_serialize B (SecretKey_sign B (sks ! i) (snd (ps ! i))))" if "i < length ps" for i
      using that assms(5,7) len
      by (intro sign_Ok assms(1,2))
         (simp_all add: collect_map_eq_Ok list_all2_conv_all_nth list_all_length)
    with len show ?thesis
      by (simp add: collect_map_eq_Ok list_all2_conv_all_nth case_prod_beta)
  qed
  moreover note derive_pubkeys [OF assms(1,5)]
  moreover have "aggregate env B (map (Signature_serialize B) ?sigs) =
      Ok (AggregateSignature_serialize B
        (foldl (AggregateSignature_add_assign B) (AggregateSignature_infinity B) ?sigs))"
    using assms(6) len by (intro aggregate_serialized assms(1,3)) auto
  moreover have "aggregate_verify B
      (map (\<lambda>k. PublicKey_serialize B (SecretKey_public_key B k)) sks) (map snd ps)
      (AggregateSignature_serialize B
        (foldl (AggregateSignature_add_assign B) (AggregateSignature_infinity B) ?sigs)) = Ok True"
  proof -
    have "collect (map (Hash256_from_slice B) (map snd ps)) = Ok (map snd ps)"
      using assms(2,7) by (auto simp: hash256_from_slice_def collect_eq_Ok list_all_iff)
    moreover have "AggregateSignature_aggregate_verify B
        (foldl (AggregateSignature_add_assign B) (AggregateSignature_infinity B) ?sigs)
        (map snd ps) (map (SecretKey_public_key B) sks)"
    proof -
      have "?qs \<noteq> []" and "map snd ?qs = map snd ps" using assms(6) len by (cases sks; cases ps; simp)+
      moreover have "\<forall>qs. qs \<noteq> [] \<longrightarrow> AggregateSignature_aggregate_verify B
          (foldl (AggregateSignature_add_assign B) (AggregateSignature_infinity B)
             (map (\<lambda>(k, h). SecretKey_sign B k h) qs))
          (map snd qs) (map (\<lambda>(k, h). SecretKey_public_key B k) qs)"
        using assms(4) unfolding signature_scheme_def by (elim conjE)
      ultimately show ?thesis using keys by metis
    qed
    ultimately show ?thesis
      using derived_keys_read [OF assms(3,5)] assms(3)
      by (simp add: aggregate_verify_def serialization_def del: map_map)
  qed
  ultimately show ?thesis by blast
qed

theorem aggregate_messages_verify_witness:
  "\<exists>public_keys signatures signature.
    collect (map (derive_pubkey (\<lambda>n. replicate n 0) linear_bls)
      (map fst [([7], replicate 32 5), ([9], replicate 32 (6 :: byte))])) = Ok public_keys \<and>
    collect (map (\<lambda>(k, message). sign (\<lambda>n. replicate n 0) linear_bls k message)
      [([7], replicate 32 5), ([9], replicate 32 6)]) = Ok signatures \<and>
    aggregate (\<lambda>n. replicate n 0) linear_bls signatures = Ok signature \<and>
    aggregate_verify linear_bls public_keys
      (map snd [([7], replicate 32 5), ([9 :: byte], replicate 32 6)]) signature = Ok True"
  by (rule aggregate_messages_verify [where sks = "[7, 9]"])
     (simp_all add: linear_bls_hash256 linear_bls_serialization linear_bls_scheme,
      simp add: linear_bls_def)

text \<open>
  C39: when the signature and the public keys can be read, \<open>aggregate_verify\<close> panics exactly when
  one of the messages is not 32 bytes long; it does not check the length, as the other NIFs do.
\<close>

theorem aggregate_verify_panics_iff:
  assumes "hash256_from_slice B" and "total_crate B"
  shows "panics (aggregate_verify B public_keys messages signature) \<longleftrightarrow>
    (\<exists>a. AggregateSignature_deserialize B signature = Ok a) \<and>
    (\<exists>ks. collect (map (fast_public_key_deserialize B) public_keys) = Ok ks) \<and>
    (\<exists>m \<in> set messages. length m \<noteq> 32)"
proof -
  have "panics (collect (map (Hash256_from_slice B) ms)) \<longleftrightarrow> (\<exists>m \<in> set ms. length m \<noteq> 32)" for ms
    using assms(1) by (induction ms) (auto simp: hash256_from_slice_def)
  moreover have "\<not> panics (AggregateSignature_deserialize B signature)"
    using assms(2) by (simp add: total_crate_def)
  ultimately show ?thesis
    using collect_public_keys_no_panic [OF assms(2), of public_keys]
    by (auto simp: aggregate_verify_def)
qed

theorem aggregate_verify_panics_iff_witness:
  "panics (aggregate_verify linear_bls [[7]] [[1, 2, 3]] [5])"
proof -
  have "collect (map (fast_public_key_deserialize linear_bls) [[7]]) = Ok [7]"
    "AggregateSignature_deserialize linear_bls [5] = Ok 5"
    by (simp_all add: fast_public_key_deserialize_def linear_bls_def)
  then show ?thesis
    by (subst aggregate_verify_panics_iff [OF linear_bls_hash256 linear_bls_total]) fastforce
qed

text \<open>
  C40: no other NIF of the module panics, whatever the binaries are: malformed keys, signatures and
  messages are reported as errors.
\<close>

theorem bls_no_panic:
  assumes "\<forall>n. length (env n) = n" and "hash256_from_slice B" and "total_crate B"
  shows "\<not> panics (sign env B k m) \<and> \<not> panics (aggregate env B ss) \<and> \<not> panics (verify B pk m s) \<and>
    \<not> panics (fast_aggregate_verify B pks m s) \<and> \<not> panics (eth_fast_aggregate_verify B pks m s) \<and>
    \<not> panics (eth_aggregate_pubkeys env B pks) \<and> \<not> panics (key_validate B pk) \<and>
    \<not> panics (derive_pubkey env B k)"
proof -
  note binary = bls_bytes_to_binary_Ok [OF assms(1)]
  note keys = fast_public_key_deserialize_no_panic [OF assms(3)]
    collect_public_keys_no_panic [OF assms(3)]
  have sigs: "\<not> panics (collect (map (Signature_deserialize B) ss))"
    using assms(3) by (intro collect_map_not_panics) (simp add: total_crate_def)
  have "\<not> panics (expect msg (AggregatePublicKey_aggregate B ks) :: (string, 'f) rust)"
    if "collect (map (fast_public_key_deserialize B) pks) = Ok ks" "pks \<noteq> []" for ks msg
  proof -
    from that have "ks \<noteq> []" by (auto simp: collect_eq_Ok)
    with assms(3) obtain a where "AggregatePublicKey_aggregate B ks = Ok a"
      unfolding total_crate_def by blast
    then show ?thesis by simp
  qed
  then have "\<not> panics (eth_aggregate_pubkeys env B pks)"
    by (cases pks) (auto simp: eth_aggregate_pubkeys_def keys binary simp del: list.map collect.simps)
  with assms(2,3) show ?thesis
    by (auto simp: bls_defs total_crate_def hash256_from_slice_def binary keys sigs split: nat.splits)
qed

theorem bls_no_panic_witness:
  "\<not> panics (sign (\<lambda>n. replicate n 0) linear_bls [] []) \<and>
    \<not> panics (aggregate (\<lambda>n. replicate n 0) linear_bls [[], [1]]) \<and>
    \<not> panics (verify linear_bls [0] [] []) \<and>
    \<not> panics (fast_aggregate_verify linear_bls [[0]] [] []) \<and>
    \<not> panics (eth_fast_aggregate_verify linear_bls [[0]] [] []) \<and>
    \<not> panics (eth_aggregate_pubkeys (\<lambda>n. replicate n 0) linear_bls [[0]]) \<and>
    \<not> panics (key_validate linear_bls [0]) \<and>
    \<not> panics (derive_pubkey (\<lambda>n. replicate n 0) linear_bls [])"
  by (rule bls_no_panic) (simp_all add: linear_bls_hash256 linear_bls_total)

text \<open>
  The NIFs that take one message refuse a message that is not 32 bytes long with an error,
  before they read a key or a signature.
\<close>

theorem message_length_checked:
  assumes "length message \<noteq> 32"
  shows "sign env B private_key message = Err ''Message must be 32 bytes long'' \<and>
    verify B public_key message signature = Err ''Message must be 32 bytes long'' \<and>
    fast_aggregate_verify B public_keys message signature =
      Err ''Message must be 32 bytes long'' \<and>
    eth_fast_aggregate_verify B public_keys message signature =
      Err ''Message must be 32 bytes long''"
  using assms by (simp_all add: bls_defs)

theorem message_length_checked_witness:
  "sign (\<lambda>n. replicate n 0) linear_bls [7] [1, 2, 3] = Err ''Message must be 32 bytes long'' \<and>
   verify linear_bls [7] [1, 2, 3] [] = Err ''Message must be 32 bytes long'' \<and>
   fast_aggregate_verify linear_bls [[7]] [1, 2, 3] [] = Err ''Message must be 32 bytes long'' \<and>
   eth_fast_aggregate_verify linear_bls [[7]] [1, 2, 3] [] = Err ''Message must be 32 bytes long''"
  by (rule message_length_checked) simp

text \<open>
  The public key at infinity is never accepted: no NIF that takes public keys returns a result
  when it is among them.
\<close>

theorem infinity_key_rejected:
  assumes "INFINITY_PUBLIC_KEY B \<in> set public_keys"
  shows "aggregate_verify B public_keys messages signature \<noteq> Ok r \<and>
    fast_aggregate_verify B public_keys message signature \<noteq> Ok r \<and>
    eth_fast_aggregate_verify B public_keys message signature \<noteq> Ok r \<and>
    eth_aggregate_pubkeys env B public_keys \<noteq> Ok key \<and>
    verify B (INFINITY_PUBLIC_KEY B) message signature \<noteq> Ok r \<and>
    key_validate B (INFINITY_PUBLIC_KEY B) = Err ''Infinity public Key''"
  using infinity_rejected_in_list [OF assms]
  by (auto simp: bls_defs fast_public_key_deserialize_def split: nat.splits)

theorem infinity_key_rejected_witness:
  "aggregate_verify linear_bls [[3], [0]] [] [1] \<noteq> Ok True \<and>
    fast_aggregate_verify linear_bls [[3], [0]] (replicate 32 1) [1] \<noteq> Ok True \<and>
    eth_fast_aggregate_verify linear_bls [[3], [0]] (replicate 32 1) [1] \<noteq> Ok True \<and>
    eth_aggregate_pubkeys (\<lambda>n. replicate n 0) linear_bls [[3], [0]] \<noteq> Ok [3]"
proof -
  have "INFINITY_PUBLIC_KEY linear_bls \<in> set [[3], [0]]" by (simp add: linear_bls_def)
  from infinity_key_rejected [OF this] show ?thesis by blast
qed

text \<open>
  The order of the signatures does not matter to \<open>aggregate\<close>, when adding signatures to an
  aggregate commutes.
\<close>

theorem aggregate_permuted:
  assumes "\<And>a x y. AggregateSignature_add_assign B (AggregateSignature_add_assign B a x) y =
      AggregateSignature_add_assign B (AggregateSignature_add_assign B a y) x"
    and "aggregate env B signatures = Ok r" and "mset signatures' = mset signatures"
  shows "aggregate env B signatures' = Ok r"
proof -
  from assms(2) obtain sigs where sigs: "list_all2 (\<lambda>s x. Signature_deserialize B s = Ok x) signatures sigs"
    by (auto simp: aggregate_def collect_map_eq_Ok split: nat.splits)
  define read where "read s = (case Signature_deserialize B s of Ok x \<Rightarrow> x)" for s
  have "\<forall>s \<in> set signatures. Signature_deserialize B s = Ok (read s)"
    using sigs by (fastforce simp: read_def in_set_conv_nth list_all2_conv_all_nth)
  moreover have "set signatures' = set signatures" using assms(3) by (rule mset_eq_setD)
  ultimately have "collect (map (Signature_deserialize B) signatures) = Ok (map read signatures)"
    "collect (map (Signature_deserialize B) signatures') = Ok (map read signatures')"
    by (simp_all add: collect_eq_Ok)
  moreover have "foldl (AggregateSignature_add_assign B) a (map read signatures') =
      foldl (AggregateSignature_add_assign B) a (map read signatures)" for a
    using assms(1,3) by (intro foldl_permuted) simp_all
  ultimately show ?thesis
    using assms(2) mset_eq_length [OF assms(3)] by (auto simp: aggregate_def split: nat.splits)
qed

theorem aggregate_permuted_witness:
  "aggregate (\<lambda>n. replicate n 0) linear_bls [[3], [1], [2]] = Ok [6]"
  by (rule aggregate_permuted [where signatures = "[[1], [2], [3]]"])
     (simp_all add: linear_bls_def aggregate_def bls_bytes_to_binary_Ok)

end
