(* ===== verification/Kzg_Nif.thy ===== *)
theory Kzg_Nif
  imports Nif_Types
begin

text \<open>
  \<open>native/kzg_nif/src/lib.rs\<close>: the NIFs of the module \<open>Kzg\<close> over the crate \<open>c_kzg\<close>. The crate is
  a record of functions, an error the text of its \<open>Debug\<close> rendering; what the process sees of its
  host (the working directory, the path of the source file) is a second record. Every NIF reads
  its arguments first and loads the trusted setup from a file afterwards.
\<close>

section \<open>The crate and the host\<close>

record ('blob, 'b32, 'b48, 'com, 'proof, 'ts) c_kzg =
  Blob_from_bytes :: "bytes \<Rightarrow> (string, 'blob) rust"
  Bytes32_from_bytes :: "bytes \<Rightarrow> (string, 'b32) rust"
  Bytes32_as_slice :: "'b32 \<Rightarrow> bytes"
  Bytes48_into_inner :: "'b48 \<Rightarrow> bytes"
  KzgCommitment_from_bytes :: "bytes \<Rightarrow> (string, 'com) rust"
  KzgCommitment_to_bytes :: "'com \<Rightarrow> 'b48"
  KzgProof_from_bytes :: "bytes \<Rightarrow> (string, 'proof) rust"
  KzgProof_to_bytes :: "'proof \<Rightarrow> 'b48"
  KzgSettings_load_trusted_setup_file :: "path \<Rightarrow> (string, 'ts) rust"
  c_blob_to_kzg_commitment :: "'blob \<Rightarrow> 'ts \<Rightarrow> (string, 'com) rust"
  c_compute_kzg_proof :: "'blob \<Rightarrow> 'b32 \<Rightarrow> 'ts \<Rightarrow> (string, 'proof \<times> 'b32) rust"
  c_compute_blob_kzg_proof :: "'blob \<Rightarrow> 'b48 \<Rightarrow> 'ts \<Rightarrow> (string, 'proof) rust"
  c_verify_kzg_proof :: "'b48 \<Rightarrow> 'b32 \<Rightarrow> 'b32 \<Rightarrow> 'b48 \<Rightarrow> 'ts \<Rightarrow> (string, bool) rust"
  c_verify_blob_kzg_proof :: "'blob \<Rightarrow> 'b48 \<Rightarrow> 'b48 \<Rightarrow> 'ts \<Rightarrow> (string, bool) rust"
  c_verify_blob_kzg_proof_batch ::
    "'blob list \<Rightarrow> 'b48 list \<Rightarrow> 'b48 list \<Rightarrow> 'ts \<Rightarrow> (string, bool) rust"

record host =
  current_dir :: "(string, path) rust"
  file_macro :: path

text \<open>Reading arguments and computing report errors and do not panic.\<close>

definition total_kzg :: "('blob, 'b32, 'b48, 'com, 'proof, 'ts) c_kzg \<Rightarrow> bool" where
  "total_kzg Z \<longleftrightarrow>
     (\<forall>b. \<not> panics (Blob_from_bytes Z b)) \<and> (\<forall>b. \<not> panics (Bytes32_from_bytes Z b)) \<and>
     (\<forall>b. \<not> panics (KzgCommitment_from_bytes Z b)) \<and> (\<forall>b. \<not> panics (KzgProof_from_bytes Z b)) \<and>
     (\<forall>b ts. \<not> panics (c_blob_to_kzg_commitment Z b ts)) \<and>
     (\<forall>b z ts. \<not> panics (c_compute_kzg_proof Z b z ts)) \<and>
     (\<forall>b c ts. \<not> panics (c_compute_blob_kzg_proof Z b c ts)) \<and>
     (\<forall>c z y p ts. \<not> panics (c_verify_kzg_proof Z c z y p ts)) \<and>
     (\<forall>b c p ts. \<not> panics (c_verify_blob_kzg_proof Z b c p ts)) \<and>
     (\<forall>bs cs ps ts. \<not> panics (c_verify_blob_kzg_proof_batch Z bs cs ps ts))"

text \<open>The bytes of a commitment, of a proof and of a field element can be read back.\<close>

definition kzg_serialization :: "('blob, 'b32, 'b48, 'com, 'proof, 'ts) c_kzg \<Rightarrow> bool" where
  "kzg_serialization Z \<longleftrightarrow>
     (\<forall>c. KzgCommitment_from_bytes Z (Bytes48_into_inner Z (KzgCommitment_to_bytes Z c)) = Ok c) \<and>
     (\<forall>p. KzgProof_from_bytes Z (Bytes48_into_inner Z (KzgProof_to_bytes Z p)) = Ok p) \<and>
     (\<forall>y. Bytes32_from_bytes Z (Bytes32_as_slice Z y) = Ok y)"

text \<open>
  Completeness of the scheme at a trusted setup: a blob that has a commitment has a proof against
  it, proofs verify, and a batch of proofs that verify one by one verifies.
\<close>

definition kzg_complete :: "('blob, 'b32, 'b48, 'com, 'proof, 'ts) c_kzg \<Rightarrow> 'ts \<Rightarrow> bool" where
  "kzg_complete Z ts \<longleftrightarrow>
     (\<forall>b c. c_blob_to_kzg_commitment Z b ts = Ok c \<longrightarrow>
        (\<exists>p. c_compute_blob_kzg_proof Z b (KzgCommitment_to_bytes Z c) ts = Ok p \<and>
             c_verify_blob_kzg_proof Z b (KzgCommitment_to_bytes Z c) (KzgProof_to_bytes Z p) ts =
               Ok True)) \<and>
     (\<forall>b c z p y. c_blob_to_kzg_commitment Z b ts = Ok c \<longrightarrow>
        c_compute_kzg_proof Z b z ts = Ok (p, y) \<longrightarrow>
        c_verify_kzg_proof Z (KzgCommitment_to_bytes Z c) z y (KzgProof_to_bytes Z p) ts = Ok True) \<and>
     (\<forall>ts3. list_all (\<lambda>(b, c, p). c_verify_blob_kzg_proof Z b c p ts = Ok True) ts3 \<longrightarrow>
        c_verify_blob_kzg_proof_batch Z (map fst ts3) (map (fst \<circ> snd) ts3) (map (snd \<circ> snd) ts3) ts =
          Ok True)"

section \<open>The NIFs\<close>

definition kzg_bytes_to_binary :: "(nat \<Rightarrow> bytes) \<Rightarrow> bytes \<Rightarrow> (string, bytes) rust" where
  "kzg_bytes_to_binary new_binary bytes =
     expect ''called `Result::unwrap()` on an `Err` value''
       (write_all (new_binary (length bytes)) bytes)"

text \<open>
  The assertion that the file exists is a \<open>debug_assert!\<close>, which the release profile drops; a
  missing file makes the load fail.
\<close>

definition trusted_setup_path :: "host \<Rightarrow> (string, path) rust" where
  "trusted_setup_path host =
     and_then (expect ''called `Result::unwrap()` on an `Err` value'' (current_dir host)) (\<lambda>dir.
     let lib_path = path_join dir (file_macro host)
     in and_then (expect ''called `Option::unwrap()` on a `None` value''
                    (ok_or (path_parent lib_path) ())) (\<lambda>src_path.
        and_then (expect ''called `Option::unwrap()` on a `None` value''
                    (ok_or (path_parent src_path) ())) (\<lambda>main_path.
        Ok (path_join main_path [''native'', ''kzg_nif'', ''official_trusted_setup.txt'']))))"

definition get_trusted_setup ::
  "host \<Rightarrow> ('blob, 'b32, 'b48, 'com, 'proof, 'ts) c_kzg \<Rightarrow> (string, 'ts) rust" where
  "get_trusted_setup host Z =
     and_then (trusted_setup_path host) (\<lambda>trusted_setup_file.
     expect ''called `Result::unwrap()` on an `Err` value''
       (KzgSettings_load_trusted_setup_file Z trusted_setup_file))"

definition blob_to_kzg_commitment ::
  "(nat \<Rightarrow> bytes) \<Rightarrow> host \<Rightarrow> ('blob, 'b32, 'b48, 'com, 'proof, 'ts) c_kzg \<Rightarrow> bytes \<Rightarrow>
     (string, bytes) rust" where
  "blob_to_kzg_commitment env host Z blob =
     and_then (Blob_from_bytes Z blob) (\<lambda>blob.
     and_then (get_trusted_setup host Z) (\<lambda>trusted_setup.
     and_then (c_blob_to_kzg_commitment Z blob trusted_setup) (\<lambda>commitment.
     kzg_bytes_to_binary env (Bytes48_into_inner Z (KzgCommitment_to_bytes Z commitment)))))"

definition compute_kzg_proof ::
  "(nat \<Rightarrow> bytes) \<Rightarrow> host \<Rightarrow> ('blob, 'b32, 'b48, 'com, 'proof, 'ts) c_kzg \<Rightarrow> bytes \<Rightarrow> bytes \<Rightarrow>
     (string, bytes \<times> bytes) rust" where
  "compute_kzg_proof env host Z blob z =
     and_then (Blob_from_bytes Z blob) (\<lambda>blob.
     and_then (Bytes32_from_bytes Z z) (\<lambda>z_bytes.
     and_then (get_trusted_setup host Z) (\<lambda>trusted_setup.
     and_then (c_compute_kzg_proof Z blob z_bytes trusted_setup) (\<lambda>(kzg_proof, y).
     and_then (kzg_bytes_to_binary env (Bytes48_into_inner Z (KzgProof_to_bytes Z kzg_proof))) (\<lambda>p.
     and_then (kzg_bytes_to_binary env (Bytes32_as_slice Z y)) (\<lambda>y.
     Ok (p, y)))))))"

definition compute_blob_kzg_proof ::
  "(nat \<Rightarrow> bytes) \<Rightarrow> host \<Rightarrow> ('blob, 'b32, 'b48, 'com, 'proof, 'ts) c_kzg \<Rightarrow> bytes \<Rightarrow> bytes \<Rightarrow>
     (string, bytes) rust" where
  "compute_blob_kzg_proof env host Z blob kzg_commitment =
     and_then (Blob_from_bytes Z blob) (\<lambda>blob.
     and_then (KzgCommitment_from_bytes Z kzg_commitment) (\<lambda>commitment.
     and_then (get_trusted_setup host Z) (\<lambda>trusted_setup.
     and_then (c_compute_blob_kzg_proof Z blob (KzgCommitment_to_bytes Z commitment) trusted_setup)
       (\<lambda>kzg_proof.
     kzg_bytes_to_binary env (Bytes48_into_inner Z (KzgProof_to_bytes Z kzg_proof))))))"

definition verify_kzg_proof ::
  "host \<Rightarrow> ('blob, 'b32, 'b48, 'com, 'proof, 'ts) c_kzg \<Rightarrow> bytes \<Rightarrow> bytes \<Rightarrow> bytes \<Rightarrow> bytes \<Rightarrow>
     (string, bool) rust" where
  "verify_kzg_proof host Z kzg_commitment z y kzg_proof =
     and_then (KzgCommitment_from_bytes Z kzg_commitment) (\<lambda>commitment.
     and_then (Bytes32_from_bytes Z z) (\<lambda>z_bytes.
     and_then (Bytes32_from_bytes Z y) (\<lambda>y_bytes.
     and_then (KzgProof_from_bytes Z kzg_proof) (\<lambda>proof.
     and_then (get_trusted_setup host Z) (\<lambda>trusted_setup.
     c_verify_kzg_proof Z (KzgCommitment_to_bytes Z commitment) z_bytes y_bytes
       (KzgProof_to_bytes Z proof) trusted_setup)))))"

definition verify_blob_kzg_proof ::
  "host \<Rightarrow> ('blob, 'b32, 'b48, 'com, 'proof, 'ts) c_kzg \<Rightarrow> bytes \<Rightarrow> bytes \<Rightarrow> bytes \<Rightarrow>
     (string, bool) rust" where
  "verify_blob_kzg_proof host Z blob kzg_commitment kzg_proof =
     and_then (Blob_from_bytes Z blob) (\<lambda>blob.
     and_then (KzgCommitment_from_bytes Z kzg_commitment) (\<lambda>commitment.
     and_then (KzgProof_from_bytes Z kzg_proof) (\<lambda>proof.
     and_then (get_trusted_setup host Z) (\<lambda>trusted_setup.
     c_verify_blob_kzg_proof Z blob (KzgCommitment_to_bytes Z commitment)
       (KzgProof_to_bytes Z proof) trusted_setup))))"

definition verify_blob_kzg_proof_batch ::
  "host \<Rightarrow> ('blob, 'b32, 'b48, 'com, 'proof, 'ts) c_kzg \<Rightarrow> bytes list \<Rightarrow> bytes list \<Rightarrow> bytes list \<Rightarrow>
     (string, bool) rust" where
  "verify_blob_kzg_proof_batch host Z blobs kzg_commitments kzg_proofs =
     and_then (collect (map (Blob_from_bytes Z) blobs)) (\<lambda>blobs.
     and_then (collect (map (KzgCommitment_from_bytes Z) kzg_commitments)) (\<lambda>commitments.
     let commitments = map (KzgCommitment_to_bytes Z) commitments
     in and_then (collect (map (KzgProof_from_bytes Z) kzg_proofs)) (\<lambda>proofs.
        let proofs = map (KzgProof_to_bytes Z) proofs
        in and_then (get_trusted_setup host Z) (\<lambda>trusted_setup.
           c_verify_blob_kzg_proof_batch Z blobs commitments proofs trusted_setup))))"

lemmas kzg_defs = blob_to_kzg_commitment_def compute_kzg_proof_def compute_blob_kzg_proof_def
  verify_kzg_proof_def verify_blob_kzg_proof_def verify_blob_kzg_proof_batch_def

section \<open>Lemmas\<close>

lemma kzg_bytes_to_binary_Ok:
  "\<forall>n. length (env n) = n \<Longrightarrow> kzg_bytes_to_binary env bs = Ok bs"
  by (simp add: kzg_bytes_to_binary_def write_all_same_length)

text \<open>Loading the trusted setup never returns an error: it succeeds or panics.\<close>

lemma get_trusted_setup_not_Err: "get_trusted_setup host Z \<noteq> Err e"
proof -
  have "trusted_setup_path host \<noteq> Err e"
    by (auto simp: trusted_setup_path_def Let_def and_then_eq_Err)
  then show ?thesis by (simp add: get_trusted_setup_def and_then_eq_Err)
qed

lemma collect_no_panic_total:
  "\<forall>b. \<not> panics (f b) \<Longrightarrow> \<not> panics (collect (map f bs))"
  by (intro collect_map_not_panics) simp

section \<open>A polynomial scheme\<close>

text \<open>
  An instance that satisfies what is asked of the crate: a blob is a polynomial over the residues
  modulo 256, its commitment the polynomial itself, a proof the claimed value.
\<close>

definition poly_eval :: "bytes \<Rightarrow> byte \<Rightarrow> byte" where
  "poly_eval p z = foldr (\<lambda>c a. c + z * a) p 0"

fun single_from :: "bytes \<Rightarrow> (string, byte) rust" where
  "single_from [w] = Ok w"
| "single_from _ = Err ''InvalidBytesLength''"

definition nonempty_from :: "bytes \<Rightarrow> (string, bytes) rust" where
  "nonempty_from b = (if b = [] then Err ''InvalidBytesLength'' else Ok b)"

definition poly_kzg :: "(bytes, byte, bytes, bytes, bytes, unit) c_kzg" where
  "poly_kzg = \<lparr>
     Blob_from_bytes = nonempty_from,
     Bytes32_from_bytes = single_from,
     Bytes32_as_slice = (\<lambda>w. [w]),
     Bytes48_into_inner = (\<lambda>b. b),
     KzgCommitment_from_bytes = Ok,
     KzgCommitment_to_bytes = (\<lambda>c. c),
     KzgProof_from_bytes = Ok,
     KzgProof_to_bytes = (\<lambda>p. p),
     KzgSettings_load_trusted_setup_file =
       (\<lambda>p. if p = [''app'', ''native'', ''kzg_nif'', ''official_trusted_setup.txt''] then Ok ()
             else Err ''InvalidTrustedSetup''),
     c_blob_to_kzg_commitment = (\<lambda>b ts. Ok b),
     c_compute_kzg_proof = (\<lambda>b z ts. Ok ([poly_eval b z], poly_eval b z)),
     c_compute_blob_kzg_proof = (\<lambda>b c ts. Ok [poly_eval b (of_nat (length c))]),
     c_verify_kzg_proof = (\<lambda>c z y p ts. Ok (poly_eval c z = y \<and> p = [y])),
     c_verify_blob_kzg_proof = (\<lambda>b c p ts. Ok (b = c \<and> p = [poly_eval b (of_nat (length c))])),
     c_verify_blob_kzg_proof_batch = (\<lambda>bs cs ps ts.
       if length bs = length cs \<and> length cs = length ps
       then Ok (list_all (\<lambda>(b, c, p). b = c \<and> p = [poly_eval b (of_nat (length c))])
                  (zip bs (zip cs ps)))
       else Err ''MismatchLength'')\<rparr>"

definition poly_host :: host where
  "poly_host = \<lparr>current_dir = Ok [''app''], file_macro = [''src'', ''lib.rs'']\<rparr>"

lemma poly_setup: "get_trusted_setup poly_host poly_kzg = Ok ()"
  by (simp add: get_trusted_setup_def trusted_setup_path_def path_join_def path_parent_def
      poly_host_def poly_kzg_def)

lemma single_from_no_panic [simp]: "\<not> panics (single_from b)"
  by (cases b rule: single_from.cases) simp_all

lemma poly_total: "total_kzg poly_kzg"
  by (simp add: total_kzg_def poly_kzg_def nonempty_from_def)

lemma poly_serialization: "kzg_serialization poly_kzg"
  by (simp add: kzg_serialization_def poly_kzg_def)

lemma zip_map_components: "zip (map fst ts) (zip (map (fst \<circ> snd) ts) (map (snd \<circ> snd) ts)) = ts"
  by (induction ts) auto

lemma poly_complete: "kzg_complete poly_kzg ()"
  by (simp add: kzg_complete_def poly_kzg_def zip_map_components case_prod_beta)

section \<open>Properties\<close>

text \<open>
  C22: committing, proving and verifying compose. When \<open>blob_to_kzg_commitment\<close> returns a
  commitment for a blob, \<open>compute_blob_kzg_proof\<close> returns a proof for the two, and
  \<open>verify_blob_kzg_proof\<close> accepts the three.
\<close>

theorem blob_proof_verifies:
  assumes "\<forall>n. length (env n) = n" and "kzg_serialization Z"
    and "get_trusted_setup host Z = Ok ts" and "kzg_complete Z ts"
    and "blob_to_kzg_commitment env host Z blob = Ok commitment"
  shows "\<exists>proof. compute_blob_kzg_proof env host Z blob commitment = Ok proof \<and>
    verify_blob_kzg_proof host Z blob commitment proof = Ok True"
proof -
  note binary = kzg_bytes_to_binary_Ok [OF assms(1)]
  from assms(3,5) obtain b c where b: "Blob_from_bytes Z blob = Ok b"
    and c: "c_blob_to_kzg_commitment Z b ts = Ok c"
    and com: "commitment = Bytes48_into_inner Z (KzgCommitment_to_bytes Z c)"
    by (auto simp: blob_to_kzg_commitment_def binary)
  with assms(4) obtain p where
    "c_compute_blob_kzg_proof Z b (KzgCommitment_to_bytes Z c) ts = Ok p"
    "c_verify_blob_kzg_proof Z b (KzgCommitment_to_bytes Z c) (KzgProof_to_bytes Z p) ts = Ok True"
    unfolding kzg_complete_def by blast
  with b assms(2,3) show ?thesis
    by (auto simp: compute_blob_kzg_proof_def verify_blob_kzg_proof_def com binary
        kzg_serialization_def)
qed

theorem blob_proof_verifies_witness:
  "\<exists>proof. compute_blob_kzg_proof (\<lambda>n. replicate n 0) poly_host poly_kzg [1, 2, 3] [1, 2, 3] = Ok proof \<and>
    verify_blob_kzg_proof poly_host poly_kzg [1, 2, 3] [1, 2, 3] proof = Ok True"
proof -
  have "blob_to_kzg_commitment (\<lambda>n. replicate n 0) poly_host poly_kzg [1, 2, 3] = Ok [1, 2, 3]"
    by (simp add: blob_to_kzg_commitment_def poly_setup kzg_bytes_to_binary_Ok)
       (simp add: poly_kzg_def nonempty_from_def)
  from blob_proof_verifies [OF _ poly_serialization poly_setup poly_complete this]
  show ?thesis by simp
qed

text \<open>
  Opening at a point. A proof and a value that \<open>compute_kzg_proof\<close> returns for a blob at a
  point are accepted by \<open>verify_kzg_proof\<close> with the commitment of the blob.
\<close>

theorem point_proof_verifies:
  assumes "\<forall>n. length (env n) = n" and "kzg_serialization Z"
    and "get_trusted_setup host Z = Ok ts" and "kzg_complete Z ts"
    and "blob_to_kzg_commitment env host Z blob = Ok commitment"
    and "compute_kzg_proof env host Z blob z = Ok (proof, y)"
  shows "verify_kzg_proof host Z commitment z y proof = Ok True"
proof -
  note binary = kzg_bytes_to_binary_Ok [OF assms(1)]
  from assms(3,5,6) obtain b c zb p yb where parts:
    "Bytes32_from_bytes Z z = Ok zb"
    "c_blob_to_kzg_commitment Z b ts = Ok c" "c_compute_kzg_proof Z b zb ts = Ok (p, yb)"
    "commitment = Bytes48_into_inner Z (KzgCommitment_to_bytes Z c)"
    "proof = Bytes48_into_inner Z (KzgProof_to_bytes Z p)" "y = Bytes32_as_slice Z yb"
    by (fastforce simp: blob_to_kzg_commitment_def compute_kzg_proof_def binary split: prod.splits)
  with assms(4) have "c_verify_kzg_proof Z (KzgCommitment_to_bytes Z c) zb yb
      (KzgProof_to_bytes Z p) ts = Ok True"
    unfolding kzg_complete_def by blast
  with parts assms(2,3) show ?thesis by (simp add: verify_kzg_proof_def kzg_serialization_def)
qed

theorem point_proof_verifies_witness:
  "verify_kzg_proof poly_host poly_kzg [1, 2, 3] [2] [17] [17] = Ok True"
proof (rule point_proof_verifies [OF _ poly_serialization poly_setup poly_complete])
  show "blob_to_kzg_commitment (\<lambda>n. replicate n 0) poly_host poly_kzg [1, 2, 3] = Ok [1, 2, 3]"
    by (simp add: blob_to_kzg_commitment_def poly_setup kzg_bytes_to_binary_Ok)
       (simp add: poly_kzg_def nonempty_from_def)
  show "compute_kzg_proof (\<lambda>n. replicate n 0) poly_host poly_kzg [1, 2, 3] [2] = Ok ([17], [17])"
    by (simp add: compute_kzg_proof_def poly_setup kzg_bytes_to_binary_Ok case_prod_beta)
       (simp add: poly_kzg_def nonempty_from_def poly_eval_def)
qed simp

text \<open>
  A batch of blobs with the commitments and proofs the NIFs return for them, in the same order,
  is accepted by \<open>verify_blob_kzg_proof_batch\<close>; the empty batch too.
\<close>

theorem batch_of_valid_proofs:
  assumes "kzg_complete Z ts" and "get_trusted_setup host Z = Ok ts"
    and "list_all (\<lambda>(b, c, p). verify_blob_kzg_proof host Z b c p = Ok True) items"
  shows "verify_blob_kzg_proof_batch host Z (map fst items) (map (fst \<circ> snd) items)
    (map (snd \<circ> snd) items) = Ok True"
proof -
  define reads where "reads = (\<lambda>(b, c, p) (b', c', p'). Blob_from_bytes Z b = Ok b' \<and>
    KzgCommitment_from_bytes Z c = Ok c' \<and> KzgProof_from_bytes Z p = Ok p' \<and>
    c_verify_blob_kzg_proof Z b' (KzgCommitment_to_bytes Z c') (KzgProof_to_bytes Z p') ts = Ok True)"
  have "\<forall>x \<in> set items. \<exists>y. reads x y"
    using assms(2,3) by (fastforce simp: reads_def verify_blob_kzg_proof_def list_all_iff)
  then obtain read where read: "\<forall>x \<in> set items. reads x (read x)" by metis
  let ?vs = "map read items"
  let ?raw = "map (\<lambda>(b, c, p). (b, KzgCommitment_to_bytes Z c, KzgProof_to_bytes Z p)) ?vs"
  have "list_all (\<lambda>(b, c, p). c_verify_blob_kzg_proof Z b c p ts = Ok True) ?raw"
    using read by (auto simp: list_all_iff reads_def split: prod.splits)
  with assms(1) have "c_verify_blob_kzg_proof_batch Z (map fst ?raw) (map (fst \<circ> snd) ?raw)
      (map (snd \<circ> snd) ?raw) ts = Ok True"
    unfolding kzg_complete_def by blast
  moreover have "collect (map (Blob_from_bytes Z) (map fst items)) = Ok (map fst ?vs)"
    "collect (map (KzgCommitment_from_bytes Z) (map (fst \<circ> snd) items)) = Ok (map (fst \<circ> snd) ?vs)"
    "collect (map (KzgProof_from_bytes Z) (map (snd \<circ> snd) items)) = Ok (map (snd \<circ> snd) ?vs)"
    using read by (auto simp: collect_eq_Ok reads_def case_prod_beta)
  ultimately show ?thesis
    using assms(2)
    by (simp add: verify_blob_kzg_proof_batch_def comp_def case_prod_beta)
qed

theorem batch_of_valid_proofs_witness:
  "verify_blob_kzg_proof_batch poly_host poly_kzg [[1, 2], [4]] [[1, 2], [4]] [[5], [4]] = Ok True"
proof -
  have "list_all (\<lambda>(b, c, p). verify_blob_kzg_proof poly_host poly_kzg b c p = Ok True)
      [([1, 2], [1, 2], [5]), ([4], [4], [4])]"
    by (simp add: verify_blob_kzg_proof_def poly_setup)
       (simp add: poly_kzg_def nonempty_from_def poly_eval_def)
  from batch_of_valid_proofs [OF poly_complete poly_setup this] show ?thesis by simp
qed

text \<open>
  Arguments are read before the trusted setup is loaded. When the setup cannot be loaded, a NIF
  panics exactly when all its arguments can be read; otherwise it reports the first of them that
  cannot.
\<close>

theorem setup_loaded_last:
  assumes "total_kzg Z" and "panics (get_trusted_setup host Z)"
  shows "(panics (blob_to_kzg_commitment env host Z blob) \<longleftrightarrow> (\<exists>b. Blob_from_bytes Z blob = Ok b)) \<and>
    (panics (compute_kzg_proof env host Z blob z) \<longleftrightarrow>
      (\<exists>b x. Blob_from_bytes Z blob = Ok b \<and> Bytes32_from_bytes Z z = Ok x)) \<and>
    (panics (compute_blob_kzg_proof env host Z blob com) \<longleftrightarrow>
      (\<exists>b c. Blob_from_bytes Z blob = Ok b \<and> KzgCommitment_from_bytes Z com = Ok c)) \<and>
    (panics (verify_kzg_proof host Z com z y proof) \<longleftrightarrow>
      (\<exists>c x w p. KzgCommitment_from_bytes Z com = Ok c \<and> Bytes32_from_bytes Z z = Ok x \<and>
         Bytes32_from_bytes Z y = Ok w \<and> KzgProof_from_bytes Z proof = Ok p)) \<and>
    (panics (verify_blob_kzg_proof host Z blob com proof) \<longleftrightarrow>
      (\<exists>b c p. Blob_from_bytes Z blob = Ok b \<and> KzgCommitment_from_bytes Z com = Ok c \<and>
         KzgProof_from_bytes Z proof = Ok p)) \<and>
    (panics (verify_blob_kzg_proof_batch host Z blobs coms proofs) \<longleftrightarrow>
      (\<exists>bs cs ps. collect (map (Blob_from_bytes Z) blobs) = Ok bs \<and>
         collect (map (KzgCommitment_from_bytes Z) coms) = Ok cs \<and>
         collect (map (KzgProof_from_bytes Z) proofs) = Ok ps))"
proof -
  have "\<not> panics (collect (map (Blob_from_bytes Z) blobs))"
    "\<not> panics (collect (map (KzgCommitment_from_bytes Z) coms))"
    "\<not> panics (collect (map (KzgProof_from_bytes Z) proofs))"
    using assms(1) by (auto intro!: collect_no_panic_total simp: total_kzg_def)
  moreover obtain m where "get_trusted_setup host Z = Panic m"
    using assms(2) by (auto simp: panics_def)
  ultimately show ?thesis
    using assms(1) by (intro conjI) (auto simp: kzg_defs total_kzg_def Let_def)
qed

theorem setup_loaded_last_witness:
  "panics (get_trusted_setup (poly_host\<lparr>file_macro := []\<rparr>) poly_kzg) \<and>
   panics (blob_to_kzg_commitment (\<lambda>n. replicate n 0) (poly_host\<lparr>file_macro := []\<rparr>) poly_kzg [1]) \<and>
   \<not> panics (blob_to_kzg_commitment (\<lambda>n. replicate n 0) (poly_host\<lparr>file_macro := []\<rparr>) poly_kzg [])"
proof -
  have fails: "panics (get_trusted_setup (poly_host\<lparr>file_macro := []\<rparr>) poly_kzg)"
    by (simp add: get_trusted_setup_def trusted_setup_path_def path_join_def path_parent_def
        poly_host_def)
  note iff = conjunct1 [OF setup_loaded_last [OF poly_total fails]]
  show ?thesis by (simp add: fails iff) (simp add: poly_kzg_def nonempty_from_def)
qed

text \<open>
  With the trusted setup in place no NIF of the module panics, whatever the binaries are.
\<close>

theorem kzg_no_panic:
  assumes "\<forall>n. length (env n) = n" and "total_kzg Z" and "get_trusted_setup host Z = Ok ts"
  shows "\<not> panics (blob_to_kzg_commitment env host Z blob) \<and>
    \<not> panics (compute_kzg_proof env host Z blob z) \<and>
    \<not> panics (compute_blob_kzg_proof env host Z blob com) \<and>
    \<not> panics (verify_kzg_proof host Z com z y proof) \<and>
    \<not> panics (verify_blob_kzg_proof host Z blob com proof) \<and>
    \<not> panics (verify_blob_kzg_proof_batch host Z blobs coms proofs)"
proof -
  have "\<not> panics (collect (map (Blob_from_bytes Z) blobs))"
    "\<not> panics (collect (map (KzgCommitment_from_bytes Z) coms))"
    "\<not> panics (collect (map (KzgProof_from_bytes Z) proofs))"
    using assms(2) by (auto intro!: collect_no_panic_total simp: total_kzg_def)
  with assms show ?thesis
    by (auto simp: kzg_defs total_kzg_def Let_def kzg_bytes_to_binary_Ok)
qed

theorem kzg_no_panic_witness:
  "\<not> panics (blob_to_kzg_commitment (\<lambda>n. replicate n 0) poly_host poly_kzg []) \<and>
    \<not> panics (compute_kzg_proof (\<lambda>n. replicate n 0) poly_host poly_kzg [] [1]) \<and>
    \<not> panics (compute_blob_kzg_proof (\<lambda>n. replicate n 0) poly_host poly_kzg [] [2]) \<and>
    \<not> panics (verify_kzg_proof poly_host poly_kzg [2] [1] [3] [4]) \<and>
    \<not> panics (verify_blob_kzg_proof poly_host poly_kzg [] [2] [4]) \<and>
    \<not> panics (verify_blob_kzg_proof_batch poly_host poly_kzg [[1]] [] [[2]])"
  by (rule kzg_no_panic [OF _ poly_total poly_setup]) simp

text \<open>
  With \<open>file!()\<close> expanding to a path of two components, as it does in a crate compiled from its
  own directory, the trusted setup is read from \<open>native/kzg_nif/official_trusted_setup.txt\<close> below
  the working directory of the process.
\<close>

theorem setup_below_working_directory:
  assumes "current_dir host = Ok dir" and "file_macro host = [''src'', ''lib.rs'']"
  shows "get_trusted_setup host Z = expect ''called `Result::unwrap()` on an `Err` value''
    (KzgSettings_load_trusted_setup_file Z
      (dir @ [''native'', ''kzg_nif'', ''official_trusted_setup.txt'']))"
  using assms
  by (simp add: get_trusted_setup_def trusted_setup_path_def path_join_def path_parent_def
      butlast_append)

theorem setup_below_working_directory_witness:
  "get_trusted_setup poly_host poly_kzg = expect ''called `Result::unwrap()` on an `Err` value''
    (KzgSettings_load_trusted_setup_file poly_kzg
      ([''app''] @ [''native'', ''kzg_nif'', ''official_trusted_setup.txt'']))"
  by (rule setup_below_working_directory) (simp_all add: poly_host_def)

end
