(* ===== verification/Execution_Client.thy ===== *)
theory Execution_Client
  imports Ssz_Ex Deposit_Tree "HOL-Library.AList"
begin

text \<open>
  What the consensus client reads from the execution client: the conversions of
  \<open>lib/lambda_ethereum_consensus/execution/rpc.ex\<close>, the two requests of \<open>engine_api/api.ex\<close> that
  serve the execution chain, and the parsers of block headers and deposit logs in
  \<open>execution_client.ex\<close>. The HTTP call \<open>post\<close> and the function \<open>Recase.to_snake\<close> are parameters.
\<close>

section \<open>Data\<close>

text \<open>Decoded JSON. The bytes of a string are characters.\<close>

datatype json =
    JNull
  | JBool bool
  | JNumber int
  | JString string
  | JArray "json list"
  | JObject "(string \<times> json) list"

datatype 'e exec_error =
    EngineError 'e
  | RpcError "json option"
  | InvalidBlockHash
  | InvalidBlockFormat
  | NoPayloads
  | RangeOutOfBounds

text \<open>What identifies a block in a request: \<open>nil\<close> for the latest one, its number or its hash.\<close>

datatype block_id = LatestBlock | BlockNumber int | BlockHash bytes

record block_metadata =
  block_hash :: bytes
  block_number :: int
  timestamp :: int

record deposit_log =
  log_data :: ex_val
  log_block_number :: int
  log_index :: ex_val

text \<open>
  A function that returns or raises, called where errors are values of another type. It is applied
  to functions that return no error value.
\<close>

definition raising :: "'a ex \<Rightarrow> ('e, 'a) rust" where
  "raising r = expect ''ErlangError'' r"

section \<open>Hexadecimal\<close>

definition hex_char :: "nat \<Rightarrow> char" where
  "hex_char n = char_of (if n < 10 then 48 + n else 87 + n)"

definition hex_digit :: "char \<Rightarrow> nat option" where
  "hex_digit c =
     (let n = of_char c :: nat
      in if 48 \<le> n \<and> n \<le> 57 then Some (n - 48)
         else if 97 \<le> n \<and> n \<le> 102 then Some (n - 87)
         else if 65 \<le> n \<and> n \<le> 70 then Some (n - 55)
         else None)"

text \<open>\<open>Base.encode16(binary, case: :lower)\<close> and \<open>Base.decode16(string, case: :mixed)\<close>.\<close>

definition encode16 :: "bytes \<Rightarrow> string" where
  "encode16 bs = concat (map (\<lambda>b. [hex_char (unat b div 16), hex_char (unat b mod 16)]) bs)"

fun decode16 :: "string \<Rightarrow> bytes option" where
  "decode16 [] = Some []"
| "decode16 [_] = None"
| "decode16 (a # b # s) =
     (case (hex_digit a, hex_digit b, decode16 s) of
        (Some x, Some y, Some bs) \<Rightarrow> Some (of_nat (16 * x + y) # bs)
      | _ \<Rightarrow> None)"

text \<open>\<open>Integer.to_string(integer, 16) |> String.downcase()\<close> and \<open>String.to_integer(string, 16)\<close>.\<close>

fun nat_to_string16 :: "nat \<Rightarrow> string" where
  "nat_to_string16 n = (if n < 16 then [hex_char n] else nat_to_string16 (n div 16) @ [hex_char (n mod 16)])"

declare nat_to_string16.simps [simp del]

definition to_string16 :: "int \<Rightarrow> string" where
  "to_string16 i = (if i < 0 then CHR ''-'' # nat_to_string16 (nat (- i)) else nat_to_string16 (nat i))"

fun read_digits :: "string \<Rightarrow> int \<Rightarrow> int option" where
  "read_digits [] acc = Some acc"
| "read_digits (c # s) acc =
     (case hex_digit c of None \<Rightarrow> None | Some d \<Rightarrow> read_digits s (16 * acc + int d))"

definition read_natural :: "string \<Rightarrow> ('e, int) rust" where
  "read_natural s =
     (if s = [] then Panic ''ArgumentError''
      else case read_digits s 0 of None \<Rightarrow> Panic ''ArgumentError'' | Some i \<Rightarrow> Ok i)"

fun to_integer16 :: "string \<Rightarrow> ('e, int) rust" where
  "to_integer16 (c # s) =
     (if c = CHR ''-'' then map_ok uminus (read_natural s)
      else if c = CHR ''+'' then read_natural s
      else read_natural (c # s))"
| "to_integer16 [] = Panic ''ArgumentError''"

section \<open>JSON-RPC\<close>

type_synonym 'e post = "string \<Rightarrow> json list \<Rightarrow> ('e, json) rust"

definition encode_binary :: "bytes \<Rightarrow> json" where
  "encode_binary b = JString (''0x'' @ encode16 b)"

definition encode_integer :: "int \<Rightarrow> json" where
  "encode_integer i = JString (''0x'' @ to_string16 i)"

fun normalize_response :: "(string \<Rightarrow> string) \<Rightarrow> json \<Rightarrow> json" where
  "normalize_response to_snake (JObject obj) =
     JObject (foldl (\<lambda>acc (k, v). AList.update (to_snake k) v acc) [] obj)"
| "normalize_response to_snake (JArray js) = JArray (map (normalize_response to_snake) js)"
| "normalize_response to_snake j = j"

text \<open>
  The body of a response. One that is no object raises; the message of an error that is no object
  raises as well, and is \<open>nil\<close> when there is none.
\<close>

definition validate_rpc_response :: "(string \<Rightarrow> string) \<Rightarrow> json \<Rightarrow> ('e exec_error, json) rust" where
  "validate_rpc_response to_snake body =
     (case body of
        JObject obj \<Rightarrow>
          (case map_of obj ''error'' of
             Some (JObject err) \<Rightarrow> Err (RpcError (map_of err ''message''))
           | Some JNull \<Rightarrow> Err (RpcError None)
           | Some (JArray _) \<Rightarrow> Panic ''ArgumentError''
           | Some _ \<Rightarrow> Panic ''FunctionClauseError''
           | None \<Rightarrow>
               Ok (normalize_response to_snake
                     (case map_of obj ''result'' of None \<Rightarrow> JNull | Some r \<Rightarrow> r)))
      | _ \<Rightarrow> Panic ''BadMapError'')"

definition rpc_call ::
  "'e post \<Rightarrow> (string \<Rightarrow> string) \<Rightarrow> string \<Rightarrow> json list \<Rightarrow> ('e exec_error, json) rust" where
  "rpc_call post to_snake meth params =
     and_then (map_err EngineError (post meth params)) (validate_rpc_response to_snake)"

section \<open>The engine API\<close>

text \<open>The behaviour that an engine API implements, and the implementation over JSON-RPC.\<close>

record 'e engine_api =
  get_block_header :: "block_id \<Rightarrow> ('e exec_error, json) rust"
  engine_deposit_logs :: "int \<Rightarrow> int \<Rightarrow> ('e exec_error, json) rust"

definition deposit_event_topic :: string where
  "deposit_event_topic = ''0x649bbc62d0e31342afea4e5cd82d4049e7e1ee912fc0889aa790803be39038c5''"

fun Api_get_block_header ::
  "'e post \<Rightarrow> (string \<Rightarrow> string) \<Rightarrow> block_id \<Rightarrow> ('e exec_error, json) rust" where
  "Api_get_block_header post to_snake LatestBlock =
     rpc_call post to_snake ''eth_getBlockByNumber'' [JString ''latest'', JBool False]"
| "Api_get_block_header post to_snake (BlockNumber number) =
     rpc_call post to_snake ''eth_getBlockByNumber'' [encode_integer number, JBool False]"
| "Api_get_block_header post to_snake (BlockHash hash) =
     rpc_call post to_snake ''eth_getBlockByHash'' [encode_binary hash, JBool False]"

definition deposit_filter :: "bytes \<Rightarrow> int \<Rightarrow> int \<Rightarrow> json" where
  "deposit_filter deposit_contract from_block to_block =
     JObject
       [(''address'', encode_binary deposit_contract), (''fromBlock'', encode_integer from_block),
        (''toBlock'', encode_integer to_block), (''topics'', JArray [JString deposit_event_topic])]"

definition Api_get_deposit_logs ::
  "'e post \<Rightarrow> (string \<Rightarrow> string) \<Rightarrow> bytes \<Rightarrow> int \<Rightarrow> int \<Rightarrow> ('e exec_error, json) rust" where
  "Api_get_deposit_logs post to_snake deposit_contract from_block to_block =
     rpc_call post to_snake ''eth_getLogs''
       [deposit_filter deposit_contract from_block to_block]"

definition rpc_api :: "'e post \<Rightarrow> (string \<Rightarrow> string) \<Rightarrow> bytes \<Rightarrow> 'e engine_api" where
  "rpc_api post to_snake deposit_contract =
     \<lparr>get_block_header = Api_get_block_header post to_snake,
      engine_deposit_logs = Api_get_deposit_logs post to_snake deposit_contract\<rparr>"

section \<open>The execution client\<close>

text \<open>The pattern \<open>"0x" <> rest\<close> on the value of a key.\<close>

fun prefixed :: "json option \<Rightarrow> string option" where
  "prefixed (Some (JString (a # b # s))) = (if a = CHR ''0'' \<and> b = CHR ''x'' then Some s else None)"
| "prefixed _ = None"

fun parse_block_metadata :: "json \<Rightarrow> ('e exec_error, block_metadata option) rust" where
  "parse_block_metadata JNull = Ok None"
| "parse_block_metadata (JObject obj) =
     (case (prefixed (map_of obj ''hash''), prefixed (map_of obj ''number''),
            prefixed (map_of obj ''timestamp'')) of
        (Some hash, Some number, Some time) \<Rightarrow>
          and_then (to_integer16 number) (\<lambda>parsed_number.
          and_then (to_integer16 time) (\<lambda>parsed_timestamp.
          case decode16 hash of
            Some parsed_hash \<Rightarrow>
              Ok (Some \<lparr>block_hash = parsed_hash, block_number = parsed_number, timestamp = parsed_timestamp\<rparr>)
          | None \<Rightarrow> Err InvalidBlockHash))
      | _ \<Rightarrow> Err InvalidBlockFormat)"
| "parse_block_metadata _ = Err InvalidBlockFormat"

definition get_block_metadata :: "'e engine_api \<Rightarrow> block_id \<Rightarrow> ('e exec_error, block_metadata option) rust" where
  "get_block_metadata api block_id = and_then (get_block_header api block_id) parse_block_metadata"

definition min_hex_data_byte_size :: nat where
  "min_hex_data_byte_size = 1104"

definition read_uint64 :: "bytes \<Rightarrow> ('e, ex_val) rust" where
  "read_uint64 b = expect ''MatchError'' (SszEx_decode (\<lambda>_. None) b (SInt 64))"

definition parse_log_data :: "bytes \<Rightarrow> string \<Rightarrow> ('e, deposit_log) rust" where
  "parse_log_data data hex_block_number =
     and_then (raising (binary_part data 192 48)) (\<lambda>pubkey.
     and_then (raising (binary_part data 288 32)) (\<lambda>withdrawal_credentials.
     and_then (and_then (raising (binary_part data 352 8)) read_uint64) (\<lambda>amount.
     and_then (raising (binary_part data 416 96)) (\<lambda>signature.
     and_then (and_then (raising (binary_part data 544 8)) read_uint64) (\<lambda>index.
     and_then (to_integer16 hex_block_number) (\<lambda>number.
     Ok \<lparr>log_data = XStruct ''Types.DepositData''
           [(''pubkey'', XBin pubkey), (''withdrawal_credentials'', XBin withdrawal_credentials),
            (''amount'', amount), (''signature'', XBin signature)],
         log_block_number = number, log_index = index\<rparr>))))))"

fun parse_raw_log :: "json \<Rightarrow> ('e, deposit_log) rust" where
  "parse_raw_log (JObject obj) =
     (case (prefixed (map_of obj ''data''), prefixed (map_of obj ''blockNumber'')) of
        (Some hex_data, Some hex_block_number) \<Rightarrow>
          if length hex_data \<ge> min_hex_data_byte_size then
            (case decode16 hex_data of
               None \<Rightarrow> Panic ''ArgumentError''
             | Some data \<Rightarrow> parse_log_data data hex_block_number)
          else Panic ''FunctionClauseError''
      | _ \<Rightarrow> Panic ''FunctionClauseError'')"
| "parse_raw_log _ = Panic ''FunctionClauseError''"

fun parse_raw_logs :: "json \<Rightarrow> ('e, deposit_log list) rust" where
  "parse_raw_logs (JArray raw_logs) = collect (map parse_raw_log raw_logs)"
| "parse_raw_logs (JObject obj) = (if obj = [] then Ok [] else Panic ''FunctionClauseError'')"
| "parse_raw_logs _ = Panic ''Protocol.UndefinedError''"

definition get_deposit_logs :: "'e engine_api \<Rightarrow> int \<Rightarrow> int \<Rightarrow> ('e exec_error, deposit_log list) rust" where
  "get_deposit_logs api from_block to_block =
     and_then (engine_deposit_logs api from_block to_block) parse_raw_logs"

section \<open>Printing a reason\<close>

text \<open>
  A reason that is interpolated in a string, \<open>#{reason}\<close>. A list has to be chardata; \<open>ArgumentError\<close>
  stands for the exception of a list with a number that is no code point as well. Whether a reason of
  the HTTP client has a string form is a parameter: an atom has one, a tuple raises.
\<close>

fun chardata :: "json \<Rightarrow> bool" where
  "chardata (JString s) = True"
| "chardata (JNumber n) = (0 \<le> n \<and> n \<le> 0x10FFFF \<and> \<not> (0xD800 \<le> n \<and> n \<le> 0xDFFF))"
| "chardata (JArray js) = list_all chardata js"
| "chardata _ = False"

fun json_to_string :: "json \<Rightarrow> ('e, unit) rust" where
  "json_to_string (JObject obj) = Panic ''Protocol.UndefinedError''"
| "json_to_string (JArray js) = (if list_all chardata js then Ok () else Panic ''ArgumentError'')"
| "json_to_string _ = Ok ()"

fun interpolate :: "('e \<Rightarrow> bool) \<Rightarrow> 'e exec_error \<Rightarrow> ('e exec_error, unit) rust" where
  "interpolate printable (EngineError e) = (if printable e then Ok () else Panic ''Protocol.UndefinedError'')"
| "interpolate printable (RpcError (Some message)) = json_to_string message"
| "interpolate printable _ = Ok ()"

lemma json_to_string_no_error: "json_to_string j \<noteq> Err e"
  by (cases j) simp_all

lemma interpolate_no_error: "interpolate printable r \<noteq> Err e"
  by (cases "(printable, r)" rule: interpolate.cases) (simp_all add: json_to_string_no_error)

section \<open>Hexadecimal round trips\<close>

lemma hex_digit_char [simp]: "n < 16 \<Longrightarrow> hex_digit (hex_char n) = Some n"
  by (simp add: hex_digit_def hex_char_def Let_def)

lemma hex_char_unsigned: "n < 16 \<Longrightarrow> hex_char n \<noteq> CHR ''-'' \<and> hex_char n \<noteq> CHR ''+''"
  using hex_digit_char [of n] by (auto simp: hex_digit_def Let_def)

lemma encode16_simps [simp]:
  "encode16 [] = []"
  "encode16 (b # bs) = hex_char (unat b div 16) # hex_char (unat b mod 16) # encode16 bs"
  by (simp_all add: encode16_def)

lemma length_encode16 [simp]: "length (encode16 bs) = 2 * length bs"
  by (induction bs) simp_all

lemma decode16_encode16 [simp]: "decode16 (encode16 bs) = Some bs"
proof (induction bs)
  case (Cons b bs)
  have "unat b div 16 < 16" using unsigned_less [of b, where 'a = nat] by simp
  then show ?case using Cons by simp
qed simp

lemma read_digits_append:
  "read_digits (s @ t) acc = (case read_digits s acc of None \<Rightarrow> None | Some i \<Rightarrow> read_digits t i)"
  by (induction s arbitrary: acc) (auto split: option.split)

lemma read_digits_nat_to_string16: "read_digits (nat_to_string16 n) 0 = Some (int n)"
  by (induction n rule: nat_to_string16.induct)
    (subst nat_to_string16.simps, simp add: read_digits_append zdiv_int zmod_int)

lemma nat_to_string16_head:
  "\<exists>d s. nat_to_string16 n = hex_char d # s \<and> d < 16"
  by (induction n rule: nat_to_string16.induct) (subst nat_to_string16.simps, force)

lemma read_natural_nat_to_string16: "read_natural (nat_to_string16 n) = Ok (int n)"
  using nat_to_string16_head [of n] by (auto simp: read_natural_def read_digits_nat_to_string16)

lemma to_integer16_nat_to_string16: "to_integer16 (nat_to_string16 n) = Ok (int n)"
proof -
  obtain d s where n: "nat_to_string16 n = hex_char d # s" "d < 16" using nat_to_string16_head by blast
  from hex_char_unsigned [OF n(2)] read_natural_nat_to_string16 [of n] show ?thesis by (simp add: n(1))
qed

lemma to_integer16_to_string16 [simp]: "to_integer16 (to_string16 i) = Ok i"
  by (simp add: to_string16_def read_natural_nat_to_string16 to_integer16_nat_to_string16)

section \<open>The event of the deposit contract\<close>

text \<open>
  The event \<open>DepositEvent(bytes,bytes,bytes,bytes,bytes)\<close> in the ABI of contracts: the positions of
  the five arguments, then each argument as its length and its bytes, filled up to words of 32 bytes.
\<close>

definition abi_word :: "nat \<Rightarrow> bytes" where
  "abi_word n = rev (le_bytes 32 (int n))"

definition abi_bytes :: "bytes \<Rightarrow> bytes" where
  "abi_bytes b = abi_word (length b) @ b @ replicate ((32 - length b mod 32) mod 32) 0"

fun abi_positions :: "nat \<Rightarrow> bytes list \<Rightarrow> bytes" where
  "abi_positions p [] = []"
| "abi_positions p (b # bs) = abi_word p @ abi_positions (p + length (abi_bytes b)) bs"

definition abi_arguments :: "bytes list \<Rightarrow> bytes" where
  "abi_arguments bs = abi_positions (32 * length bs) bs @ concat (map abi_bytes bs)"

definition deposit_event :: "bytes \<Rightarrow> bytes \<Rightarrow> nat \<Rightarrow> bytes \<Rightarrow> nat \<Rightarrow> bytes" where
  "deposit_event pubkey withdrawal_credentials amount signature index =
     abi_arguments
       [pubkey, withdrawal_credentials, le_bytes 8 (int amount), signature, le_bytes 8 (int index)]"

definition DepositData_struct :: "bytes \<Rightarrow> bytes \<Rightarrow> nat \<Rightarrow> bytes \<Rightarrow> ex_val" where
  "DepositData_struct pubkey withdrawal_credentials amount signature =
     XStruct ''Types.DepositData''
       [(''pubkey'', XBin pubkey), (''withdrawal_credentials'', XBin withdrawal_credentials),
        (''amount'', XInt (int amount)), (''signature'', XBin signature)]"

lemma length_abi_word [simp]: "length (abi_word n) = 32"
  by (simp add: abi_word_def)

lemma length_abi_positions [simp]: "length (abi_positions p bs) = 32 * length bs"
  by (induction bs arbitrary: p) simp_all

lemma read_uint64_le_bytes: "n < 2 ^ 64 \<Longrightarrow> read_uint64 (le_bytes 8 (int n)) = Ok (XInt (int n))"
  by (simp add: read_uint64_def SszEx_decode_def decode_uint_def le_nat_small)

lemma deposit_event_parts:
  assumes "length pubkey = 48" and "length credentials = 32" and "length signature = 96"
    and "data = deposit_event pubkey credentials amount signature index"
  shows "length data = 576"
    "binary_part data 192 48 = Ok pubkey" "binary_part data 288 32 = Ok credentials"
    "binary_part data 352 8 = Ok (le_bytes 8 (int amount))" "binary_part data 416 96 = Ok signature"
    "binary_part data 544 8 = Ok (le_bytes 8 (int index))"
  using assms(1-3)
  by (simp_all add: assms(4) deposit_event_def abi_arguments_def abi_bytes_def binary_part_def)

lemma parse_deposit_event:
  assumes "length pubkey = 48" and "length credentials = 32" and "length signature = 96"
    and "amount < 2 ^ 64" and "index < 2 ^ 64"
    and "map_of obj ''data'' = Some (encode_binary (deposit_event pubkey credentials amount signature index))"
    and "map_of obj ''blockNumber'' = Some (encode_integer number)"
  shows "parse_raw_log (JObject obj) =
    Ok \<lparr>log_data = DepositData_struct pubkey credentials amount signature,
        log_block_number = number, log_index = XInt (int index)\<rparr>"
proof -
  note parts = deposit_event_parts [OF assms(1-3) refl, of amount index]
  show ?thesis
    using assms(4-7) parts
    by (simp add: read_uint64_le_bytes encode_binary_def encode_integer_def min_hex_data_byte_size_def parse_log_data_def
        raising_def DepositData_struct_def)
qed

text \<open>
  C24: A log of a deposit as the execution client reports it is read as the deposit that the contract
  logged, with the number of its block and its index.
\<close>

theorem deposit_log_read:
  assumes "length pubkey = 48" and "length credentials = 32" and "length signature = 96"
    and "amount < 2 ^ 64" and "index < 2 ^ 64"
    and "map_of obj ''data'' = Some (encode_binary (deposit_event pubkey credentials amount signature index))"
    and "map_of obj ''blockNumber'' = Some (encode_integer number)"
  shows "parse_raw_log (JObject obj) =
    Ok \<lparr>log_data = DepositData_struct pubkey credentials amount signature,
        log_block_number = number, log_index = XInt (int index)\<rparr>"
  using parse_deposit_event [OF assms] .

definition sample_log :: "(string \<times> json) list" where
  "sample_log =
     [(''blockNumber'', encode_integer 11052984), (''removed'', JBool False),
      (''data'', encode_binary (deposit_event (replicate 48 9) (replicate 32 1) 32000000000 (replicate 96 5) 7))]"

theorem deposit_log_read_witness:
  "parse_raw_log (JObject sample_log) =
    (Ok \<lparr>log_data = DepositData_struct (replicate 48 9) (replicate 32 1) 32000000000 (replicate 96 5),
        log_block_number = 11052984, log_index = XInt 7\<rparr> :: (unit, deposit_log) rust)"
  by (subst deposit_log_read [where pubkey = "replicate 48 9" and credentials = "replicate 32 1" and
        signature = "replicate 96 5" and amount = 32000000000 and index = 7 and number = 11052984])
    (simp_all add: sample_log_def)

section \<open>Requests over JSON-RPC\<close>

text \<open>
  What \<open>Recase.to_snake\<close> is documented to do: its results have no capital letters, and a word in
  small letters is left as it is.
\<close>

definition capital :: "char \<Rightarrow> bool" where
  "capital c \<longleftrightarrow> (of_char c :: nat) \<in> {65..90}"

definition small_letter :: "char \<Rightarrow> bool" where
  "small_letter c \<longleftrightarrow> (of_char c :: nat) \<in> {97..122}"

definition snake_case :: "(string \<Rightarrow> string) \<Rightarrow> bool" where
  "snake_case to_snake \<longleftrightarrow>
     (\<forall>s. \<not> list_ex capital (to_snake s)) \<and> (\<forall>s. list_all small_letter s \<longrightarrow> to_snake s = s)"

lemma snake_caseD:
  assumes "snake_case to_snake"
  shows "to_snake k \<noteq> ''blockNumber''" and "to_snake ''hash'' = ''hash''"
    and "to_snake ''number'' = ''number''" and "to_snake ''timestamp'' = ''timestamp''"
proof -
  have "list_ex capital ''blockNumber''" by (simp add: capital_def)
  with assms show "to_snake k \<noteq> ''blockNumber''" unfolding snake_case_def by metis
qed (use assms in \<open>auto simp: snake_case_def small_letter_def\<close>)

definition snake_keys :: "(string \<Rightarrow> string) \<Rightarrow> (string \<times> json) list \<Rightarrow> (string \<times> json) list" where
  "snake_keys to_snake obj = foldl (\<lambda>acc (k, v). AList.update (to_snake k) v acc) [] obj"

lemma snake_keys_snoc:
  "snake_keys to_snake [] = []"
  "snake_keys to_snake (obj @ [(k, v)]) = AList.update (to_snake k) v (snake_keys to_snake obj)"
  by (simp_all add: snake_keys_def)

lemma normalize_object [simp]: "normalize_response to_snake (JObject obj) = JObject (snake_keys to_snake obj)"
  by (simp add: snake_keys_def)

declare normalize_response.simps(1) [simp del]

lemma snake_keys_domain: "map_of (snake_keys to_snake obj) k = Some v \<Longrightarrow> k \<in> to_snake ` fst ` set obj"
  by (induction obj arbitrary: v rule: rev_induct)
    (auto simp: snake_keys_snoc update_conv split: if_splits)

lemma snake_keys_lookup:
  "distinct (map (to_snake \<circ> fst) obj) \<Longrightarrow> k \<in> fst ` set obj \<Longrightarrow>
    map_of (snake_keys to_snake obj) (to_snake k) = map_of obj k"
proof (induction obj rule: rev_induct)
  case (snoc p obj)
  obtain l w where p: "p = (l, w)" by force
  show ?case
  proof (cases "k = l")
    case True
    moreover have "map_of obj l = None" using snoc.prems(1) by (force simp: p map_of_eq_None_iff)
    ultimately show ?thesis by (simp add: p snake_keys_snoc update_conv map_add_def)
  next
    case False
    with snoc.prems have k: "k \<in> fst ` set obj" by (auto simp: p)
    moreover from this snoc.prems(1) have "to_snake k \<noteq> to_snake l" by (force simp: p)
    ultimately show ?thesis using snoc False
      by (auto simp: p snake_keys_snoc update_conv map_add_def split: option.split)
  qed
qed simp

lemma rpc_result:
  assumes "post meth params = Ok (JObject body)" and "map_of body ''error'' = None"
    and "map_of body ''result'' = Some r"
  shows "rpc_call post to_snake meth params = Ok (normalize_response to_snake r)"
  using assms by (simp add: rpc_call_def validate_rpc_response_def)

lemma parse_raw_log_snake_case:
  assumes "snake_case to_snake"
  shows "parse_raw_log (normalize_response to_snake j) = Panic ''FunctionClauseError''"
proof (cases j)
  case (JObject obj)
  have "map_of (snake_keys to_snake obj) ''blockNumber'' = None"
    using snake_keys_domain [of to_snake obj] snake_caseD(1) [OF assms]
    by (cases "map_of (snake_keys to_snake obj) ''blockNumber''") fastforce+
  then show ?thesis by (simp add: JObject split: option.split)
qed simp_all

text \<open>A conversion that does so for ASCII words.\<close>

fun underscored :: "string \<Rightarrow> string" where
  "underscored [] = []"
| "underscored (c # s) =
     (if capital c then CHR ''_'' # char_of (of_char c + 32 :: nat) # underscored s else c # underscored s)"

lemma underscored_snake_case: "snake_case underscored"
proof -
  have "\<not> list_ex capital (underscored s)" for s
    by (induction s) (auto simp: capital_def)
  moreover have "list_all small_letter s \<Longrightarrow> underscored s = s" for s
    by (induction s) (auto simp: capital_def small_letter_def)
  ultimately show ?thesis by (simp add: snake_case_def)
qed

text \<open>
  The header of a block that the node returns for a hash is read as the hash, the number and the
  time of the block; no header at all is reported as no block, not as an error.
\<close>

theorem block_header_read:
  assumes "snake_case to_snake"
    and "post ''eth_getBlockByHash'' [encode_binary h, JBool False] = Ok (JObject body)"
    and "map_of body ''error'' = None" and "map_of body ''result'' = Some r"
    and "r = (case found of None \<Rightarrow> JNull | Some (b, obj) \<Rightarrow> JObject obj)"
    and "\<And>b obj. found = Some (b, obj) \<Longrightarrow> distinct (map (to_snake \<circ> fst) obj) \<and>
      map_of obj ''hash'' = Some (encode_binary (block_hash b)) \<and>
      map_of obj ''number'' = Some (encode_integer (block_number b)) \<and>
      map_of obj ''timestamp'' = Some (encode_integer (timestamp b))"
  shows "get_block_metadata (rpc_api post to_snake address) (BlockHash h) = Ok (map_option fst found)"
proof (cases found)
  case None
  with rpc_result [of post, OF assms(2-4)] assms(5) show ?thesis
    by (simp add: get_block_metadata_def rpc_api_def)
next
  case (Some p)
  obtain b obj where p: "found = Some (b, obj)" using Some by (cases p) simp
  note obj = assms(6) [OF p]
  have keys: "k \<in> fst ` set obj" if "map_of obj k = Some v" for k v
    using map_of_SomeD [OF that] by force
  have "map_of (snake_keys to_snake obj) k = map_of obj k" if "to_snake k = k" "map_of obj k = Some v" for k v
    using snake_keys_lookup [of to_snake obj k] obj keys that by simp
  with obj snake_caseD(2-4) [OF assms(1)] have
    "map_of (snake_keys to_snake obj) ''hash'' = Some (encode_binary (block_hash b))"
    "map_of (snake_keys to_snake obj) ''number'' = Some (encode_integer (block_number b))"
    "map_of (snake_keys to_snake obj) ''timestamp'' = Some (encode_integer (timestamp b))" by metis+
  with rpc_result [of post, OF assms(2-4)] assms(5) show ?thesis
    by (simp add: p get_block_metadata_def rpc_api_def encode_binary_def encode_integer_def)
qed

definition sample_block :: block_metadata where
  "sample_block = \<lparr>block_hash = replicate 32 7, block_number = 19, timestamp = 1606824023\<rparr>"

definition sample_header :: "(string \<times> json) list" where
  "sample_header =
     [(''hash'', encode_binary (replicate 32 7)), (''parentHash'', JNull), (''number'', encode_integer 19),
      (''timestamp'', encode_integer 1606824023)]"

theorem block_header_read_witness:
  "get_block_metadata (rpc_api (\<lambda>_ _. Ok (JObject [(''result'', JObject sample_header)]))
      underscored (replicate 20 1)) (BlockHash (replicate 32 7)) =
    (Ok (Some sample_block) :: (unit exec_error, block_metadata option) rust)"
proof -
  have "distinct (map (underscored \<circ> fst) sample_header)" by (simp add: sample_header_def capital_def)
  moreover have "map_of sample_header ''hash'' = Some (encode_binary (block_hash sample_block))"
    "map_of sample_header ''number'' = Some (encode_integer (block_number sample_block))"
    "map_of sample_header ''timestamp'' = Some (encode_integer (timestamp sample_block))"
    by (simp_all add: sample_header_def sample_block_def)
  ultimately have "get_block_metadata (rpc_api (\<lambda>_ _. Ok (JObject [(''result'', JObject sample_header)]))
      underscored (replicate 20 1)) (BlockHash (replicate 32 7)) =
    (Ok (map_option fst (Some (sample_block, sample_header))) :: (unit exec_error, block_metadata option) rust)"
    by (intro block_header_read [OF underscored_snake_case, where body = "[(''result'', JObject sample_header)]"
          and r = "JObject sample_header"]) simp_all
  then show ?thesis by simp
qed

text \<open>
  C30: No deposit log is ever read over JSON-RPC. The keys of each log are put in snake case before the
  parser looks for \<open>blockNumber\<close>, so a response with a log in it raises; only an empty one is read.
\<close>

theorem rpc_deposit_logs_raise:
  assumes "snake_case to_snake"
    and "post ''eth_getLogs'' [deposit_filter address from_block to_block] = Ok (JObject body)" and "map_of body ''error'' = None"
    and "map_of body ''result'' = Some (JArray logs)"
  shows "get_deposit_logs (rpc_api post to_snake address) from_block to_block =
    (if logs = [] then Ok [] else Panic ''FunctionClauseError'')"
  using rpc_result [of post, OF assms(2-4)]
  by (cases logs) (simp_all add: parse_raw_log_snake_case [OF assms(1)] get_deposit_logs_def rpc_api_def Api_get_deposit_logs_def)

theorem rpc_deposit_logs_raise_witness:
  "get_deposit_logs (rpc_api (\<lambda>_ _. Ok (JObject [(''result'', JArray [JObject sample_log])]))
      underscored (replicate 20 1)) 5 9 =
    (Panic ''FunctionClauseError'' :: (unit exec_error, deposit_log list) rust)"
  using rpc_deposit_logs_raise [OF underscored_snake_case, where logs = "[JObject sample_log]" and
      body = "[(''result'', JArray [JObject sample_log])]" and
      post = "\<lambda>_ _. Ok (JObject [(''result'', JArray [JObject sample_log])])"] by simp

end
