(* ===== verification/Deposit_Tree_Invariant.thy ===== *)
theory Deposit_Tree_Invariant
  imports Deposit_Tree Ssz_Ex_Proofs
begin

text \<open>
  What a tree of deposits stands for: the list of all deposits pushed, of which a prefix is finalized.
  \<open>represents\<close> relates a node at a depth to the part of the list below it; every operation is shown
  to keep it, and the root, the proofs and the snapshots are computed from it.
\<close>

section \<open>The invariant\<close>

fun is_finalized :: "tree_node \<Rightarrow> bool" where
  "is_finalized (Finalized _) = True"
| "is_finalized _ = False"

fun represents :: "hasher \<Rightarrow> nat \<Rightarrow> tree_node \<Rightarrow> (bytes \<times> ex_val) list \<Rightarrow> bool" where
  "represents H d (Zero l) ps \<longleftrightarrow> l = int d \<and> ps = []"
| "represents H d (Finalized (h, n)) ps \<longleftrightarrow>
     n = 2 ^ d \<and> length ps = 2 ^ d \<and> h = merkle_root H zero_chunk d (map fst ps)"
| "represents H d (Leaf p) ps \<longleftrightarrow> d = 0 \<and> ps = [p]"
| "represents H 0 (Node l r) ps \<longleftrightarrow> False"
| "represents H (Suc d) (Node l r) ps \<longleftrightarrow>
     ps \<noteq> [] \<and> length ps \<le> 2 ^ Suc d \<and>
     represents H d l (take (2 ^ d) ps) \<and> represents H d r (drop (2 ^ d) ps) \<and>
     (count_finalized r = 0 \<or> is_finalized l) \<and> count_finalized l + count_finalized r < 2 ^ Suc d"

lemma represents_NodeE:
  assumes "represents H d (Node l r) ps"
  obtains e where "d = Suc e" "ps \<noteq> []" "length ps \<le> 2 ^ Suc e"
    "represents H e l (take (2 ^ e) ps)" "represents H e r (drop (2 ^ e) ps)"
    "count_finalized r = 0 \<or> is_finalized l" "count_finalized l + count_finalized r < 2 ^ Suc e"
  using assms by (cases d) auto

lemma represents_length: "represents H d t ps \<Longrightarrow> length ps \<le> 2 ^ d"
  by (cases t) (auto elim: represents_NodeE)

lemma represents_full: "represents H d t ps \<Longrightarrow> full t \<longleftrightarrow> length ps = 2 ^ d"
proof (induction t arbitrary: d ps)
  case (Node l r)
  from Node.prems obtain e where e: "d = Suc e" "represents H e r (drop (2 ^ e) ps)" "length ps \<le> 2 ^ Suc e"
    by (rule represents_NodeE)
  with Node.IH(2) [OF e(2)] show ?case by auto
qed auto

lemma count_finalized_le: "represents H d t ps \<Longrightarrow> count_finalized t \<le> length ps"
proof (induction t arbitrary: d ps)
  case (Node l r)
  from Node.prems obtain e where "represents H e l (take (2 ^ e) ps)" "represents H e r (drop (2 ^ e) ps)"
    by (rule represents_NodeE)
  with Node.IH show ?case by fastforce
qed auto

lemma count_is_finalized: "represents H d t ps \<Longrightarrow> is_finalized t \<Longrightarrow> count_finalized t = 2 ^ d"
  by (cases t) auto

section \<open>Roots\<close>

lemma represents_root:
  assumes "hash32 H"
  shows "represents H d t ps \<Longrightarrow> d \<le> 64 \<Longrightarrow> get_node_root H t = Ok (merkle_root H zero_chunk d (map fst ps))"
proof (induction t arbitrary: d ps)
  case (Zero l)
  then show ?case using get_zero_hash_root [OF assms] merkle_root_Nil [of H 0 d] by simp
next
  case (Node l r)
  from Node.prems(1) obtain e where "d = Suc e" "represents H e l (take (2 ^ e) ps)"
    "represents H e r (drop (2 ^ e) ps)" by (rule represents_NodeE)
  with Node.IH Node.prems(2) show ?case by (simp add: take_map drop_map)
qed auto

section \<open>Pushing\<close>

lemma represents_create_node:
  "represents H d (create_node [p] d) [p] \<and> count_finalized (create_node [p] d) = 0"
  by (induction d) simp_all

lemma push_leaf_inner_represents:
  "represents H d t ps \<Longrightarrow> length ps < 2 ^ d \<Longrightarrow>
     \<exists>t'. push_leaf_inner t p (int d) = Ok t' \<and> represents H d t' (ps @ [p]) \<and>
       count_finalized t' = count_finalized t"
proof (induction t arbitrary: d ps)
  case (Zero l)
  then show ?case using represents_create_node by simp
next
  case (Node l r)
  from Node.prems(1) obtain e where e: "d = Suc e" "ps \<noteq> []" "length ps \<le> 2 ^ Suc e"
    "represents H e l (take (2 ^ e) ps)" "represents H e r (drop (2 ^ e) ps)"
    "count_finalized r = 0 \<or> is_finalized l" "count_finalized l + count_finalized r < 2 ^ Suc e"
    by (rule represents_NodeE)
  show ?case
  proof (cases "full l")
    case True
    then have len: "2 ^ e \<le> length ps" using represents_full [OF e(4)] by simp
    then have "length (drop (2 ^ e) ps) < 2 ^ e" using Node.prems(2) e(1) by simp
    from Node.IH(2) [OF e(5) this] obtain r' where
      "push_leaf_inner r p (int e) = Ok r'" "represents H e r' (drop (2 ^ e) ps @ [p])"
      "count_finalized r' = count_finalized r" by auto
    with True len e Node.prems(2) show ?thesis by simp
  next
    case False
    then have len: "length ps < 2 ^ e" using represents_full [OF e(4)] represents_length [OF e(4)] by auto
    then have "\<not> is_finalized l" using represents_full [OF e(4)] False by (cases l) auto
    with e have r: "represents H e r []" "count_finalized r = 0" using len by simp_all
    from Node.IH(1) [OF e(4)] len obtain l' where
      "push_leaf_inner l p (int e) = Ok l'" "represents H e l' (ps @ [p])"
      "count_finalized l' = count_finalized l" by auto
    with False len e(1,2,7) r show ?thesis by simp
  qed
qed auto

lemma push_leaf_inner_full:
  "represents H d t ps \<Longrightarrow> length ps = 2 ^ d \<Longrightarrow> push_leaf_inner t p k = no_clause"
proof (induction t arbitrary: d ps k)
  case (Node l r)
  from Node.prems(1) obtain e where e: "d = Suc e"
    "represents H e l (take (2 ^ e) ps)" "represents H e r (drop (2 ^ e) ps)" by (rule represents_NodeE)
  with Node.prems(2) have "full l" using represents_full [OF e(2)] by simp
  with Node.IH(2) [OF e(3)] Node.prems(2) e(1) show ?case by (simp add: no_clause_def)
qed auto

section \<open>Finalizing\<close>

lemma finalize_tree_full:
  assumes "hash32 H" and "represents H d t ps" and "d \<le> 64" and "length ps = 2 ^ d" and "2 ^ d \<le> n"
  shows "finalize_tree H t n (2 ^ d) = Ok (Finalized (merkle_root H zero_chunk d (map fst ps), 2 ^ d))"
proof (cases t)
  case (Node l r)
  then show ?thesis using represents_root [OF assms(1-3)] assms(5) by simp
qed (use assms in auto)

text \<open>
  Finalizing keeps what the tree stands for. The first deposit is finalized even when none is asked
  for.
\<close>

lemma finalize_tree_represents:
  assumes "hash32 H"
  shows "represents H d t ps \<Longrightarrow> d \<le> 64 \<Longrightarrow> n \<le> length ps \<or> length ps = 2 ^ d \<Longrightarrow>
     \<exists>t'. finalize_tree H t n (2 ^ d) = Ok t' \<and> represents H d t' ps \<and>
       count_finalized t' = max (count_finalized t) (if ps = [] then 0 else min (2 ^ d) (max 1 n)) \<and>
       (is_finalized t \<longrightarrow> t' = t)"
proof (induction t arbitrary: d ps n)
  case (Node l r)
  from Node.prems(1) obtain e where e: "d = Suc e" "ps \<noteq> []" "length ps \<le> 2 ^ Suc e"
    "represents H e l (take (2 ^ e) ps)" "represents H e r (drop (2 ^ e) ps)"
    "count_finalized r = 0 \<or> is_finalized l" "count_finalized l + count_finalized r < 2 ^ Suc e"
    by (rule represents_NodeE)
  let ?cl = "count_finalized l" and ?cr = "count_finalized r"
  have cl: "?cl \<le> 2 ^ e" using count_finalized_le [OF e(4)] by simp
  have fin: "is_finalized l \<Longrightarrow> ?cl = 2 ^ e" by (rule count_is_finalized [OF e(4)])
  show ?case
  proof (cases "2 ^ d \<le> n")
    case True
    then have "length ps = 2 ^ d" using Node.prems(3) e(1,3) by auto
    from finalize_tree_full [OF assms Node.prems(1,2) this True] count_finalized_le [OF Node.prems(1)] True e(2) this
    show ?thesis by (simp add: max_def del: finalize_tree.simps count_finalized.simps(2))
  next
    case False
    have "n \<le> length (take (2 ^ e) ps) \<or> length (take (2 ^ e) ps) = 2 ^ e"
      using Node.prems(3) e(1) by auto
    from Node.IH(1) [OF e(4) _ this] Node.prems(2) e(1,2) obtain l' where
      l': "finalize_tree H l n (2 ^ e) = Ok l'" "represents H e l' (take (2 ^ e) ps)"
        "count_finalized l' = max ?cl (min (2 ^ e) (max 1 n))" "is_finalized l \<longrightarrow> l' = l"
      by auto
    show ?thesis
    proof (cases "2 ^ e < n")
      case True
      then have ps: "2 ^ e < length ps" using Node.prems(3) e(1) by auto
      then have "is_finalized l'"
        using finalize_tree_full [OF assms e(4)] Node.prems(2) e(1) True l'(1) by auto
      have "n - 2 ^ e \<le> length (drop (2 ^ e) ps) \<or> length (drop (2 ^ e) ps) = 2 ^ e" "drop (2 ^ e) ps \<noteq> []"
        using Node.prems(3) e(1) ps by auto
      with Node.IH(2) [OF e(5) _ this(1)] Node.prems(2) e(1) obtain r' where
        r': "finalize_tree H r (n - 2 ^ e) (2 ^ e) = Ok r'" "represents H e r' (drop (2 ^ e) ps)"
          "count_finalized r' = max ?cr (min (2 ^ e) (max 1 (n - 2 ^ e)))" by auto
      have "count_finalized l' + count_finalized r' = max (?cl + ?cr) n"
        using l'(3) r'(3) True False e(1,6) fin cl by auto
      then have cnt: "count_finalized (Node l' r') = max (?cl + ?cr) n" by simp
      have "finalize_tree H (Node l r) n (2 ^ d) = Ok (Node l' r')"
        using e(1) False True l'(1) r'(1) by simp
      moreover have "represents H d (Node l' r') ps"
        using e(1-3,7) l'(2) r'(2) \<open>is_finalized l'\<close> cnt False by simp
      ultimately show ?thesis using cnt True False e(2) by (simp del: finalize_tree.simps represents.simps)
    next
      case n: False
      have "max 1 n \<le> 2 ^ e" using n by simp
      then have "count_finalized l' = max ?cl (max 1 n)" using l'(3) by (simp add: min_absorb2)
      moreover have "max (2 ^ e + ?cr) (max 1 n) = 2 ^ e + ?cr"
        using \<open>max 1 n \<le> 2 ^ e\<close> by (intro max_absorb1) (rule trans_le_add1)
      ultimately have cnt: "count_finalized (Node l' r) = max (?cl + ?cr) (max 1 n)"
        using e(6) fin \<open>max 1 n \<le> 2 ^ e\<close> by (auto simp: max_absorb1)
      have "finalize_tree H (Node l r) n (2 ^ d) = Ok (Node l' r)" using e(1) False n l'(1) by simp
      moreover have "?cr = 0 \<or> is_finalized l'" using e(6) l'(4) by auto
      then have "represents H d (Node l' r) ps"
        using e(1-3,5,7) l'(2) cnt False less_le_trans [of 1 2 "2 * 2 ^ e :: nat"] by simp
      ultimately show ?thesis using cnt False e(2) by (simp add: min_absorb2 del: finalize_tree.simps represents.simps)
    qed
  qed
qed auto

section \<open>Proofs\<close>

lemma branch_root_append:
  "branch_root H v (ss @ ts) i = branch_root H (branch_root H v ss i) ts (i div 2 ^ length ss)"
  by (induction H v ss i rule: branch_root.induct) (simp_all add: div_mult2_eq)

lemma generate_proof_branch:
  assumes "hash32 H"
  shows "represents H d t ps \<Longrightarrow> d \<le> 64 \<Longrightarrow> count_finalized t \<le> i mod 2 ^ d \<Longrightarrow> i mod 2 ^ d < length ps \<Longrightarrow>
     \<exists>ss. generate_proof H t i d acc = Ok (snd (ps ! (i mod 2 ^ d)), ss @ acc) \<and> length ss = d \<and>
       branch_root H (fst (ps ! (i mod 2 ^ d))) ss i = merkle_root H zero_chunk d (map fst ps)"
proof (induction t arbitrary: d ps acc)
  case (Node l r)
  from Node.prems(1) obtain e where e: "d = Suc e" "ps \<noteq> []" "length ps \<le> 2 ^ Suc e"
    "represents H e l (take (2 ^ e) ps)" "represents H e r (drop (2 ^ e) ps)"
    "count_finalized r = 0 \<or> is_finalized l" "count_finalized l + count_finalized r < 2 ^ Suc e"
    by (rule represents_NodeE)
  let ?ml = "merkle_root H zero_chunk e (map fst (take (2 ^ e) ps))"
  let ?mr = "merkle_root H zero_chunk e (map fst (drop (2 ^ e) ps))"
  have roots: "get_node_root H l = Ok ?ml" "get_node_root H r = Ok ?mr"
    "merkle_root H zero_chunk d (map fst ps) = hash_nodes H ?ml ?mr"
    using represents_root [OF assms e(4)] represents_root [OF assms e(5)] Node.prems(2) e(1)
    by (simp_all add: take_map drop_map)
  have bit: "i mod 2 ^ d = i div 2 ^ e mod 2 * 2 ^ e + i mod 2 ^ e"
    using mod_mult2_eq [of i "2 ^ e" 2] by (simp add: e(1) mult.commute)
  show ?case
  proof (cases "odd (i div 2 ^ e)")
    case True
    then have j: "i mod 2 ^ d = 2 ^ e + i mod 2 ^ e" "i div 2 ^ e mod 2 = 1" using bit by (simp_all add: odd_iff_mod_2_eq_one)
    have "count_finalized r \<le> i mod 2 ^ e"
      using Node.prems(3) j e(6) count_is_finalized [OF e(4)] by auto
    moreover have "i mod 2 ^ e < length (drop (2 ^ e) ps)" using Node.prems(4) j by simp
    ultimately obtain ss where ss: "generate_proof H r i e (?ml # acc) = Ok (snd (ps ! (i mod 2 ^ d)), ss @ ?ml # acc)"
      "length ss = e" "branch_root H (fst (ps ! (i mod 2 ^ d))) ss i = ?mr"
      using Node.IH(2) [OF e(5), of "?ml # acc"] Node.prems(2) e(1) j Node.prems(4) by auto
    with roots j(2) True e(1) show ?thesis
      by (intro exI [of _ "ss @ [?ml]"]) (simp add: branch_root_append)
  next
    case False
    then have j: "i mod 2 ^ d = i mod 2 ^ e" "i div 2 ^ e mod 2 = 0" using bit by (simp_all add: even_iff_mod_2_eq_zero)
    have "count_finalized l \<le> i mod 2 ^ e" using Node.prems(3) j by simp
    moreover have lt: "i mod 2 ^ e < 2 ^ e" by simp
    moreover have "i mod 2 ^ e < length (take (2 ^ e) ps)" using Node.prems(4) j lt by simp
    ultimately obtain ss where ss: "generate_proof H l i e (?mr # acc) = Ok (snd (ps ! (i mod 2 ^ d)), ss @ ?mr # acc)"
      "length ss = e" "branch_root H (fst (ps ! (i mod 2 ^ d))) ss i = ?ml"
      using Node.IH(1) [OF e(4), of "?mr # acc"] Node.prems(2) e(1) j by auto
    with roots j(2) False e(1) show ?thesis
      by (intro exI [of _ "ss @ [?mr]"]) (simp add: branch_root_append)
  qed
qed auto

section \<open>Snapshots\<close>

lemma represents_empty: "represents H d t [] \<Longrightarrow> t = Zero (int d)"
  by (cases t) (auto elim: represents_NodeE)

lemma get_finalized_nonempty: "0 < count_finalized t \<Longrightarrow> get_finalized t \<noteq> []"
  by (induction t) auto

text \<open>A tree whose deposits are all finalized is rebuilt from its hashes read from left to right.\<close>

lemma from_snapshot_parts_represents:
  "represents H d t ps \<Longrightarrow> count_finalized t = length ps \<Longrightarrow>
     from_snapshot_parts (rev (get_finalized t)) (length ps) d = Ok t"
proof (induction t arbitrary: d ps)
  case (Finalized x)
  then show ?case by (cases x; cases d) simp_all
next
  case (Node l r)
  from Node.prems(1) obtain e where e: "d = Suc e" "ps \<noteq> []" "length ps \<le> 2 ^ Suc e"
    "represents H e l (take (2 ^ e) ps)" "represents H e r (drop (2 ^ e) ps)"
    "count_finalized r = 0 \<or> is_finalized l" "count_finalized l + count_finalized r < 2 ^ Suc e"
    by (rule represents_NodeE)
  have l: "count_finalized l = length (take (2 ^ e) ps)" and r: "count_finalized r = length (drop (2 ^ e) ps)"
    using count_finalized_le [OF e(4)] count_finalized_le [OF e(5)] Node.prems(2) by auto
  show ?case
  proof (cases "length ps \<le> 2 ^ e")
    case True
    then have "r = Zero (int e)" using represents_empty e(5) by simp
    moreover obtain h hs where "rev (get_finalized l) = h # hs"
      using get_finalized_nonempty [of l] l e(2) by (cases "rev (get_finalized l)") auto
    moreover have "from_snapshot_parts (rev (get_finalized l)) (length ps) e = Ok l"
      using Node.IH(1) [OF e(4) l] True by simp
    moreover have "length ps \<noteq> 2 * 2 ^ e" using True by (auto simp: not_le)
    ultimately show ?thesis using True e(1) by (simp add: Let_def)
  next
    case False
    then have "is_finalized l" using r e(6) by auto
    then obtain h where "l = Finalized (h, 2 ^ e)" using count_is_finalized [OF e(4)] by (cases l) auto
    with Node.IH(2) [OF e(5) r] False e(1,7) Node.prems(2) show ?thesis by simp
  qed
qed auto

lemma get_finalized_below_zero: "get_finalized (parts_below_zero head k) = [head]"
  by (induction k) simp_all

lemma from_snapshot_parts_order:
  "from_snapshot_parts fs n d = Ok t \<Longrightarrow> \<exists>m. rev (get_finalized t) = take m fs"
proof (induction fs n d arbitrary: t rule: from_snapshot_parts.induct)
  case (1 n level)
  then show ?case by (auto simp: no_clause_def split: if_splits)
next
  case (2 head rest n)
  then show ?case
    by (auto simp: no_clause_def get_finalized_below_zero split: if_splits intro: exI [of _ 1])
next
  case (3 head rest n level)
  consider "n = 2 ^ Suc level" | "n \<noteq> 2 ^ Suc level" "n \<le> 2 ^ level" | "n \<noteq> 2 ^ Suc level" "2 ^ level < n"
    by linarith
  then show ?case
  proof cases
    case 1
    with 3 show ?thesis by (auto intro: exI [of _ 1])
  next
    case 2
    with "3.prems" obtain l where "from_snapshot_parts (head # rest) n level = Ok l" "t = Node l (Zero (int level))"
      by (auto simp: Let_def)
    with 2 "3.IH"(1) show ?thesis by simp
  next
    case 3
    with "3.prems" obtain r where r: "from_snapshot_parts rest (n - 2 ^ level) level = Ok r"
      "t = Node (Finalized (head, 2 ^ level)) r" by (auto simp: Let_def)
    with 3 "3.IH"(2) obtain m where "rev (get_finalized r) = take m rest" by fastforce
    with r(2) show ?thesis by (intro exI [of _ "Suc m"]) simp
  qed
qed

section \<open>The state of a tree\<close>

text \<open>A tree that stands for a list of deposits, of which the first ones are finalized.\<close>

definition deposit_leaves :: "hasher \<Rightarrow> ex_val list \<Rightarrow> (bytes \<times> ex_val) list" where
  "deposit_leaves H ds = map (\<lambda>d. (hash_root H DepositData d, d)) ds"

definition deposit_inv :: "hasher \<Rightarrow> deposit_tree \<Rightarrow> ex_val list \<Rightarrow> nat \<Rightarrow> bool" where
  "deposit_inv H t ds k \<longleftrightarrow> hash32 H \<and> list_all (conforms DepositData) ds \<and>
     represents H tree_depth (inner t) (deposit_leaves H ds) \<and> deposit_count t = length ds \<and>
     count_finalized (inner t) = k"

lemma deposit_leaves_simps [simp]:
  "length (deposit_leaves H ds) = length ds" "deposit_leaves H ds = [] \<longleftrightarrow> ds = []"
  "map fst (deposit_leaves H ds) = map (hash_root H DepositData) ds"
  "i < length ds \<Longrightarrow> deposit_leaves H ds ! i = (hash_root H DepositData (ds ! i), ds ! i)"
  "deposit_leaves H (ds @ es) = deposit_leaves H ds @ deposit_leaves H es"
  by (simp_all add: deposit_leaves_def)

lemma deposit_invD:
  assumes "deposit_inv H t ds k"
  shows "hash32 H" "list_all (conforms DepositData) ds"
    "represents H tree_depth (inner t) (deposit_leaves H ds)" "deposit_count t = length ds"
    "count_finalized (inner t) = k" "length ds \<le> 2 ^ tree_depth" "k \<le> length ds"
  using assms represents_length [of H tree_depth "inner t" "deposit_leaves H ds"]
    count_finalized_le [of H tree_depth "inner t" "deposit_leaves H ds"]
  by (simp_all add: deposit_inv_def)

lemma DepositData_rooted:
  assumes "hash32 H"
  shows "rooted H DepositData"
  using assms by (intro hash_tree_root_rooted) (simp_all add: DepositData_schema_def)

lemma hash_tree_root_bang_deposit:
  "hash32 H \<Longrightarrow> conforms DepositData d \<Longrightarrow> hash_tree_root_bang H DepositData d = Ok (hash_root H DepositData d)"
  using rootedD(1) [OF DepositData_rooted] by (simp add: hash_tree_root_bang_def)

lemma conforms_DepositData:
  assumes "conforms DepositData d"
  obtains vs where "d = XStruct ''Types.DepositData'' vs"
  using assms by (auto simp: conforms_iff simp del: conforms.simps)

lemma new_tree_inv: "hash32 H \<Longrightarrow> deposit_inv H new_tree [] 0"
  by (simp add: deposit_inv_def new_tree_def deposit_leaves_def)

lemma push_leaf_inv:
  assumes "deposit_inv H t ds k" and "conforms DepositData d" and "length ds < 2 ^ tree_depth"
  shows "\<exists>t'. push_leaf H t d = Ok t' \<and> deposit_inv H t' (ds @ [d]) k"
proof -
  note inv = deposit_invD [OF assms(1)]
  obtain vs where d: "d = XStruct ''Types.DepositData'' vs" using conforms_DepositData [OF assms(2)] .
  let ?p = "(hash_root H DepositData d, d)"
  obtain t' where t': "push_leaf_inner (inner t) ?p (int tree_depth) = Ok t'"
    "represents H tree_depth t' (deposit_leaves H (ds @ [d]))" "count_finalized t' = k"
    using push_leaf_inner_represents [OF inv(3), of ?p] assms(3) inv(5)
    by (auto simp: deposit_leaves_def [of H "[d]"])
  then show ?thesis
    using hash_tree_root_bang_deposit [OF inv(1) assms(2)] assms(2) inv(1,2,4)
    by (simp add: push_leaf_def d deposit_inv_def del: conforms.simps deposit_leaves_simps(5))
qed

lemma push_leaf_full:
  assumes "deposit_inv H t ds k" and "conforms DepositData d" and "length ds = 2 ^ tree_depth"
  shows "push_leaf H t d = no_clause"
proof -
  note inv = deposit_invD [OF assms(1)]
  obtain vs where d: "d = XStruct ''Types.DepositData'' vs" using conforms_DepositData [OF assms(2)] .
  from push_leaf_inner_full [OF inv(3)] assms(3) hash_tree_root_bang_deposit [OF inv(1) assms(2)]
  show ?thesis by (simp add: push_leaf_def d no_clause_def)
qed

lemma finalize_inv:
  assumes "deposit_inv H t ds k" and "eth1_deposit_count e \<le> length ds"
  shows "\<exists>t'. finalize H t e height = Ok t' \<and>
    deposit_inv H t' ds (max k (if ds = [] then 0 else max 1 (eth1_deposit_count e))) \<and>
    finalized_execution_block t' = Some (eth1_block_hash e, height)"
proof -
  note inv = deposit_invD [OF assms(1)]
  let ?n = "eth1_deposit_count e"
  have "min (2 ^ tree_depth) (max 1 ?n) = max 1 ?n" using assms(2) inv(6) by (intro min_absorb2) simp
  with finalize_tree_represents [OF inv(1,3), of ?n] assms(2) inv
  show ?thesis by (auto simp: finalize_def deposit_inv_def tree_depth_def)
qed

end
