(* ===== verification/Deposit_Tree_Properties.thy ===== *)
theory Deposit_Tree_Properties
  imports Deposit_Tree_Invariant Ssz_Ex_Merkle_Properties
begin

text \<open>
  What the tree of deposits promises, for every tree that a sequence of pushes and finalizations can
  reach: its root is the hash tree root of the list of the deposits, the proofs it gives are accepted
  by the check of the state transition, and when a snapshot restores it.
\<close>

section \<open>Pushing many deposits\<close>

text \<open>
  The contract of a bounded log: an entry is appended as long as there is room, and refused after
  that. The loop over a list of entries needs no more than this.
\<close>

locale bounded_log =
  fixes inv :: "'s \<Rightarrow> 'd list \<Rightarrow> nat \<Rightarrow> bool" and push :: "'s \<Rightarrow> 'd \<Rightarrow> 's ex"
    and push_each :: "'s \<Rightarrow> 'd list \<Rightarrow> 's ex" and entry :: "'d \<Rightarrow> bool" and capacity :: nat
  assumes push_room: "inv s ds k \<Longrightarrow> entry d \<Longrightarrow> length ds < capacity \<Longrightarrow>
      \<exists>s'. push s d = Ok s' \<and> inv s' (ds @ [d]) k"
    and push_full: "inv s ds k \<Longrightarrow> entry d \<Longrightarrow> length ds = capacity \<Longrightarrow> push s d = no_clause"
    and inv_capacity: "inv s ds k \<Longrightarrow> length ds \<le> capacity"
    and push_each_Nil: "push_each s [] = Ok s"
    and push_each_Cons: "push_each s (d # es) = and_then (push s d) (\<lambda>s. push_each s es)"
begin

lemma push_each_room:
  "inv s ds k \<Longrightarrow> list_all entry es \<Longrightarrow> length ds + length es \<le> capacity \<Longrightarrow>
     \<exists>s'. push_each s es = Ok s' \<and> inv s' (ds @ es) k"
proof (induction es arbitrary: s ds)
  case (Cons d es)
  then obtain s' where "push s d = Ok s'" "inv s' (ds @ [d]) k" using push_room by fastforce
  with Cons.IH [of s' "ds @ [d]"] Cons.prems show ?case by (simp add: push_each_Cons)
qed (simp add: push_each_Nil)

lemma push_each_overflow:
  "inv s ds k \<Longrightarrow> list_all entry es \<Longrightarrow> capacity < length ds + length es \<Longrightarrow> push_each s es = no_clause"
proof (induction es arbitrary: s ds)
  case Nil
  then show ?case using inv_capacity [of s ds k] by simp
next
  case (Cons d es)
  show ?case
  proof (cases "length ds = capacity")
    case True
    with push_full [OF Cons.prems(1)] Cons.prems(2) show ?thesis by (simp add: push_each_Cons no_clause_def)
  next
    case False
    with inv_capacity [OF Cons.prems(1)] have "length ds < capacity" by simp
    with push_room [OF Cons.prems(1)] Cons.prems(2) obtain s' where "push s d = Ok s'" "inv s' (ds @ [d]) k"
      by auto
    with Cons.IH [of s' "ds @ [d]"] Cons.prems show ?thesis by (simp add: push_each_Cons)
  qed
qed

end

interpretation deposits: bounded_log "deposit_inv H" "push_leaf H" "update_tree_with_deposits H"
  "conforms DepositData" "2 ^ tree_depth" for H
  by unfold_locales (auto simp: push_leaf_inv push_leaf_full dest: deposit_invD(6) simp del: conforms.simps)

section \<open>Runs\<close>

text \<open>
  The trees that can be reached, with the deposits pushed and the number of them that is finalized.
\<close>

inductive deposit_run :: "hasher \<Rightarrow> deposit_tree \<Rightarrow> ex_val list \<Rightarrow> nat \<Rightarrow> bool" for H :: hasher where
  run_new: "deposit_run H new_tree [] 0"
| run_push: "deposit_run H t ds k \<Longrightarrow> conforms DepositData d \<Longrightarrow> push_leaf H t d = Ok t' \<Longrightarrow>
    deposit_run H t' (ds @ [d]) k"
| run_finalize: "deposit_run H t ds k \<Longrightarrow> eth1_deposit_count e \<le> length ds \<Longrightarrow>
    finalize H t e height = Ok t' \<Longrightarrow>
    deposit_run H t' ds (max k (if ds = [] then 0 else max 1 (eth1_deposit_count e)))"

lemma deposit_run_inv:
  assumes "hash32 H"
  shows "deposit_run H t ds k \<Longrightarrow> deposit_inv H t ds k"
proof (induction rule: deposit_run.induct)
  case run_new
  from assms show ?case by (rule new_tree_inv)
next
  case (run_push t ds k d t')
  have "length ds \<noteq> 2 ^ tree_depth"
    using push_leaf_full [OF run_push.IH run_push.hyps(2)] run_push.hyps(3) by (auto simp: no_clause_def)
  then have "length ds < 2 ^ tree_depth" using deposit_invD(6) [OF run_push.IH] by simp
  with push_leaf_inv [OF run_push.IH run_push.hyps(2)] run_push.hyps(3) show ?case by auto
next
  case (run_finalize t ds k e height t')
  with finalize_inv [OF run_finalize.IH run_finalize.hyps(2), of height] show ?case by auto
qed

lemma run_pushes:
  assumes "hash32 H" and "deposit_run H t ds k" and "list_all (conforms DepositData) es"
    and "update_tree_with_deposits H t es = Ok t'"
  shows "deposit_run H t' (ds @ es) k"
  using assms(2-4)
proof (induction es arbitrary: t ds)
  case (Cons d es)
  then obtain s where "push_leaf H t d = Ok s" "update_tree_with_deposits H s es = Ok t'" by auto
  moreover from this have "deposit_run H s (ds @ [d]) k" using Cons.prems by (auto intro: run_push)
  ultimately show ?case using Cons.IH [of s "ds @ [d]"] Cons.prems(2) by simp
qed simp

section \<open>The root\<close>

lemma le_bytes_extend:
  assumes "n < 256 ^ k"
  shows "le_bytes k (int n) @ replicate m 0 = le_bytes (k + m) (int n)"
proof (rule le_nat_inject)
  have "(256 :: nat) ^ k \<le> 256 ^ (k + m)" by (intro power_increasing) simp_all
  from less_le_trans [OF assms this] have "n < 256 ^ (k + m)" .
  moreover have "le_nat (replicate m (0 :: byte)) = 0" by (induction m) simp_all
  ultimately show "le_nat (le_bytes k (int n) @ replicate m 0) = le_nat (le_bytes (k + m) (int n))"
    using assms by (simp add: le_nat_append le_nat_small)
qed simp

lemma tree_mix_in_length_eq:
  assumes "deposit_count t < 2 ^ 64"
  shows "tree_mix_in_length H t = Ok (le_bytes 32 (int (deposit_count t)))"
proof -
  have "deposit_count t < 256 ^ 8" using assms by simp
  from le_bytes_extend [OF this, of 24] show ?thesis
    by (simp add: tree_mix_in_length_def hash_tree_root_bang_def pack_int_def pack_bytes_def Let_def)
qed

lemma deposit_inv_root:
  assumes "deposit_inv H t ds k"
  shows "get_node_root H (inner t) = Ok (merkle_root H zero_chunk tree_depth (map (hash_root H DepositData) ds))"
    and "tree_mix_in_length H t = Ok (le_bytes 32 (int (length ds)))"
    and "get_root H t = Ok (hash_root H (SList DepositData (2 ^ tree_depth)) (XList ds))"
proof -
  note inv = deposit_invD [OF assms]
  show node: "get_node_root H (inner t) = Ok (merkle_root H zero_chunk tree_depth (map (hash_root H DepositData) ds))"
    using represents_root [OF inv(1,3)] by (simp add: tree_depth_def)
  have "length ds < 2 ^ 64" using inv(6) by (simp add: tree_depth_def)
  then show mix: "tree_mix_in_length H t = Ok (le_bytes 32 (int (length ds)))"
    using tree_mix_in_length_eq [of t H] inv(4) by simp
  show "get_root H t = Ok (hash_root H (SList DepositData (2 ^ tree_depth)) (XList ds))"
    using node mix log2_ceil_power [of "2 ^ tree_depth" tree_depth]
    by (simp add: get_root_def mix_length_def merkleize_def)
qed

lemma deposits_rooted: "hash32 H \<Longrightarrow> rooted H (SList DepositData (2 ^ tree_depth))"
proof -
  assume H: "hash32 H"
  have "(2 :: nat) ^ tree_depth \<le> 2 ^ 59" by (simp add: tree_depth_def)
  moreover have "power_of_two (2 ^ tree_depth)" by (simp add: power_of_two_def)
  ultimately show ?thesis
    using H by (intro rooted_list [OF H _ _ DepositData_rooted [OF H]]) (simp_all add: DepositData_schema_def)
qed

text \<open>
  C7: The root of a tree is the hash tree root of the list of all deposits pushed, however many of
  them are finalized and forgotten.
\<close>

theorem deposit_tree_root:
  assumes "hash32 H" and "deposit_run H t ds k"
  shows "get_root H t = ex_hash_tree_root H (SList DepositData (2 ^ tree_depth)) (XList ds)"
proof -
  note inv = deposit_run_inv [OF assms]
  have "conforms (SList DepositData (2 ^ tree_depth)) (XList ds)"
    using deposit_invD(2,6) [OF inv] by simp
  from rootedD(1) [OF deposits_rooted [OF assms(1)] this] deposit_inv_root(3) [OF inv] show ?thesis
    by (simp only:)
qed

text \<open>Deposits for the examples: three keys that differ in every byte.\<close>

definition sample_deposit :: "byte \<Rightarrow> ex_val" where
  "sample_deposit b = XStruct ''Types.DepositData''
     [(''pubkey'', XBin (replicate 48 b)), (''withdrawal_credentials'', XBin (replicate 32 0)),
      (''amount'', XInt 32000000000), (''signature'', XBin (replicate 96 0))]"

definition sample_deposits :: "ex_val list" where
  "sample_deposits = [sample_deposit 1, sample_deposit 2, sample_deposit 3]"

definition sample_eth1_data :: "nat \<Rightarrow> Eth1Data" where
  "sample_eth1_data n = \<lparr>eth1_deposit_root = [], eth1_deposit_count = n, eth1_block_hash = replicate 32 7\<rparr>"

lemma sample_deposits_conform: "list_all (conforms DepositData) sample_deposits"
  by (simp add: sample_deposits_def sample_deposit_def DepositData_schema_def)

lemma sample_run:
  assumes "0 < n" and "n \<le> 3"
  shows "\<exists>t. deposit_run prefix_hash t sample_deposits n \<and>
    finalized_execution_block t = Some (replicate 32 7, 9)"
proof -
  have "length sample_deposits \<le> 2 ^ tree_depth" by (simp add: sample_deposits_def tree_depth_def)
  with deposits.push_each_room [OF new_tree_inv [OF prefix_hash32] sample_deposits_conform]
  obtain t where t: "update_tree_with_deposits prefix_hash new_tree sample_deposits = Ok t" by auto
  from run_pushes [OF prefix_hash32 run_new sample_deposits_conform t]
  have run: "deposit_run prefix_hash t sample_deposits 0" by simp
  have len: "eth1_deposit_count (sample_eth1_data n) \<le> length sample_deposits"
    using assms by (simp add: sample_deposits_def sample_eth1_data_def)
  from finalize_inv [OF deposit_run_inv [OF prefix_hash32 run] len, of 9] obtain t' where
    t': "finalize prefix_hash t (sample_eth1_data n) 9 = Ok t'"
      "finalized_execution_block t' = Some (replicate 32 7, 9)" by (auto simp: sample_eth1_data_def)
  have "max 0 (if sample_deposits = [] then 0 else max 1 (eth1_deposit_count (sample_eth1_data n))) = n"
    using assms by (simp add: sample_deposits_def sample_eth1_data_def)
  with run_finalize [OF run len t'(1)] t'(2) show ?thesis by metis
qed

theorem deposit_tree_root_witness:
  "\<exists>t. deposit_run prefix_hash t sample_deposits 2 \<and>
     get_root prefix_hash t = ex_hash_tree_root prefix_hash (SList DepositData (2 ^ tree_depth)) (XList sample_deposits)"
  using sample_run [of 2] deposit_tree_root [OF prefix_hash32] by fastforce

section \<open>Proofs of deposits\<close>

text \<open>
  C8: For a deposit that is not finalized the tree gives its data with a proof that the branch check
  of the state transition accepts against the root of the tree.
\<close>

theorem deposit_proof_accepted:
  assumes "hash32 H" and "deposit_run H t ds k" and "k \<le> i" and "i < length ds"
  shows "\<exists>deposit root leaf. get_deposit H t i = Ok deposit \<and> deposit_data deposit = ds ! i \<and>
    get_root H t = Ok root \<and> hash_tree_root_bang H DepositData (ds ! i) = Ok leaf \<and>
    length (deposit_proof deposit) = tree_depth + 1 \<and>
    valid_merkle_branch H leaf (deposit_proof deposit) (tree_depth + 1) i root"
proof -
  note inv = deposit_run_inv [OF assms(1,2)]
  note invD = deposit_invD [OF inv] and roots = deposit_inv_root [OF inv]
  let ?leaf = "hash_root H DepositData (ds ! i)" and ?len = "le_bytes 32 (int (length ds))"
  have i: "i < 2 ^ tree_depth" "i mod 2 ^ tree_depth = i" using assms(4) invD(6) by simp_all
  obtain ss where ss: "generate_proof H (inner t) i tree_depth [?len] = Ok (ds ! i, ss @ [?len])"
    "length ss = tree_depth"
    "branch_root H ?leaf ss i = merkle_root H zero_chunk tree_depth (map (hash_root H DepositData) ds)"
    using generate_proof_branch [OF invD(1,3), of i "[?len]"] i assms(3,4) invD(5) by (auto simp: tree_depth_def)
  have "get_deposit H t i = Ok \<lparr>deposit_proof = ss @ [?len], deposit_data = ds ! i\<rparr>"
    using ss(1) roots(2) assms(3,4) invD(4,5) by (simp add: get_deposit_def)
  moreover have "conforms DepositData (ds ! i)" using invD(2) assms(4) by (simp only: list_all_length)
  then have "hash_tree_root_bang H DepositData (ds ! i) = Ok ?leaf"
    using hash_tree_root_bang_deposit invD(1) by blast
  moreover have "get_root H t = Ok (branch_root H ?leaf (ss @ [?len]) i)"
    using roots(1,2) ss(2,3) i(1) by (simp add: get_root_def branch_root_append)
  ultimately show ?thesis
    using ss(2) by (simp add: valid_merkle_branch_def generate_merkle_proof_root)
qed

theorem deposit_proof_accepted_witness:
  "\<exists>t deposit root leaf. deposit_run prefix_hash t sample_deposits 1 \<and> get_deposit prefix_hash t 2 = Ok deposit \<and>
    deposit_data deposit = sample_deposits ! 2 \<and> get_root prefix_hash t = Ok root \<and>
    hash_tree_root_bang prefix_hash DepositData (sample_deposits ! 2) = Ok leaf \<and>
    length (deposit_proof deposit) = tree_depth + 1 \<and>
    valid_merkle_branch prefix_hash leaf (deposit_proof deposit) (tree_depth + 1) 2 root"
proof -
  obtain t where "deposit_run prefix_hash t sample_deposits 1" using sample_run [of 1] by auto
  moreover have "2 < length sample_deposits" by (simp add: sample_deposits_def)
  ultimately show ?thesis using deposit_proof_accepted [OF prefix_hash32, of t sample_deposits 1 2] by auto
qed

text \<open>
  A deposit that is finalized, or that was never pushed, is refused with an error that says so.
\<close>

theorem deposit_index_errors:
  assumes "hash32 H" and "deposit_run H t ds k"
  shows "(i < k \<longrightarrow> get_deposit H t i = Err DepositAlreadyFinalized) \<and>
    (length ds \<le> i \<longrightarrow> get_deposit H t i = Err DepositIndexOutOfBounds)"
  using deposit_invD [OF deposit_run_inv [OF assms]] by (simp add: get_deposit_def)

theorem deposit_index_errors_witness:
  "\<exists>t. deposit_run prefix_hash t sample_deposits 2 \<and>
     get_deposit prefix_hash t 1 = Err DepositAlreadyFinalized \<and>
     get_deposit prefix_hash t 3 = Err DepositIndexOutOfBounds"
proof -
  obtain t where t: "deposit_run prefix_hash t sample_deposits 2" using sample_run [of 2] by auto
  from t deposit_index_errors [OF prefix_hash32 t, of 1] deposit_index_errors [OF prefix_hash32 t, of 3]
  show ?thesis by (auto simp: sample_deposits_def)
qed

section \<open>Growing and pruning\<close>

text \<open>
  The deposits of a list are all appended when the tree has room for them; when it has not, the
  update raises.
\<close>

theorem deposit_tree_update:
  assumes "hash32 H" and "deposit_run H t ds k" and "list_all (conforms DepositData) es"
  shows "if length ds + length es \<le> 2 ^ tree_depth
    then \<exists>t'. update_tree_with_deposits H t es = Ok t' \<and> deposit_run H t' (ds @ es) k
    else update_tree_with_deposits H t es = Panic ''FunctionClauseError''"
proof -
  note inv = deposit_run_inv [OF assms(1,2)]
  show ?thesis
    using deposits.push_each_room [OF inv assms(3)] deposits.push_each_overflow [OF inv assms(3)]
      run_pushes [OF assms(1-3)]
    by (auto simp: no_clause_def)
qed

theorem deposit_tree_update_witness:
  "\<exists>t. update_tree_with_deposits prefix_hash new_tree sample_deposits = Ok t \<and>
     deposit_run prefix_hash t ([] @ sample_deposits) 0"
proof -
  have "length ([] :: ex_val list) + length sample_deposits \<le> 2 ^ tree_depth"
    by (simp add: sample_deposits_def tree_depth_def)
  then show ?thesis
    using deposit_tree_update [OF prefix_hash32 run_new sample_deposits_conform] by (simp only: if_True)
qed

text \<open>
  C27: Finalizing deposits that were pushed changes neither the root nor the number of deposits. The
  deposits up to the number given are finalized afterwards, and the first one in any case.
\<close>

theorem deposit_tree_finalize:
  assumes "hash32 H" and "deposit_run H t ds k" and "eth1_deposit_count e \<le> length ds"
  shows "\<exists>t'. finalize H t e height = Ok t' \<and> get_root H t' = get_root H t \<and>
    deposit_count t' = deposit_count t \<and>
    count_finalized (inner t') = max k (if ds = [] then 0 else max 1 (eth1_deposit_count e))"
proof -
  note inv = deposit_run_inv [OF assms(1,2)]
  from finalize_inv [OF inv assms(3), of height] obtain t' where
    t': "finalize H t e height = Ok t'"
      "deposit_inv H t' ds (max k (if ds = [] then 0 else max 1 (eth1_deposit_count e)))" by auto
  with deposit_inv_root(3) [OF inv] deposit_inv_root(3) [OF t'(2)] deposit_invD(4,5) [OF t'(2)] deposit_invD(4) [OF inv]
  show ?thesis by (simp del: hash_root.simps)
qed

theorem deposit_tree_finalize_witness:
  "\<exists>t t'. deposit_run prefix_hash t sample_deposits 1 \<and> finalize prefix_hash t (sample_eth1_data 2) 11 = Ok t' \<and>
     get_root prefix_hash t' = get_root prefix_hash t \<and> count_finalized (inner t') = 2"
proof -
  obtain t where t: "deposit_run prefix_hash t sample_deposits 1" using sample_run [of 1] by auto
  have "eth1_deposit_count (sample_eth1_data 2) \<le> length sample_deposits"
    by (simp add: sample_deposits_def sample_eth1_data_def)
  from deposit_tree_finalize [OF prefix_hash32 t this, of 11] t show ?thesis
    by (auto simp: sample_deposits_def sample_eth1_data_def)
qed

section \<open>Snapshots\<close>

lemma snapshot_restores:
  assumes "hash32 H" and "deposit_run H t ds (length ds)" and "get_snapshot H t = Ok s"
  shows "from_snapshot s = Ok t \<longleftrightarrow> rev (finalized s) = finalized s"
proof -
  note inv = deposit_invD [OF deposit_run_inv [OF assms(1,2)]]
  from assms(3) have s: "finalized s = get_finalized (inner t)" "snapshot_deposit_count s = length ds"
    "finalized_execution_block t = Some (execution_block_hash s, execution_block_height s)"
    using inv(4) by (auto simp: get_snapshot_def split: option.splits)
  have "from_snapshot s = Ok t \<longleftrightarrow>
      from_snapshot_parts (get_finalized (inner t)) (length ds) tree_depth = Ok (inner t)"
    using s inv(4) by (cases t) (auto simp: from_snapshot_def)
  also have "\<dots> \<longleftrightarrow> rev (get_finalized (inner t)) = get_finalized (inner t)"
  proof
    assume "from_snapshot_parts (get_finalized (inner t)) (length ds) tree_depth = Ok (inner t)"
    then obtain m where "rev (get_finalized (inner t)) = take m (get_finalized (inner t))"
      using from_snapshot_parts_order by blast
    moreover from arg_cong [OF this, of length] have "length (get_finalized (inner t)) \<le> m" by simp
    ultimately show "rev (get_finalized (inner t)) = get_finalized (inner t)" by simp
  next
    assume "rev (get_finalized (inner t)) = get_finalized (inner t)"
    then show "from_snapshot_parts (get_finalized (inner t)) (length ds) tree_depth = Ok (inner t)"
      using from_snapshot_parts_represents [OF inv(3)] inv(5) by simp
  qed
  finally show ?thesis by (simp add: s(1))
qed

text \<open>
  C28: A snapshot of a tree whose deposits are all finalized restores that tree exactly when its
  finalized hashes read the same in both directions: the snapshot lists them from right to left and
  is read from left to right.
\<close>

theorem deposit_snapshot_restores:
  assumes "hash32 H" and "deposit_run H t ds (length ds)" and "get_snapshot H t = Ok s"
  shows "from_snapshot s = Ok t \<longleftrightarrow> rev (finalized s) = finalized s"
  using assms by (rule snapshot_restores)

lemma sample_snapshot:
  "\<exists>t s. deposit_run prefix_hash t sample_deposits 3 \<and> get_snapshot prefix_hash t = Ok s \<and>
     finalized s = get_finalized (inner t)"
proof -
  obtain t where run: "deposit_run prefix_hash t sample_deposits 3"
    and block: "finalized_execution_block t = Some (replicate 32 7, 9)" using sample_run [of 3] by auto
  with deposit_inv_root(3) [OF deposit_run_inv [OF prefix_hash32 run]] show ?thesis
    by (auto simp: get_snapshot_def simp del: hash_root.simps)
qed

theorem deposit_snapshot_restores_witness:
  "\<exists>t s. get_snapshot prefix_hash t = Ok s \<and> deposit_count t = 3 \<and>
     (from_snapshot s = Ok t \<longleftrightarrow> rev (finalized s) = finalized s)"
proof -
  obtain t s where run: "deposit_run prefix_hash t sample_deposits 3" and s: "get_snapshot prefix_hash t = Ok s"
    using sample_snapshot by auto
  have len: "length sample_deposits = 3" by (simp add: sample_deposits_def)
  moreover have "deposit_count t = 3" using deposit_invD(4) [OF deposit_run_inv [OF prefix_hash32 run]] len by simp
  ultimately show ?thesis using deposit_snapshot_restores [OF prefix_hash32 _ s, of sample_deposits] run s by auto
qed

text \<open>The hashes of the maximal finalized subtrees, from left to right.\<close>

fun peaks :: "hasher \<Rightarrow> nat \<Rightarrow> bytes list \<Rightarrow> bytes list" where
  "peaks H 0 cs = cs"
| "peaks H (Suc d) cs =
     (if length cs = 2 ^ Suc d then [merkle_root H zero_chunk (Suc d) cs]
      else if length cs \<le> 2 ^ d then peaks H d cs
      else merkle_root H zero_chunk d (take (2 ^ d) cs) # peaks H d (drop (2 ^ d) cs))"

lemma peaks_Nil [simp]: "peaks H d [] = []"
  by (induction d) simp_all

lemma peaks_full: "length cs = 2 ^ d \<Longrightarrow> peaks H d cs = [merkle_root H zero_chunk d cs]"
  by (cases d; cases cs) simp_all

lemma get_finalized_peaks:
  "represents H d t ps \<Longrightarrow> count_finalized t = length ps \<Longrightarrow> rev (get_finalized t) = peaks H d (map fst ps)"
proof (induction t arbitrary: d ps)
  case (Finalized x)
  then show ?case by (cases x) (simp add: peaks_full del: peaks.simps)
next
  case (Node l r)
  from Node.prems(1) obtain e where e: "d = Suc e" "ps \<noteq> []" "length ps \<le> 2 ^ Suc e"
    "represents H e l (take (2 ^ e) ps)" "represents H e r (drop (2 ^ e) ps)"
    "count_finalized r = 0 \<or> is_finalized l" "count_finalized l + count_finalized r < 2 ^ Suc e"
    by (rule represents_NodeE)
  have l: "count_finalized l = length (take (2 ^ e) ps)" and r: "count_finalized r = length (drop (2 ^ e) ps)"
    using count_finalized_le [OF e(4)] count_finalized_le [OF e(5)] Node.prems(2) by auto
  show ?case
  proof (cases "length ps \<le> 2 ^ e")
    case True
    then have "r = Zero (int e)" "length ps \<noteq> 2 * 2 ^ e" using represents_empty e(5) by (auto simp: not_le)
    with True Node.IH(1) [OF e(4) l] e(1) show ?thesis by simp
  next
    case False
    then have "length (take (2 ^ e) (map fst ps)) = 2 ^ e" by simp
    with False Node.IH(1) [OF e(4) l] Node.IH(2) [OF e(5) r] e(1,7) Node.prems(2) show ?thesis
      by (simp add: peaks_full take_map drop_map)
  qed
qed simp_all

lemma peaks_three: "peaks H (Suc (Suc d)) [a, b, c] = [hash_nodes H a b, c]"
proof (induction d)
  case (Suc d)
  have "1 \<le> (2 :: nat) ^ d" by simp
  then have "3 \<le> (2 :: nat) ^ Suc (Suc d)" "3 \<noteq> (2 :: nat) ^ Suc (Suc (Suc d))"
    unfolding power_Suc by linarith+
  with Suc show ?case by (subst peaks.simps(2)) simp
qed simp

lemma prefix_hash_root: "length c = 32 \<Longrightarrow> merkle_root prefix_hash z d (c # cs) = c"
proof (induction d arbitrary: cs)
  case (Suc d)
  have "take (2 ^ d) (c # cs) = c # take (2 ^ d - 1) cs" by (cases "(2 :: nat) ^ d") auto
  with Suc show ?case by (simp add: hash_nodes_def prefix_hash_def)
qed simp

lemma sample_leaf: "hash_root prefix_hash DepositData (sample_deposit b) = replicate 32 b"
proof -
  have "chunks_of (replicate 48 b) = replicate 32 b # chunks_of (drop 32 (replicate 48 b))"
    by (subst chunks_of.simps) simp
  then have "hash_root prefix_hash (SByteVector 48) (XBin (replicate 48 b)) = replicate 32 b"
    by (simp add: merkleize_def prefix_hash_root)
  then show ?thesis
    by (simp add: sample_deposit_def DepositData_schema_def merkleize_def prefix_hash_root
        del: hash_root.simps(4))
qed

text \<open>
  Three deposits that are all finalized are a snapshot that does not restore the tree it was
  taken from.
\<close>

theorem deposit_snapshot_order_lost:
  "\<exists>t s. deposit_run prefix_hash t sample_deposits 3 \<and> get_snapshot prefix_hash t = Ok s \<and>
     from_snapshot s \<noteq> Ok t"
proof -
  obtain t s where run: "deposit_run prefix_hash t sample_deposits 3"
    and s: "get_snapshot prefix_hash t = Ok s" "finalized s = get_finalized (inner t)"
    using sample_snapshot by auto
  note inv = deposit_run_inv [OF prefix_hash32 run]
  have "rev (finalized s) = [hash_nodes prefix_hash (replicate 32 1) (replicate 32 2), replicate 32 3]"
    using get_finalized_peaks [OF deposit_invD(3) [OF inv]] deposit_invD(5) [OF inv]
      peaks_three [of prefix_hash 30] s(2)
    by (simp add: sample_deposits_def sample_leaf tree_depth_def del: peaks.simps hash_root.simps)
  moreover have "hash_nodes prefix_hash (replicate 32 1) (replicate 32 2) = replicate 32 (1 :: byte)"
    by (simp add: hash_nodes_def prefix_hash_def)
  ultimately have "rev (finalized s) = [replicate 32 1, replicate 32 3]" by simp
  moreover from this have "finalized s = [replicate 32 3, replicate 32 1]" by (simp add: rev_swap)
  ultimately have "rev (finalized s) \<noteq> finalized s" by simp
  moreover have "length sample_deposits = 3" by (simp add: sample_deposits_def)
  ultimately show ?thesis using snapshot_restores [OF prefix_hash32 _ s(1)] run s(1) by metis
qed

end
