(* ===== verification/Execution_Chain.thy ===== *)
theory Execution_Chain
  imports Execution_Client Deposit_Tree_Properties Chain_Spec
begin

text \<open>
  \<open>lib/lambda_ethereum_consensus/execution/execution_chain.ex\<close>: the votes on the Eth1 data, the
  execution payloads seen and the tree of deposits, as one state that is kept in the store, and the
  two functions of \<open>validator/block_builder.ex\<close> that ask for a vote and for deposits. An action reads
  and changes the store; what it had written before it raises stays written.
\<close>

section \<open>State\<close>

text \<open>
  The votes are a map from Eth1 data to the number of votes and the negated position of the first of
  them. The tree is \<open>None\<close> where the code has \<open>nil\<close>.
\<close>

type_synonym votes = "(Eth1Data \<times> nat \<times> int) list"

record execution_state =
  eth1_data_votes :: votes
  eth1_chain :: "block_metadata list"
  current_eth1_data :: Eth1Data
  state_tree :: "deposit_tree option"
  last_period :: nat

record chain_db =
  execution_db :: "execution_state option"
  snapshot_db :: "DepositTreeSnapshot option"
  genesis_db :: "nat option"

type_synonym ('e, 'a) action = "chain_db \<Rightarrow> ('e exec_error, 'a) rust \<times> chain_db"

definition lift :: "('e exec_error, 'a) rust \<Rightarrow> ('e, 'a) action" where
  "lift r db = (r, db)"

definition bind_db :: "('e, 'a) action \<Rightarrow> ('a \<Rightarrow> ('e, 'b) action) \<Rightarrow> ('e, 'b) action" where
  "bind_db m f db =
     (case m db of
        (Ok a, db') \<Rightarrow> f a db'
      | (Err e, db') \<Rightarrow> (Err e, db')
      | (Panic p, db') \<Rightarrow> (Panic p, db'))"

definition persist_execution_state :: "execution_state \<Rightarrow> ('e, unit) action" where
  "persist_execution_state state db = (Ok (), db\<lparr>execution_db := Some state\<rparr>)"

definition fetch_execution_state_bang :: "('e, execution_state) action" where
  "fetch_execution_state_bang db =
     (case execution_db db of None \<Rightarrow> Panic ''MatchError'' | Some state \<Rightarrow> Ok state, db)"

definition persist_deposits_snapshot :: "DepositTreeSnapshot \<Rightarrow> ('e, unit) action" where
  "persist_deposits_snapshot snapshot db = (Ok (), db\<lparr>snapshot_db := Some snapshot\<rparr>)"

definition fetch_genesis_time_bang :: "('e, nat) action" where
  "fetch_genesis_time_bang db = (case genesis_db db of None \<Rightarrow> Panic ''MatchError'' | Some t \<Rightarrow> Ok t, db)"

text \<open>A tree where \<open>nil\<close> has no clause.\<close>

definition some_tree :: "deposit_tree option \<Rightarrow> ('e, deposit_tree) rust" where
  "some_tree t = (case t of None \<Rightarrow> Panic ''FunctionClauseError'' | Some tree \<Rightarrow> Ok tree)"

section \<open>Voting periods\<close>

definition slots_per_eth1_voting_period :: "chain_spec \<Rightarrow> nat" where
  "slots_per_eth1_voting_period spec = spec ''EPOCHS_PER_ETH1_VOTING_PERIOD'' * spec ''SLOTS_PER_EPOCH''"

definition compute_period :: "chain_spec \<Rightarrow> nat \<Rightarrow> ('e, nat) rust" where
  "compute_period spec slot =
     (if slots_per_eth1_voting_period spec = 0 then Panic ''ArithmeticError''
      else Ok (slot div slots_per_eth1_voting_period spec))"

definition voting_period_start_time :: "chain_spec \<Rightarrow> nat \<Rightarrow> ('e, nat) action" where
  "voting_period_start_time spec slot =
     bind_db fetch_genesis_time_bang (\<lambda>genesis_time.
     if slots_per_eth1_voting_period spec = 0 then lift (Panic ''ArithmeticError'')
     else
       let period_start_slot = slot - slot mod slots_per_eth1_voting_period spec
       in lift (Ok (genesis_time + period_start_slot * spec ''SECONDS_PER_SLOT'')))"

definition follow_time :: "chain_spec \<Rightarrow> nat" where
  "follow_time spec = spec ''SECONDS_PER_ETH1_BLOCK'' * spec ''ETH1_FOLLOW_DISTANCE''"

definition candidate_block :: "chain_spec \<Rightarrow> int \<Rightarrow> nat \<Rightarrow> bool" where
  "candidate_block spec time period_start \<longleftrightarrow>
     time + int (follow_time spec) \<le> int period_start \<and> time + int (follow_time spec) * 2 \<ge> int period_start"

definition drop_old_payloads ::
  "chain_spec \<Rightarrow> block_metadata list \<Rightarrow> nat \<Rightarrow> ('e, block_metadata list) action" where
  "drop_old_payloads spec chain slot =
     bind_db (voting_period_start_time spec slot) (\<lambda>period_start.
     let cutoff_time = int period_start - int (follow_time spec) * 2
     in lift (Ok (takeWhile (\<lambda>b. timestamp b \<ge> cutoff_time) chain)))"

section \<open>The tree of deposits\<close>

text \<open>
  A block that the execution client does not know is no error: the result \<open>{:ok, nil}\<close> does not match
  in the \<open>with\<close>, and is the result of the function.
\<close>

definition update_deposit_tree ::
  "hasher \<Rightarrow> 'e engine_api \<Rightarrow> execution_state \<Rightarrow> Eth1Data \<Rightarrow> ('e, deposit_tree option) action" where
  "update_deposit_tree H api state eth1_data =
     (if eth1_data = current_eth1_data state then lift (Ok (state_tree state))
      else
        let old_eth1_data = current_eth1_data state
        in bind_db (lift (get_block_metadata api (BlockHash (eth1_block_hash old_eth1_data)))) (\<lambda>old_block.
           case old_block of None \<Rightarrow> lift (Ok None) | Some old_block \<Rightarrow>
           bind_db (lift (get_block_metadata api (BlockHash (eth1_block_hash eth1_data)))) (\<lambda>new_block.
           case new_block of None \<Rightarrow> lift (Ok None) | Some new_block \<Rightarrow>
           bind_db (lift (get_deposit_logs api (block_number old_block) (block_number new_block))) (\<lambda>deposits.
           bind_db (lift (some_tree (state_tree state))) (\<lambda>tree.
           bind_db (lift (raising (finalize H tree old_eth1_data (block_number old_block)))) (\<lambda>deposit_tree.
           bind_db (lift (raising (get_snapshot H deposit_tree))) (\<lambda>snapshot.
           bind_db (persist_deposits_snapshot snapshot) (\<lambda>_.
           lift (map_ok Some
             (raising (update_tree_with_deposits H deposit_tree (map log_data deposits))))))))))))"

section \<open>Votes\<close>

definition Map_update :: "('k \<times> 'v) list \<Rightarrow> 'k \<Rightarrow> 'v \<Rightarrow> ('v \<Rightarrow> 'v) \<Rightarrow> ('k \<times> 'v) list" where
  "Map_update m key initial f =
     (case map_of m key of None \<Rightarrow> m @ [(key, initial)] | Some v \<Rightarrow> AList.update key (f v) m)"

definition has_majority :: "chain_spec \<Rightarrow> votes \<Rightarrow> Eth1Data \<Rightarrow> ('e, bool) rust" where
  "has_majority spec votes eth1_data =
     (case map_of votes eth1_data of
        None \<Rightarrow> Panic ''KeyError''
      | Some (n, _) \<Rightarrow> Ok (n * 2 > slots_per_eth1_voting_period spec))"

definition count_vote :: "votes \<Rightarrow> Eth1Data \<Rightarrow> votes" where
  "count_vote votes eth1_data =
     Map_update votes eth1_data (1, - int (length votes)) (\<lambda>(n, i). (n + 1, i))"

definition update_state_with_vote ::
  "hasher \<Rightarrow> chain_spec \<Rightarrow> 'e engine_api \<Rightarrow> execution_state \<Rightarrow> Eth1Data \<Rightarrow> ('e, execution_state) action" where
  "update_state_with_vote H spec api state eth1_data =
     (let new_state = state\<lparr>eth1_data_votes := count_vote (eth1_data_votes state) eth1_data\<rparr>
      in bind_db (lift (has_majority spec (eth1_data_votes new_state) eth1_data)) (\<lambda>majority.
         if majority then
           (\<lambda>db. case update_deposit_tree H api new_state eth1_data db of
              (Ok next_tree, db') \<Rightarrow>
                (Ok (new_state\<lparr>state_tree := next_tree, current_eth1_data := eth1_data\<rparr>), db')
            | (Err _, db') \<Rightarrow> (Ok new_state, db')
            | (Panic p, db') \<Rightarrow> (Panic p, db'))
         else lift (Ok new_state)))"

definition update_state_with_payload :: "execution_state \<Rightarrow> block_metadata \<Rightarrow> execution_state" where
  "update_state_with_payload state payload_info =
     state\<lparr>eth1_chain := payload_info # eth1_chain state\<rparr>"

definition prune_state :: "chain_spec \<Rightarrow> execution_state \<Rightarrow> nat \<Rightarrow> ('e, execution_state) action" where
  "prune_state spec state slot =
     bind_db (lift (compute_period spec slot)) (\<lambda>current_period.
     if current_period > last_period state then
       bind_db (drop_old_payloads spec (eth1_chain state) slot) (\<lambda>new_chain.
       lift (Ok (state\<lparr>eth1_data_votes := [], eth1_chain := new_chain, last_period := current_period\<rparr>)))
     else lift (Ok state))"

definition notify_new_block ::
  "hasher \<Rightarrow> chain_spec \<Rightarrow> 'e engine_api \<Rightarrow> nat \<Rightarrow> Eth1Data \<Rightarrow> block_metadata \<Rightarrow> ('e, unit) action" where
  "notify_new_block H spec api slot eth1_data payload_info =
     bind_db fetch_execution_state_bang (\<lambda>state.
     bind_db (prune_state spec state slot) (\<lambda>state.
     bind_db (update_state_with_vote H spec api (update_state_with_payload state payload_info) eth1_data)
       persist_execution_state))"

fun reduce_votes ::
  "hasher \<Rightarrow> chain_spec \<Rightarrow> 'e engine_api \<Rightarrow> Eth1Data list \<Rightarrow> execution_state \<Rightarrow> ('e, execution_state) action" where
  "reduce_votes H spec api [] state = lift (Ok state)"
| "reduce_votes H spec api (v # vs) state =
     bind_db (update_state_with_vote H spec api state v) (reduce_votes H spec api vs)"

definition init ::
  "hasher \<Rightarrow> chain_spec \<Rightarrow> 'e engine_api \<Rightarrow> DepositTreeSnapshot \<Rightarrow> Eth1Data list \<Rightarrow> ('e, unit) action" where
  "init H spec api snapshot eth1_votes =
     bind_db (lift (raising (from_snapshot snapshot))) (\<lambda>tree.
     bind_db
       (reduce_votes H spec api eth1_votes
          \<lparr>eth1_data_votes = [], eth1_chain = [], current_eth1_data = get_eth1_data snapshot,
           state_tree = Some tree, last_period = 0\<rparr>) (\<lambda>updated_state.
     bind_db (persist_deposits_snapshot snapshot) (\<lambda>_.
     persist_execution_state updated_state)))"

section \<open>Voting\<close>

definition block_eth1_data :: "hasher \<Rightarrow> block_metadata \<Rightarrow> deposit_tree \<Rightarrow> ('e, Eth1Data) rust" where
  "block_eth1_data H block tree =
     and_then (raising (get_root H tree)) (\<lambda>root.
     Ok \<lparr>eth1_deposit_root = root, eth1_deposit_count = deposit_count tree,
         eth1_block_hash = block_hash block\<rparr>)"

text \<open>The set of valid votes as a list, the tree after the last block, and the last valid vote.\<close>

fun get_valid_votes ::
  "hasher \<Rightarrow> block_metadata list \<Rightarrow> Eth1Data list \<times> deposit_tree option \<times> Eth1Data option \<Rightarrow>
   deposit_log list \<Rightarrow> Eth1Data \<Rightarrow> ('e, Eth1Data list \<times> deposit_tree option \<times> Eth1Data option) rust" where
  "get_valid_votes H [] acc new_deposits default_data = Ok acc"
| "get_valid_votes H (block # blocks) (votes, tree, last_eth1_data) new_deposits default_data =
     and_then (some_tree tree) (\<lambda>tree.
     and_then
       (raising (update_tree_with_deposits H tree
          (map log_data [d \<leftarrow> new_deposits. log_block_number d = block_number block]))) (\<lambda>next_tree.
     and_then (block_eth1_data H block next_tree) (\<lambda>data.
     get_valid_votes H blocks
       (if eth1_deposit_count data \<ge> eth1_deposit_count default_data
        then (List.insert data votes, Some next_tree, Some data)
        else (votes, Some next_tree, last_eth1_data))
       new_deposits default_data)))"

text \<open>
  \<open>Enum.max\<close> with a function that tells whether its first argument is to be kept, and the choice of a
  vote with it.
\<close>

fun enum_max :: "('a \<Rightarrow> 'a \<Rightarrow> bool) \<Rightarrow> 'a list \<Rightarrow> 'a option" where
  "enum_max keep [] = None"
| "enum_max keep (x # xs) = Some (foldl (\<lambda>acc y. if keep acc y then acc else y) x xs)"

fun preferred :: "Eth1Data \<times> nat \<times> int \<Rightarrow> Eth1Data \<times> nat \<times> int \<Rightarrow> bool" where
  "preferred (_, count1, dist1) (_, count2, dist2) \<longleftrightarrow>
     count1 > count2 \<or> count1 = count2 \<and> dist1 > dist2"

definition choose_vote :: "votes \<Rightarrow> Eth1Data list \<Rightarrow> Eth1Data \<Rightarrow> Eth1Data" where
  "choose_vote seen_votes valid_votes default_vote =
     (case enum_max preferred [v \<leftarrow> seen_votes. fst v \<in> set valid_votes] of
        None \<Rightarrow> default_vote
      | Some (eth1_data, _) \<Rightarrow> eth1_data)"

text \<open>
  The valid votes are returned in a tuple of three and matched against a tuple of two, which raises
  before \<open>choose_vote\<close> is reached.
\<close>

definition get_first_valid_vote ::
  "hasher \<Rightarrow> block_metadata list \<Rightarrow> votes \<Rightarrow> deposit_tree option \<Rightarrow> deposit_log list \<Rightarrow> Eth1Data \<Rightarrow>
   ('e, Eth1Data option) rust" where
  "get_first_valid_vote H blocks_to_consider seen_votes tree new_deposits default_data =
     and_then (get_valid_votes H blocks_to_consider ([], tree, None) new_deposits default_data)
       (\<lambda>(votes, tree, last_eth1_data). Panic ''MatchError'')"

definition blocks_to_consider :: "chain_spec \<Rightarrow> nat \<Rightarrow> block_metadata list \<Rightarrow> block_metadata list" where
  "blocks_to_consider spec period_start chain =
     rev [b \<leftarrow> chain. candidate_block spec (timestamp b) period_start]"

definition compute_eth1_vote ::
  "hasher \<Rightarrow> chain_spec \<Rightarrow> 'e engine_api \<Rightarrow> execution_state \<Rightarrow> nat \<Rightarrow> ('e, Eth1Data option) action" where
  "compute_eth1_vote H spec api state slot =
     (if eth1_data_votes state = [] then lift (Ok None)
      else if eth1_chain state = [] then lift (Ok None)
      else
        bind_db (voting_period_start_time spec slot) (\<lambda>period_start.
        let blocks = blocks_to_consider spec period_start (eth1_chain state)
        in if blocks = [] then lift (Err NoPayloads)
           else
             let numbers = map block_number blocks
             in bind_db (lift (get_deposit_logs api (Min (set numbers)) (Max (set numbers)))) (\<lambda>new_deposits.
                lift (get_first_valid_vote H blocks (eth1_data_votes state) (state_tree state) new_deposits
                        (current_eth1_data state)))))"

definition get_eth1_vote ::
  "hasher \<Rightarrow> chain_spec \<Rightarrow> 'e engine_api \<Rightarrow> nat \<Rightarrow> ('e, Eth1Data option) action" where
  "get_eth1_vote H spec api slot =
     bind_db fetch_execution_state_bang (\<lambda>state. compute_eth1_vote H spec api state slot)"

definition get_deposit_snapshot :: "hasher \<Rightarrow> ('e, DepositTreeSnapshot) action" where
  "get_deposit_snapshot H =
     bind_db fetch_execution_state_bang (\<lambda>state.
     bind_db (lift (some_tree (state_tree state))) (\<lambda>tree. lift (raising (get_snapshot H tree))))"

section \<open>Deposits of a block\<close>

text \<open>A range \<open>first..last//1\<close>.\<close>

type_synonym range = "nat \<times> int"

fun range_list :: "range \<Rightarrow> nat list" where
  "range_list (range_start, range_end) = [range_start..<nat (range_end + 1)]"

fun validate_range :: "Eth1Data \<Rightarrow> range \<Rightarrow> ('e exec_error, unit) rust" where
  "validate_range eth1_data (_, deposit_end) =
     (if deposit_end \<ge> int (eth1_deposit_count eth1_data) then Ok () else Err RangeOutOfBounds)"

definition compute_deposits ::
  "hasher \<Rightarrow> 'e engine_api \<Rightarrow> execution_state \<Rightarrow> Eth1Data \<Rightarrow> range \<Rightarrow> ('e, Deposit list) action" where
  "compute_deposits H api state eth1_data deposit_range =
     bind_db (lift (validate_range eth1_data deposit_range)) (\<lambda>_.
     bind_db (update_deposit_tree H api state eth1_data) (\<lambda>updated_tree.
     lift (collect (map (\<lambda>i.
       and_then (some_tree updated_tree) (\<lambda>tree. expect ''MatchError'' (get_deposit H tree i)))
       (range_list deposit_range)))))"

definition get_deposits ::
  "hasher \<Rightarrow> chain_spec \<Rightarrow> 'e engine_api \<Rightarrow> Eth1Data \<Rightarrow> Eth1Data \<Rightarrow> range \<Rightarrow> ('e, Deposit list) action" where
  "get_deposits H spec api head_eth1_data eth1_vote deposit_range =
     (if range_list deposit_range = [] then lift (Ok [])
      else
        bind_db fetch_execution_state_bang (\<lambda>state.
        let votes = eth1_data_votes state
        in bind_db
             (lift (if map_of votes eth1_vote \<noteq> None then has_majority spec votes eth1_vote else Ok False)) (\<lambda>majority.
           compute_deposits H api state (if majority then eth1_vote else head_eth1_data) deposit_range)))"

section \<open>The block builder\<close>

definition fetch_deposits ::
  "hasher \<Rightarrow> chain_spec \<Rightarrow> 'e engine_api \<Rightarrow> Eth1Data \<Rightarrow> nat \<Rightarrow> Eth1Data \<Rightarrow> ('e, Deposit list) action" where
  "fetch_deposits H spec api eth1_data range_start eth1_vote =
     (let processable_deposits = int (eth1_deposit_count eth1_data) - int range_start;
          range_end = min processable_deposits (int (spec ''MAX_DEPOSITS'')) + int range_start - 1
      in get_deposits H spec api eth1_data eth1_vote (range_start, range_end))"

text \<open>
  Errors are logged, at the level \<open>:info\<close> of \<open>config.exs\<close>, so that the text with the reason is
  always built; a reason that cannot be printed raises.
\<close>

definition fetch_eth1_data ::
  "('e \<Rightarrow> bool) \<Rightarrow> hasher \<Rightarrow> chain_spec \<Rightarrow> 'e engine_api \<Rightarrow> nat \<Rightarrow> Eth1Data \<Rightarrow> ('e, Eth1Data) action" where
  "fetch_eth1_data printable H spec api slot head_eth1_data db =
     (case get_eth1_vote H spec api slot db of
        (Err reason, db') \<Rightarrow> (map_ok (\<lambda>_. head_eth1_data) (interpolate printable reason), db')
      | (Ok None, db') \<Rightarrow> (Ok head_eth1_data, db')
      | (Ok (Some eth1_data), db') \<Rightarrow> (Ok eth1_data, db')
      | (Panic p, db') \<Rightarrow> (Panic p, db'))"

end
