(* ===== verification/Execution_Chain_Properties.thy ===== *)
theory Execution_Chain_Properties
  imports Execution_Chain
begin

text \<open>
  Properties of the execution chain: which votes are counted, the data elected has more votes than half
  of the slots of a period, old payloads that are dropped are never candidates again, and the tree
  of deposits grows by the logs fetched; and what becomes of a request for a vote, a request for
  deposits and a block that the execution client does not know.
\<close>

section \<open>Actions\<close>

lemma lift_apply [simp]: "lift r db = (r, db)"
  by (simp add: lift_def)

lemma bind_lift [simp]:
  "bind_db (lift (Ok a)) f db = f a db"
  "bind_db (lift (Err e)) f db = (Err e, db)"
  "bind_db (lift (Panic p)) f db = (Panic p, db)"
  by (simp_all add: bind_db_def)

lemma bind_db_eq_Ok:
  "bind_db m f db = (Ok b, db') \<longleftrightarrow> (\<exists>a db1. m db = (Ok a, db1) \<and> f a db1 = (Ok b, db'))"
  by (auto simp: bind_db_def split: prod.split rust.split)

lemma bind_db_step: "m db = (Ok a, db') \<Longrightarrow> bind_db m f db = f a db'"
  by (simp add: bind_db_def)

lemma raising_simps [simp]: "raising (Ok a) = Ok a" "raising (Panic p) = Panic p" "raising r \<noteq> Err e"
  "raising r = Ok b \<longleftrightarrow> r = Ok b"
  by (simp_all add: raising_def)

lemma some_tree_simps [simp]:
  "some_tree (Some t) = Ok t" "some_tree None = Panic ''FunctionClauseError''" "some_tree r \<noteq> Err e"
  by (simp_all add: some_tree_def split: option.split)

lemma fetch_state [simp]:
  "execution_db db = Some s \<Longrightarrow> bind_db fetch_execution_state_bang f db = f s db"
  by (simp add: bind_db_def fetch_execution_state_bang_def)

section \<open>Counting votes\<close>

text \<open>
  The votes of a period in the order they came, and the table they make: each data voted for with
  its number of votes, in the order of the first votes.
\<close>

definition firsts :: "'a list \<Rightarrow> 'a list" where
  "firsts vs = rev (remdups (rev vs))"

definition tally :: "Eth1Data list \<Rightarrow> votes" where
  "tally vs = map (\<lambda>(i, v). (v, count_list vs v, - int i)) (enumerate 0 (firsts vs))"

lemma firsts_simps [simp]: "firsts [] = []" "set (firsts vs) = set vs" "distinct (firsts vs)"
  by (simp_all add: firsts_def)

lemma firsts_snoc: "firsts (vs @ [v]) = (if v \<in> set vs then firsts vs else firsts vs @ [v])"
  by (simp add: firsts_def)

lemma tally_keys [simp]: "map fst (tally vs) = firsts vs"
  by (simp add: tally_def comp_def case_prod_unfold)

lemma tally_simps [simp]: "tally [] = []" "length (tally vs) = length (firsts vs)" "tally vs = [] \<longleftrightarrow> vs = []"
proof -
  show "tally vs = [] \<longleftrightarrow> vs = []" using tally_keys [of vs] firsts_simps(2) [of vs]
    by (metis list.map_disc_iff set_empty)
qed (simp_all add: tally_def)

lemma map_of_tally_None: "map_of (tally vs) v = None \<longleftrightarrow> v \<notin> set vs"
  using arg_cong [OF tally_keys [of vs], of set] by (simp add: map_of_eq_None_iff del: tally_keys)

lemma map_of_tally: "v \<in> set vs \<Longrightarrow> \<exists>i. map_of (tally vs) v = Some (count_list vs v, i)"
proof -
  assume "v \<in> set vs"
  then obtain p where "map_of (tally vs) v = Some p" using map_of_tally_None [of vs v] by auto
  moreover from map_of_SomeD [OF this] have "fst p = count_list vs v" by (auto simp: tally_def)
  ultimately show ?thesis by (cases p) auto
qed

lemma update_present:
  "distinct (map fst m) \<Longrightarrow> map_of m k = Some x \<Longrightarrow>
    AList.update k (f x) m = map (\<lambda>(a, b). (a, if a = k then f b else b)) m"
  by (induction m) (force intro!: map_idI [symmetric] split: if_splits)+

lemma count_vote_tally: "count_vote (tally vs) v = tally (vs @ [v])"
proof (cases "v \<in> set vs")
  case True
  then obtain p where p: "map_of (tally vs) v = Some p" using map_of_tally by blast
  have "AList.update v ((\<lambda>(n, i). (n + 1, i)) p) (tally vs) =
      map (\<lambda>(a, b). (a, if a = v then (\<lambda>(n, i). (n + 1, i)) b else b)) (tally vs)"
    by (rule update_present) (simp_all add: p)
  also have "\<dots> = tally (vs @ [v])"
    using True by (simp add: tally_def firsts_snoc case_prod_unfold comp_def cong: if_cong)
  finally show ?thesis by (simp add: count_vote_def Map_update_def p)
next
  case False
  then have "map_of (tally vs) v = None" by (simp add: map_of_tally_None)
  moreover have "v \<noteq> w" if "(i, w) \<in> set (enumerate 0 (firsts vs))" for i w
    using False that set_zip_rightD [of i w] by (fastforce simp: enumerate_eq_zip)
  ultimately show ?thesis
    using False by (auto simp: count_vote_def Map_update_def tally_def firsts_snoc enumerate_append_eq)
qed

section \<open>Simulations\<close>

text \<open>Steps in a row, and what a step keeps of a relation with an abstract state.\<close>

fun steps :: "('n \<Rightarrow> 's \<Rightarrow> 's \<Rightarrow> bool) \<Rightarrow> 'n list \<Rightarrow> 's \<Rightarrow> 's \<Rightarrow> bool" where
  "steps step [] s s' \<longleftrightarrow> s = s'"
| "steps step (n # ns) s s' \<longleftrightarrow> (\<exists>t. step n s t \<and> steps step ns t s')"

locale simulation =
  fixes step :: "'n \<Rightarrow> 's \<Rightarrow> 's \<Rightarrow> bool"
    and abstract_step :: "'n \<Rightarrow> 'a \<Rightarrow> 'a"
    and related :: "'s \<Rightarrow> 'a \<Rightarrow> bool"
  assumes simulates: "related s l \<Longrightarrow> step n s s' \<Longrightarrow> related s' (abstract_step n l)"
begin

lemma steps_simulate: "related s l \<Longrightarrow> steps step ns s s' \<Longrightarrow> related s' (fold abstract_step ns l)"
  by (induction ns arbitrary: s l) (auto dest: simulates)

end

section \<open>The votes of a period\<close>

text \<open>What is to be remembered of the votes: the period and the votes cast in it.\<close>

record ledger =
  voting_period :: nat
  ballots :: "Eth1Data list"

definition cast_ballot :: "chain_spec \<Rightarrow> nat \<times> Eth1Data \<times> block_metadata \<Rightarrow> ledger \<Rightarrow> ledger" where
  "cast_ballot spec = (\<lambda>(slot, eth1_data, _) l.
     let p = slot div slots_per_eth1_voting_period spec
     in if p > voting_period l then \<lparr>voting_period = p, ballots = [eth1_data]\<rparr>
        else l\<lparr>ballots := ballots l @ [eth1_data]\<rparr>)"

definition counts :: "execution_state \<Rightarrow> ledger \<Rightarrow> bool" where
  "counts s l \<longleftrightarrow> eth1_data_votes s = tally (ballots l) \<and> last_period s = voting_period l"

fun notify_all ::
  "hasher \<Rightarrow> chain_spec \<Rightarrow> 'e engine_api \<Rightarrow> (nat \<times> Eth1Data \<times> block_metadata) list \<Rightarrow> ('e, unit) action" where
  "notify_all H spec api [] = lift (Ok ())"
| "notify_all H spec api ((slot, eth1_data, payload) # ns) =
     bind_db (notify_new_block H spec api slot eth1_data payload) (\<lambda>_. notify_all H spec api ns)"

lemma vote_step:
  assumes "update_state_with_vote H spec api s v db = (Ok s', db')"
  shows "eth1_data_votes s' = count_vote (eth1_data_votes s) v" and "last_period s' = last_period s"
    and "eth1_chain s' = eth1_chain s"
    and "current_eth1_data s' = current_eth1_data s \<or>
      current_eth1_data s' = v \<and> has_majority spec (eth1_data_votes s') v = (Ok True :: ('e, bool) rust)"
  using assms
  by (auto simp: update_state_with_vote_def Let_def bind_db_eq_Ok has_majority_def
      split: if_splits prod.splits rust.splits option.splits)

lemma prune_step:
  assumes "prune_state spec s slot db = (Ok s', db')"
  shows "db' = db" and "0 < slots_per_eth1_voting_period spec" and "current_eth1_data s' = current_eth1_data s"
    and "state_tree s' = state_tree s"
    and "last_period s' = max (last_period s) (slot div slots_per_eth1_voting_period spec)"
    and "eth1_data_votes s' = (if slot div slots_per_eth1_voting_period spec > last_period s then [] else eth1_data_votes s)"
  using assms
  by (auto simp: prune_state_def compute_period_def Let_def bind_db_eq_Ok drop_old_payloads_def
      voting_period_start_time_def fetch_genesis_time_bang_def
      split: if_splits prod.splits rust.splits option.splits)

lemma notify_step:
  fixes api :: "'e engine_api"
  assumes "notify_new_block H spec api slot v payload db = (Ok (), db')"
  obtains s s1 s' db1 where "execution_db db = Some s"
    "(prune_state spec s slot :: ('e, execution_state) action) db = (Ok s1, db)"
    "update_state_with_vote H spec api (update_state_with_payload s1 payload) v db = (Ok s', db1)"
    "db' = db1\<lparr>execution_db := Some s'\<rparr>"
proof -
  obtain s where s: "execution_db db = Some s"
    using assms by (auto simp: notify_new_block_def bind_db_eq_Ok fetch_execution_state_bang_def split: option.splits)
  with assms obtain s1 db0 s' db1 where step:
    "(prune_state spec s slot :: ('e, execution_state) action) db = (Ok s1, db0)"
    "update_state_with_vote H spec api (update_state_with_payload s1 payload) v db0 = (Ok s', db1)"
    "db' = db1\<lparr>execution_db := Some s'\<rparr>"
    by (auto simp: notify_new_block_def bind_db_eq_Ok persist_execution_state_def)
  with that s prune_step(1) [OF step(1)] show thesis by simp
qed


lemma vote_counts:
  assumes "counts s l" and "update_state_with_vote H spec api s v db = (Ok s', db')"
  shows "counts s' (l\<lparr>ballots := ballots l @ [v]\<rparr>)"
  using assms(1) vote_step(1,2) [OF assms(2)] by (simp add: counts_def count_vote_tally)

lemma notify_counts:
  assumes "execution_db db = Some s" and "counts s l"
    and "notify_new_block H spec api slot v payload db = (Ok (), db')"
  shows "\<exists>s'. execution_db db' = Some s' \<and> counts s' (cast_ballot spec (slot, v, payload) l)"
proof -
  obtain s1 s' db1 where step: "prune_state spec s slot db = (Ok s1 :: ('a exec_error, execution_state) rust, db)"
    "update_state_with_vote H spec api (update_state_with_payload s1 payload) v db = (Ok s', db1)"
    "db' = db1\<lparr>execution_db := Some s'\<rparr>"
    using notify_step [OF assms(3)] assms(1) by (metis option.inject)
  let ?p = "slot div slots_per_eth1_voting_period spec"
  define l1 where "l1 = (if ?p > voting_period l then \<lparr>voting_period = ?p, ballots = []\<rparr> else l)"
  have "counts (update_state_with_payload s1 payload) l1"
    using assms(2) prune_step(5,6) [OF step(1)] by (auto simp: counts_def l1_def update_state_with_payload_def)
  moreover have "l1\<lparr>ballots := ballots l1 @ [v]\<rparr> = cast_ballot spec (slot, v, payload) l"
    by (simp add: l1_def cast_ballot_def Let_def)
  ultimately show ?thesis using vote_counts [OF _ step(2), of l1] step(3) by simp
qed

lemma notify_all_steps:
  "notify_all H spec api ns db = (Ok (), db') \<longleftrightarrow>
    steps (\<lambda>(slot, v, payload) db db'. notify_new_block H spec api slot v payload db = (Ok (), db')) ns db db'"
  by (induction ns arbitrary: db) (auto simp: bind_db_eq_Ok)

lemma reduce_votes_steps:
  "reduce_votes H spec api vs s db = (Ok s', db') \<longleftrightarrow>
    steps (\<lambda>v (s, db) (s', db'). update_state_with_vote H spec api s v db = (Ok s', db')) vs (s, db) (s', db')"
  by (induction vs arbitrary: s db) (auto simp: bind_db_eq_Ok)

lemma notify_all_append:
  "notify_all H spec api ns db = (Ok (), db') \<Longrightarrow>
    notify_all H spec api (ns @ ms) db = notify_all H spec api ms db'"
  by (induction ns arbitrary: db) (auto simp: bind_db_eq_Ok bind_db_def split: prod.splits rust.splits)

interpretation blocks: simulation
  "\<lambda>(slot, v, payload) db db'. notify_new_block H spec api slot v payload db = (Ok (), db')" "cast_ballot spec"
  "\<lambda>db l. \<exists>s. execution_db db = Some s \<and> counts s l" for H spec api
  by unfold_locales (auto dest: notify_counts)

interpretation ballots: simulation
  "\<lambda>v (s, db) (s', db'). update_state_with_vote H spec api s v db = (Ok s', db')"
  "\<lambda>v l. l\<lparr>ballots := ballots l @ [v]\<rparr>" "\<lambda>(s, db) l. counts s l" for H spec api
  by unfold_locales (auto intro: vote_counts)

lemma notify_all_counts:
  assumes "execution_db db = Some s" and "counts s l" and "notify_all H spec api ns db = (Ok (), db')"
  shows "\<exists>s'. execution_db db' = Some s' \<and> counts s' (fold (cast_ballot spec) ns l)"
  using blocks.steps_simulate [of db l H spec api ns db'] assms by (auto simp: notify_all_steps)

lemma reduce_votes_counts:
  assumes "counts s l" and "reduce_votes H spec api vs s db = (Ok s', db')"
  shows "counts s' (l\<lparr>ballots := ballots l @ vs\<rparr>)"
proof -
  have "fold (\<lambda>v l. l\<lparr>ballots := ballots l @ [v]\<rparr>) vs l = l\<lparr>ballots := ballots l @ vs\<rparr>"
    by (induction vs arbitrary: l) simp_all
  with ballots.steps_simulate [of "(s, db)" l H spec api vs "(s', db')"] assms show ?thesis
    by (simp add: reduce_votes_steps)
qed

lemma init_counts:
  assumes "init H spec api snapshot votes db = (Ok (), db')"
  shows "\<exists>s. execution_db db' = Some s \<and> counts s \<lparr>voting_period = 0, ballots = votes\<rparr>"
proof -
  let ?s = "\<lambda>tree. \<lparr>eth1_data_votes = [], eth1_chain = [], current_eth1_data = get_eth1_data snapshot,
    state_tree = Some tree, last_period = 0\<rparr>"
  from assms obtain tree s db1 where step: "reduce_votes H spec api votes (?s tree) db = (Ok s, db1)"
    "execution_db db' = Some s"
    by (fastforce simp: init_def bind_db_eq_Ok persist_execution_state_def)
  have "counts (?s tree) \<lparr>voting_period = 0, ballots = []\<rparr>" by (simp add: counts_def)
  from reduce_votes_counts [OF this step(1)] step(2) show ?thesis by simp
qed

text \<open>
  The same votes read off the whole sequence of blocks. A block opens a voting period when its period is
  later than period 0, in which the chain starts, and than those of all blocks before it. The votes
  counted are those from the last such block on; when there is none, the votes that were
  given at the start are counted as well.
\<close>

type_synonym notification = "nat \<times> Eth1Data \<times> block_metadata"

definition period_of :: "chain_spec \<Rightarrow> notification \<Rightarrow> nat" where
  "period_of spec n = fst n div slots_per_eth1_voting_period spec"

definition vote_of :: "notification \<Rightarrow> Eth1Data" where
  "vote_of n = fst (snd n)"

definition opens_period :: "chain_spec \<Rightarrow> notification list \<Rightarrow> nat \<Rightarrow> bool" where
  "opens_period spec ns i \<longleftrightarrow>
     0 < period_of spec (ns ! i) \<and> (\<forall>j < i. period_of spec (ns ! j) < period_of spec (ns ! i))"

definition counted_votes :: "chain_spec \<Rightarrow> Eth1Data list \<Rightarrow> notification list \<Rightarrow> Eth1Data list" where
  "counted_votes spec votes ns =
     (let openings = [i \<leftarrow> [0..<length ns]. opens_period spec ns i]
      in if openings = [] then votes @ map vote_of ns else map vote_of (drop (List.last openings) ns))"

lemma opens_period_append [simp]: "i < length ns \<Longrightarrow> opens_period spec (ns @ ms) i = opens_period spec ns i"
  by (auto simp: opens_period_def nth_append)

lemma openings_snoc:
  "[i \<leftarrow> [0..<length (ns @ [n])]. opens_period spec (ns @ [n]) i] =
    [i \<leftarrow> [0..<length ns]. opens_period spec ns i] @ (if opens_period spec (ns @ [n]) (length ns) then [length ns] else [])"
  by (auto intro: filter_cong)

definition latest_period :: "chain_spec \<Rightarrow> notification list \<Rightarrow> nat" where
  "latest_period spec ns = Max (insert 0 (period_of spec ` set ns))"

lemma latest_period_snoc: "latest_period spec (ns @ [n]) = max (period_of spec n) (latest_period spec ns)"
proof -
  have "insert 0 (period_of spec ` set (ns @ [n])) = insert (period_of spec n) (insert 0 (period_of spec ` set ns))"
    by auto
  then show ?thesis
    unfolding latest_period_def by (metis Max_insert finite_imageI finite_insert finite_set insert_not_empty)
qed

lemma opens_period_latest:
  "opens_period spec (ns @ [n]) (length ns) \<longleftrightarrow> latest_period spec ns < period_of spec n"
  by (auto simp: opens_period_def latest_period_def nth_append all_set_conv_all_nth)

lemma cast_ballot_period:
  "cast_ballot spec n l =
    (if period_of spec n > voting_period l then \<lparr>voting_period = period_of spec n, ballots = [vote_of n]\<rparr>
     else l\<lparr>ballots := ballots l @ [vote_of n]\<rparr>)"
  by (cases n) (simp add: cast_ballot_def period_of_def vote_of_def Let_def)

lemma counted_votes_snoc:
  "counted_votes spec votes (ns @ [n]) =
    (if latest_period spec ns < period_of spec n then [vote_of n] else counted_votes spec votes ns @ [vote_of n])"
proof (cases "[i \<leftarrow> [0..<length ns]. opens_period spec ns i] = []")
  case False
  then have "List.last [i \<leftarrow> [0..<length ns]. opens_period spec ns i] < length ns"
    using last_in_set [OF False] by auto
  with False show ?thesis unfolding counted_votes_def openings_snoc opens_period_latest by (auto simp: Let_def)
qed (simp add: counted_votes_def openings_snoc opens_period_latest Let_def del: length_append)

lemma cast_ballots:
  "fold (cast_ballot spec) ns \<lparr>voting_period = 0, ballots = votes\<rparr> =
    \<lparr>voting_period = latest_period spec ns, ballots = counted_votes spec votes ns\<rparr>"
proof (induction ns rule: rev_induct)
  case Nil
  then show ?case by (simp add: counted_votes_def latest_period_def)
next
  case (snoc n ns)
  then show ?case by (simp add: cast_ballot_period counted_votes_snoc latest_period_snoc max_def)
qed

text \<open>With the blocks in the order of their periods, the votes counted are those of the last period.\<close>

lemma counted_votes_sorted:
  assumes "ns \<noteq> []" and "sorted (map (period_of spec) ns)"
  shows "latest_period spec ns = period_of spec (List.last ns) \<and>
    counted_votes spec votes ns = (if latest_period spec ns = 0 then votes else []) @
      map vote_of [n \<leftarrow> ns. period_of spec n = latest_period spec ns]"
  using assms
proof (induction ns rule: rev_induct)
  case (snoc n ns)
  let ?p = "latest_period spec ns"
  have each: "period_of spec m \<le> ?p" if "m \<in> set ns" for m
    using that by (simp add: latest_period_def)
  have "?p \<le> period_of spec n" using snoc.prems by (auto simp: latest_period_def sorted_append)
  moreover have "[m \<leftarrow> ns. period_of spec m = period_of spec n] = []" if "?p < period_of spec n"
    using each that by (force simp: filter_empty_conv)
  moreover have "counted_votes spec votes ns = (if ?p = 0 then votes else []) @
      map vote_of [m \<leftarrow> ns. period_of spec m = ?p]"
    using snoc.IH snoc.prems(2) by (cases "ns = []") (auto simp: sorted_append counted_votes_def latest_period_def)
  ultimately show ?case by (auto simp: counted_votes_snoc latest_period_snoc max_def)
qed simp

lemma chain_counts:
  assumes "init H spec api snapshot votes db = (Ok (), db1)" and "notify_all H spec api ns db1 = (Ok (), db2)"
  shows "\<exists>s. execution_db db2 = Some s \<and> eth1_data_votes s = tally (counted_votes spec votes ns) \<and>
    last_period s = latest_period spec ns"
  using init_counts [OF assms(1)] notify_all_counts [OF _ _ assms(2)] unfolding counts_def
  by (metis cast_ballots ledger.select_convs)

text \<open>
  C9: After the start and blocks that come in the order of their voting periods, the table of votes is the
  count of exactly the votes of the blocks in the period of the last one, with the positions in which the data
  were first voted for. The votes given at the start are counted only as long as that is period 0.
  What the execution client answers does not matter, as long as no call fails.
\<close>

theorem votes_counted:
  assumes "init H spec api snapshot votes db = (Ok (), db1)" and "notify_all H spec api ns db1 = (Ok (), db2)"
    and "ns \<noteq> []" and "sorted (map (period_of spec) ns)" and "p = period_of spec (List.last ns)"
  shows "\<exists>s. execution_db db2 = Some s \<and> last_period s = p \<and>
    eth1_data_votes s = tally ((if p = 0 then votes else []) @ map vote_of [n \<leftarrow> ns. period_of spec n = p])"
  using chain_counts [OF assms(1,2)] counted_votes_sorted [OF assms(3,4), of votes] assms(5) by metis

section \<open>The data elected\<close>

lemma count_list_two: "v \<noteq> w \<Longrightarrow> count_list xs v + count_list xs w \<le> length xs"
  by (induction xs) auto

lemma has_majority_tally:
  "has_majority spec (tally vs) v = (Ok True :: ('e, bool) rust) \<Longrightarrow>
    slots_per_eth1_voting_period spec < 2 * count_list vs v"
  using map_of_tally_None [of vs v] map_of_tally [of v vs]
  by (fastforce simp: has_majority_def split: option.splits)

text \<open>
  C17: The current Eth1 data changes only to the data that the block votes for, and only when it has, among
  the votes since the block that opened the latest period, more votes than half of the slots of a
  period. When those are no more votes than the period has slots, no other data has as many; the code does
  not ensure that, since a head that is computed again is notified again and its vote counted again.
\<close>

theorem eth1_data_elected:
  assumes "init H spec api snapshot votes db = (Ok (), db1)" and "notify_all H spec api ns db1 = (Ok (), db2)"
    and "notify_new_block H spec api slot v payload db2 = (Ok (), db3)"
    and "execution_db db2 = Some s" and "execution_db db3 = Some s'"
    and "current_eth1_data s' \<noteq> current_eth1_data s"
    and "bs = counted_votes spec votes (ns @ [(slot, v, payload)])"
  shows "current_eth1_data s' = v \<and> slots_per_eth1_voting_period spec < 2 * count_list bs v \<and>
    (length bs \<le> slots_per_eth1_voting_period spec \<longrightarrow>
      (\<forall>w. w \<noteq> v \<longrightarrow> 2 * count_list bs w \<le> slots_per_eth1_voting_period spec))"
proof -
  have "notify_all H spec api (ns @ [(slot, v, payload)]) db1 = (Ok (), db3)"
    using assms(2,3) by (simp add: notify_all_append bind_db_def)
  from chain_counts [OF assms(1) this] assms(5,7) have table: "eth1_data_votes s' = tally bs" by simp
  obtain s1 s'' db4 where step: "prune_state spec s slot db2 = (Ok s1 :: ('a exec_error, execution_state) rust, db2)"
    "update_state_with_vote H spec api (update_state_with_payload s1 payload) v db2 = (Ok s'', db4)"
    "db3 = db4\<lparr>execution_db := Some s''\<rparr>"
    using notify_step [OF assms(3)] assms(4) by (metis option.inject)
  have "current_eth1_data s' = v" and "has_majority spec (tally bs) v = (Ok True :: (unit, bool) rust)"
    using vote_step(4) [OF step(2), where 'e = unit] step(3) assms(5,6) prune_step(3) [OF step(1)] table
    by (auto simp: update_state_with_payload_def)
  moreover have "count_list bs v + count_list bs w \<le> length bs" if "w \<noteq> v" for w
    using count_list_two [of v w bs] that by simp
  ultimately show ?thesis using has_majority_tally [of spec bs v] by fastforce
qed

section \<open>Old payloads\<close>

lemma takeWhile_filter_sorted:
  fixes f :: "'a \<Rightarrow> int"
  assumes "sorted_wrt (\<lambda>a b. f b \<le> f a) xs" and "\<And>x. P x \<Longrightarrow> c \<le> f x"
  shows "filter P (takeWhile (\<lambda>x. c \<le> f x) xs) = filter P xs"
  using assms(1)
proof (induction xs)
  case (Cons x xs)
  have "filter P xs = []" if "\<not> c \<le> f x" using Cons.prems assms(2) that by (force simp: filter_empty_conv)
  with Cons assms(2) show ?case by auto
qed simp

lemma period_start_mono: "slot \<le> slot' \<Longrightarrow> slot - slot mod p \<le> slot' - slot' mod (p :: nat)"
  by (simp add: minus_mod_eq_mult_div div_le_mono)

text \<open>
  C23: The payloads that are dropped at the start of a voting period are no candidates of that period
  or of a later one, when the payloads are in the order of their times, the newest first.
\<close>

theorem dropped_payloads_no_candidates:
  assumes "prune_state spec s slot db = (Ok s' :: ('e exec_error, execution_state) rust, db')" and "slot \<le> slot'"
    and "sorted_wrt (\<lambda>a b. timestamp b \<le> timestamp a) (eth1_chain s)"
    and "voting_period_start_time spec slot' db = (Ok start :: ('e exec_error, nat) rust, db'')"
  shows "blocks_to_consider spec start (eth1_chain s') = blocks_to_consider spec start (eth1_chain s)"
proof (cases "slot div slots_per_eth1_voting_period spec > last_period s")
  case True
  let ?P = "slots_per_eth1_voting_period spec"
  from assms(4) obtain g where g: "genesis_db db = Some g" "0 < ?P"
    "start = g + (slot' - slot' mod ?P) * spec ''SECONDS_PER_SLOT''"
    by (auto simp: voting_period_start_time_def bind_db_eq_Ok fetch_genesis_time_bang_def Let_def
        split: option.splits if_splits)
  let ?start = "g + (slot - slot mod ?P) * spec ''SECONDS_PER_SLOT''"
  have le: "?start \<le> start" using g(3) period_start_mono [OF assms(2), of ?P] by simp
  define cutoff where "cutoff = int ?start - int (follow_time spec) * 2"
  have "eth1_chain s' = takeWhile (\<lambda>b. cutoff \<le> timestamp b) (eth1_chain s)"
    using assms(1) True g(1,2)
    by (auto simp: prune_state_def compute_period_def bind_db_eq_Ok drop_old_payloads_def Let_def cutoff_def
        voting_period_start_time_def fetch_genesis_time_bang_def split: if_splits)
  moreover have "cutoff \<le> timestamp b" if "candidate_block spec (timestamp b) start" for b :: block_metadata
    using that le by (simp add: candidate_block_def cutoff_def del: of_nat_add of_nat_diff of_nat_mult)
  ultimately show ?thesis
    using takeWhile_filter_sorted [OF assms(3), of "\<lambda>b. candidate_block spec (timestamp b) start" cutoff]
    by (simp add: blocks_to_consider_def)
next
  case False
  with assms(1) have "s' = s" by (auto simp: prune_state_def compute_period_def bind_db_eq_Ok split: if_splits)
  then show ?thesis by simp
qed

section \<open>Asking for a vote\<close>

lemma get_valid_votes_no_error: "get_valid_votes H blocks acc deposits d \<noteq> Err e"
  by (induction H blocks acc deposits d rule: get_valid_votes.induct)
    (auto simp: and_then_eq_Err block_eth1_data_def)

lemma get_first_valid_vote_raises: "\<exists>m. get_first_valid_vote H blocks votes tree deposits d = (Panic m :: ('e, _) rust)"
proof (cases "get_valid_votes H blocks ([], tree, None) deposits d :: ('e, _) rust")
  case (Err e)
  with get_valid_votes_no_error [of H blocks "([], tree, None)" deposits d e] show ?thesis by simp
qed (auto simp: get_first_valid_vote_def)

text \<open>
  C29: The block builder never votes for anything but the data of the head state: it returns them or
  raises. It raises exactly when votes were seen, there are payloads to consider, and the request for
  their logs does not end in an error with a reason that can be printed, that is when it returns logs,
  raises itself, or ends in an error whose reason cannot be printed.
\<close>

theorem eth1_vote_never_new:
  assumes "execution_db db = Some s" and "genesis_db db = Some g"
    and "P = slots_per_eth1_voting_period spec" and "0 < P"
    and "blocks = blocks_to_consider spec (g + (slot - slot mod P) * spec ''SECONDS_PER_SLOT'') (eth1_chain s)"
    and "logs = get_deposit_logs api (Min (set (map block_number blocks))) (Max (set (map block_number blocks)))"
  shows "if eth1_data_votes s \<noteq> [] \<and> blocks \<noteq> [] \<and> \<not> (\<exists>e. logs = Err e \<and> interpolate printable e = Ok ())
    then panics (fst (fetch_eth1_data printable H spec api slot head_data db))
    else fetch_eth1_data printable H spec api slot head_data db = (Ok head_data, db)"
proof -
  have chain: "eth1_chain s \<noteq> []" if "blocks \<noteq> []" using that assms(5) by (auto simp: blocks_to_consider_def)
  have start: "(voting_period_start_time spec slot :: ('a, nat) action) db =
      (Ok (g + (slot - slot mod P) * spec ''SECONDS_PER_SLOT''), db)"
    using assms(2-4) by (simp add: voting_period_start_time_def bind_db_def fetch_genesis_time_bang_def Let_def)
  have vote: "get_eth1_vote H spec api slot db =
      (if eth1_data_votes s = [] \<or> eth1_chain s = [] then (Ok None, db)
       else if blocks = [] then (Err NoPayloads, db)
       else bind_db (lift logs) (\<lambda>new_deposits.
         lift (get_first_valid_vote H blocks (eth1_data_votes s) (state_tree s) new_deposits (current_eth1_data s))) db)"
    using assms(1) by (simp add: get_eth1_vote_def compute_eth1_vote_def bind_db_step [of "voting_period_start_time spec slot", OF start] Let_def
        assms(5) [symmetric] assms(6))
  show ?thesis
  proof (cases logs)
    case (Ok ds)
    obtain m where "get_first_valid_vote H blocks (eth1_data_votes s) (state_tree s) ds (current_eth1_data s) =
        (Panic m :: ('a exec_error, Eth1Data option) rust)" using get_first_valid_vote_raises by blast
    with Ok chain show ?thesis by (auto simp: fetch_eth1_data_def vote)
  next
    case (Err e)
    with chain show ?thesis
      by (cases "interpolate printable e") (auto simp: fetch_eth1_data_def vote interpolate_no_error)
  qed (use chain in \<open>auto simp: fetch_eth1_data_def vote\<close>)
qed

section \<open>Choosing a vote\<close>

text \<open>The choice that follows the match that fails, on the table of votes in whatever order it is read.\<close>

lemma foldl_keep:
  assumes "\<And>x y z. keep x y \<Longrightarrow> keep y z \<Longrightarrow> keep x z"
    and "\<forall>x \<in> S. \<forall>y \<in> S. x = y \<or> keep x y \<or> keep y x"
    and "set (a # xs) \<subseteq> S" and "b = foldl (\<lambda>acc y. if keep acc y then acc else y) a xs"
  shows "b \<in> set (a # xs) \<and> (\<forall>x \<in> set (a # xs). x = b \<or> keep b x)"
  using assms(3,4)
proof (induction xs arbitrary: a)
  case (Cons c xs)
  let ?a = "if keep a c then a else c"
  have "b \<in> set (?a # xs) \<and> (\<forall>x \<in> set (?a # xs). x = b \<or> keep b x)"
    by (rule Cons.IH) (use Cons.prems in auto)
  moreover have "a = c \<or> keep a c \<or> keep c a" using Cons.prems(1) assms(2) by auto
  ultimately show ?case using assms(1) by (cases "keep a c") auto
qed simp

lemma preferred_trans: "preferred p q \<Longrightarrow> preferred q r \<Longrightarrow> preferred p r"
  by (cases p; cases q; cases r) auto

lemma tally_positions:
  assumes "(v, c, - int i) \<in> set (tally vs)"
  shows "i < length (firsts vs)" and "firsts vs ! i = v" and "c = count_list vs v"
  using assms by (auto simp: tally_def in_set_enumerate_eq)

lemma tally_entry:
  assumes "p \<in> set (tally vs)"
  obtains v c i where "p = (v, c, - int i)"
  using assms by (auto simp: tally_def)

text \<open>
  Of the votes seen that are valid, the one chosen has the most votes, and the one first voted for
  among those with as many; the default is chosen only when no vote seen is valid. The order in which
  the table is read does not matter.
\<close>

theorem most_voted_chosen:
  assumes "set table = set (tally vs)"
  shows "if set vs \<inter> set valid = {} then choose_vote table valid d = d
    else choose_vote table valid d \<in> set vs \<inter> set valid \<and>
      (\<forall>w \<in> set vs \<inter> set valid. w \<noteq> choose_vote table valid d \<longrightarrow>
        count_list vs w < count_list vs (choose_vote table valid d) \<or>
        count_list vs w = count_list vs (choose_vote table valid d) \<and>
        (\<exists>i j. i < j \<and> j < length (firsts vs) \<and> firsts vs ! i = choose_vote table valid d \<and> firsts vs ! j = w))"
proof -
  define seen where "seen = [v \<leftarrow> table. fst v \<in> set valid]"
  have keys: "fst ` set seen = set vs \<inter> set valid"
    using assms arg_cong [OF tally_keys [of vs], of set] by (force simp: seen_def simp del: tally_keys)
  show ?thesis
  proof (cases seen)
    case Nil
    with keys show ?thesis by (simp add: choose_vote_def seen_def [symmetric])
  next
    case (Cons a xs)
    define best where "best = foldl (\<lambda>acc y. if preferred acc y then acc else y) a xs"
    have entries: "p \<in> set (tally vs)" if "p \<in> set seen" for p using that assms by (simp add: seen_def)
    have "p = q \<or> preferred p q \<or> preferred q p" if p: "p \<in> set seen" and q: "q \<in> set seen" for p q
    proof -
      obtain v c i where "p = (v, c, - int i)" using tally_entry [OF entries [OF p]] .
      moreover obtain w c' j where "q = (w, c', - int j)" using tally_entry [OF entries [OF q]] .
      ultimately show ?thesis
        using tally_positions [of v c i vs] tally_positions [of w c' j vs] entries [OF p] entries [OF q]
        by (cases "i = j") auto
    qed
    then have total: "\<forall>p \<in> set seen. \<forall>q \<in> set seen. p = q \<or> preferred p q \<or> preferred q p" by blast
    have best: "best \<in> set seen" "\<forall>p \<in> set seen. p = best \<or> preferred best p"
      using foldl_keep [OF preferred_trans total _ best_def] by (simp_all add: Cons)
    have chosen: "choose_vote table valid d = fst best"
      by (simp add: choose_vote_def seen_def [symmetric] Cons best_def case_prod_unfold)
    obtain v c i where v: "best = (v, c, - int i)" using tally_entry [OF entries [OF best(1)]] .
    note v_pos = tally_positions [OF entries [OF best(1), unfolded v]]
    have "count_list vs w < count_list vs v \<or> count_list vs w = count_list vs v \<and>
        (\<exists>i j. i < j \<and> j < length (firsts vs) \<and> firsts vs ! i = v \<and> firsts vs ! j = w)"
      if w: "w \<in> set vs \<inter> set valid" "w \<noteq> v" for w
    proof -
      obtain p where p: "p \<in> set seen" "fst p = w" using w(1) keys by (metis imageE)
      obtain c' j where q: "p = (w, c', - int j)" using tally_entry [OF entries [OF p(1)]] p(2) by (metis fst_conv)
      note w_pos = tally_positions [OF entries [OF p(1), unfolded q]]
      have "preferred best p" using best(2) p w(2) v by auto
      with v_pos w_pos show ?thesis by (auto simp: v q)
    qed
    moreover have "v \<in> set vs \<inter> set valid" using best(1) keys v by force
    ultimately show ?thesis unfolding chosen v fst_conv by auto
  qed
qed

section \<open>Asking for deposits\<close>

text \<open>
  C31: When deposits are pending in the head state, the block builder is refused them with the error that
  the range is out of bounds, although it lies inside the count; it gets an empty list when none are.
\<close>

theorem pending_deposits_refused:
  assumes "execution_db db = Some s" and "0 < spec ''MAX_DEPOSITS''"
    and "index \<le> eth1_deposit_count head_data" and "eth1_deposit_count head_data \<le> eth1_deposit_count vote"
  shows "fetch_deposits H spec api head_data index vote db =
    (if index < eth1_deposit_count head_data then Err RangeOutOfBounds else Ok [], db)"
proof -
  define last where "last = min (int (eth1_deposit_count head_data) - int index) (int (spec ''MAX_DEPOSITS'')) + int index - 1"
  have fetch: "fetch_deposits H spec api head_data index vote = get_deposits H spec api head_data vote (index, last)"
    by (simp add: fetch_deposits_def last_def Let_def)
  show ?thesis
  proof (cases "index < eth1_deposit_count head_data")
    case True
    then have range: "range_list (index, last) \<noteq> []" using assms(2) by (simp add: last_def min_def nat_int_add)
    have "last < int (eth1_deposit_count head_data)" by (simp add: last_def min_def)
    then have refused: "validate_range d (index, last) = (Err RangeOutOfBounds :: ('a exec_error, unit) rust)"
      if "d = head_data \<or> d = vote" for d
      using that assms(4) by auto
    obtain m where "(if map_of (eth1_data_votes s) vote \<noteq> None
        then has_majority spec (eth1_data_votes s) vote else Ok False) = (Ok m :: ('a exec_error, bool) rust)"
      by (cases "map_of (eth1_data_votes s) vote") (auto simp: has_majority_def)
    with range refused assms(1) True show ?thesis
      by (simp add: fetch get_deposits_def compute_deposits_def Let_def del: range_list.simps validate_range.simps)
  next
    case False
    then have "range_list (index, last) = []" using assms(3) by (simp add: last_def)
    with False show ?thesis by (simp add: fetch get_deposits_def del: range_list.simps)
  qed
qed

section \<open>The tree of deposits\<close>

lemma get_snapshot_inv:
  assumes "deposit_inv H t ds k" and "finalized_execution_block t = Some (h, n)"
  shows "\<exists>snapshot. get_snapshot H t = Ok snapshot \<and> get_root H t = Ok (deposit_root snapshot) \<and>
    snapshot_deposit_count snapshot = length ds \<and> execution_block_hash snapshot = h \<and>
    execution_block_height snapshot = n"
  using deposit_inv_root(3) [OF assms(1)] deposit_invD(4) [OF assms(1)] assms(2)
  by (auto simp: get_snapshot_def)

lemma update_deposit_tree_run:
  assumes "hash32 H" and "deposit_run H t ds k" and "state_tree s = Some t"
    and "eth1_deposit_count (current_eth1_data s) \<le> length ds" and "eth1_data \<noteq> current_eth1_data s"
    and "get_block_metadata api (BlockHash (eth1_block_hash (current_eth1_data s))) = Ok (Some old_block)"
    and "get_block_metadata api (BlockHash (eth1_block_hash eth1_data)) = Ok (Some new_block)"
    and "get_deposit_logs api (block_number old_block) (block_number new_block) = Ok logs"
    and "list_all (conforms DepositData) (map log_data logs)" and "length ds + length logs \<le> 2 ^ tree_depth"
  shows "\<exists>t' k' snapshot. update_deposit_tree H api s eth1_data db = (Ok (Some t'), db\<lparr>snapshot_db := Some snapshot\<rparr>) \<and>
    deposit_run H t' (ds @ map log_data logs) k' \<and>
    get_root H t = Ok (deposit_root snapshot) \<and> snapshot_deposit_count snapshot = length ds \<and>
    execution_block_hash snapshot = eth1_block_hash (current_eth1_data s)"
proof -
  note inv = deposit_run_inv [OF assms(1,2)]
  from finalize_inv [OF inv assms(4), of "block_number old_block"] obtain t1 where
    t1: "finalize H t (current_eth1_data s) (block_number old_block) = Ok t1"
      "finalized_execution_block t1 = Some (eth1_block_hash (current_eth1_data s), block_number old_block)" by auto
  from run_finalize [OF assms(2,4) t1(1)] obtain k1 where run1: "deposit_run H t1 ds k1" by blast
  note inv1 = deposit_run_inv [OF assms(1) run1]
  from get_snapshot_inv [OF inv1 t1(2)] obtain snapshot where
    snap: "get_snapshot H t1 = Ok snapshot" "get_root H t1 = Ok (deposit_root snapshot)"
      "snapshot_deposit_count snapshot = length ds"
      "execution_block_hash snapshot = eth1_block_hash (current_eth1_data s)" by auto
  have "get_root H t = get_root H t1"
    using deposit_inv_root(3) [OF inv] deposit_inv_root(3) [OF inv1] by simp
  moreover obtain t' where t': "update_tree_with_deposits H t1 (map log_data logs) = Ok t'"
    using deposits.push_each_room [OF inv1 assms(9)] assms(10) by auto
  moreover from run_pushes [OF assms(1) run1 assms(9) t'] have "deposit_run H t' (ds @ map log_data logs) k1" .
  moreover have "update_deposit_tree H api s eth1_data db = (Ok (Some t'), db\<lparr>snapshot_db := Some snapshot\<rparr>)"
    using assms(3,5-8) t1(1) snap(1) t'
    by (simp add: update_deposit_tree_def Let_def bind_db_def [of "persist_deposits_snapshot _"]
        persist_deposits_snapshot_def)
  ultimately show ?thesis using snap(2-4) by metis
qed

text \<open>
  C11: When both blocks are known and the logs between them are fetched, the tree grows by exactly the
  deposits of the logs, and the snapshot that is written is one of the tree before them, finalized at
  the old block.
\<close>

theorem deposit_tree_extended:
  assumes "hash32 H" and "deposit_run H t ds k" and "state_tree s = Some t"
    and "eth1_deposit_count (current_eth1_data s) \<le> length ds" and "eth1_data \<noteq> current_eth1_data s"
    and "get_block_metadata api (BlockHash (eth1_block_hash (current_eth1_data s))) = Ok (Some old_block)"
    and "get_block_metadata api (BlockHash (eth1_block_hash eth1_data)) = Ok (Some new_block)"
    and "get_deposit_logs api (block_number old_block) (block_number new_block) = Ok logs"
    and "list_all (conforms DepositData) (map log_data logs)" and "length ds + length logs \<le> 2 ^ tree_depth"
  shows "\<exists>t' k' snapshot. update_deposit_tree H api s eth1_data db = (Ok (Some t'), db\<lparr>snapshot_db := Some snapshot\<rparr>) \<and>
    deposit_run H t' (ds @ map log_data logs) k' \<and>
    get_root H t = Ok (deposit_root snapshot) \<and> snapshot_deposit_count snapshot = length ds \<and>
    execution_block_hash snapshot = eth1_block_hash (current_eth1_data s)"
  using update_deposit_tree_run [OF assms] .

text \<open>
  C33: The logs are fetched from the old block on, whose deposits are in the tree already. With an
  execution client that returns the logs of all blocks from the first to the last, the new tree counts
  the deposits of the old block twice.
\<close>

theorem old_block_counted_twice:
  assumes "hash32 H" and "deposit_run H t ds k" and "state_tree s = Some t"
    and "eth1_deposit_count (current_eth1_data s) \<le> length ds" and "eth1_data \<noteq> current_eth1_data s"
    and "get_block_metadata api (BlockHash (eth1_block_hash (current_eth1_data s))) = Ok (Some old_block)"
    and "get_block_metadata api (BlockHash (eth1_block_hash eth1_data)) = Ok (Some new_block)"
    and "block_number old_block \<le> block_number new_block"
    and "ds = map log_data [l \<leftarrow> chain_logs. log_block_number l \<le> block_number old_block]"
    and "get_deposit_logs api (block_number old_block) (block_number new_block) =
      Ok [l \<leftarrow> chain_logs. block_number old_block \<le> log_block_number l \<and> log_block_number l \<le> block_number new_block]"
    and "list_all (conforms DepositData) (map log_data chain_logs)" and "2 * length chain_logs \<le> 2 ^ tree_depth"
  shows "\<exists>t' db'. update_deposit_tree H api s eth1_data db = (Ok (Some t'), db') \<and>
    deposit_count t' = length [l \<leftarrow> chain_logs. log_block_number l \<le> block_number new_block] +
      length [l \<leftarrow> chain_logs. log_block_number l = block_number old_block]"
proof -
  let ?old = "block_number old_block" and ?new = "block_number new_block"
  let ?logs = "[l \<leftarrow> chain_logs. ?old \<le> log_block_number l \<and> log_block_number l \<le> ?new]"
  have len: "length [l \<leftarrow> chain_logs. log_block_number l \<le> ?old] + length ?logs =
      length [l \<leftarrow> chain_logs. log_block_number l \<le> ?new] + length [l \<leftarrow> chain_logs. log_block_number l = ?old]"
    using assms(8) by (induction chain_logs) auto
  have "list_all (conforms DepositData) (map log_data ?logs)" using assms(11) by (simp add: list_all_iff)
  moreover have "length ds + length ?logs \<le> 2 ^ tree_depth"
    using order_trans [OF add_mono [OF length_filter_le length_filter_le], of chain_logs chain_logs] assms(12)
    by (simp add: assms(9))
  ultimately obtain t' k' db' where t': "update_deposit_tree H api s eth1_data db = (Ok (Some t'), db')"
    "deposit_run H t' (ds @ map log_data ?logs) k'"
    using update_deposit_tree_run [OF assms(1-7,10)] by blast
  from deposit_invD(4) [OF deposit_run_inv [OF assms(1) t'(2)]] t'(1) len assms(9) show ?thesis by auto
qed

text \<open>
  C32: A vote that reaches the majority for a block that the execution client does not know, or while it
  does not know the current block, is taken over without a tree: the tree of deposits is lost, and no
  snapshot can be made any more.
\<close>

theorem unknown_block_loses_tree:
  assumes "prune_state spec s slot db = (Ok s1 :: ('e exec_error, execution_state) rust, db)"
    and "execution_db db = Some s" and "eth1_data \<noteq> current_eth1_data s"
    and "has_majority spec (count_vote (eth1_data_votes s1) eth1_data) eth1_data = (Ok True :: (unit, bool) rust)"
    and "get_block_metadata api (BlockHash (eth1_block_hash (current_eth1_data s))) = Ok None \<or>
      get_block_metadata api (BlockHash (eth1_block_hash (current_eth1_data s))) = Ok (Some b) \<and>
      get_block_metadata api (BlockHash (eth1_block_hash eth1_data)) = Ok None"
    and "(r, db') = notify_new_block H spec (api :: 'e engine_api) slot eth1_data payload db"
  shows "r = Ok () \<and> (\<exists>s'. execution_db db' = Some s' \<and> current_eth1_data s' = eth1_data \<and> state_tree s' = None) \<and>
    get_deposit_snapshot H db' = (Panic ''FunctionClauseError'' :: ('e exec_error, DepositTreeSnapshot) rust, db')"
proof -
  let ?s = "update_state_with_payload s1 payload"
  let ?s' = "?s\<lparr>eth1_data_votes := count_vote (eth1_data_votes s1) eth1_data, state_tree := None, current_eth1_data := eth1_data\<rparr>"
  have majority: "has_majority spec (count_vote (eth1_data_votes s1) eth1_data) eth1_data = (Ok True :: ('e exec_error, bool) rust)"
    using assms(4) by (auto simp: has_majority_def split: option.splits)
  have current: "current_eth1_data s1 = current_eth1_data s" using prune_step(3) [OF assms(1)] .
  have "update_deposit_tree H api (?s\<lparr>eth1_data_votes := vs\<rparr>) eth1_data db = (Ok None, db)" for vs
    using assms(3,5) current by (auto simp: update_deposit_tree_def update_state_with_payload_def Let_def)
  then have "update_state_with_vote H spec api ?s eth1_data db = (Ok ?s', db)"
    using majority by (simp add: update_state_with_vote_def update_state_with_payload_def Let_def)
  then have "notify_new_block H spec api slot eth1_data payload db = (Ok (), db\<lparr>execution_db := Some ?s'\<rparr>)"
    using assms(1,2) by (simp add: notify_new_block_def bind_db_def persist_execution_state_def
        fetch_execution_state_bang_def)
  with assms(6) show ?thesis by (simp add: get_deposit_snapshot_def)
qed

section \<open>Examples\<close>

text \<open>
  A node that knows two blocks, and reports one deposit in the first of them or none at all; and the
  state of a chain whose periods are one slot long.
\<close>

definition sample_data :: "byte \<Rightarrow> Eth1Data" where
  "sample_data b = \<lparr>eth1_deposit_root = [], eth1_deposit_count = 0, eth1_block_hash = replicate 32 b\<rparr>"

definition sample_payload :: "int \<Rightarrow> block_metadata" where
  "sample_payload time = \<lparr>block_hash = replicate 32 0, block_number = 3, timestamp = time\<rparr>"

definition sample_node :: "json list \<Rightarrow> unit engine_api" where
  "sample_node logs =
     \<lparr>get_block_header = (\<lambda>id. case id of
        BlockHash h \<Rightarrow> Ok (JObject
          [(''hash'', encode_binary h),
           (''number'', encode_integer (if h = replicate 32 7 then 11052984 else 11052990)),
           (''timestamp'', encode_integer 0)])
      | _ \<Rightarrow> Ok JNull),
      engine_deposit_logs = (\<lambda>_ _. Ok (JArray logs))\<rparr>"

definition sample_spec :: chain_spec where
  "sample_spec = (\<lambda>_. 1)"

definition sample_snapshot :: DepositTreeSnapshot where
  "sample_snapshot =
     \<lparr>finalized = [], deposit_root = [], snapshot_deposit_count = 0, execution_block_hash = replicate 32 7,
      execution_block_height = 11052984\<rparr>"

definition sample_state :: execution_state where
  "sample_state =
     \<lparr>eth1_data_votes = [(sample_data 9, 1, 0)], eth1_chain = map sample_payload [8, 7, 3],
      current_eth1_data = sample_data 7, state_tree = Some new_tree, last_period = 0\<rparr>"

definition sample_db :: chain_db where
  "sample_db = \<lparr>execution_db = Some sample_state, snapshot_db = None, genesis_db = Some 0\<rparr>"

lemma sample_node_metadata:
  "get_block_metadata (sample_node logs) (BlockHash h) =
    Ok (Some \<lparr>block_hash = h, block_number = (if h = replicate 32 7 then 11052984 else 11052990), timestamp = 0\<rparr>)"
  by (simp add: get_block_metadata_def sample_node_def encode_binary_def encode_integer_def)

definition sample_deposit_log :: deposit_log where
  "sample_deposit_log =
     \<lparr>log_data = DepositData_struct (replicate 48 9) (replicate 32 1) 32000000000 (replicate 96 5),
      log_block_number = 11052984, log_index = XInt 7\<rparr>"

lemma sample_node_logs:
  "get_deposit_logs (sample_node []) a b = Ok []"
  "get_deposit_logs (sample_node [JObject sample_log]) a b = Ok [sample_deposit_log]"
proof -
  have "parse_raw_log (JObject sample_log) = Ok sample_deposit_log"
    unfolding sample_deposit_log_def
    by (subst parse_deposit_event [where pubkey = "replicate 48 9" and credentials = "replicate 32 1" and
        signature = "replicate 96 5" and amount = 32000000000 and index = 7 and number = 11052984])
      (simp_all add: sample_log_def)
  then show "get_deposit_logs (sample_node [JObject sample_log]) a b = Ok [sample_deposit_log]"
    by (simp add: get_deposit_logs_def sample_node_def del: parse_raw_log.simps)
qed (simp add: get_deposit_logs_def sample_node_def)

lemma sample_start:
  "\<exists>db1. init prefix_hash sample_spec (sample_node []) sample_snapshot [] sample_db = (Ok (), db1) \<and>
     execution_db db1 = Some
       \<lparr>eth1_data_votes = [], eth1_chain = [], current_eth1_data = sample_data 7,
        state_tree = Some \<lparr>inner = Zero 32, deposit_count = 0,
          finalized_execution_block = Some (replicate 32 7, 11052984)\<rparr>, last_period = 0\<rparr> \<and>
     genesis_db db1 = Some 0"
  by (simp add: init_def from_snapshot_def sample_snapshot_def tree_depth_def bind_db_def
      persist_deposits_snapshot_def persist_execution_state_def get_eth1_data_def sample_data_def sample_db_def)

theorem dropped_payloads_no_candidates_witness:
  "\<exists>s'. prune_state sample_spec sample_state 8 sample_db = (Ok s' :: (unit exec_error, execution_state) rust, sample_db) \<and>
     eth1_chain s' = map sample_payload [8, 7] \<and>
     blocks_to_consider sample_spec 9 (eth1_chain s') = blocks_to_consider sample_spec 9 (eth1_chain sample_state) \<and>
     blocks_to_consider sample_spec 9 (eth1_chain sample_state) \<noteq> []"
proof -
  define s' where "s' = sample_state\<lparr>eth1_data_votes := [], eth1_chain := map sample_payload [8, 7], last_period := 8\<rparr>"
  note defs = sample_state_def sample_db_def sample_spec_def sample_payload_def
  have prune: "prune_state sample_spec sample_state 8 sample_db =
      (Ok s' :: (unit exec_error, execution_state) rust, sample_db)"
    by (simp add: prune_state_def compute_period_def slots_per_eth1_voting_period_def drop_old_payloads_def
        voting_period_start_time_def bind_db_def fetch_genesis_time_bang_def follow_time_def Let_def defs s'_def)
  have start: "voting_period_start_time sample_spec 9 sample_db = (Ok 9 :: (unit exec_error, nat) rust, sample_db)"
    by (simp add: slots_per_eth1_voting_period_def voting_period_start_time_def bind_db_def
        fetch_genesis_time_bang_def Let_def defs)
  have "sorted_wrt (\<lambda>a b. timestamp b \<le> timestamp a) (eth1_chain sample_state)" by (simp add: defs)
  from dropped_payloads_no_candidates [OF prune _ this start] prune show ?thesis
    by (auto simp: blocks_to_consider_def candidate_block_def follow_time_def s'_def defs)
qed

theorem eth1_vote_never_new_witness:
  "panics (fst (fetch_eth1_data (\<lambda>_. True) prefix_hash sample_spec (sample_node []) 9 (sample_data 7) sample_db))"
proof -
  have blocks: "blocks_to_consider sample_spec (0 + (9 - 9 mod 1) * sample_spec ''SECONDS_PER_SLOT'') (eth1_chain sample_state) \<noteq> []"
    by (simp add: blocks_to_consider_def candidate_block_def follow_time_def sample_spec_def sample_state_def sample_payload_def)
  have db: "execution_db sample_db = Some sample_state" "genesis_db sample_db = Some 0"
    and period: "1 = slots_per_eth1_voting_period sample_spec" and votes: "eth1_data_votes sample_state \<noteq> []"
    by (simp_all add: sample_db_def slots_per_eth1_voting_period_def sample_spec_def sample_state_def)
  from eth1_vote_never_new [OF db period zero_less_one refl refl, of 9 "sample_node []" "\<lambda>_. True" prefix_hash "sample_data 7"]
    blocks votes show ?thesis by (simp add: sample_node_logs)
qed

theorem most_voted_chosen_witness:
  "choose_vote (rev (tally [sample_data 1, sample_data 2, sample_data 2, sample_data 1, sample_data 3]))
     [sample_data 3, sample_data 2, sample_data 1] (sample_data 0) = sample_data 1"
proof -
  let ?vs = "[sample_data 1, sample_data 2, sample_data 2, sample_data 1, sample_data 3]"
  let ?v = "choose_vote (rev (tally ?vs)) [sample_data 3, sample_data 2, sample_data 1] (sample_data 0)"
  have ne: "sample_data a = sample_data b \<longleftrightarrow> a = b" for a b by (simp add: sample_data_def)
  have "firsts ?vs = [sample_data 1, sample_data 2, sample_data 3]" by (simp add: firsts_def ne)
  moreover have "count_list ?vs (sample_data 1) = 2" "count_list ?vs (sample_data 2) = 2" by (simp_all add: ne)
  ultimately show ?thesis
    using most_voted_chosen [of "rev (tally ?vs)" ?vs "[sample_data 3, sample_data 2, sample_data 1]" "sample_data 0"]
    by (auto simp: ne less_Suc_eq numeral_eq_Suc nth_Cons' split: if_splits)
qed

theorem pending_deposits_refused_witness:
  "fetch_deposits prefix_hash sample_spec (sample_node []) (sample_eth1_data 5) 3 (sample_eth1_data 6) sample_db =
    (Err RangeOutOfBounds, sample_db)"
  using pending_deposits_refused [of sample_db sample_state sample_spec 3 "sample_eth1_data 5" "sample_eth1_data 6"]
  by (simp add: sample_db_def sample_spec_def sample_eth1_data_def)

theorem deposit_tree_extended_witness:
  "\<exists>t t' k' snapshot. deposit_run prefix_hash t sample_deposits 1 \<and>
     update_deposit_tree prefix_hash (sample_node [JObject sample_log])
       (sample_state\<lparr>state_tree := Some t, current_eth1_data := sample_eth1_data 2\<rparr>) (sample_data 9) sample_db =
       (Ok (Some t'), sample_db\<lparr>snapshot_db := Some snapshot\<rparr>) \<and>
     deposit_run prefix_hash t' (sample_deposits @ [log_data sample_deposit_log]) k'"
proof -
  obtain t where t: "deposit_run prefix_hash t sample_deposits 1" using sample_run [of 1] by auto
  let ?s = "sample_state\<lparr>state_tree := Some t, current_eth1_data := sample_eth1_data 2\<rparr>"
  have "conforms DepositData (log_data sample_deposit_log)"
    by (simp add: sample_deposit_log_def DepositData_struct_def DepositData_schema_def)
  with deposit_tree_extended [OF prefix_hash32 t, of ?s "sample_data 9" "sample_node [JObject sample_log]" _ _ "[sample_deposit_log]" sample_db] t
  show ?thesis
    by (fastforce simp: sample_node_metadata sample_node_logs sample_eth1_data_def sample_data_def sample_deposits_def tree_depth_def simp del: conforms.simps)
qed

definition sample_blocks :: "(nat \<times> Eth1Data \<times> block_metadata) list" where
  "sample_blocks = [(1, sample_data 1, sample_payload 3), (2, sample_data 2, sample_payload 4),
     (20, sample_data 2, sample_payload 70), (21, sample_data 1, sample_payload 75), (22, sample_data 2, sample_payload 80)]"

lemma sample_data_eq: "sample_data a = sample_data b \<longleftrightarrow> a = b"
  by (simp add: sample_data_def)

lemma sample_blocks_notified:
  "\<exists>db1 db2. init prefix_hash (\<lambda>_. 4) (sample_node []) sample_snapshot [sample_data 1] sample_db = (Ok (), db1) \<and>
     notify_all prefix_hash (\<lambda>_. 4) (sample_node []) sample_blocks db1 = (Ok (), db2)"
  by (simp add: init_def from_snapshot_def sample_snapshot_def tree_depth_def bind_db_def
      persist_deposits_snapshot_def persist_execution_state_def update_state_with_vote_def count_vote_def
      Map_update_def has_majority_def slots_per_eth1_voting_period_def Let_def notify_new_block_def
      fetch_execution_state_bang_def prune_state_def compute_period_def update_state_with_payload_def
      drop_old_payloads_def voting_period_start_time_def fetch_genesis_time_bang_def follow_time_def
      sample_db_def sample_blocks_def sample_payload_def sample_data_eq)

theorem votes_counted_witness:
  "\<exists>db1 db2 s. init prefix_hash (\<lambda>_. 4) (sample_node []) sample_snapshot [sample_data 1] sample_db = (Ok (), db1) \<and>
     notify_all prefix_hash (\<lambda>_. 4) (sample_node []) sample_blocks db1 = (Ok (), db2) \<and> execution_db db2 = Some s \<and>
     eth1_data_votes s = [(sample_data 2, 2, 0), (sample_data 1, 1, - 1)] \<and> last_period s = 1"
proof -
  have "map vote_of [n \<leftarrow> sample_blocks. period_of (\<lambda>_. 4) n = 1] = [sample_data 2, sample_data 1, sample_data 2]"
    "sample_blocks \<noteq> []" "sorted (map (period_of (\<lambda>_. 4)) sample_blocks)" "1 = period_of (\<lambda>_. 4) (List.last sample_blocks)"
    by (simp_all add: sample_blocks_def period_of_def vote_of_def slots_per_eth1_voting_period_def)
  moreover have "tally [sample_data 2, sample_data 1, sample_data 2] = [(sample_data 2, 2, 0), (sample_data 1, 1, - 1)]"
    by (simp add: tally_def firsts_def sample_data_def)
  moreover obtain db1 db2 where
    "init prefix_hash (\<lambda>_. 4) (sample_node []) sample_snapshot [sample_data 1] sample_db = (Ok (), db1)"
    "notify_all prefix_hash (\<lambda>_. 4) (sample_node []) sample_blocks db1 = (Ok (), db2)"
    using sample_blocks_notified by blast
  ultimately show ?thesis using votes_counted [of prefix_hash "\<lambda>_. 4" "sample_node []"] by fastforce
qed

lemma sample_tree_run:
  "deposit_run H \<lparr>inner = Zero 32, deposit_count = 0,
     finalized_execution_block = Some (replicate 32 7, 11052984)\<rparr> [] 0"
  using run_finalize [OF run_new, of "sample_data 7" H 11052984]
  by (simp add: finalize_def new_tree_def tree_depth_def sample_data_def)

lemma sample_election:
  "\<exists>db1 db2 s s'. init prefix_hash sample_spec (sample_node []) sample_snapshot [] sample_db = (Ok (), db1) \<and>
     notify_new_block prefix_hash sample_spec (sample_node []) 0 (sample_data 9) (sample_payload 1) db1 = (Ok (), db2) \<and>
     execution_db db1 = Some s \<and> execution_db db2 = Some s' \<and> current_eth1_data s' \<noteq> current_eth1_data s"
proof -
  obtain db1 where db1: "init prefix_hash sample_spec (sample_node []) sample_snapshot [] sample_db = (Ok (), db1)"
    "execution_db db1 = Some
       \<lparr>eth1_data_votes = [], eth1_chain = [], current_eth1_data = sample_data 7,
        state_tree = Some \<lparr>inner = Zero 32, deposit_count = 0,
          finalized_execution_block = Some (replicate 32 7, 11052984)\<rparr>, last_period = 0\<rparr>"
    using sample_start by blast
  define s where "s = \<lparr>eth1_data_votes = [(sample_data 9, 1, 0)], eth1_chain = [sample_payload 1],
    current_eth1_data = sample_data 7, state_tree = Some \<lparr>inner = Zero 32, deposit_count = 0,
      finalized_execution_block = Some (replicate 32 7, 11052984)\<rparr>, last_period = 0\<rparr>"
  have "get_block_metadata (sample_node []) (BlockHash (eth1_block_hash (current_eth1_data s))) =
      Ok (Some \<lparr>block_hash = replicate 32 7, block_number = 11052984, timestamp = 0\<rparr>)"
    "get_block_metadata (sample_node []) (BlockHash (eth1_block_hash (sample_data 9))) =
      Ok (Some \<lparr>block_hash = replicate 32 9, block_number = 11052990, timestamp = 0\<rparr>)"
    by (simp_all add: sample_node_metadata s_def sample_data_def)
  from update_deposit_tree_run [OF prefix_hash32 sample_tree_run _ _ _ this sample_node_logs(1), of db1]
  obtain t' db2 where t': "update_deposit_tree prefix_hash (sample_node []) s (sample_data 9) db1 = (Ok t', db2)"
    by (auto simp: s_def sample_data_def)
  have "update_state_with_vote prefix_hash sample_spec (sample_node [])
      (s\<lparr>eth1_data_votes := []\<rparr>) (sample_data 9) db1 =
      (Ok (s\<lparr>state_tree := t', current_eth1_data := sample_data 9\<rparr>), db2)"
    using t' by (simp add: update_state_with_vote_def count_vote_def Map_update_def has_majority_def
        slots_per_eth1_voting_period_def sample_spec_def s_def Let_def)
  then have "notify_new_block prefix_hash sample_spec (sample_node []) 0 (sample_data 9) (sample_payload 1) db1 =
      (Ok (), db2\<lparr>execution_db := Some (s\<lparr>state_tree := t', current_eth1_data := sample_data 9\<rparr>)\<rparr>)"
    using db1(2) by (simp add: notify_new_block_def prune_state_def compute_period_def
        slots_per_eth1_voting_period_def sample_spec_def update_state_with_payload_def s_def
        bind_db_def fetch_execution_state_bang_def persist_execution_state_def)
  with db1 show ?thesis by (fastforce simp: s_def sample_data_eq)
qed

theorem eth1_data_elected_witness:
  "\<exists>db1 db2 s s'. init prefix_hash sample_spec (sample_node []) sample_snapshot [] sample_db = (Ok (), db1) \<and>
     notify_new_block prefix_hash sample_spec (sample_node []) 0 (sample_data 9) (sample_payload 1) db1 = (Ok (), db2) \<and>
     execution_db db1 = Some s \<and> execution_db db2 = Some s' \<and> current_eth1_data s' \<noteq> current_eth1_data s \<and>
     current_eth1_data s' = sample_data 9 \<and> slots_per_eth1_voting_period sample_spec < 2 * count_list [sample_data 9] (sample_data 9)"
proof -
  from sample_election obtain db1 db2 s s' where run:
    "init prefix_hash sample_spec (sample_node []) sample_snapshot [] sample_db = (Ok (), db1)"
    "notify_new_block prefix_hash sample_spec (sample_node []) 0 (sample_data 9) (sample_payload 1) db1 = (Ok (), db2)"
    "execution_db db1 = Some s" "execution_db db2 = Some s'" "current_eth1_data s' \<noteq> current_eth1_data s" by blast
  have "notify_all prefix_hash sample_spec (sample_node []) [] db1 = (Ok (), db1)" by simp
  from eth1_data_elected [OF run(1) this run(2-5) refl] run show ?thesis
    by (auto simp: counted_votes_def opens_period_def period_of_def vote_of_def)
qed

theorem old_block_counted_twice_witness:
  "\<exists>t t' db'. deposit_run prefix_hash t [log_data sample_deposit_log] 0 \<and>
     update_deposit_tree prefix_hash (sample_node [JObject sample_log])
       (sample_state\<lparr>state_tree := Some t, current_eth1_data := sample_eth1_data 1\<rparr>) (sample_data 9) sample_db = (Ok (Some t'), db') \<and>
     deposit_count t' = 2"
proof -
  have data: "list_all (conforms DepositData) [log_data sample_deposit_log]"
    by (simp add: sample_deposit_log_def DepositData_struct_def DepositData_schema_def)
  have "length ([] @ [log_data sample_deposit_log]) \<le> 2 ^ tree_depth" by simp
  with deposits.push_each_room [OF new_tree_inv [OF prefix_hash32] data] obtain t where
    "update_tree_with_deposits prefix_hash new_tree [log_data sample_deposit_log] = Ok t" by auto
  from run_pushes [OF prefix_hash32 run_new data this]
  have t: "deposit_run prefix_hash t [log_data sample_deposit_log] 0" by simp
  let ?s = "sample_state\<lparr>state_tree := Some t, current_eth1_data := sample_eth1_data 1\<rparr>"
  have "\<exists>t' db'. update_deposit_tree prefix_hash (sample_node [JObject sample_log]) ?s (sample_data 9) sample_db = (Ok (Some t'), db') \<and>
    deposit_count t' = length [l \<leftarrow> [sample_deposit_log]. log_block_number l \<le> 11052990] +
      length [l \<leftarrow> [sample_deposit_log]. log_block_number l = 11052984]"
    using old_block_counted_twice [OF prefix_hash32 t, of ?s "sample_data 9" "sample_node [JObject sample_log]"
        "\<lparr>block_hash = replicate 32 7, block_number = 11052984, timestamp = 0\<rparr>"
        "\<lparr>block_hash = replicate 32 9, block_number = 11052990, timestamp = 0\<rparr>" "[sample_deposit_log]" sample_db] data
    by (simp add: sample_node_metadata sample_node_logs sample_eth1_data_def sample_data_def tree_depth_def
        sample_deposit_log_def del: conforms.simps)
  with t show ?thesis by (auto simp: sample_deposit_log_def)
qed

theorem unknown_block_loses_tree_witness:
  "\<exists>db' s'. notify_new_block prefix_hash sample_spec
      \<lparr>get_block_header = (\<lambda>_. Ok JNull), engine_deposit_logs = (\<lambda>_ _. Err (EngineError ()))\<rparr>
      0 (sample_data 9) (sample_payload 1) sample_db = (Ok (), db') \<and>
    execution_db db' = Some s' \<and> current_eth1_data s' = sample_data 9 \<and> state_tree s' = None"
proof -
  let ?api = "\<lparr>get_block_header = (\<lambda>_. Ok JNull), engine_deposit_logs = (\<lambda>_ _. Err (EngineError ()))\<rparr>"
  obtain r db' where n: "(r, db') = notify_new_block prefix_hash sample_spec ?api 0 (sample_data 9) (sample_payload 1) sample_db"
    by (metis surj_pair)
  have "prune_state sample_spec sample_state 0 sample_db = (Ok sample_state :: (unit exec_error, execution_state) rust, sample_db)"
    by (simp add: prune_state_def compute_period_def slots_per_eth1_voting_period_def sample_spec_def sample_state_def)
  moreover have "execution_db sample_db = Some sample_state" "sample_data 9 \<noteq> current_eth1_data sample_state"
    by (simp_all add: sample_db_def sample_state_def sample_data_eq)
  moreover have "has_majority sample_spec (count_vote (eth1_data_votes sample_state) (sample_data 9)) (sample_data 9) =
      (Ok True :: (unit, bool) rust)"
    by (simp add: has_majority_def count_vote_def Map_update_def sample_state_def slots_per_eth1_voting_period_def sample_spec_def)
  moreover have "get_block_metadata ?api h = Ok None" for h by (simp add: get_block_metadata_def)
  ultimately show ?thesis using unknown_block_loses_tree [OF _ _ _ _ _ n] n by metis
qed

end
