(* ===== verification/Snappy_Nif.thy ===== *)
theory Snappy_Nif
  imports Nif_Types
begin

text \<open>
  \<open>native/snappy_nif/src/lib.rs\<close>: the NIFs of the module \<open>Snappy\<close>, which read a frame encoder or
  decoder of the crate \<open>snap\<close> to its end. The encoder and the decoder are readers over the input;
  they return their output in chunks of any sizes. \<open>None\<close> is a read that does not end.
\<close>

section \<open>The crate\<close>

record ('enc, 'dec, 'err) snap_crate =
  FrameEncoder_new :: "bytes \<Rightarrow> 'enc"
  FrameEncoder_read :: "('enc, 'err) reader"
  FrameDecoder_new :: "bytes \<Rightarrow> 'dec"
  FrameDecoder_read :: "('dec, 'err) reader"
  Error_to_string :: "'err \<Rightarrow> string"

text \<open>
  The encoder of an input ends after yielding a framed stream for it, and the decoder of a framed
  stream ends after yielding the input.
\<close>

definition framing :: "('enc, 'dec, 'err) snap_crate \<Rightarrow> (bytes \<Rightarrow> bytes) \<Rightarrow> bool" where
  "framing S frame \<longleftrightarrow>
     (\<forall>b. yields (FrameEncoder_read S) (FrameEncoder_new S b) (frame b)) \<and>
     (\<forall>b. yields (FrameDecoder_read S) (FrameDecoder_new S (frame b)) b)"

section \<open>The NIFs\<close>

definition snappy_bytes_to_binary :: "(nat \<Rightarrow> bytes) \<Rightarrow> bytes \<Rightarrow> (string, bytes) rust" where
  "snappy_bytes_to_binary new_binary bytes =
     expect ''called `Result::unwrap()` on an `Err` value''
       (write_all (new_binary (length bytes)) bytes)"

definition compress ::
  "(nat \<Rightarrow> bytes) \<Rightarrow> ('enc, 'dec, 'err) snap_crate \<Rightarrow> bytes \<Rightarrow> (string, bytes) rust option" where
  "compress env S bin =
     (let encoder = FrameEncoder_new S bin; buffer = []
      in map_option (\<lambda>r. and_then (map_err (Error_to_string S) r) (snappy_bytes_to_binary env))
           (read_to_end (FrameEncoder_read S) encoder buffer))"

definition decompress ::
  "(nat \<Rightarrow> bytes) \<Rightarrow> ('enc, 'dec, 'err) snap_crate \<Rightarrow> bytes \<Rightarrow> (string, bytes) rust option" where
  "decompress env S bin =
     (let decoder = FrameDecoder_new S bin; buffer = []
      in map_option (\<lambda>r. and_then (map_err (Error_to_string S) r) (snappy_bytes_to_binary env))
           (read_to_end (FrameDecoder_read S) decoder buffer))"

lemma snappy_bytes_to_binary_Ok:
  "\<forall>n. length (env n) = n \<Longrightarrow> snappy_bytes_to_binary env bs = Ok bs"
  by (simp add: snappy_bytes_to_binary_def write_all_same_length)

section \<open>A framing in chunks\<close>

text \<open>An instance: the stream is a marker byte and the input, read in chunks of two bytes.\<close>

definition read_two :: "(bytes option, string) reader" where
  "read_two s = (case s of None \<Rightarrow> Err ''corrupt input (expected stream header)''
     | Some bs \<Rightarrow> Ok (take 2 bs, Some (drop 2 bs)))"

definition marked_snap :: "(bytes option, bytes option, string) snap_crate" where
  "marked_snap = \<lparr>
     FrameEncoder_new = (\<lambda>b. Some (255 # b)),
     FrameEncoder_read = read_two,
     FrameDecoder_new = (\<lambda>b. case b of [] \<Rightarrow> None | m # bs \<Rightarrow> if m = 255 then Some bs else None),
     FrameDecoder_read = read_two,
     Error_to_string = (\<lambda>e. e)\<rparr>"

lemma yields_read_two: "yields read_two (Some bs) bs"
proof (induction "length bs" arbitrary: bs rule: less_induct)
  case less
  show ?case
  proof (cases "bs = []")
    case True
    then show ?thesis by (auto simp: read_two_def intro: yields.end_of_stream)
  next
    case False
    then have "yields read_two (Some (drop 2 bs)) (drop 2 bs)" by (intro less) simp
    with False have "yields read_two (Some bs) (take 2 bs @ drop 2 bs)"
      by (intro yields.chunk) (auto simp: read_two_def)
    then show ?thesis by simp
  qed
qed

lemma marked_snap_framing: "framing marked_snap ((#) 255)"
  by (simp add: framing_def marked_snap_def yields_read_two)

section \<open>Properties\<close>

text \<open>
  C21: compressing ends, decompressing the result ends, and gives the input back, in whatever chunks
  the encoder and the decoder return their output.
\<close>

theorem decompress_compress:
  assumes "\<forall>n. length (env n) = n" and "framing S frame"
  shows "\<exists>z. compress env S bin = Some (Ok z) \<and> decompress env S z = Some (Ok bin)"
proof -
  from assms(2) have
    "read_to_end (FrameEncoder_read S) (FrameEncoder_new S bin) [] = Some (Ok (frame bin))"
    "read_to_end (FrameDecoder_read S) (FrameDecoder_new S (frame bin)) [] = Some (Ok bin)"
    by (auto simp: framing_def dest!: spec [of _ bin] intro: read_to_end_yields [of _ _ _ "[]", simplified])
  then show ?thesis
    by (simp add: compress_def decompress_def snappy_bytes_to_binary_Ok [OF assms(1)])
qed

theorem decompress_compress_witness:
  "\<exists>z. compress (\<lambda>n. replicate n 0) marked_snap [1, 2, 3] = Some (Ok z) \<and>
    decompress (\<lambda>n. replicate n 0) marked_snap z = Some (Ok [1, 2, 3])"
  by (rule decompress_compress [OF _ marked_snap_framing]) simp

text \<open>
  An error of the decoder, at the start of the stream or after any number of chunks, is the
  error \<open>decompress\<close> returns, rendered as text; what had been read is dropped.
\<close>

theorem decompress_error:
  assumes "fails (FrameDecoder_read S) (FrameDecoder_new S bin) e"
  shows "decompress env S bin = Some (Err (Error_to_string S e))"
  using read_to_end_fails [OF assms] by (simp add: decompress_def)

theorem decompress_error_witness:
  "decompress (\<lambda>n. replicate n 0) marked_snap [7, 1] =
     Some (Err ''corrupt input (expected stream header)'')"
proof -
  have "fails (FrameDecoder_read marked_snap) (FrameDecoder_new marked_snap [7, 1])
      ''corrupt input (expected stream header)''"
    by (rule fails.now) (simp add: marked_snap_def read_two_def)
  from decompress_error [OF this] show ?thesis by (simp add: marked_snap_def)
qed

end
