(* ===== verification/Snappy_Ex.thy ===== *)
theory Snappy_Ex
  imports Bitstrings Snappy_Nif
begin

unbundle bit_operations_syntax

text \<open>
  \<open>lib/snappy_ex.ex\<close>: the decoder of the Snappy framing format in Elixir. The checksum \<open>Crc32c.calc!\<close>
  and the decoder of one block, \<open>:snappyer.decompress\<close>, are parameters. The properties compare it
  with the format and with the encoder behind the NIF.
\<close>

section \<open>The decoder\<close>

datatype 'e snappy_error =
    NoStreamIdentifier
  | HeaderTooSmall
  | MissingData nat nat
  | InvalidStreamIdentifier
  | ChunkTooBig
  | UnskippableChunk nat
  | InvalidChecksum
  | BlockError 'e

record 'e snappy_blocks =
  crc32c :: "bytes \<Rightarrow> nat"
  decompress_block :: "bytes \<Rightarrow> ('e, bytes) rust"

definition stream_identifier :: bytes where
  "stream_identifier = [0x73, 0x4E, 0x61, 0x50, 0x70, 0x59]"

definition chunk_size_limit :: nat where
  "chunk_size_limit = 65540"

text \<open>\<open>compress\<close> is not implemented: it returns an empty stream.\<close>

definition SnappyEx_compress :: "bytes \<Rightarrow> bytes" where
  "SnappyEx_compress data = 0xFF # le_bytes 3 6 @ stream_identifier"

definition compute_checksum :: "'e snappy_blocks \<Rightarrow> bytes \<Rightarrow> nat" where
  "compute_checksum B data =
     (let checksum = crc32c B data
      in (drop_bit 15 checksum OR push_bit 17 checksum) + 0xA282EAD8 AND 2 ^ 32 - 1)"

definition process_chunk_metadata :: "bytes \<Rightarrow> ('e snappy_error, nat \<times> bytes \<times> bytes) rust" where
  "process_chunk_metadata chunks =
     (if length chunks < 4 then Err HeaderTooSmall
      else
        let chunk_id = unat (hd chunks); size = le_nat (take 3 (tl chunks)); rest = drop 4 chunks
        in if length rest < size then Err (MissingData (length rest) size)
           else Ok (chunk_id, take size rest, drop size rest))"

definition decompress_payload :: "'e snappy_blocks \<Rightarrow> nat \<Rightarrow> bytes \<Rightarrow> ('e snappy_error, bytes) rust" where
  "decompress_payload B chunk_id data =
     (if chunk_id = 0 then map_err BlockError (decompress_block B data) else Ok data)"

definition verify_checksum :: "'e snappy_blocks \<Rightarrow> bytes \<Rightarrow> nat \<Rightarrow> ('e snappy_error, unit) rust" where
  "verify_checksum B data checksum =
     (if checksum = compute_checksum B data then Ok () else Err InvalidChecksum)"

definition parse_chunk :: "'e snappy_blocks \<Rightarrow> bytes \<Rightarrow> nat \<Rightarrow> bytes \<Rightarrow> ('e snappy_error, bytes) rust" where
  "parse_chunk B acc chunk_id data =
     (if chunk_id = 0xFF then (if data = stream_identifier then Ok acc else Err InvalidStreamIdentifier)
      else if chunk_id \<in> {0, 1} then
        if length data > chunk_size_limit then Err ChunkTooBig
        else if length data < 4 then Panic ''MatchError''
        else
          and_then (decompress_payload B chunk_id (drop 4 data)) (\<lambda>uncompressed_data.
          and_then (verify_checksum B uncompressed_data (le_nat (take 4 data))) (\<lambda>_.
          Ok (acc @ uncompressed_data)))
      else if chunk_id = 0xFE \<or> 0x80 \<le> chunk_id \<and> chunk_id \<le> 0xFD then Ok acc
      else Err (UnskippableChunk chunk_id))"

function decompress_frames :: "'e snappy_blocks \<Rightarrow> bytes \<Rightarrow> bytes \<Rightarrow> ('e snappy_error, bytes) rust" where
  "decompress_frames B chunks acc =
     (if chunks = [] then Ok acc
      else
        case process_chunk_metadata chunks of
          Err e \<Rightarrow> Err e
        | Panic m \<Rightarrow> Panic m
        | Ok (chunk_id, data, remaining_chunks) \<Rightarrow>
            and_then (parse_chunk B acc chunk_id data) (decompress_frames B remaining_chunks))"
  by pat_completeness auto

termination
  by (relation "measure (\<lambda>(B, chunks, acc). length chunks)")
    (auto simp: process_chunk_metadata_def Let_def split: if_splits)

declare decompress_frames.simps [simp del]

definition SnappyEx_decompress :: "'e snappy_blocks \<Rightarrow> bytes \<Rightarrow> ('e snappy_error, bytes) rust" where
  "SnappyEx_decompress B chunks =
     (if chunks \<noteq> [] \<and> hd chunks = 0xFF then decompress_frames B chunks [] else Err NoStreamIdentifier)"

section \<open>The framing format\<close>

text \<open>
  The chunks of a stream: the identifier, a piece of data as it is or as the compressed block that
  stands for it, and chunks to be skipped.
\<close>

datatype frame =
    Identifier
  | Plain bytes
  | Block bytes bytes
  | Skipped byte bytes

definition chunk_bytes :: "byte \<Rightarrow> bytes \<Rightarrow> bytes" where
  "chunk_bytes chunk_id data = chunk_id # le_bytes 3 (int (length data)) @ data"

text \<open>The masked checksum, on words of 32 bits.\<close>

definition masked_crc :: "'e snappy_blocks \<Rightarrow> bytes \<Rightarrow> 32 word" where
  "masked_crc B data =
     (let c = of_nat (crc32c B data) :: 32 word in (drop_bit 15 c OR push_bit 17 c) + 0xA282EAD8)"

fun frame_bytes :: "'e snappy_blocks \<Rightarrow> frame \<Rightarrow> bytes" where
  "frame_bytes B Identifier = chunk_bytes 0xFF stream_identifier"
| "frame_bytes B (Plain data) = chunk_bytes 1 (le_bytes 4 (uint (masked_crc B data)) @ data)"
| "frame_bytes B (Block z data) = chunk_bytes 0 (le_bytes 4 (uint (masked_crc B data)) @ z)"
| "frame_bytes B (Skipped chunk_id data) = chunk_bytes chunk_id data"

fun frame_wf :: "'e snappy_blocks \<Rightarrow> frame \<Rightarrow> bool" where
  "frame_wf B Identifier \<longleftrightarrow> True"
| "frame_wf B (Plain data) \<longleftrightarrow> length data \<le> 65536"
| "frame_wf B (Block z data) \<longleftrightarrow> length z \<le> 65536 \<and> decompress_block B z = Ok data"
| "frame_wf B (Skipped chunk_id data) \<longleftrightarrow> chunk_id \<in> {0x80..0xFE} \<and> length data < 2 ^ 24"

fun frame_data :: "frame \<Rightarrow> bytes" where
  "frame_data (Plain data) = data"
| "frame_data (Block z data) = data"
| "frame_data _ = []"

section \<open>Checksums\<close>

lemma compute_checksum_masked:
  assumes "crc32c B data < 2 ^ 32"
  shows "compute_checksum B data = unat (masked_crc B data)"
proof -
  let ?c = "crc32c B data" and ?w = "of_nat (crc32c B data) :: 32 word"
  have c: "take_bit 32 ?c = ?c" "take_bit 32 (drop_bit 15 ?c) = drop_bit 15 ?c"
    using assms div_le_dividend [of ?c "2 ^ 15"] by (simp_all add: take_bit_nat_eq_self drop_bit_eq_div)
  then have "unat (drop_bit 15 ?w) = unat (of_nat (drop_bit 15 ?c) :: 32 word)"
    by (simp add: unsigned_drop_bit_eq unsigned_of_nat)
  then have "drop_bit 15 ?w = of_nat (drop_bit 15 ?c)" by (rule unsigned_word_eqI)
  moreover have "push_bit 17 ?w = of_nat (push_bit 17 ?c)" by (simp add: push_bit_of_nat)
  ultimately have "masked_crc B data = of_nat ((drop_bit 15 ?c OR push_bit 17 ?c) + 0xA282EAD8)"
    by (simp add: masked_crc_def Let_def of_nat_or_eq)
  then have "unat (masked_crc B data) = take_bit 32 ((drop_bit 15 ?c OR push_bit 17 ?c) + 0xA282EAD8)"
    by (simp only: unsigned_of_nat) simp
  then show ?thesis by (simp add: compute_checksum_def Let_def take_bit_eq_mask mask_eq_exp_minus_1)
qed

section \<open>Streams\<close>

lemma le_nat_length: "n < 2 ^ 24 \<Longrightarrow> le_nat (le_bytes 3 (int n)) = n"
  by (simp add: le_nat_small)

lemma process_chunk_bytes:
  assumes "length data < 2 ^ 24"
  shows "process_chunk_metadata (chunk_bytes i data @ rest) = Ok (unat i, data, rest)"
  using assms by (simp add: process_chunk_metadata_def chunk_bytes_def le_nat_length Let_def)

lemma decompress_chunk:
  assumes "length data < 2 ^ 24"
  shows "decompress_frames B (chunk_bytes i data @ rest) acc =
    and_then (parse_chunk B acc (unat i) data) (decompress_frames B rest)"
  by (subst decompress_frames.simps) (simp add: process_chunk_bytes [OF assms], simp add: chunk_bytes_def)

lemma checksum_bytes:
  assumes "\<forall>d. crc32c B d < 2 ^ 32"
  shows "le_nat (le_bytes 4 (uint (masked_crc B data))) = compute_checksum B data"
proof -
  have "unat (masked_crc B data) < 256 ^ 4" using unsigned_less [of "masked_crc B data", where 'a = nat] by simp
  then show ?thesis
    using le_nat_small [of "unat (masked_crc B data)" 4] assms by (simp add: compute_checksum_masked)
qed

lemma decompress_frame:
  assumes "\<forall>d. crc32c B d < 2 ^ 32" and "frame_wf B f"
  shows "decompress_frames B (frame_bytes B f @ rest) acc = decompress_frames B rest (acc @ frame_data f)"
proof (cases f)
  case (Skipped i data)
  then have "128 \<le> unat i" "unat i \<le> 254" using assms(2) by (simp_all add: word_le_nat_alt)
  moreover from this have "unat i = 254 \<or> unat i \<le> 253" by linarith
  ultimately show ?thesis using assms(2) by (auto simp: Skipped decompress_chunk parse_chunk_def)
qed (use assms(2) in \<open>simp_all add: decompress_chunk parse_chunk_def stream_identifier_def chunk_size_limit_def
    decompress_payload_def verify_checksum_def checksum_bytes [OF assms(1)]\<close>)

lemma decompress_all_frames:
  assumes "\<forall>d. crc32c B d < 2 ^ 32"
  shows "list_all (frame_wf B) fs \<Longrightarrow>
    decompress_frames B (concat (map (frame_bytes B) fs)) acc = Ok (acc @ concat (map frame_data fs))"
proof (induction fs arbitrary: acc)
  case Nil
  show ?case by (subst decompress_frames.simps) simp
next
  case (Cons f fs)
  then show ?case using decompress_frame [OF assms, of f "concat (map (frame_bytes B) fs)" acc] by simp
qed

lemma decompress_stream:
  assumes "\<forall>d. crc32c B d < 2 ^ 32" and "list_all (frame_wf B) fs"
  shows "SnappyEx_decompress B (concat (map (frame_bytes B) (Identifier # fs))) = Ok (concat (map frame_data fs))"
proof -
  have "list_all (frame_wf B) (Identifier # fs)" using assms(2) by simp
  from decompress_all_frames [OF assms(1) this, of "[]"] show ?thesis
    by (simp add: SnappyEx_decompress_def chunk_bytes_def)
qed

text \<open>
  C15: A stream in the framing format is read as the data of its chunks, in order, whichever chunks are
  compressed and whatever is to be skipped between them; and so what the NIF compresses, with an
  encoder that writes the format, is read back by the Elixir decoder.
\<close>

theorem snappy_ex_reads_nif:
  assumes "\<forall>d. crc32c B d < 2 ^ 32" and "\<forall>n. length (env n) = n" and "framing S frame"
    and "list_all (frame_wf B) fs" and "frame bin = concat (map (frame_bytes B) (Identifier # fs))"
    and "bin = concat (map frame_data fs)"
  shows "\<exists>z. compress env S bin = Some (Ok z) \<and> SnappyEx_decompress B z = Ok bin"
proof -
  from assms(3) have "read_to_end (FrameEncoder_read S) (FrameEncoder_new S bin) [] = Some (Ok (frame bin))"
    by (auto simp: framing_def dest!: spec [of _ bin] intro: read_to_end_yields [of _ _ _ "[]", simplified])
  then have "compress env S bin = Some (Ok (frame bin))"
    by (simp add: compress_def snappy_bytes_to_binary_Ok [OF assms(2)])
  with decompress_stream [OF assms(1,4)] assms(5,6) show ?thesis by simp
qed

text \<open>An encoder that writes pieces of the input without compressing them.\<close>

fun pieces :: "bytes \<Rightarrow> bytes list" where
  "pieces b = (if b = [] then [] else take 65536 b # pieces (drop 65536 b))"

declare pieces.simps [simp del]

definition plain_blocks :: "unit snappy_blocks" where
  "plain_blocks = \<lparr>crc32c = (\<lambda>d. length d mod 2 ^ 32), decompress_block = Ok\<rparr>"

definition plain_stream :: "bytes \<Rightarrow> bytes" where
  "plain_stream b = concat (map (frame_bytes plain_blocks) (Identifier # map Plain (pieces b)))"

definition plain_snap :: "(bytes option, bytes option, string) snap_crate" where
  "plain_snap = \<lparr>
     FrameEncoder_new = (\<lambda>b. Some (plain_stream b)),
     FrameEncoder_read = read_two,
     FrameDecoder_new = (\<lambda>z. case SnappyEx_decompress plain_blocks z of Ok b \<Rightarrow> Some b | _ \<Rightarrow> None),
     FrameDecoder_read = read_two,
     Error_to_string = (\<lambda>e. e)\<rparr>"

lemma pieces_wf: "list_all (frame_wf B) (map Plain (pieces b)) \<and> concat (pieces b) = b"
  by (induction b rule: pieces.induct) (subst (1 2) pieces.simps, simp)

lemma plain_blocks_crc: "\<forall>d. crc32c plain_blocks d < 2 ^ 32"
  by (simp add: plain_blocks_def)

lemma concat_plain_data: "concat (map frame_data (map Plain bs)) = concat bs"
  by (induction bs) simp_all

lemma plain_stream_read: "SnappyEx_decompress plain_blocks (plain_stream b) = Ok b"
  using decompress_stream [OF plain_blocks_crc, of "map Plain (pieces b)"] pieces_wf [of plain_blocks b]
  unfolding plain_stream_def concat_plain_data by simp

lemma plain_snap_framing: "framing plain_snap plain_stream"
  by (simp add: framing_def plain_snap_def plain_stream_read yields_read_two)

theorem snappy_ex_reads_nif_witness:
  "\<exists>z. compress (\<lambda>n. replicate n 0) plain_snap (replicate 70000 1) = Some (Ok z) \<and>
     SnappyEx_decompress plain_blocks z = Ok (replicate 70000 1)"
proof (rule snappy_ex_reads_nif [OF plain_blocks_crc _ plain_snap_framing, where fs = "map Plain (pieces (replicate 70000 1))"])
  show "list_all (frame_wf plain_blocks) (map Plain (pieces (replicate 70000 1)))"
    and "replicate 70000 1 = concat (map frame_data (map Plain (pieces (replicate 70000 1))))"
    unfolding concat_plain_data using pieces_wf by metis+
qed (simp_all only: plain_stream_def length_replicate simp_thms)

text \<open>
  A chunk of data that is too short for its checksum makes the decoder raise, where the other
  defects of a stream are errors.
\<close>

theorem short_chunk_raises:
  assumes "i \<in> {0, 1}" and "length data < 4"
  shows "SnappyEx_decompress B (frame_bytes B Identifier @ chunk_bytes i data @ rest) = Panic ''MatchError''"
proof -
  have "unat i \<in> {0, 1}" using assms(1) by auto
  then show ?thesis
    using assms(2) by (auto simp: SnappyEx_decompress_def decompress_chunk parse_chunk_def stream_identifier_def
        chunk_size_limit_def) (simp_all add: chunk_bytes_def)
qed

theorem short_chunk_raises_witness:
  "SnappyEx_decompress plain_blocks (frame_bytes plain_blocks Identifier @ chunk_bytes 1 [7, 7, 7] @ []) = Panic ''MatchError''"
  by (rule short_chunk_raises) simp_all

text \<open>\<open>compress\<close> returns the stream of no data, whatever is compressed.\<close>

lemma compress_loses_data:
  assumes "\<forall>d. crc32c B d < 2 ^ 32"
  shows "SnappyEx_decompress B (SnappyEx_compress data) = Ok []"
  using decompress_stream [OF assms, of "[]"]
  by (simp add: SnappyEx_compress_def chunk_bytes_def stream_identifier_def)

end
