(* ===== verification/Req_Resp.thy ===== *)
theory Req_Resp
  imports Ssz_Ex_Properties Snappy_Ex
begin

text \<open>
  \<open>lib/lambda_ethereum_consensus/p2p/req_resp.ex\<close> and \<open>p2p/utils.ex\<close>: the messages of the request and
  response protocol, in which a value is written with \<open>SszEx\<close>, compressed with the NIF \<open>Snappy\<close> and
  preceded by the length of its serialization. The encoder of the length, \<open>Protobuf.Wire.Varint\<close>, is
  a parameter. \<open>None\<close> is a call of the NIF that does not end.
\<close>

section \<open>Lengths\<close>

fun decode_varint_loop :: "bytes \<Rightarrow> nat \<Rightarrow> nat \<Rightarrow> nat \<times> bytes" where
  "decode_varint_loop [] acc shift = (acc, [])"
| "decode_varint_loop (b # rest) acc shift =
     (let int7 = unat b mod 128
      in if unat b < 128 then (acc + int7 * 2 ^ shift, rest)
         else decode_varint_loop rest (acc + int7 * 2 ^ shift) (shift + 7))"

definition decode_varint :: "bytes \<Rightarrow> nat \<times> bytes" where
  "decode_varint bin = decode_varint_loop bin 0 0"

section \<open>Encoding\<close>

datatype resp_error =
    SnappyFailure string
  | SszFailure ex_error
  | ResponseError byte ex_val
  | UnexpectedEof
  | WrongContext bytes
  | AllFailed

datatype response_payload =
    OkPayload ex_val schema bytes
  | ErrorPayload byte bytes

fun and_then_read :: "('e, 'a) rust option \<Rightarrow> ('a \<Rightarrow> ('e, 'b) rust option) \<Rightarrow> ('e, 'b) rust option" where
  "and_then_read None f = None"
| "and_then_read (Some (Ok a)) f = f a"
| "and_then_read (Some (Err e)) f = Some (Err e)"
| "and_then_read (Some (Panic m)) f = Some (Panic m)"

record ('enc, 'dec, 'err) p2p_libs =
  varint_encode :: "nat \<Rightarrow> bytes"
  new_binary :: "nat \<Rightarrow> bytes"
  snap :: "('enc, 'dec, 'err) snap_crate"

definition error_message :: schema where
  "error_message = SByteList 256"

definition encode_message ::
  "('enc, 'dec, 'err) p2p_libs \<Rightarrow> bytes \<Rightarrow> bytes \<Rightarrow> ex_val \<Rightarrow> schema \<Rightarrow> (resp_error, bytes) rust option" where
  "encode_message L result context_bytes response ssz_schema =
     and_then_read (Some (expect ''MatchError'' (SszEx_encode response ssz_schema))) (\<lambda>ssz_response.
     and_then_read (map_option (expect ''MatchError'') (compress (new_binary L) (snap L) ssz_response))
       (\<lambda>ssz_snappy_response.
     Some (Ok (result @ context_bytes @ varint_encode L (length ssz_response) @ ssz_snappy_response))))"

definition encode_ok ::
  "('enc, 'dec, 'err) p2p_libs \<Rightarrow> ex_val \<Rightarrow> schema \<Rightarrow> bytes \<Rightarrow> (resp_error, bytes) rust option" where
  "encode_ok L response ssz_schema context_bytes = encode_message L [0] context_bytes response ssz_schema"

definition encode_error ::
  "('enc, 'dec, 'err) p2p_libs \<Rightarrow> byte \<Rightarrow> bytes \<Rightarrow> (resp_error, bytes) rust option" where
  "encode_error L status_code message = encode_message L [status_code] [] (XBin message) error_message"

fun encode_response ::
  "('enc, 'dec, 'err) p2p_libs \<Rightarrow> response_payload list \<Rightarrow> (resp_error, bytes) rust option" where
  "encode_response L [] = Some (Ok [])"
| "encode_response L (r # rs) =
     and_then_read
       (case r of
          OkPayload response ssz_schema context_bytes \<Rightarrow> encode_ok L response ssz_schema context_bytes
        | ErrorPayload code message \<Rightarrow> encode_error L code message) (\<lambda>b.
     and_then_read (encode_response L rs) (\<lambda>bs. Some (Ok (b @ bs))))"

definition encode_request ::
  "('enc, 'dec, 'err) p2p_libs \<Rightarrow> ex_val \<Rightarrow> schema \<Rightarrow> (resp_error, bytes) rust option" where
  "encode_request L request ssz_schema = encode_message L [] [] request ssz_schema"

section \<open>Decoding\<close>

definition decode_request ::
  "('enc, 'dec, 'err) p2p_libs \<Rightarrow> hooks \<Rightarrow> bytes \<Rightarrow> schema \<Rightarrow> (resp_error, ex_val) rust option" where
  "decode_request L h chunk ssz_schema =
     (let (_, rest) = decode_varint chunk
      in and_then_read (map_option (map_err SnappyFailure) (decompress (new_binary L) (snap L) rest)) (\<lambda>decompressed.
         Some (map_err SszFailure (SszEx_decode h decompressed ssz_schema))))"

definition decode_error ::
  "('enc, 'dec, 'err) p2p_libs \<Rightarrow> hooks \<Rightarrow> byte \<Rightarrow> bytes \<Rightarrow> (resp_error, 'a) rust option" where
  "decode_error L h code encoded_message =
     and_then_read (decode_request L h encoded_message error_message) (\<lambda>message.
     Some (Err (ResponseError code message)))"

text \<open>\<open>:binary.split(binary, pattern, [:global])\<close>, with the part before the position in reverse order.\<close>

fun split_global :: "bytes \<Rightarrow> bytes \<Rightarrow> bytes \<Rightarrow> bytes list" where
  "split_global pat cur [] = [rev cur]"
| "split_global pat cur (b # bs) =
     (if take (length pat) (b # bs) = pat then rev cur # split_global pat [] (drop (length pat - 1) bs)
      else split_global pat (b # cur) bs)"

definition split_response ::
  "('enc, 'dec, 'err) p2p_libs \<Rightarrow> hooks \<Rightarrow> bytes \<Rightarrow> bytes \<Rightarrow> (resp_error, bytes list) rust option" where
  "split_response L h fork_context response_chunk =
     (case response_chunk of
        [] \<Rightarrow> Some (Err UnexpectedEof)
      | code # message \<Rightarrow>
          if code = 0 \<and> length message \<ge> 4 then
            if take 4 message = fork_context
            then Some (Ok (split_global (0 # fork_context) [] (drop 4 message)))
            else Some (Err (WrongContext (take 4 message)))
          else decode_error L h code message)"

fun decode_chunks ::
  "('enc, 'dec, 'err) p2p_libs \<Rightarrow> hooks \<Rightarrow> schema \<Rightarrow> bytes list \<Rightarrow> (resp_error, ex_val list) rust option" where
  "decode_chunks L h ssz_schema [] = Some (Ok [])"
| "decode_chunks L h ssz_schema (c # cs) =
     (case decode_request L h c ssz_schema of
        None \<Rightarrow> None
      | Some (Ok v) \<Rightarrow> and_then_read (decode_chunks L h ssz_schema cs) (\<lambda>vs. Some (Ok (v # vs)))
      | Some (Err _) \<Rightarrow> decode_chunks L h ssz_schema cs
      | Some (Panic m) \<Rightarrow> Some (Panic m))"

definition decode_response ::
  "('enc, 'dec, 'err) p2p_libs \<Rightarrow> hooks \<Rightarrow> bytes \<Rightarrow> bytes \<Rightarrow> schema \<Rightarrow> (resp_error, ex_val list) rust option" where
  "decode_response L h fork_context response_chunk ssz_schema =
     and_then_read (split_response L h fork_context response_chunk) (\<lambda>chunks.
     and_then_read (decode_chunks L h ssz_schema chunks) (\<lambda>blocks.
     Some (if blocks = [] then Err AllFailed else Ok blocks)))"

definition decode_response_chunk ::
  "('enc, 'dec, 'err) p2p_libs \<Rightarrow> hooks \<Rightarrow> bytes \<Rightarrow> schema \<Rightarrow> (resp_error, ex_val) rust option" where
  "decode_response_chunk L h chunk ssz_schema =
     (case chunk of
        [] \<Rightarrow> Some (Panic ''FunctionClauseError'')
      | code # message \<Rightarrow>
          if code = 0 then decode_request L h message ssz_schema else decode_error L h code message)"

section \<open>Contracts\<close>

text \<open>
  The variable-length integers of Protocol Buffers: groups of seven bits, the lowest first, with the
  highest bit set in all bytes but the last.
\<close>

fun leb128 :: "nat \<Rightarrow> bytes" where
  "leb128 n = (if n < 128 then [of_nat n] else of_nat (n mod 128 + 128) # leb128 (n div 128))"

declare leb128.simps [simp del]

text \<open>What the libraries below the messages are relied on for, with the framing of \<open>snap\<close>.\<close>

definition p2p_contract :: "('enc, 'dec, 'err) p2p_libs \<Rightarrow> (bytes \<Rightarrow> bytes) \<Rightarrow> bool" where
  "p2p_contract L frame \<longleftrightarrow>
     (\<forall>n. varint_encode L n = leb128 n) \<and> (\<forall>n. length (new_binary L n) = n) \<and> framing (snap L) frame"

text \<open>A value that can be sent under a schema.\<close>

definition sendable :: "hooks \<Rightarrow> schema \<Rightarrow> ex_val \<Rightarrow> bool" where
  "sendable h s v \<longleftrightarrow> schema_wf s \<and> unhooked h s \<and> conforms s v \<and> length (serialize s v) < 2 ^ 32"

definition message_bytes :: "(bytes \<Rightarrow> bytes) \<Rightarrow> schema \<Rightarrow> ex_val \<Rightarrow> bytes" where
  "message_bytes frame s v = leb128 (length (serialize s v)) @ frame (serialize s v)"

lemma decode_varint_leb128: "decode_varint_loop (leb128 n @ rest) acc shift = (acc + n * 2 ^ shift, rest)"
proof (induction n arbitrary: acc shift rule: leb128.induct)
  case (1 n)
  show ?case
  proof (cases "n < 128")
    case True
    then show ?thesis by (subst leb128.simps) (simp add: unsigned_of_nat take_bit_nat_eq_self)
  next
    case False
    have "unat (of_nat (n mod 128 + 128) :: byte) = n mod 128 + 128"
      by (simp only: unsigned_of_nat) (simp add: take_bit_nat_eq_self)
    moreover have "n mod 128 * 2 ^ shift + n div 128 * (2 ^ shift * 128) = n * 2 ^ shift"
      by (simp add: mult.assoc [symmetric] mult.commute [of _ 128]) (metis add_mult_distrib mod_mult_div_eq mult.commute)
    ultimately show ?thesis
      using 1 [OF False] False by (subst leb128.simps) (simp add: power_add mult.commute mult.left_commute)
  qed
qed

section \<open>Messages\<close>

lemma contract_snappy:
  assumes "p2p_contract L frame"
  shows "compress (new_binary L) (snap L) b = Some (Ok (frame b))"
    and "decompress (new_binary L) (snap L) (frame b) = Some (Ok b)"
proof -
  from assms have "read_to_end (FrameEncoder_read (snap L)) (FrameEncoder_new (snap L) b) [] = Some (Ok (frame b))"
    "read_to_end (FrameDecoder_read (snap L)) (FrameDecoder_new (snap L) (frame b)) [] = Some (Ok b)"
    by (auto simp: p2p_contract_def framing_def dest!: spec [of _ b] intro: read_to_end_yields [of _ _ _ "[]", simplified])
  moreover have "\<forall>n. length (new_binary L n) = n" using assms by (simp add: p2p_contract_def)
  ultimately show "compress (new_binary L) (snap L) b = Some (Ok (frame b))"
    "decompress (new_binary L) (snap L) (frame b) = Some (Ok b)"
    by (simp_all add: compress_def decompress_def snappy_bytes_to_binary_Ok)
qed

lemma encode_message_bytes:
  assumes "p2p_contract L frame" and "sendable h s v"
  shows "encode_message L result context_bytes v s = Some (Ok (result @ context_bytes @ message_bytes frame s v))"
proof -
  have "SszEx_encode v s = Ok (serialize s v)"
    using encode_fits assms(2) by (auto simp: sendable_def SszEx_encode_def)
  then show ?thesis
    using assms(1) by (simp add: encode_message_def contract_snappy [OF assms(1)] message_bytes_def p2p_contract_def)
qed

lemma decode_message_bytes:
  assumes "p2p_contract L frame" and "sendable h s v"
  shows "decode_request L h (message_bytes frame s v) s = Some (Ok v)"
proof -
  have "SszEx_decode h (serialize s v) s = Ok v" using decode_serialize assms(2) by (auto simp: sendable_def)
  then show ?thesis
    by (simp add: decode_request_def message_bytes_def decode_varint_def decode_varint_leb128
        contract_snappy [OF assms(1)])
qed

text \<open>
  C10: A request is written and read back as the same value, through the serialization of \<open>SszEx\<close>, the
  length and the compression of the NIF.
\<close>

theorem request_round_trip:
  assumes "p2p_contract L frame" and "sendable h s v"
  shows "\<exists>b. encode_request L v s = Some (Ok b) \<and> decode_request L h b s = Some (Ok v)"
  using encode_message_bytes [OF assms] decode_message_bytes [OF assms] by (simp add: encode_request_def)

definition sample_libs :: "(bytes option, bytes option, string) p2p_libs" where
  "sample_libs = \<lparr>varint_encode = leb128, new_binary = (\<lambda>n. replicate n 0), snap = marked_snap\<rparr>"

lemma sample_libs_contract: "p2p_contract sample_libs ((#) 255)"
  by (simp add: p2p_contract_def sample_libs_def marked_snap_framing)

lemma sendable_message: "length b \<le> 256 \<Longrightarrow> sendable h error_message (XBin b)"
  by (simp add: sendable_def error_message_def)

lemma short_message_bytes:
  "length b < 128 \<Longrightarrow> message_bytes ((#) 255) error_message (XBin b) = of_nat (length b) # 255 # b"
  by (simp add: message_bytes_def error_message_def leb128.simps [of "length b"])

theorem request_round_trip_witness:
  "\<exists>b. encode_request sample_libs sample_value sample_schema = Some (Ok b) \<and>
     decode_request sample_libs (\<lambda>m. None) b sample_schema = Some (Ok sample_value)"
  using sample_wf sample_length by (intro request_round_trip [OF sample_libs_contract]) (simp add: sendable_def)

text \<open>
  An error that is sent is read as that error, with its code and its message.
\<close>

theorem error_round_trip:
  assumes "p2p_contract L frame" and "code \<noteq> 0" and "length message \<le> 256"
  shows "\<exists>b. encode_error L code message = Some (Ok b) \<and>
    decode_response_chunk L h b s = Some (Err (ResponseError code (XBin message)))"
  using encode_message_bytes [OF assms(1) sendable_message [OF assms(3)], where result = "[code]" and context_bytes = "[]"]
    decode_message_bytes [OF assms(1) sendable_message [OF assms(3)]] assms(2)
  by (simp add: encode_error_def decode_response_chunk_def decode_error_def)

theorem error_round_trip_witness:
  "\<exists>b. encode_error sample_libs 3 [110, 111] = Some (Ok b) \<and>
     decode_response_chunk sample_libs (\<lambda>m. None) b sample_schema = Some (Err (ResponseError 3 (XBin [110, 111])))"
  by (rule error_round_trip [OF sample_libs_contract]) simp_all

section \<open>Responses\<close>

text \<open>A pattern does not start in a part, not even with an end in the pattern that follows the part.\<close>

fun free :: "bytes \<Rightarrow> bytes \<Rightarrow> bool" where
  "free pat [] \<longleftrightarrow> True"
| "free pat (b # p) \<longleftrightarrow> take (length pat) (b # p @ pat) \<noteq> pat \<and> free pat p"

lemma split_global_free:
  "free pat p \<Longrightarrow> pat \<noteq> [] \<Longrightarrow> split_global pat cur (p @ pat @ rest) = (rev cur @ p) # split_global pat [] rest"
proof (induction p arbitrary: cur)
  case Nil
  then show ?case by (cases pat) simp_all
next
  case (Cons b p)
  have "take (length pat) ((b # p @ pat) @ rest) = take (length pat) (b # p @ pat)" by (subst take_append) simp
  with Cons show ?case by simp
qed

lemma split_global_last:
  "free pat p \<Longrightarrow> split_global pat cur p = [rev cur @ p]"
proof (induction p arbitrary: cur)
  case (Cons b p)
  have "take (length pat) (b # p) \<noteq> pat"
  proof
    assume "take (length pat) (b # p) = pat"
    then have "length pat \<le> length (b # p)" by (metis length_take min.absorb_iff2 min.commute)
    then have "take (length pat) ((b # p) @ pat) = take (length pat) (b # p)" by (subst take_append) simp
    with Cons.prems \<open>take (length pat) (b # p) = pat\<close> show False by simp
  qed
  with Cons show ?case by simp
qed simp

lemma split_global_all:
  assumes "pat \<noteq> []"
  shows "free pat p \<Longrightarrow> list_all (free pat) ps \<Longrightarrow>
    split_global pat [] (p @ concat (map ((@) pat) ps)) = p # ps"
proof (induction ps arbitrary: p)
  case Nil
  then show ?case using split_global_last by simp
next
  case (Cons q qs)
  then show ?case using split_global_free [OF _ assms, of p "[]" "q @ concat (map ((@) pat) qs)"] by simp
qed

lemma split_response_all:
  assumes "length fork_context = 4" and "list_all (free (0 # fork_context)) (p # ps)"
  shows "split_response L h fork_context (concat (map ((@) (0 # fork_context)) (p # ps))) = Some (Ok (p # ps))"
  using assms split_global_all [of "0 # fork_context" p ps] by (simp add: split_response_def)

lemma encode_response_bytes:
  assumes "p2p_contract L frame"
  shows "list_all (sendable h s) vs \<Longrightarrow> encode_response L (map (\<lambda>v. OkPayload v s context_bytes) vs) =
    Some (Ok (concat (map ((@) (0 # context_bytes)) (map (message_bytes frame s) vs))))"
proof (induction vs)
  case (Cons v vs)
  with encode_message_bytes [OF assms, of h s v "[0]" context_bytes] show ?case by (simp add: encode_ok_def)
qed simp

lemma decode_chunks_messages:
  assumes "p2p_contract L frame"
  shows "list_all (sendable h s) vs \<Longrightarrow> decode_chunks L h s (map (message_bytes frame s) vs) = Some (Ok vs)"
  by (induction vs) (simp_all add: decode_message_bytes [OF assms])

text \<open>
  C16: The responses to a request that are sent in the current fork are all read back, in order, as long
  as the bytes that separate them do not occur in one of them.
\<close>

theorem responses_round_trip:
  assumes "p2p_contract L frame" and "length fork_context = 4" and "vs \<noteq> []" and "list_all (sendable h s) vs"
    and "list_all (\<lambda>v. free (0 # fork_context) (message_bytes frame s v)) vs"
  shows "\<exists>b. encode_response L (map (\<lambda>v. OkPayload v s fork_context) vs) = Some (Ok b) \<and>
    decode_response L h fork_context b s = Some (Ok vs)"
proof -
  obtain p ps where ps: "map (message_bytes frame s) vs = p # ps" using assms(3) by (cases vs) auto
  have "list_all (free (0 # fork_context)) (p # ps)"
    using assms(5) unfolding ps [symmetric] by (simp add: list_all_iff)
  from split_response_all [OF assms(2) this, of L h] encode_response_bytes [OF assms(1,4), of fork_context]
    decode_chunks_messages [OF assms(1,4)] assms(3)
  show ?thesis unfolding ps by (simp add: decode_response_def)
qed

theorem responses_round_trip_witness:
  "\<exists>b. encode_response sample_libs (map (\<lambda>v. OkPayload v error_message [9, 9, 9, 9]) [XBin [1, 0, 9], XBin []]) = Some (Ok b) \<and>
     decode_response sample_libs (\<lambda>m. None) [9, 9, 9, 9] b error_message = Some (Ok [XBin [1, 0, 9], XBin []])"
  by (rule responses_round_trip [OF sample_libs_contract])
    (simp_all add: sendable_message short_message_bytes)

text \<open>
  C34: A single response in which the separating bytes occur is taken apart there: the receiver sees two
  responses, the bytes before and the bytes after them.
\<close>

theorem separator_splits_response:
  assumes "p2p_contract L frame" and "length fork_context = 4" and "sendable h s v"
    and "message_bytes frame s v = p @ (0 # fork_context) @ q"
    and "free (0 # fork_context) p" and "free (0 # fork_context) q"
  shows "\<exists>b. encode_ok L v s fork_context = Some (Ok b) \<and> split_response L h fork_context b = Some (Ok [p, q])"
  using encode_message_bytes [OF assms(1,3), of "[0]" fork_context] split_response_all [OF assms(2), of p "[q]" L h] assms(4-6)
  by (simp add: encode_ok_def)

theorem separator_splits_response_witness:
  "\<exists>b. encode_ok sample_libs (XBin [1, 2, 0, 9, 9, 9, 9, 3]) error_message [9, 9, 9, 9] = Some (Ok b) \<and>
     split_response sample_libs (\<lambda>m. None) [9, 9, 9, 9] b = Some (Ok [[8, 255, 1, 2], [3]])"
  by (rule separator_splits_response [OF sample_libs_contract])
    (simp_all add: sendable_message short_message_bytes)

end
