(* ===== verification/Spec2Isabelle.thy ===== *)
theory Spec2Isabelle
  imports Ssz_Module_Roots Bls_Nif Kzg_Nif Execution_Chain_Properties Req_Resp
begin

text \<open>
  A verification development of the Ethereum consensus client \<^verbatim>\<open>lambda_ethereum_consensus\<close>: its four
  native libraries in Rust, and the Elixir code that encodes, hashes, sends and accounts for what the
  libraries work on.

  \<^bold>\<open>The program.\<close> The client is written in Elixir. Serialization (SSZ), BLS signatures, KZG commitments
  and Snappy compression are native functions (NIFs), Rust crates under \<open>native/\<close> that the virtual
  machine loads. SSZ exists twice: the module \<open>Ssz\<close> (\<open>lib/ssz.ex\<close>) brings a struct into the form the NIF
  reads and calls it, and the module \<open>SszEx\<close> (\<open>lib/ssz_ex/\<close>) does the same work in Elixir, from the
  schemas that the container modules under \<open>lib/types/\<close> give. On top of \<open>SszEx\<close> stand the Merkle tree of
  deposits (\<open>lib/types/deposit_tree.ex\<close>) and, on top of that, the execution chain
  (\<open>execution/execution_chain.ex\<close>), which counts the votes on Eth1 data and asks the execution client
  for logs. The messages between peers (\<open>p2p/req_resp.ex\<close>) join \<open>SszEx\<close> and the Snappy NIF.

  \<^bold>\<open>How code is modelled.\<close> A Rust or Elixir call has an outcome of the type \<open>rust\<close> of \<open>Prelude\<close>: a value
  \<open>Ok\<close>, an error value \<open>Err\<close>, or \<open>Panic\<close> for a Rust panic or an Elixir exception with its name. A call
  that may not return is an \<open>option\<close> of an outcome, \<open>None\<close> being the call that does not. Machine integers
  are words where they wrap, and integers of Elixir are \<open>int\<close> or \<open>nat\<close>. Code outside the repository is
  a record of functions that the definitions take as an argument, and what is documented of it is a
  predicate that theorems have as a hypothesis: \<open>ssz_crate\<close>, \<open>rustler\<close> and the tree hasher
  (\<open>Ssz_Crates\<close>, \<open>Nif_Types\<close>), \<open>bls_crate\<close>, \<open>c_kzg\<close>, \<open>snap_crate\<close>, the hash function of the Merkle trees
  (\<open>hash32\<close>: digests of 32 bytes), \<open>snappy_blocks\<close>, \<open>p2p_libs\<close>, the HTTP call \<open>post\<close>, which of its errors
  can be printed, and \<open>Recase.to_snake\<close>. The fields of the structs of container modules, which
  \<open>validate_schema!\<close> compares with their schemas, are a parameter as well (\<open>structs\<close>).
  Each such hypothesis is met by a concrete function in the witness of the theorem that has it.

  \<^bold>\<open>Shared theories.\<close> \<open>Prelude\<close> has the outcomes and their combinators, \<open>Rust_Std\<close> the pieces of the Rust
  library (slices, reading to the end of a reader), \<open>Bitstrings\<close> Elixir's bitstrings and little-endian
  integers.

  \<^bold>\<open>The SSZ NIF\<close> (\<open>native/ssz_nif/src\<close>).
  \<^item> \<open>Config\<close>: the trait \<open>Config\<close> as a record with its three presets (\<open>ssz_types/config.rs\<close>).
  \<^item> \<open>Nif_Types\<close>, \<open>Ssz_Types\<close>, \<open>Elx_Types\<close>: every struct of \<open>ssz_types/\<close> and \<open>elx_types/\<close> as a descriptor of its
    fields, and the values of the descriptors.
  \<^item> \<open>From_Elx\<close>, \<open>From_Ssz\<close>, \<open>Conversions\<close>: the conversions of \<open>utils/from_elx.rs\<close> and \<open>utils/from_ssz.rs\<close>,
    and that each undoes the other; the laws are proved once in the locale \<open>nif_conversions\<close>.
  \<^item> \<open>Schemas\<close>, \<open>Helpers\<close>, \<open>Ssz_Nif\<close>: the macros of \<open>utils/mod.rs\<close>, the helpers of \<open>utils/helpers.rs\<close> and the
    six functions of \<open>lib.rs\<close>.
  \<^item> \<open>Ssz_Nif_Properties\<close>: round trips, no panic, and the root of a list.

  \<^bold>\<open>SszEx\<close> (\<open>lib/ssz_ex\<close>, \<open>lib/utils/bit_*.ex\<close>).
  \<^item> \<open>Bit_Fields\<close>: \<open>BitField\<close>, \<open>BitList\<close>, \<open>BitVector\<close>.
  \<^item> \<open>Ssz_Ex_Schema\<close>, \<open>Ssz_Ex_Encode\<close>, \<open>Ssz_Ex_Decode\<close>, \<open>Ssz_Ex\<close>: schemas, values and errors, and the functions of
    \<open>encode.ex\<close>, \<open>decode.ex\<close>, \<open>utils.ex\<close>, \<open>error.ex\<close> and \<open>ssz_ex.ex\<close>.
  \<^item> \<open>Ssz_Spec\<close>, \<open>Ssz_Ex_Properties\<close>, \<open>Ssz_Ex_Canonical\<close>: the serialization of the SSZ specification as a
    reference, with bit fields packed bit by bit; encoding computes it, decoding reads it back, ends on every binary, and accepts nothing
    else where a schema has no nested offsets.
  \<^item> \<open>Merkle_Trees\<close>, \<open>Ssz_Ex_Merkleization\<close>, \<open>Ssz_Ex_Roots\<close>, \<open>Ssz_Ex_Hash_Tree\<close>, \<open>Ssz_Ex_Proofs\<close>,
    \<open>Ssz_Ex_Merkle_Properties\<close>: Merkle trees and hash tree roots of the specification, the functions of
    \<open>merkleization.ex\<close> and \<open>hash.ex\<close>, and that they compute those roots, for the schemas of
    \<open>exact_limits\<close>, and the proofs that \<open>valid_merkle_branch?\<close> accepts. Not among these schemas are lists
    with a limit that is not a power of two, lists of booleans and bit lists with a limit of 256 bits,
    for which the code does not compute the root of the specification.

  \<^bold>\<open>The two SSZ libraries together.\<close>
  \<^item> \<open>Chain_Spec\<close>, \<open>Containers\<close>: the presets and networks under \<open>config/\<close> with the lookup of \<open>ChainSpec\<close>, and the
    schema of every container module.
  \<^item> \<open>Container_Agreement\<close>: on every network the schemas have the fields and limits of the Rust structs.
  \<^item> \<open>Ssz_Module\<close>, \<open>Ssz_Exchange\<close>: \<open>lib/ssz.ex\<close> with the \<open>encode\<close> and \<open>decode\<close> functions of the containers,
    and the form in which the NIF sees a value.
  \<^item> \<open>Ssz_Representation\<close>, \<open>Ssz_Instance\<close>, \<open>Ssz_Module_Properties\<close>, \<open>Ssz_Module_Roots\<close>: the representations of
    one value in both libraries, and that both write the same bytes, read them back, and compute the
    same root, for every container that the NIF knows. The contract of the SSZ crates is met by the
    Elixir library itself, which is the instance the witnesses use.

  \<^bold>\<open>Cryptography and compression.\<close> \<open>Bls_Nif\<close>, \<open>Kzg_Nif\<close>, \<open>Snappy_Nif\<close>: all functions of
  \<open>native/bls_nif\<close>, \<open>native/kzg_nif\<close> and \<open>native/snappy_nif\<close>; that what they sign, prove and compress is
  accepted or restored by the functions that check it, and exactly when they panic. \<open>Snappy_Ex\<close>: the
  decoder of \<open>lib/snappy_ex.ex\<close>, which reads every stream in the framing format, those of the NIF included.

  \<^bold>\<open>Deposits.\<close> \<open>Deposit_Tree\<close>, \<open>Deposit_Tree_Invariant\<close>, \<open>Deposit_Tree_Properties\<close>: the pruned tree of deposits and
  its snapshots; the invariant relates a tree to the list of all deposits pushed, and gives the root,
  the proofs and the condition under which a snapshot restores the tree. The pushes are an
  interpretation of the locale \<open>bounded_log\<close>.

  \<^bold>\<open>The execution chain.\<close> \<open>Execution_Client\<close>: requests over JSON-RPC (\<open>execution/rpc.ex\<close>,
  \<open>engine_api/api.ex\<close>) and the parsers of block headers and deposit logs (\<open>execution_client.ex\<close>).
  \<open>Execution_Chain\<close>: \<open>execution_chain.ex\<close> as actions on a store (\<open>chain_db\<close>), with the two functions of
  \<open>validator/block_builder.ex\<close> that call it; what an action has written before an exception stays
  written. \<open>Execution_Chain_Properties\<close>: the table of votes is the count of the votes since the block that
  opened the latest period (\<open>counted_votes\<close>, \<open>tally\<close>), by two interpretations of the locale \<open>simulation\<close>,
  and, when blocks come in the order of their periods, of the votes of the period of the last one. A
  change of the Eth1 data has a majority behind it, pruning loses no candidate as long as the payloads
  are in the order of their times, the tree grows by the logs; and the requests that are refused,
  raise, or lose the tree.

  \<^bold>\<open>Messages.\<close> \<open>Req_Resp\<close>: \<open>p2p/req_resp.ex\<close> and \<open>p2p/utils.ex\<close>; requests, errors and sequences of
  responses are read back as they were sent, under the condition on the separating bytes that the code
  needs.

  \<^bold>\<open>Bounds and fuel.\<close> The loop of \<open>SszEx.decode\<close> over elements of fixed size takes as fuel the length of the
  binary plus one, and \<open>ssz_ex_decode_ends\<close> shows that the exception for lack of fuel never occurs.
  Reading to the end of a reader is a \<open>partial_function\<close> that is shown to return. Lengths that the code
  writes into four bytes are bounded by \<open>2 ^ 32\<close> in the hypotheses, and trees of deposits by \<open>2 ^ 32\<close>
  leaves. \<open>compute_pow\<close> is a logarithm in floating point, which is modelled for powers of two and for
  numbers below \<open>2 ^ 48\<close>, where its integer part is exact; for the others the model has the value
  \<open>Panic ''inexact log2''\<close>, and the bounds of \<open>exact_limits\<close> keep the properties away from them.

  \<^bold>\<open>Not modelled.\<close> The state transition and the fork choice, apart from the branch check of
  \<open>predicates.ex\<close>: they work on the whole beacon state and need a model of their own. The construction
  of blocks and the duties of validators, which depend on them. Processes, timers, supervision,
  metrics and logging. The network process in Go, the database, the HTTP interfaces and the stubs that
  the loading of a NIF replaces, which have no logic of their own to verify. The texts of error
  messages, which are constructors with the values that the texts interpolate. The payload and
  fork choice calls of the engine API. In the chain specification the entries that are no integers.
  A list and an \<open>Aja.Vector\<close> with the same elements are one value of the model.
\<close>

end
